(* ===== verification/Prelude.thy ===== *)
theory Prelude
  imports Complex_Main "HOL-Library.AList" "HOL-Library.Char_ord" "HOL-Library.List_Lexorder"
begin

text \<open>
  The shared ground of the development: the named collections of rewrite rules that the
  component theories extend, the Go notions every component uses (64-bit integers that wrap,
  Go maps as association lists, counters), and the generic lemmas on lists, options and
  association lists that carry the component proofs.
\<close>

section \<open>Collections of facts\<close>

text \<open>
  \<open>frame\<close> collects the facts that an operation leaves a part of the state alone,
  \<open>cond_simps\<close> the equations that evaluate one branch of an operation under its guard.
\<close>

named_theorems frame "an operation leaves a field of the state unchanged"
named_theorems cond_simps "a branch of an operation, evaluated under its guard"

section \<open>Machine integers\<close>

text \<open>
  Go's \<^verbatim>\<open>int\<close> and \<^verbatim>\<open>int64\<close> are 64 bits wide and wrap around. They are modelled as \<open>int\<close>
  with the wrap-around written out.
\<close>

definition wrap64 :: "int \<Rightarrow> int" where
  "wrap64 x = (x + 2 ^ 63) mod 2 ^ 64 - 2 ^ 63"

definition in_int64 :: "int \<Rightarrow> bool" where
  "in_int64 x \<longleftrightarrow> - (2 ^ 63) \<le> x \<and> x < 2 ^ 63"

lemma wrap64_in_int64 [simp]: "in_int64 (wrap64 x)"
  using pos_mod_bound [of "2 ^ 64" "x + 2 ^ 63"] pos_mod_sign [of "2 ^ 64" "x + 2 ^ 63"]
  by (simp add: wrap64_def in_int64_def)

lemma wrap64_id: "in_int64 x \<Longrightarrow> wrap64 x = x"
  by (simp add: wrap64_def in_int64_def)

lemma wrap64_cong: "wrap64 x mod 2 ^ 64 = x mod 2 ^ 64"
  by (simp add: wrap64_def mod_diff_left_eq)

section \<open>Go maps\<close>

text \<open>
  A Go map is an association list with one binding per key. Its order stands for the order in
  which Go ranges over the map, which Go leaves open: a theorem about every such list is a
  theorem about every iteration order.
\<close>

type_synonym ('k, 'v) gomap = "('k \<times> 'v) list"

abbreviation map_get :: "('k, 'v) gomap \<Rightarrow> 'k \<Rightarrow> 'v option" where
  "map_get \<equiv> map_of"

abbreviation map_put :: "'k \<Rightarrow> 'v \<Rightarrow> ('k, 'v) gomap \<Rightarrow> ('k, 'v) gomap" where
  "map_put \<equiv> AList.update"

definition map_get_or :: "'v \<Rightarrow> ('k, 'v) gomap \<Rightarrow> 'k \<Rightarrow> 'v" where
  \<comment> \<open>Go reads a missing key as the zero value of the element type\<close>
  "map_get_or z m k = (case map_get m k of None \<Rightarrow> z | Some v \<Rightarrow> v)"

lemma map_get_put: "map_get (map_put k v m) k' = (if k' = k then Some v else map_get m k')"
  by (simp add: update_conv')

lemma map_get_put_same [simp]: "map_get (map_put k v m) k = Some v"
  by (simp add: update_conv')

lemma map_get_put_other [simp]: "k' \<noteq> k \<Longrightarrow> map_get (map_put k v m) k' = map_get m k'"
  by (simp add: update_conv')

lemma map_get_or_put: "map_get_or z (map_put k v m) k' = (if k' = k then v else map_get_or z m k')"
  by (simp add: map_get_or_def update_conv')

lemma map_get_or_Nil [simp]: "map_get_or z [] k = z"
  by (simp add: map_get_or_def)

section \<open>Counters\<close>

text \<open>The increment \<^verbatim>\<open>values[key]++\<close> on a \<^verbatim>\<open>map[string]int64\<close>.\<close>

type_synonym counters = "(string, int) gomap"

definition bump :: "string \<Rightarrow> counters \<Rightarrow> counters" where
  "bump k m = map_put k (wrap64 (map_get_or 0 m k + 1)) m"

lemma bump_count: "map_get_or 0 (bump k m) k' =
    (if k' = k then wrap64 (map_get_or 0 m k + 1) else map_get_or 0 m k')"
  by (simp add: bump_def map_get_or_put)

lemma distinct_bump [simp]: "distinct (map fst m) \<Longrightarrow> distinct (map fst (bump k m))"
  by (simp add: bump_def distinct_update)

section \<open>Lists, options and sums\<close>

text \<open>The idiom \<^verbatim>\<open>if x == zero { x = d }\<close>.\<close>

definition or_else :: "'a \<Rightarrow> 'a \<Rightarrow> 'a \<Rightarrow> 'a" where
  "or_else z d x = (if x = z then d else x)"

lemma or_else_not_zero: "d \<noteq> z \<Longrightarrow> or_else z d x \<noteq> z"
  by (simp add: or_else_def)

lemma or_else_id: "x \<noteq> z \<Longrightarrow> or_else z d x = x"
  by (simp add: or_else_def)

lemma find_Some_mem: "find P xs = Some x \<Longrightarrow> x \<in> set xs \<and> P x"
  by (induction xs) (auto split: if_splits)

lemma find_None_all: "find P xs = None \<longleftrightarrow> (\<forall>x \<in> set xs. \<not> P x)"
  by (induction xs) auto

lemma filter_length_le1:
  "length xs = 1 \<Longrightarrow> \<exists>x. xs = [x]"
  by (cases xs) auto

lemma sum_case_Inr: "(case r of Inl e \<Rightarrow> Inl e | Inr x \<Rightarrow> f x) = Inr y \<longleftrightarrow> (\<exists>x. r = Inr x \<and> f x = Inr y)"
  by (cases r) auto

lemma option_case_Some: "(case r of None \<Rightarrow> None | Some x \<Rightarrow> f x) = Some y \<longleftrightarrow> (\<exists>x. r = Some x \<and> f x = Some y)"
  by (cases r) auto

section \<open>Step systems\<close>

text \<open>
  A step relation with an invariant: the laws are that the invariant holds at the start and is kept
  by every step, the client's lemmas that it holds in every reachable state, together with
  consequences of steps.
\<close>

locale invariant_system =
  fixes init :: "'s \<Rightarrow> bool" and step :: "'s \<Rightarrow> 's \<Rightarrow> bool" and inv :: "'s \<Rightarrow> bool"
  assumes inv_init: "init s \<Longrightarrow> inv s"
    and inv_step: "inv s \<Longrightarrow> step s t \<Longrightarrow> inv t"
begin

lemma inv_steps: "step\<^sup>*\<^sup>* s t \<Longrightarrow> inv s \<Longrightarrow> inv t"
  by (induction rule: rtranclp_induct) (auto intro: inv_step)

lemma reachable_inv: "init s \<Longrightarrow> step\<^sup>*\<^sup>* s t \<Longrightarrow> inv t"
  using inv_init inv_steps by blast

end

end
