(* ===== verification/Go_Strings.thy ===== *)
theory Go_Strings
  imports Prelude
begin

text \<open>
  What the program uses of Go's \<^verbatim>\<open>strings\<close> package. A Go string is a sequence of bytes, here a
  \<open>char list\<close>; text is UTF-8, as Go's literals are.
  \<^item> \<open>TrimSpace\<close> removes every Unicode white-space rune (\<^verbatim>\<open>unicode.IsSpace\<close>), written as the
    UTF-8 byte sequences of those runes, from both ends.
  \<^item> \<open>EqualFold\<close> compares under simple case folding. Folded are the ASCII letters and the two
    other runes that fold to an ASCII letter (U+017F to \<open>s\<close>, U+212A to \<open>k\<close>), so the model is exact
    whenever one of its two arguments is ASCII; between two strings with other non-ASCII letters
    it compares these bytes as they are.
  \<^item> \<open>ToLower\<close> and \<open>ToUpper\<close> are used on ASCII text and map the ASCII letters.
\<close>

section \<open>Prefixes, suffixes, search\<close>

definition HasPrefix :: "string \<Rightarrow> string \<Rightarrow> bool" where
  "HasPrefix s p \<longleftrightarrow> take (length p) s = p"

definition HasSuffix :: "string \<Rightarrow> string \<Rightarrow> bool" where
  "HasSuffix s p \<longleftrightarrow> HasPrefix (rev s) (rev p)"

definition TrimPrefix :: "string \<Rightarrow> string \<Rightarrow> string" where
  "TrimPrefix s p = (if HasPrefix s p then drop (length p) s else s)"

definition TrimSuffix :: "string \<Rightarrow> string \<Rightarrow> string" where
  "TrimSuffix s p = (if HasSuffix s p then take (length s - length p) s else s)"

fun Contains :: "string \<Rightarrow> string \<Rightarrow> bool" where
  "Contains [] p = (p = [])"
| "Contains (c # cs) p = (HasPrefix (c # cs) p \<or> Contains cs p)"

lemma HasPrefix_iff: "HasPrefix s p \<longleftrightarrow> (\<exists>t. s = p @ t)"
  by (metis HasPrefix_def append_eq_conv_conj append_take_drop_id)

lemma HasPrefix_append [simp]: "HasPrefix (p @ t) p"
  by (simp add: HasPrefix_def)

lemma HasSuffix_iff: "HasSuffix s p \<longleftrightarrow> (\<exists>t. s = t @ p)"
  by (metis HasPrefix_iff HasSuffix_def rev_append rev_rev_ident)

lemma HasSuffix_append [simp]: "HasSuffix (t @ p) p"
  by (auto simp: HasSuffix_iff)

lemma TrimPrefix_append [simp]: "TrimPrefix (p @ t) p = t"
  by (simp add: TrimPrefix_def)

lemma TrimSuffix_append [simp]: "TrimSuffix (t @ p) p = t"
  by (simp add: TrimSuffix_def)

lemma Contains_iff: "Contains s p \<longleftrightarrow> (\<exists>u v. s = u @ p @ v)"
proof (induction s)
  case Nil
  then show ?case by simp
next
  case (Cons c cs)
  have "(\<exists>u v. c # cs = u @ p @ v) \<longleftrightarrow> (\<exists>v. c # cs = p @ v) \<or> (\<exists>u v. cs = u @ p @ v)"
    by (auto simp: Cons_eq_append_conv)
  with Cons show ?case by (simp add: HasPrefix_iff)
qed

lemma Contains_char: "Contains s [c] \<longleftrightarrow> c \<in> set s"
  by (auto simp: Contains_iff in_set_conv_decomp)

section \<open>Trimming white space\<close>

definition space_runes :: "string list" where
  "space_runes =
     [[CHR 0x09], [CHR 0x0A], [CHR 0x0B], [CHR 0x0C], [CHR 0x0D], [CHR 0x20],
      [CHR 0xC2, CHR 0x85], [CHR 0xC2, CHR 0xA0], [CHR 0xE1, CHR 0x9A, CHR 0x80],
      [CHR 0xE2, CHR 0x80, CHR 0x80], [CHR 0xE2, CHR 0x80, CHR 0x81], [CHR 0xE2, CHR 0x80, CHR 0x82],
      [CHR 0xE2, CHR 0x80, CHR 0x83], [CHR 0xE2, CHR 0x80, CHR 0x84], [CHR 0xE2, CHR 0x80, CHR 0x85],
      [CHR 0xE2, CHR 0x80, CHR 0x86], [CHR 0xE2, CHR 0x80, CHR 0x87], [CHR 0xE2, CHR 0x80, CHR 0x88],
      [CHR 0xE2, CHR 0x80, CHR 0x89], [CHR 0xE2, CHR 0x80, CHR 0x8A], [CHR 0xE2, CHR 0x80, CHR 0xA8],
      [CHR 0xE2, CHR 0x80, CHR 0xA9], [CHR 0xE2, CHR 0x80, CHR 0xAF], [CHR 0xE2, CHR 0x81, CHR 0x9F],
      [CHR 0xE3, CHR 0x80, CHR 0x80]]"

text \<open>\<open>strip_one rs s\<close> removes the first listed rune that starts \<open>s\<close>, if any does.\<close>

fun strip_one :: "string list \<Rightarrow> string \<Rightarrow> string option" where
  "strip_one [] s = None"
| "strip_one (r # rs) s =
     (if r \<noteq> [] \<and> HasPrefix s r then Some (drop (length r) s) else strip_one rs s)"

lemma strip_one_Some: "strip_one rs s = Some t \<Longrightarrow> \<exists>r \<in> set rs. r \<noteq> [] \<and> s = r @ t"
  by (induction rs) (auto simp: HasPrefix_iff split: if_splits)

lemma strip_one_None: "strip_one rs s = None \<longleftrightarrow> (\<forall>r \<in> set rs. r \<noteq> [] \<longrightarrow> \<not> HasPrefix s r)"
  by (induction rs) auto

lemma strip_one_shorter: "strip_one rs s = Some t \<Longrightarrow> length t < length s"
  by (auto dest: strip_one_Some)

function trim_left :: "string list \<Rightarrow> string \<Rightarrow> string" where
  "trim_left rs s = (case strip_one rs s of None \<Rightarrow> s | Some t \<Rightarrow> trim_left rs t)"
  by pat_completeness auto
termination
  by (relation "measure (\<lambda>(rs, s). length s)") (auto dest: strip_one_shorter)

declare trim_left.simps [simp del]

definition TrimLeftSpace :: "string \<Rightarrow> string" where
  "TrimLeftSpace s = trim_left space_runes s"

definition TrimRightSpace :: "string \<Rightarrow> string" where
  "TrimRightSpace s = rev (trim_left (map rev space_runes) (rev s))"

definition TrimSpace :: "string \<Rightarrow> string" where
  "TrimSpace s = TrimRightSpace (TrimLeftSpace s)"

lemma trim_left_stops: "strip_one rs (trim_left rs s) = None"
proof (induction rs s rule: trim_left.induct)
  case (1 rs s)
  then show ?case by (cases "strip_one rs s") (simp_all add: trim_left.simps [of rs s])
qed

lemma trim_left_done: "strip_one rs s = None \<Longrightarrow> trim_left rs s = s"
  by (simp add: trim_left.simps)

lemma trim_left_suffix: "\<exists>u. s = u @ trim_left rs s"
proof (induction rs s rule: trim_left.induct)
  case (1 rs s)
  show ?case
  proof (cases "strip_one rs s")
    case None
    then show ?thesis by (simp add: trim_left_done)
  next
    case (Some t)
    with 1 obtain u where "t = u @ trim_left rs t" by blast
    moreover from Some obtain r where "s = r @ t" by (auto dest: strip_one_Some)
    moreover have "trim_left rs s = trim_left rs t" by (simp add: trim_left.simps [of rs s] Some)
    ultimately have "s = (r @ u) @ trim_left rs s" by simp
    then show ?thesis by blast
  qed
qed

lemma TrimRightSpace_prefix: "\<exists>v. s = TrimRightSpace s @ v"
proof -
  obtain u where "rev s = u @ trim_left (map rev space_runes) (rev s)"
    using trim_left_suffix by blast
  then have "s = rev (trim_left (map rev space_runes) (rev s)) @ rev u"
    by (metis rev_append rev_rev_ident)
  then show ?thesis unfolding TrimRightSpace_def by blast
qed

text \<open>The trimmed text is a contiguous part of the original.\<close>

lemma TrimSpace_infix: "\<exists>u v. s = u @ TrimSpace s @ v"
proof -
  obtain u where u: "s = u @ TrimLeftSpace s"
    unfolding TrimLeftSpace_def using trim_left_suffix by blast
  obtain v where "TrimLeftSpace s = TrimSpace s @ v"
    unfolding TrimSpace_def using TrimRightSpace_prefix by blast
  with u show ?thesis by metis
qed

lemma TrimSpace_no_left: "strip_one space_runes (TrimSpace s) = None"
proof -
  obtain v where v: "TrimLeftSpace s = TrimSpace s @ v"
    unfolding TrimSpace_def using TrimRightSpace_prefix by blast
  have "strip_one space_runes (TrimSpace s @ v) = None"
    by (simp add: v [symmetric] TrimLeftSpace_def trim_left_stops)
  then show ?thesis by (auto simp: strip_one_None HasPrefix_iff)
qed

lemma TrimSpace_no_right: "strip_one (map rev space_runes) (rev (TrimSpace s)) = None"
  by (simp add: TrimSpace_def TrimRightSpace_def trim_left_stops)

lemma TrimSpace_idem [simp]: "TrimSpace (TrimSpace s) = TrimSpace s"
  by (simp add: TrimSpace_def [of "TrimSpace s"] TrimLeftSpace_def TrimRightSpace_def
      trim_left_done TrimSpace_no_left TrimSpace_no_right)

text \<open>
  A string whose first and last bytes cannot begin or end a white-space rune is left as it is:
  the rule that evaluates \<open>TrimSpace\<close> on ordinary text.
\<close>

definition space_first :: "char set" where
  "space_first = {CHR 0x09, CHR 0x0A, CHR 0x0B, CHR 0x0C, CHR 0x0D, CHR 0x20,
                  CHR 0xC2, CHR 0xE1, CHR 0xE2, CHR 0xE3}"

definition space_last :: "char set" where
  "space_last = {CHR 0x09, CHR 0x0A, CHR 0x0B, CHR 0x0C, CHR 0x0D, CHR 0x20, CHR 0x85, CHR 0xA0,
                 CHR 0x80, CHR 0x81, CHR 0x82, CHR 0x83, CHR 0x84, CHR 0x86, CHR 0x87, CHR 0x88,
                 CHR 0x89, CHR 0x8A, CHR 0xA8, CHR 0xA9, CHR 0xAF, CHR 0x9F}"

lemma space_runes_ends_all:
  "list_all (\<lambda>r. r \<noteq> [] \<and> hd r \<in> space_first \<and> last r \<in> space_last) space_runes"
  by (simp add: space_runes_def space_first_def space_last_def)

lemma space_runes_ends:
  "r \<in> set space_runes \<Longrightarrow> r \<noteq> [] \<and> hd r \<in> space_first \<and> last r \<in> space_last"
  using space_runes_ends_all by (simp add: list_all_iff)

lemma TrimSpace_plain:
  assumes "s \<noteq> []" "hd s \<notin> space_first" "last s \<notin> space_last"
  shows "TrimSpace s = s"
proof -
  have "strip_one space_runes s = None"
    using assms(1,2) space_runes_ends by (fastforce simp: strip_one_None HasPrefix_iff)
  moreover have "strip_one (map rev space_runes) (rev s) = None"
  proof -
    have False if "r \<in> set space_runes" and "HasPrefix (rev s) (rev r)" for r
    proof -
      from that(2) obtain t where "s = t @ r" by (metis HasPrefix_iff rev_append rev_rev_ident)
      with space_runes_ends [OF that(1)] assms(3) show False by simp
    qed
    then show ?thesis by (auto simp: strip_one_None)
  qed
  ultimately show ?thesis
    by (simp add: TrimSpace_def TrimLeftSpace_def TrimRightSpace_def trim_left_done)
qed

lemma TrimSpace_Nil [simp]: "TrimSpace [] = []"
  by (simp add: TrimSpace_def TrimLeftSpace_def TrimRightSpace_def trim_left_done strip_one_None
      HasPrefix_def)

lemma TrimSpace_nonblank: "TrimSpace s \<noteq> [] \<Longrightarrow> s \<noteq> []"
  by auto

section \<open>Case\<close>

definition is_upper :: "char \<Rightarrow> bool" where
  "is_upper c \<longleftrightarrow> CHR ''A'' \<le> c \<and> c \<le> CHR ''Z''"

definition is_lower :: "char \<Rightarrow> bool" where
  "is_lower c \<longleftrightarrow> CHR ''a'' \<le> c \<and> c \<le> CHR ''z''"

definition lower_char :: "char \<Rightarrow> char" where
  "lower_char c = (if is_upper c then char_of (of_char c + 32 :: nat) else c)"

definition upper_char :: "char \<Rightarrow> char" where
  "upper_char c = (if is_lower c then char_of (of_char c - 32 :: nat) else c)"

definition ToLower :: "string \<Rightarrow> string" where
  "ToLower = map lower_char"

definition ToUpper :: "string \<Rightarrow> string" where
  "ToUpper = map upper_char"

function fold_norm :: "string \<Rightarrow> string" where
  "fold_norm [] = []"
| "fold_norm (c # cs) =
     (if take 3 (c # cs) = [CHR 0xE2, CHR 0x84, CHR 0xAA] then CHR ''k'' # fold_norm (drop 2 cs)
      else if take 2 (c # cs) = [CHR 0xC5, CHR 0xBF] then CHR ''s'' # fold_norm (drop 1 cs)
      else lower_char c # fold_norm cs)"
  by pat_completeness auto
termination
  by (relation "measure length") auto

definition EqualFold :: "string \<Rightarrow> string \<Rightarrow> bool" where
  "EqualFold s t \<longleftrightarrow> fold_norm s = fold_norm t"

lemma EqualFold_refl [simp]: "EqualFold s s"
  by (simp add: EqualFold_def)

lemma EqualFold_sym: "EqualFold s t \<Longrightarrow> EqualFold t s"
  by (simp add: EqualFold_def)

lemma EqualFold_trans: "EqualFold s t \<Longrightarrow> EqualFold t u \<Longrightarrow> EqualFold s u"
  by (simp add: EqualFold_def)

lemma fold_norm_Nil_iff [simp]: "fold_norm s = [] \<longleftrightarrow> s = []"
  by (cases s) auto

lemma EqualFold_Nil [simp]: "EqualFold s [] \<longleftrightarrow> s = []" "EqualFold [] s \<longleftrightarrow> s = []"
  by (simp_all add: EqualFold_def eq_commute [of "[]" "fold_norm s"])

section \<open>Splitting and joining\<close>

fun Join :: "string list \<Rightarrow> string \<Rightarrow> string" where
  "Join [] sep = []"
| "Join [x] sep = x"
| "Join (x # y # ys) sep = x @ sep @ Join (y # ys) sep"

text \<open>\<open>Split\<close> at a separator of one byte, the only kind the program uses.\<close>

fun Split :: "string \<Rightarrow> char \<Rightarrow> string list" where
  "Split [] c = [[]]"
| "Split (x # xs) c =
     (if x = c then [] # Split xs c
      else case Split xs c of [] \<Rightarrow> [[x]] | p # ps \<Rightarrow> (x # p) # ps)"

text \<open>\<open>SplitN (s, c, 2)\<close>: the part before the first separator and, if there is one, the rest.\<close>

definition SplitN2 :: "string \<Rightarrow> char \<Rightarrow> string \<times> string option" where
  "SplitN2 s c =
     (takeWhile (\<lambda>x. x \<noteq> c) s, case dropWhile (\<lambda>x. x \<noteq> c) s of [] \<Rightarrow> None | _ # t \<Rightarrow> Some t)"

text \<open>\<open>ReplaceAll\<close> of a single byte, and \<open>Trim\<close> with a cut set of one byte.\<close>

definition ReplaceChar :: "string \<Rightarrow> char \<Rightarrow> string \<Rightarrow> string" where
  "ReplaceChar s c r = concat (map (\<lambda>x. if x = c then r else [x]) s)"

definition TrimChar :: "string \<Rightarrow> char \<Rightarrow> string" where
  "TrimChar s c = rev (dropWhile (\<lambda>x. x = c) (rev (dropWhile (\<lambda>x. x = c) s)))"

lemma Split_not_Nil [simp]: "Split s c \<noteq> []"
  by (induction s) (auto split: list.splits)

lemma Split_no_sep: "p \<in> set (Split s c) \<Longrightarrow> c \<notin> set p"
proof (induction s arbitrary: p)
  case Nil
  then show ?case by simp
next
  case (Cons x xs)
  then show ?case by (cases "Split xs c") (auto split: if_splits)
qed

lemma Join_Split: "Join (Split s c) [c] = s"
proof (induction s)
  case Nil
  then show ?case by simp
next
  case (Cons x xs)
  obtain p ps where "Split xs c = p # ps"
    by (cases "Split xs c") auto
  with Cons show ?case by (cases ps) auto
qed

lemma Split_no: "c \<notin> set s \<Longrightarrow> Split s c = [s]"
  by (induction s) auto

lemma Split_append: "c \<notin> set x \<Longrightarrow> Split (x @ c # t) c = x # Split t c"
  by (induction x) auto

lemma Split_Join:
  "xs \<noteq> [] \<Longrightarrow> list_all (\<lambda>x. c \<notin> set x) xs \<Longrightarrow> Split (Join xs [c]) c = xs"
  by (induction xs "[c]" rule: Join.induct) (simp_all add: Split_no Split_append)

lemma set_Join: "c \<in> set (Join xs sep) \<Longrightarrow> (\<exists>x \<in> set xs. c \<in> set x) \<or> c \<in> set sep"
  by (induction xs sep rule: Join.induct) auto

lemma SplitN2_None: "SplitN2 s c = (a, None) \<longleftrightarrow> s = a \<and> c \<notin> set a"
proof (induction s arbitrary: a)
  case Nil
  then show ?case by (auto simp: SplitN2_def)
next
  case (Cons x xs)
  then show ?case by (cases "x = c"; cases a) (auto simp: SplitN2_def)
qed

lemma SplitN2_Some: "SplitN2 s c = (a, Some b) \<longleftrightarrow> s = a @ c # b \<and> c \<notin> set a"
proof (induction s arbitrary: a)
  case Nil
  then show ?case by (auto simp: SplitN2_def)
next
  case (Cons x xs)
  then show ?case by (cases "x = c"; cases a) (auto simp: SplitN2_def)
qed

lemma Join_has_sep: "2 \<le> length xs \<Longrightarrow> Contains (Join xs sep) sep"
  by (cases xs; cases "tl xs") (auto simp: Contains_iff)

end
