(* ===== verification/Go_Time.thy ===== *)
theory Go_Time
  imports Go_Strings
begin

text \<open>
  What the program uses of Go's \<^verbatim>\<open>time\<close> package. An instant is the number of nanoseconds since
  1970-01-01T00:00:00Z; a duration is a 64-bit number of nanoseconds. Modelled are the saturating
  difference of two instants, the wrapping product \<^verbatim>\<open>time.Duration(n) * time.Second\<close>, and the text
  formats RFC3339 and RFC3339Nano in UTC, printed and parsed over the proleptic Gregorian calendar.
  The parser follows \<^verbatim>\<open>time.Parse\<close>: one-digit hours, a comma as the fraction mark and zone offsets
  up to 24:60 are accepted; the two layouts accept the same texts, since a fraction is optional in
  both. The main result is that parsing a printed instant gives the instant back; it is stated as
  the locale \<open>timestamp\<close> through which the stores use these functions.
\<close>

section \<open>Durations\<close>

type_synonym instant = int
type_synonym duration = int

definition Second :: duration where
  "Second = 1000000000"

definition seconds :: "int \<Rightarrow> duration" where
  \<comment> \<open>\<^verbatim>\<open>time.Duration(n) * time.Second\<close>\<close>
  "seconds n = wrap64 (n * Second)"

definition Sub :: "instant \<Rightarrow> instant \<Rightarrow> duration" where
  \<comment> \<open>the difference, cut off at the largest and smallest duration\<close>
  "Sub t u = max (- (2 ^ 63)) (min (2 ^ 63 - 1) (t - u))"

definition zero_time :: instant where
  \<comment> \<open>the zero \<^verbatim>\<open>time.Time\<close>: January 1, year 1\<close>
  "zero_time = - 62135596800 * Second"

lemma Sub_in_int64: "in_int64 (Sub t u)"
  by (auto simp: Sub_def in_int64_def)

lemma Sub_gt_iff: "d < 2 ^ 63 - 1 \<Longrightarrow> - (2 ^ 63) \<le> d \<Longrightarrow> d < Sub t u \<longleftrightarrow> d < t - u"
  by (auto simp: Sub_def)

lemma Sub_exact: "in_int64 (t - u) \<Longrightarrow> Sub t u = t - u"
  by (auto simp: Sub_def in_int64_def)

lemma seconds_small: "\<bar>n\<bar> \<le> 9223372036 \<Longrightarrow> seconds n = n * Second"
  by (auto simp: seconds_def Second_def intro!: wrap64_id simp: in_int64_def)

section \<open>Decimal numbers\<close>

definition digit :: "nat \<Rightarrow> char" where
  "digit n = char_of (48 + n :: nat)"

definition is_digit :: "char \<Rightarrow> bool" where
  "is_digit c \<longleftrightarrow> 48 \<le> (of_char c :: nat) \<and> (of_char c :: nat) \<le> 57"

definition dval :: "char \<Rightarrow> nat" where
  "dval c = of_char c - 48"

fun pad :: "nat \<Rightarrow> nat \<Rightarrow> string" where
  \<comment> \<open>the last \<open>w\<close> decimal digits of \<open>n\<close>\<close>
  "pad 0 n = []"
| "pad (Suc w) n = pad w (n div 10) @ [digit (n mod 10)]"

definition num_of :: "string \<Rightarrow> nat" where
  "num_of s = foldl (\<lambda>a c. 10 * a + dval c) 0 s"

fun nat_str :: "nat \<Rightarrow> string" where
  "nat_str n = (if n < 10 then [digit n] else nat_str (n div 10) @ [digit (n mod 10)])"

declare nat_str.simps [simp del]

definition int_str :: "int \<Rightarrow> string" where
  \<comment> \<open>\<^verbatim>\<open>%d\<close> and \<^verbatim>\<open>strconv.FormatInt(n, 10)\<close>\<close>
  "int_str n = (if n < 0 then CHR ''-'' # nat_str (nat (- n)) else nat_str (nat n))"

lemma of_char_digit: "n < 10 \<Longrightarrow> (of_char (digit n) :: nat) = 48 + n"
  by (simp add: digit_def)

lemma is_digit_digit [simp]: "n < 10 \<Longrightarrow> is_digit (digit n)"
  by (simp add: is_digit_def of_char_digit)

lemma dval_digit [simp]: "n < 10 \<Longrightarrow> dval (digit n) = n"
  by (simp add: dval_def of_char_digit)

lemma digit_inj: "m < 10 \<Longrightarrow> n < 10 \<Longrightarrow> digit m = digit n \<longleftrightarrow> m = n"
  by (metis dval_digit)

lemma length_pad [simp]: "length (pad w n) = w"
  by (induction w arbitrary: n) auto

lemma pad_digits: "c \<in> set (pad w n) \<Longrightarrow> is_digit c"
  by (induction w arbitrary: n) auto

lemma num_of_append: "num_of (s @ t) = num_of s * 10 ^ length t + num_of t"
proof (induction t rule: rev_induct)
  case Nil
  then show ?case by (simp add: num_of_def)
next
  case (snoc c t)
  have "num_of (s @ t @ [c]) = 10 * num_of (s @ t) + dval c" for s by (simp add: num_of_def)
  with snoc show ?case by (simp add: num_of_def algebra_simps)
qed

lemma num_of_Nil [simp]: "num_of [] = 0"
  by (simp add: num_of_def)

lemma num_of_single [simp]: "num_of [c] = dval c"
  by (simp add: num_of_def)

lemma num_of_pad: "num_of (pad w n) = n mod 10 ^ w"
proof (induction w arbitrary: n)
  case 0
  then show ?case by simp
next
  case (Suc w)
  then show ?case by (simp add: num_of_append mod_mult2_eq)
qed

lemma num_of_pad_id [simp]: "n < 10 ^ w \<Longrightarrow> num_of (pad w n) = n"
  by (simp add: num_of_pad)

lemma num_of_nat_str: "num_of (nat_str n) = n"
proof (induction n rule: nat_str.induct)
  case (1 n)
  then show ?case by (subst nat_str.simps) (simp add: num_of_append)
qed

lemma nat_str_digits: "c \<in> set (nat_str n) \<Longrightarrow> is_digit c"
proof (induction n rule: nat_str.induct)
  case (1 n)
  show ?case
  proof (cases "n < 10")
    case True
    with 1 show ?thesis by (simp add: nat_str.simps [of n])
  next
    case False
    with 1 show ?thesis by (auto simp: nat_str.simps [of n])
  qed
qed

lemma nat_str_inj: "nat_str m = nat_str n \<longleftrightarrow> m = n"
  by (metis num_of_nat_str)

section \<open>The calendar\<close>

text \<open>
  Days are counted from January 1 of year 1; \<open>Y\<close> is the number of years before the year. The
  decomposition into cycles of 400, 100, 4 and 1 years is the one of Go's \<^verbatim>\<open>absDate\<close>.
\<close>

definition leap :: "int \<Rightarrow> bool" where
  "leap y \<longleftrightarrow> y mod 4 = 0 \<and> (y mod 100 \<noteq> 0 \<or> y mod 400 = 0)"

definition days_before_year :: "int \<Rightarrow> int" where
  "days_before_year y = (let Y = y - 1 in 365 * Y + Y div 4 - Y div 100 + Y div 400)"

definition year_yday :: "int \<Rightarrow> int \<times> int" where
  \<comment> \<open>the year of a day and the number of days before it in that year\<close>
  "year_yday D =
     (let a = D div 146097; d = D mod 146097;
          b = min 3 (d div 36524); d1 = d - 36524 * b;
          c = d1 div 1461; d2 = d1 mod 1461;
          e = min 3 (d2 div 365)
      in (1 + 400 * a + 100 * b + 4 * c + e, d2 - 365 * e))"

fun days_in :: "int \<Rightarrow> bool \<Rightarrow> int" where
  "days_in m l = (if m = 2 then (if l then 29 else 28) else if m \<in> {4, 6, 9, 11} then 30 else 31)"

fun month_day :: "nat \<Rightarrow> int \<Rightarrow> bool \<Rightarrow> int \<Rightarrow> int \<times> int" where
  \<comment> \<open>go through the months from \<open>m\<close> on, \<open>fuel\<close> of them left\<close>
  "month_day 0 m l yd = (m, yd + 1)"
| "month_day (Suc fuel) m l yd =
     (if yd < days_in m l then (m, yd + 1) else month_day fuel (m + 1) l (yd - days_in m l))"

fun days_before_month :: "nat \<Rightarrow> bool \<Rightarrow> int" where
  "days_before_month 0 l = 0"
| "days_before_month (Suc k) l = days_before_month k l + days_in (int (Suc k)) l"

definition day_of :: "int \<Rightarrow> int \<Rightarrow> int \<Rightarrow> int" where
  "day_of y m d = days_before_year y + days_before_month (nat (m - 1)) (leap y) + d - 1"

text \<open>The cycles add up, and the year found is the one the day lies in.\<close>

lemma year_yday_sound:
  assumes "year_yday D = (y, yd)"
  shows "days_before_year y + yd = D" and "0 \<le> yd" and "yd < 365 + (if leap y then 1 else 0)"
proof -
  define a where "a = D div 146097"
  define d where "d = D mod 146097"
  define b where "b = min 3 (d div 36524)"
  define d1 where "d1 = d - 36524 * b"
  define c where "c = d1 div 1461"
  define d2 where "d2 = d1 mod 1461"
  define e where "e = min 3 (d2 div 365)"
  note defs = a_def d_def b_def d1_def c_def d2_def e_def
  have "year_yday D = (1 + 400 * a + 100 * b + 4 * c + e, d2 - 365 * e)"
    unfolding year_yday_def Let_def defs by (rule refl)
  with assms have y: "y = 1 + 400 * a + 100 * b + 4 * c + e" and yd: "yd = d2 - 365 * e" by simp_all
  have d: "0 \<le> d" "d < 146097" "D = 146097 * a + d" by (simp_all add: defs)
  have b: "0 \<le> b" "b \<le> 3" "0 \<le> d1" "d1 \<le> 36524" "b < 3 \<longrightarrow> d1 < 36524"
    using d unfolding d1_def b_def by (auto simp: min_def)
  have c: "0 \<le> c" "c \<le> 24 \<or> c = 25 \<and> d2 < 1" "0 \<le> d2" "d2 < 1461" "d1 = 1461 * c + d2"
    using b unfolding c_def d2_def by auto
  have e: "0 \<le> e" "e \<le> 3" "0 \<le> yd" "yd \<le> 365" "e < 3 \<longrightarrow> yd < 365"
    using c(3,4) unfolding yd e_def by (auto simp: min_def)
  have c24: "c \<le> 24" using b c by auto
  have divs: "(y - 1) div 4 = 100 * a + 25 * b + c" "(y - 1) div 100 = 4 * a + b" "(y - 1) div 400 = a"
    using b c24 c(1) e unfolding y by auto
  show "days_before_year y + yd = D"
    unfolding days_before_year_def Let_def divs using d(3) c(5) by (simp add: y yd d1_def)
  show "0 \<le> yd" by (rule e(3))
  show "yd < 365 + (if leap y then 1 else 0)"
  proof (cases "e = 3 \<and> yd = 365")
    case True
    then have "d2 = 1460" by (simp add: yd)
    then have "c \<noteq> 24 \<or> b = 3" using b c by auto
    moreover have y4: "y = 4 * (100 * a + 25 * b + c + 1)" using True by (simp add: y)
    moreover have "y mod 100 = 4 * (c + 1)" if "c < 24"
    proof -
      have "y = 4 * (c + 1) + 100 * (4 * a + b)" using y4 by simp
      then have "y mod 100 = 4 * (c + 1) mod 100" by (simp only: mod_mult_self2)
      then show ?thesis using that c(1) by simp
    qed
    moreover have "y = 400 * (a + 1)" if "c = 24" "b = 3" using y4 that by simp
    ultimately have "leap y" using c24 c(1) unfolding leap_def by (cases "c = 24") auto
    then show ?thesis using e by simp
  next
    case False
    with e show ?thesis by auto
  qed
qed

lemma month_day_sound:
  assumes "month_day fuel m l yd = (m', d)" "0 \<le> yd" "0 < m"
  shows "m \<le> m'" and "m' \<le> m + int fuel" and "1 \<le> d"
    and "yd = days_before_month (nat (m' - 1)) l - days_before_month (nat (m - 1)) l + d - 1"
proof -
  have "m \<le> m' \<and> m' \<le> m + int fuel \<and> 1 \<le> d \<and>
    yd = days_before_month (nat (m' - 1)) l - days_before_month (nat (m - 1)) l + d - 1"
    using assms
  proof (induction fuel arbitrary: m yd)
    case 0
    then show ?case by auto
  next
    case (Suc fuel)
    show ?case
    proof (cases "yd < days_in m l")
      case True
      with Suc.prems show ?thesis by auto
    next
      case False
      with Suc.IH [of "m + 1" "yd - days_in m l"] Suc.prems
      have IH: "m + 1 \<le> m' \<and> m' \<le> m + 1 + int fuel \<and> 1 \<le> d \<and>
        yd - days_in m l = days_before_month (nat (m' - 1)) l - days_before_month (nat m) l + d - 1"
        by simp
      have "nat m = Suc (nat (m - 1))" using Suc.prems(3) by simp
      then have "days_before_month (nat m) l = days_before_month (nat (m - 1)) l + days_in m l"
        using Suc.prems(3) by simp
      with IH show ?thesis by (simp del: days_in.simps)
    qed
  qed
  then show "m \<le> m'" "m' \<le> m + int fuel" "1 \<le> d"
    "yd = days_before_month (nat (m' - 1)) l - days_before_month (nat (m - 1)) l + d - 1"
    by auto
qed

section \<open>Printing\<close>

record civil =
  cy :: int
  cmon :: int
  cday :: int
  chour :: int
  cmin :: int
  csec :: int
  cnano :: int

definition unix_day0 :: int where
  \<comment> \<open>the day number of 1970-01-01\<close>
  "unix_day0 = 719162"

definition civil_of :: "instant \<Rightarrow> civil" where
  "civil_of t =
     (let s = t div Second; sod = s mod 86400; D = s div 86400 + unix_day0;
          (y, yd) = year_yday D; (m, d) = month_day 11 1 (leap y) yd
      in \<lparr>cy = y, cmon = m, cday = d, chour = sod div 3600, cmin = sod mod 3600 div 60,
          csec = sod mod 60, cnano = t mod Second\<rparr>)"

definition year_str :: "int \<Rightarrow> string" where
  "year_str y =
     (if 0 \<le> y \<and> y < 10000 then pad 4 (nat y)
      else if 10000 \<le> y then int_str y
      else CHR ''-'' # (if - y < 10000 then pad 4 (nat (- y)) else int_str (- y)))"

definition two :: "int \<Rightarrow> string" where
  "two n = pad 2 (nat n)"

definition rtrim0 :: "string \<Rightarrow> string" where
  "rtrim0 s = rev (dropWhile (\<lambda>c. c = CHR ''0'') (rev s))"

definition frac9 :: "int \<Rightarrow> string" where
  \<comment> \<open>the fraction \<^verbatim>\<open>.999999999\<close>: trailing zeros dropped, nothing when it is zero\<close>
  "frac9 ns = (case rtrim0 (pad 9 (nat ns)) of [] \<Rightarrow> [] | ds \<Rightarrow> CHR ''.'' # ds)"

definition date_time_str :: "civil \<Rightarrow> string" where
  "date_time_str c =
     year_str (cy c) @ ''-'' @ two (cmon c) @ ''-'' @ two (cday c) @ ''T'' @
     two (chour c) @ '':'' @ two (cmin c) @ '':'' @ two (csec c)"

definition FormatRFC3339 :: "instant \<Rightarrow> string" where
  "FormatRFC3339 t = date_time_str (civil_of t) @ ''Z''"

definition FormatRFC3339Nano :: "instant \<Rightarrow> string" where
  "FormatRFC3339Nano t = date_time_str (civil_of t) @ frac9 (cnano (civil_of t)) @ ''Z''"

definition FormatCompact :: "instant \<Rightarrow> string" where
  \<comment> \<open>the layout \<^verbatim>\<open>20060102T150405.000000000\<close>\<close>
  "FormatCompact t =
     (let c = civil_of t in
      year_str (cy c) @ two (cmon c) @ two (cday c) @ ''T'' @ two (chour c) @ two (cmin c) @
      two (csec c) @ ''.'' @ pad 9 (nat (cnano c)))"

section \<open>Parsing\<close>

text \<open>\<open>getnum\<close> of the \<^verbatim>\<open>time\<close> package: one or two digits, two when \<open>fixed\<close>.\<close>

fun getnum :: "bool \<Rightarrow> string \<Rightarrow> (int \<times> string) option" where
  "getnum fixed (a # b # s) =
     (if \<not> is_digit a then None
      else if \<not> is_digit b then (if fixed then None else Some (int (dval a), b # s))
      else Some (int (10 * dval a + dval b), s))"
| "getnum fixed [a] = (if \<not> is_digit a \<or> fixed then None else Some (int (dval a), []))"
| "getnum fixed [] = None"

fun expect :: "char \<Rightarrow> string \<Rightarrow> string option" where
  "expect c (x # s) = (if x = c then Some s else None)"
| "expect c [] = None"

definition get_year :: "string \<Rightarrow> (int \<times> string) option" where
  "get_year s =
     (if length (take 4 s) = 4 \<and> list_all is_digit (take 4 s)
      then Some (int (num_of (take 4 s)), drop 4 s) else None)"

definition get_frac :: "string \<Rightarrow> int \<times> string" where
  \<comment> \<open>an optional fraction; digits after the ninth are ignored\<close>
  "get_frac s =
     (case s of
        x # c # r \<Rightarrow>
          (if (x = CHR ''.'' \<or> x = CHR '','') \<and> is_digit c
           then let ds = takeWhile is_digit (c # r); ds9 = take 9 ds
                in (int (num_of ds9 * 10 ^ (9 - length ds9)), dropWhile is_digit (c # r))
           else (0, s))
      | _ \<Rightarrow> (0, s))"

definition get_offset :: "string \<Rightarrow> (int \<times> string) option" where
  \<comment> \<open>a numeric zone \<open>+hh:mm\<close> or \<open>-hh:mm\<close>, in seconds\<close>
  "get_offset s =
     (case s of
        [] \<Rightarrow> None
      | sg # r \<Rightarrow>
          (if sg \<noteq> CHR ''+'' \<and> sg \<noteq> CHR ''-'' then None
           else case getnum True r of None \<Rightarrow> None
           | Some (hr, r1) \<Rightarrow> (case expect CHR '':'' r1 of None \<Rightarrow> None
             | Some r2 \<Rightarrow> (case getnum True r2 of None \<Rightarrow> None
               | Some (mm, r3) \<Rightarrow>
                   (if 24 < hr \<or> 60 < mm then None
                    else Some ((if sg = CHR ''-'' then - 1 else 1) * (hr * 60 + mm) * 60, r3))))))"

definition get_zone :: "bool \<Rightarrow> string \<Rightarrow> (int \<times> string) option" where
  \<comment> \<open>with \<open>z\<close> a letter Z stands for UTC (layout \<^verbatim>\<open>Z07:00\<close>), without it only a numeric zone is read
      (layout \<^verbatim>\<open>-07:00\<close>)\<close>
  "get_zone z s =
     (case s of [] \<Rightarrow> None | x # r \<Rightarrow> (if z \<and> x = CHR ''Z'' then Some (0, r) else get_offset s))"

definition instant_of :: "int \<Rightarrow> int \<Rightarrow> int \<Rightarrow> int \<Rightarrow> int \<Rightarrow> int \<Rightarrow> int \<Rightarrow> int \<Rightarrow> instant" where
  "instant_of y m d h mi s ns off =
     ((day_of y m d - unix_day0) * 86400 + h * 3600 + mi * 60 + s - off) * Second + ns"

definition get_clock :: "string \<Rightarrow> (int \<times> int \<times> int \<times> string) option" where
  "get_clock s =
     (case getnum False s of None \<Rightarrow> None
      | Some (h, s1) \<Rightarrow> (case expect CHR '':'' s1 of None \<Rightarrow> None
      | Some s2 \<Rightarrow> (case getnum True s2 of None \<Rightarrow> None
      | Some (mi, s3) \<Rightarrow> (case expect CHR '':'' s3 of None \<Rightarrow> None
      | Some s4 \<Rightarrow> (case getnum True s4 of None \<Rightarrow> None
      | Some (sec, s5) \<Rightarrow> (if h < 24 \<and> mi < 60 \<and> sec < 60 then Some (h, mi, sec, s5) else None))))))"

definition get_date :: "string \<Rightarrow> (int \<times> int \<times> int \<times> string) option" where
  "get_date s =
     (case get_year s of None \<Rightarrow> None
      | Some (y, s1) \<Rightarrow> (case expect CHR ''-'' s1 of None \<Rightarrow> None
      | Some s2 \<Rightarrow> (case getnum True s2 of None \<Rightarrow> None
      | Some (m, s3) \<Rightarrow> (case expect CHR ''-'' s3 of None \<Rightarrow> None
      | Some s4 \<Rightarrow> (case getnum True s4 of None \<Rightarrow> None
      | Some (d, s5) \<Rightarrow>
          (if 1 \<le> m \<and> m \<le> 12 \<and> 1 \<le> d \<and> d \<le> days_in m (leap y) then Some (y, m, d, s5) else None))))))"

definition parse_layout :: "bool \<Rightarrow> string \<Rightarrow> instant option" where
  "parse_layout z s =
     (case get_date s of None \<Rightarrow> None
      | Some (y, m, d, s1) \<Rightarrow> (case expect CHR ''T'' s1 of None \<Rightarrow> None
      | Some s2 \<Rightarrow> (case get_clock s2 of None \<Rightarrow> None
      | Some (h, mi, sec, s3) \<Rightarrow>
          (case get_frac s3 of (ns, s4) \<Rightarrow>
            (case get_zone z s4 of None \<Rightarrow> None
             | Some (off, s5) \<Rightarrow> (if s5 = [] then Some (instant_of y m d h mi sec ns off) else None))))))"

definition ParseRFC3339 :: "string \<Rightarrow> instant option" where
  \<comment> \<open>\<^verbatim>\<open>time.Parse(time.RFC3339, s)\<close> and \<^verbatim>\<open>time.Parse(time.RFC3339Nano, s)\<close>\<close>
  "ParseRFC3339 = parse_layout True"

section \<open>Parsing what was printed\<close>

definition printable :: "instant \<Rightarrow> bool" where
  "printable t \<longleftrightarrow> 0 \<le> cy (civil_of t) \<and> cy (civil_of t) < 10000"

lemma days_in_bounds: "28 \<le> days_in m l \<and> days_in m l \<le> 31"
  by auto

lemma days_before_month_12: "days_before_month 12 l = 365 + (if l then 1 else 0)"
  by (simp add: numeral_eq_Suc)

lemma month_day_valid:
  assumes "month_day 11 1 l yd = (m, d)" "0 \<le> yd" "yd < 365 + (if l then 1 else 0)"
  shows "1 \<le> m" "m \<le> 12" "1 \<le> d" "d \<le> days_in m l" "yd = days_before_month (nat (m - 1)) l + d - 1"
proof -
  have bound: "month_day fuel k l z = (m, d) \<Longrightarrow> 0 < k \<Longrightarrow> k + int fuel = 12 \<Longrightarrow>
      z < days_before_month 12 l - days_before_month (nat (k - 1)) l \<Longrightarrow> d \<le> days_in m l" for fuel k z
  proof (induction fuel arbitrary: k z)
    case 0
    then have "k = 12" by simp
    with 0 show ?case by (simp add: numeral_eq_Suc)
  next
    case (Suc fuel)
    have "nat k = Suc (nat (k - 1))" using Suc.prems(2) by simp
    then have "days_before_month (nat k) l = days_before_month (nat (k - 1)) l + days_in k l"
      using Suc.prems(2) by simp
    with Suc.IH [of "k + 1" "z - days_in k l"] Suc.prems show ?case
      by (simp del: days_in.simps split: if_splits)
  qed
  show "1 \<le> m" "m \<le> 12" "1 \<le> d" "yd = days_before_month (nat (m - 1)) l + d - 1"
    using month_day_sound [OF assms(1,2)] by simp_all
  show "d \<le> days_in m l"
    using bound [OF assms(1)] assms(3) by (simp add: days_before_month_12)
qed

lemma civil_of_valid:
  fixes t :: instant
  defines "c \<equiv> civil_of t"
  shows "1 \<le> cmon c" "cmon c \<le> 12" "1 \<le> cday c" "cday c \<le> days_in (cmon c) (leap (cy c))"
    "0 \<le> chour c" "chour c < 24" "0 \<le> cmin c" "cmin c < 60" "0 \<le> csec c" "csec c < 60"
    "0 \<le> cnano c" "cnano c < Second"
    and civil_of_instant: "instant_of (cy c) (cmon c) (cday c) (chour c) (cmin c) (csec c) (cnano c) 0 = t"
proof -
  define s where "s = t div Second"
  define sod where "sod = s mod 86400"
  obtain y yd where yy: "year_yday (s div 86400 + unix_day0) = (y, yd)" by fastforce
  obtain m d where md: "month_day 11 1 (leap y) yd = (m, d)" by fastforce
  have c: "cy c = y" "cmon c = m" "cday c = d" "chour c = sod div 3600" "cmin c = sod mod 3600 div 60"
    "csec c = sod mod 60" "cnano c = t mod Second"
    using yy md by (simp_all add: c_def civil_of_def Let_def s_def sod_def)
  note ys = year_yday_sound [OF yy]
  note mv = month_day_valid [OF md ys(2,3)]
  have sod: "0 \<le> sod" "sod < 86400" by (simp_all add: sod_def)
  show "1 \<le> cmon c" "cmon c \<le> 12" "1 \<le> cday c" "cday c \<le> days_in (cmon c) (leap (cy c))"
    using mv unfolding c by blast+
  show "0 \<le> chour c" "chour c < 24" "0 \<le> cmin c" "cmin c < 60" "0 \<le> csec c" "csec c < 60"
    "0 \<le> cnano c" "cnano c < Second"
    unfolding c using sod by (auto simp: Second_def)
  have day: "day_of y m d = s div 86400 + unix_day0"
    using ys(1) mv(5) by (simp add: day_of_def)
  have "sod mod 60 = sod mod 3600 mod 60" by (simp add: mod_mod_cancel)
  moreover have "sod mod 3600 div 60 * 60 + sod mod 3600 mod 60 = sod mod 3600" by (rule div_mult_mod_eq)
  moreover have "sod div 3600 * 3600 + sod mod 3600 = sod" by (rule div_mult_mod_eq)
  ultimately have "sod div 3600 * 3600 + sod mod 3600 div 60 * 60 + sod mod 60 = sod" by linarith
  moreover have "s div 86400 * 86400 + sod = s" unfolding sod_def by (rule div_mult_mod_eq)
  ultimately have "(s div 86400) * 86400 + sod div 3600 * 3600 + sod mod 3600 div 60 * 60 + sod mod 60 = s"
    by linarith
  then show "instant_of (cy c) (cmon c) (cday c) (chour c) (cmin c) (csec c) (cnano c) 0 = t"
    unfolding c instant_of_def day by (simp add: s_def)
qed

lemma two_digits: "0 \<le> n \<Longrightarrow> n < 100 \<Longrightarrow> two n = [digit (nat n div 10), digit (nat n mod 10)]"
  by (simp add: two_def numeral_2_eq_2)

lemma getnum_two: "0 \<le> n \<Longrightarrow> n < 100 \<Longrightarrow> getnum fixed (two n @ s) = Some (n, s)"
proof -
  assume n: "0 \<le> n" "n < 100"
  then have "nat n div 10 < 10" by linarith
  with n show ?thesis by (simp add: two_digits)
qed

lemma get_year_str: "0 \<le> y \<Longrightarrow> y < 10000 \<Longrightarrow> get_year (year_str y @ s) = Some (y, s)"
  using pad_digits [of _ 4 "nat y"] by (simp add: get_year_def year_str_def list_all_iff)

lemma expect_here [simp]: "expect c (c # s) = Some s"
  by simp

lemma rtrim0_append: "\<exists>k. s = rtrim0 s @ replicate k (CHR ''0'')"
proof -
  have "takeWhile (\<lambda>c. c = CHR ''0'') (rev s) = replicate (length (takeWhile (\<lambda>c. c = CHR ''0'') (rev s))) (CHR ''0'')"
    by (metis (full_types) replicate_length_same set_takeWhileD)
  then have "rev s = replicate (length (takeWhile (\<lambda>c. c = CHR ''0'') (rev s))) (CHR ''0'') @ dropWhile (\<lambda>c. c = CHR ''0'') (rev s)"
    by (metis takeWhile_dropWhile_id)
  then have "s = rev (dropWhile (\<lambda>c. c = CHR ''0'') (rev s)) @ replicate (length (takeWhile (\<lambda>c. c = CHR ''0'') (rev s))) (CHR ''0'')"
    by (metis rev_append rev_replicate rev_rev_ident)
  then show ?thesis unfolding rtrim0_def by blast
qed

lemma num_of_zeros [simp]: "num_of (replicate k (CHR ''0'')) = 0"
proof (induction k)
  case 0
  then show ?case by simp
next
  case (Suc k)
  with num_of_append [of "[CHR ''0'']" "replicate k (CHR ''0'')"] show ?case by (simp add: dval_def)
qed

lemma rtrim0_pad:
  assumes "n < 10 ^ w"
  shows "num_of (rtrim0 (pad w n)) * 10 ^ (w - length (rtrim0 (pad w n))) = n"
    and "length (rtrim0 (pad w n)) \<le> w" and "c \<in> set (rtrim0 (pad w n)) \<Longrightarrow> is_digit c"
proof -
  obtain k where k: "pad w n = rtrim0 (pad w n) @ replicate k (CHR ''0'')" using rtrim0_append by blast
  have len: "w = length (rtrim0 (pad w n)) + k" using arg_cong [OF k, of length] by simp
  have "n = num_of (pad w n)" using assms by simp
  also have "\<dots> = num_of (rtrim0 (pad w n)) * 10 ^ k" by (subst k) (simp add: num_of_append)
  finally have "num_of (rtrim0 (pad w n)) * 10 ^ k = n" by (rule sym)
  moreover from len have "w - length (rtrim0 (pad w n)) = k" by linarith
  ultimately show "num_of (rtrim0 (pad w n)) * 10 ^ (w - length (rtrim0 (pad w n))) = n" by simp
  show "length (rtrim0 (pad w n)) \<le> w" using len by simp
  show "c \<in> set (rtrim0 (pad w n)) \<Longrightarrow> is_digit c"
    using pad_digits k by (metis Un_iff set_append)
qed

lemma get_frac_frac9:
  assumes "0 \<le> ns" "ns < Second" "\<not> is_digit z" "z \<noteq> CHR ''.''" "z \<noteq> CHR '',''"
  shows "get_frac (frac9 ns @ z # s) = (ns, z # s)"
proof -
  have n: "nat ns < 10 ^ 9" using assms(1,2) by (simp add: Second_def)
  note r = rtrim0_pad [OF n]
  show ?thesis
  proof (cases "rtrim0 (pad 9 (nat ns))")
    case Nil
    with r(1) assms show ?thesis by (cases s) (simp_all add: frac9_def get_frac_def)
  next
    case (Cons c r')
    then have dig: "\<forall>x \<in> set (c # r'). is_digit x" and len: "length (c # r') \<le> 9"
      and val: "num_of (c # r') * 10 ^ (9 - length (c # r')) = nat ns"
      using r by auto
    have "takeWhile is_digit (c # r' @ z # s) = c # r'" "dropWhile is_digit (c # r' @ z # s) = z # s"
      using dig assms(3) takeWhile_append2 [of "c # r'" is_digit "z # s"]
        dropWhile_append2 [of "c # r'" is_digit "z # s"] by auto
    moreover have "int (num_of (c # r')) * 10 ^ (9 - length (c # r')) = ns"
      using arg_cong [OF val, of int] assms(1) by simp
    ultimately show ?thesis
      using Cons dig len by (simp add: frac9_def get_frac_def Let_def)
  qed
qed

lemma get_frac_none: "get_frac (CHR ''Z'' # s) = (0, CHR ''Z'' # s)"
  by (simp add: get_frac_def split: list.splits)

lemma not_digit_Z [simp]: "\<not> is_digit CHR ''Z''"
  by (simp add: is_digit_def)

lemma get_date_civil:
  assumes "printable t"
  shows "get_date (year_str (cy (civil_of t)) @ ''-'' @ two (cmon (civil_of t)) @ ''-'' @
      two (cday (civil_of t)) @ s) = Some (cy (civil_of t), cmon (civil_of t), cday (civil_of t), s)"
  using assms civil_of_valid [of t] days_in_bounds [of "cmon (civil_of t)" "leap (cy (civil_of t))"]
  by (simp add: get_date_def printable_def get_year_str getnum_two del: days_in.simps)

lemma get_clock_civil:
  "get_clock (two (chour (civil_of t)) @ '':'' @ two (cmin (civil_of t)) @ '':'' @ two (csec (civil_of t)) @ s) =
     Some (chour (civil_of t), cmin (civil_of t), csec (civil_of t), s)"
  using civil_of_valid [of t] by (simp add: get_clock_def getnum_two)

lemma parse_FormatRFC3339Nano: "printable t \<Longrightarrow> ParseRFC3339 (FormatRFC3339Nano t) = Some t"
  using get_date_civil [of t] get_clock_civil [of t] civil_of_valid(11,12) [of t] civil_of_instant [of t]
  by (simp add: ParseRFC3339_def parse_layout_def FormatRFC3339Nano_def date_time_str_def
      get_frac_frac9 get_zone_def)

lemma parse_FormatRFC3339: "printable t \<Longrightarrow> ParseRFC3339 (FormatRFC3339 t) = Some (t - t mod Second)"
proof -
  assume p: "printable t"
  have "instant_of (cy (civil_of t)) (cmon (civil_of t)) (cday (civil_of t)) (chour (civil_of t))
      (cmin (civil_of t)) (csec (civil_of t)) 0 0 = t - cnano (civil_of t)"
    using civil_of_instant [of t] by (simp add: instant_of_def)
  moreover have "cnano (civil_of t) = t mod Second" by (simp add: civil_of_def Let_def split: prod.splits)
  ultimately show ?thesis
    using get_date_civil [OF p] get_clock_civil [of t]
    by (simp add: ParseRFC3339_def parse_layout_def FormatRFC3339_def date_time_str_def
        get_frac_none get_zone_def)
qed

section \<open>The interface of the stores\<close>

text \<open>
  A store writes instants as text and reads them back. The locale names what it relies on; its
  clients need neither the calendar nor the text.
\<close>

locale timestamp =
  fixes print :: "instant \<Rightarrow> string" and parse :: "string \<Rightarrow> instant option" and ok :: "instant \<Rightarrow> bool"
  assumes parse_print: "ok t \<Longrightarrow> parse (print t) = Some t"
    and print_not_empty: "ok t \<Longrightarrow> print t \<noteq> ''''"
begin

lemma print_inj: "ok t \<Longrightarrow> ok u \<Longrightarrow> print t = print u \<Longrightarrow> t = u"
  by (metis option.inject parse_print)

text \<open>An optional instant kept as text, the empty text for none.\<close>

lemma optional_round_trip:
  assumes "\<forall>u. q = Some u \<longrightarrow> ok u"
  shows "(let s = (case q of None \<Rightarrow> '''' | Some u \<Rightarrow> print u) in if s = '''' then None else parse s) = q"
  using assms by (cases q) (simp_all add: parse_print print_not_empty)

end

interpretation nano: timestamp FormatRFC3339Nano ParseRFC3339 printable
proof unfold_locales
  show "printable t \<Longrightarrow> ParseRFC3339 (FormatRFC3339Nano t) = Some t" for t
    by (rule parse_FormatRFC3339Nano)
  show "printable t \<Longrightarrow> FormatRFC3339Nano t \<noteq> ''''" for t
    by (simp add: FormatRFC3339Nano_def)
qed

section \<open>Which instants print with a four-digit year\<close>

lemma days_before_year_step: "days_before_year y \<le> days_before_year (y + 1)"
proof -
  have "(y - 1) div 4 \<le> y div 4" "(y - 1) div 400 \<le> y div 400" by (auto intro: zdiv_mono1)
  moreover have "y div 100 \<le> (y - 1) div 100 + 1" by linarith
  ultimately show ?thesis by (simp add: days_before_year_def Let_def)
qed

lemma days_before_year_mono: "y \<le> z \<Longrightarrow> days_before_year y \<le> days_before_year z"
proof (induction z rule: int_ge_induct)
  case base
  then show ?case by simp
next
  case (step i)
  then show ?case using days_before_year_step [of i] by linarith
qed

text \<open>Every instant from 1970 to the end of year 9999 does.\<close>

lemma printable_range: "0 \<le> t \<Longrightarrow> t < 253402300800 * Second \<Longrightarrow> printable t"
proof -
  assume t: "0 \<le> t" "t < 253402300800 * Second"
  define D where "D = t div Second div 86400 + unix_day0"
  have "0 \<le> t div Second" "t div Second < 253402300800"
    using t by (simp_all add: Second_def pos_imp_zdiv_nonneg_iff div_less_dividend)
  then have D: "719162 \<le> D" "D < 3652059" by (simp_all add: D_def unix_day0_def)
  obtain y yd where yy: "year_yday D = (y, yd)" by fastforce
  note s = year_yday_sound [OF yy]
  have "0 \<le> y"
  proof (rule ccontr)
    assume "\<not> 0 \<le> y"
    then have "days_before_year y \<le> days_before_year 0" by (intro days_before_year_mono) simp
    with s D show False by (simp add: days_before_year_def split: if_splits)
  qed
  moreover have "y < 10000"
  proof (rule ccontr)
    assume "\<not> y < 10000"
    then have "days_before_year 10000 \<le> days_before_year y" by (intro days_before_year_mono) simp
    with s D show False by (simp add: days_before_year_def split: if_splits)
  qed
  moreover have "cy (civil_of t) = y" using yy by (simp add: civil_of_def Let_def D_def split: prod.splits)
  ultimately show ?thesis by (simp add: printable_def)
qed

text \<open>A layout that reads only numeric zones accepts nothing that the layout with \<open>Z\<close> rejects.\<close>

lemma parse_numeric_zone: "parse_layout False s = Some t \<Longrightarrow> parse_layout True s = Some t"
proof -
  have zone: "get_zone False r = Some z \<Longrightarrow> get_zone True r = Some z" for r z
    by (cases r) (auto simp: get_zone_def get_offset_def split: if_splits)
  assume "parse_layout False s = Some t"
  then show ?thesis
    by (auto simp: parse_layout_def zone split: option.splits prod.splits if_splits)
qed

end
