(* ===== verification/Metrics.thy ===== *)
theory Metrics
  imports Go_Time "HOL-Library.Multiset"
begin

text \<open>
  The gateway's counters, \<^verbatim>\<open>gateway/metrics.go\<close>: the record of counters, its increments and the
  Prometheus exposition. A \<open>*GatewayMetrics\<close> that may be nil is an \<open>option\<close>; every method returns at
  once on nil. The mutex serialises the methods, so each is one atomic step here.
\<close>

section \<open>Quoting\<close>

text \<open>
  The verb \<^verbatim>\<open>%q\<close>: \<^verbatim>\<open>strconv.Quote\<close>. Bytes of printable text stay, the quote, the backslash and
  the control characters are escaped. Bytes above ASCII are kept, which is what \<^verbatim>\<open>Quote\<close> does to
  printable runes.
\<close>

definition lower_hex :: "nat \<Rightarrow> char" where
  "lower_hex n = ''0123456789abcdef'' ! n"

definition quote_char :: "char \<Rightarrow> string" where
  "quote_char c =
     (if c = CHR 0x22 then [CHR 0x5C, CHR 0x22]
      else if c = CHR 0x5C then [CHR 0x5C, CHR 0x5C]
      else if c = CHR 0x07 then CHR 0x5C # ''a''
      else if c = CHR 0x08 then CHR 0x5C # ''b''
      else if c = CHR 0x0C then CHR 0x5C # ''f''
      else if c = CHR 0x0A then CHR 0x5C # ''n''
      else if c = CHR 0x0D then CHR 0x5C # ''r''
      else if c = CHR 0x09 then CHR 0x5C # ''t''
      else if c = CHR 0x0B then CHR 0x5C # ''v''
      else if of_char c < (32::nat) \<or> c = CHR 0x7F
      then CHR 0x5C # ''x'' @ [lower_hex (of_char c div 16), lower_hex (of_char c mod 16)]
      else [c])"

definition Quote :: "string \<Rightarrow> string" where
  "Quote s = [CHR 0x22] @ concat (map quote_char s) @ [CHR 0x22]"

section \<open>The counters\<close>

record GatewayMetrics =
  queries :: counters
  approvals :: counters
  blocks :: counters
  recoveryVerifications :: counters
  recoveryReadiness :: counters
  agentRiskyAttempts :: counters
  agentQuarantines :: int
  alerts :: counters
  pauseState :: int

definition NewGatewayMetrics :: GatewayMetrics where
  "NewGatewayMetrics =
     \<lparr>queries = [], approvals = [], blocks = [], recoveryVerifications = [], recoveryReadiness = [],
      agentRiskyAttempts = [], agentQuarantines = 0, alerts = [], pauseState = 0\<rparr>"

definition IncQuery :: "string \<Rightarrow> string \<Rightarrow> GatewayMetrics option \<Rightarrow> GatewayMetrics option" where
  "IncQuery risk status = map_option (queries_update (bump (risk @ ''|'' @ status)))"

definition IncApproval :: "string \<Rightarrow> GatewayMetrics option \<Rightarrow> GatewayMetrics option" where
  "IncApproval decision = map_option (approvals_update (bump decision))"

definition IncBlock :: "string \<Rightarrow> GatewayMetrics option \<Rightarrow> GatewayMetrics option" where
  "IncBlock reason = map_option (blocks_update (bump reason))"

definition IncRecovery :: "string \<Rightarrow> GatewayMetrics option \<Rightarrow> GatewayMetrics option" where
  "IncRecovery status = map_option (recoveryVerifications_update (bump status))"

definition IncRecoveryReadiness :: "string \<Rightarrow> string \<Rightarrow> GatewayMetrics option \<Rightarrow> GatewayMetrics option" where
  "IncRecoveryReadiness status reason =
     map_option (recoveryReadiness_update (bump (status @ ''|'' @ reason)))"

definition IncRiskyAttempt :: "string \<Rightarrow> GatewayMetrics option \<Rightarrow> GatewayMetrics option" where
  "IncRiskyAttempt risk = map_option (agentRiskyAttempts_update (bump risk))"

definition IncAgentQuarantine :: "GatewayMetrics option \<Rightarrow> GatewayMetrics option" where
  "IncAgentQuarantine = map_option (agentQuarantines_update (\<lambda>n. wrap64 (n + 1)))"

definition IncAlert :: "string \<Rightarrow> string \<Rightarrow> GatewayMetrics option \<Rightarrow> GatewayMetrics option" where
  "IncAlert eventType status = map_option (alerts_update (bump (eventType @ ''|'' @ status)))"

definition SetPauseState :: "bool \<Rightarrow> GatewayMetrics option \<Rightarrow> GatewayMetrics option" where
  "SetPauseState paused = map_option (pauseState_update (\<lambda>_. if paused then 1 else 0))"

section \<open>The exposition\<close>

definition sortedMetricKeys :: "counters \<Rightarrow> string list" where
  "sortedMetricKeys values = sort (map fst values)"

definition sample1 :: "string \<Rightarrow> string \<Rightarrow> string \<Rightarrow> int \<Rightarrow> string" where
  "sample1 name label v n =
     name @ ''{'' @ label @ ''='' @ Quote v @ ''} '' @ int_str n @ [CHR 0x0A]"

definition sample2 :: "string \<Rightarrow> string \<Rightarrow> string \<Rightarrow> string \<Rightarrow> int \<Rightarrow> string" where
  \<comment> \<open>two labels, from a key that joins their values with a bar\<close>
  "sample2 name l1 l2 key n =
     (let (v1, rest) = SplitN2 key CHR ''|'';
          v2 = (case rest of Some s \<Rightarrow> s | None \<Rightarrow> '''')
      in name @ ''{'' @ l1 @ ''='' @ Quote v1 @ '','' @ l2 @ ''='' @ Quote v2 @ ''} '' @ int_str n @ [CHR 0x0A])"

definition type_line :: "string \<Rightarrow> string \<Rightarrow> string" where
  "type_line name kind = ''# TYPE '' @ name @ '' '' @ kind @ [CHR 0x0A]"

definition samples :: "(string \<Rightarrow> int \<Rightarrow> string) \<Rightarrow> counters \<Rightarrow> string list" where
  "samples line m = map (\<lambda>key. line key (map_get_or 0 m key)) (sortedMetricKeys m)"

definition plain_sample :: "string \<Rightarrow> int \<Rightarrow> string" where
  "plain_sample name n = name @ '' '' @ int_str n @ [CHR 0x0A]"

definition exposition :: "GatewayMetrics \<Rightarrow> string list" where
  "exposition m =
     [type_line ''backstop_gateway_queries_total'' ''counter''] @
     samples (sample2 ''backstop_gateway_queries_total'' ''risk'' ''status'') (queries m) @
     [type_line ''backstop_gateway_approvals_total'' ''counter''] @
     samples (sample1 ''backstop_gateway_approvals_total'' ''decision'') (approvals m) @
     [type_line ''backstop_gateway_blocks_total'' ''counter''] @
     samples (sample1 ''backstop_gateway_blocks_total'' ''reason'') (blocks m) @
     [type_line ''backstop_gateway_recovery_verifications_total'' ''counter''] @
     samples (sample1 ''backstop_gateway_recovery_verifications_total'' ''status'') (recoveryVerifications m) @
     [type_line ''backstop_recovery_readiness_total'' ''counter''] @
     samples (sample2 ''backstop_recovery_readiness_total'' ''status'' ''reason'') (recoveryReadiness m) @
     [type_line ''backstop_agent_risky_attempts_total'' ''counter''] @
     samples (sample1 ''backstop_agent_risky_attempts_total'' ''risk'') (agentRiskyAttempts m) @
     [type_line ''backstop_agent_quarantines_total'' ''counter'',
      plain_sample ''backstop_agent_quarantines_total'' (agentQuarantines m),
      type_line ''backstop_gateway_alerts_total'' ''counter''] @
     samples (sample2 ''backstop_gateway_alerts_total'' ''event_type'' ''status'') (alerts m) @
     [type_line ''backstop_gateway_pause_state'' ''gauge'',
      plain_sample ''backstop_gateway_pause_state'' (pauseState m)]"

definition Prometheus :: "GatewayMetrics option \<Rightarrow> string" where
  "Prometheus m = (case m of None \<Rightarrow> '''' | Some m \<Rightarrow> concat (exposition m))"

section \<open>Counting\<close>

text \<open>The counters of a map hold, modulo the width of the integer, how often each key was counted.\<close>

lemma wrap64_Suc: "wrap64 (wrap64 x + 1) = wrap64 (x + 1)"
proof -
  have "(wrap64 x + 1) mod 2 ^ 64 = (x + 1) mod 2 ^ 64"
    using wrap64_cong [of x] by (metis mod_add_left_eq)
  then show ?thesis by (simp add: wrap64_def mod_simps)
qed

lemma foldl_bump:
  "map_get_or 0 (foldl (\<lambda>m k. bump k m) [] ks) k = wrap64 (int (count (mset ks) k))"
proof (induction ks rule: rev_induct)
  case Nil
  show ?case by (simp add: wrap64_def)
next
  case (snoc x xs)
  then show ?case by (auto simp: bump_count wrap64_Suc add.commute [of 1])
qed

lemma foldl_bump_keys: "set (map fst (foldl (\<lambda>m k. bump k m) [] ks)) = set ks"
  by (induction ks rule: rev_induct) (auto simp: bump_def dom_update [symmetric] AList.update_conv' dom_map_of_conv_image_fst [symmetric])

lemma foldl_bump_distinct: "distinct (map fst (foldl (\<lambda>m k. bump k m) [] ks))"
  by (induction ks rule: rev_induct) simp_all

section \<open>The query counters of the exposition\<close>

definition query_key :: "string \<times> string \<Rightarrow> string" where
  "query_key q = fst q @ ''|'' @ snd q"

definition query_line :: "string \<times> string \<Rightarrow> int \<Rightarrow> string" where
  "query_line q n =
     ''backstop_gateway_queries_total{risk='' @ Quote (fst q) @ '',status='' @ Quote (snd q) @ ''} ''
     @ int_str n @ [CHR 0x0A]"

definition IncQueries :: "(string \<times> string) list \<Rightarrow> GatewayMetrics option \<Rightarrow> GatewayMetrics option" where
  "IncQueries qs m = foldl (\<lambda>m q. IncQuery (fst q) (snd q) m) m qs"

lemma IncQueries_Some:
  "IncQueries qs (Some m) = Some (m\<lparr>queries := foldl (\<lambda>c k. bump k c) (queries m) (map query_key qs)\<rparr>)"
  unfolding IncQueries_def
  by (induction qs arbitrary: m) (simp_all add: IncQuery_def query_key_def)

lemma SplitN2_query_key: "CHR ''|'' \<notin> set (fst q) \<Longrightarrow> SplitN2 (query_key q) CHR ''|'' = (fst q, Some (snd q))"
  by (simp add: SplitN2_Some query_key_def)

lemma query_key_inj: "CHR ''|'' \<notin> set (fst q) \<Longrightarrow> CHR ''|'' \<notin> set (fst r) \<Longrightarrow> query_key q = query_key r \<longleftrightarrow> q = r"
  by (metis SplitN2_query_key Pair_inject option.inject prod.collapse)

lemma sample2_query_key:
  "CHR ''|'' \<notin> set (fst q) \<Longrightarrow>
   sample2 ''backstop_gateway_queries_total'' ''risk'' ''status'' (query_key q) n = query_line q n"
  by (simp add: sample2_def SplitN2_query_key query_line_def)

lemma count_query_key:
  "(\<And>q. q \<in> set (r # qs) \<Longrightarrow> CHR ''|'' \<notin> set (fst q)) \<Longrightarrow>
   count (mset (map query_key qs)) (query_key r) = count (mset qs) r"
  by (induction qs) (auto simp: query_key_inj)

abbreviation is_query_sample :: "string \<Rightarrow> bool" where
  "is_query_sample l \<equiv> HasPrefix l ''backstop_gateway_queries_total{''"

lemma other_samples:
  "filter is_query_sample (samples (sample1 ''backstop_gateway_approvals_total'' l) c) = []"
  "filter is_query_sample (samples (sample1 ''backstop_gateway_blocks_total'' l) c) = []"
  "filter is_query_sample (samples (sample1 ''backstop_gateway_recovery_verifications_total'' l) c) = []"
  "filter is_query_sample (samples (sample2 ''backstop_recovery_readiness_total'' l l') c) = []"
  "filter is_query_sample (samples (sample1 ''backstop_agent_risky_attempts_total'' l) c) = []"
  "filter is_query_sample (samples (sample2 ''backstop_gateway_alerts_total'' l l') c) = []"
  by (simp_all add: samples_def filter_empty_conv sample1_def sample2_def HasPrefix_def split: prod.splits)

lemma other_lines:
  "\<not> is_query_sample (type_line name kind)"
  "\<not> is_query_sample (plain_sample ''backstop_agent_quarantines_total'' n)"
  "\<not> is_query_sample (plain_sample ''backstop_gateway_pause_state'' n)"
  by (simp_all add: type_line_def plain_sample_def HasPrefix_def)

lemma query_samples:
  "filter is_query_sample (exposition m) =
     samples (sample2 ''backstop_gateway_queries_total'' ''risk'' ''status'') (queries m)"
proof -
  have "filter is_query_sample (samples (sample2 ''backstop_gateway_queries_total'' ''risk'' ''status'') (queries m))
      = samples (sample2 ''backstop_gateway_queries_total'' ''risk'' ''status'') (queries m)"
    by (simp add: samples_def filter_id_conv sample2_def HasPrefix_def split: prod.splits)
  then show ?thesis
    by (simp only: exposition_def filter_append filter.simps other_samples other_lines if_False
        append_Nil append_Nil2)
qed

text \<open>
  The exposition reports every query exactly once per pair of risk and outcome, with the number
  of times it was counted: after any sequence of counted queries the samples of the query family
  are, in the order of the sorted keys, one line per pair that occurred, each with its own labels
  and its own count.
\<close>

theorem query_samples_exact:
  assumes "\<And>q. q \<in> set qs \<Longrightarrow> CHR ''|'' \<notin> set (fst q)"
    and m: "IncQueries qs (Some NewGatewayMetrics) = Some m"
  shows "\<exists>ps. distinct ps \<and> set ps = set qs \<and> sorted (map query_key ps) \<and>
     filter (\<lambda>l. HasPrefix l ''backstop_gateway_queries_total{'') (exposition m) =
       map (\<lambda>q. query_line q (wrap64 (int (count (mset qs) q)))) ps"
proof -
  let ?c = "foldl (\<lambda>c k. bump k c) [] (map query_key qs)"
  have qm: "queries m = ?c"
    using m by (auto simp: IncQueries_Some NewGatewayMetrics_def)
  let ?ks = "sortedMetricKeys ?c"
  have ks: "set ?ks = query_key ` set qs" "distinct ?ks" "sorted ?ks"
    using foldl_bump_keys [of "map query_key qs"] foldl_bump_distinct [of "map query_key qs"]
    by (simp_all add: sortedMetricKeys_def)
  let ?f = "\<lambda>k. (fst (SplitN2 k CHR ''|''), the (snd (SplitN2 k CHR ''|'')))"
  have f: "?f (query_key q) = q" if "q \<in> set qs" for q
    using SplitN2_query_key [of q] assms(1) that by simp
  have keys_back: "query_key (?f k) = k" if "k \<in> set ?ks" for k
    using that f by (auto simp: ks(1))
  let ?ps = "map ?f ?ks"
  have keys: "map query_key ?ps = ?ks"
    unfolding map_map by (rule map_idI) (simp only: comp_apply keys_back)
  have "set ?ps = ?f ` query_key ` set qs" by (simp only: set_map ks(1))
  also have "\<dots> = set qs" unfolding image_image by (rule trans [OF image_cong [OF refl f] image_ident])
  finally have "set ?ps = set qs" .
  moreover have "distinct ?ps"
    using distinct_map [of query_key ?ps] unfolding keys using ks(2) by blast
  moreover have "filter is_query_sample (exposition m) =
      map (\<lambda>q. query_line q (wrap64 (int (count (mset qs) q)))) ?ps"
    unfolding query_samples qm samples_def map_map
  proof (rule map_cong [OF refl])
    fix k assume "k \<in> set ?ks"
    then obtain q where q: "q \<in> set qs" "k = query_key q" by (auto simp: ks(1))
    have "count (mset (map query_key qs)) (query_key q) = count (mset qs) q"
      by (rule count_query_key) (use q(1) assms(1) in auto)
    then have "map_get_or 0 ?c k = wrap64 (int (count (mset qs) q))"
      using q(2) by (simp add: foldl_bump)
    then show "sample2 ''backstop_gateway_queries_total'' ''risk'' ''status'' k (map_get_or 0 ?c k) =
        ((\<lambda>q. query_line q (wrap64 (int (count (mset qs) q)))) \<circ> ?f) k"
      using q f assms(1) by (simp add: sample2_query_key)
  qed
  ultimately show ?thesis using keys ks(3) by (intro exI [of _ ?ps]) simp
qed

theorem query_samples_exact_witness:
  "\<exists>ps. distinct ps \<and> set ps = {(''SAFE'', ''executed''), (''HIGH'', ''denied'')} \<and> sorted (map query_key ps) \<and>
     filter (\<lambda>l. HasPrefix l ''backstop_gateway_queries_total{'')
         (exposition (the (IncQueries [(''SAFE'', ''executed''), (''HIGH'', ''denied''), (''SAFE'', ''executed'')]
                             (Some NewGatewayMetrics)))) =
       map (\<lambda>q. query_line q (if q = (''SAFE'', ''executed'') then 2 else if q = (''HIGH'', ''denied'') then 1 else 0)) ps"
proof -
  let ?qs = "[(''SAFE'', ''executed''), (''HIGH'', ''denied''), (''SAFE'', ''executed'')]"
  have "wrap64 (int (count (mset ?qs) q)) =
      (if q = (''SAFE'', ''executed'') then 2 else if q = (''HIGH'', ''denied'') then 1 else 0)" for q
    by (simp add: wrap64_def)
  moreover have "q \<in> set ?qs \<Longrightarrow> CHR ''|'' \<notin> set (fst q)" for q by auto
  ultimately show ?thesis
    using query_samples_exact [of ?qs "the (IncQueries ?qs (Some NewGatewayMetrics))"]
    by (simp add: IncQueries_Some insert_commute)
qed

end
