(* ===== verification/Sql_Analyzer.thy ===== *)
theory Sql_Analyzer
  imports Go_Strings
begin

text \<open>
  The SQL classifier of the gateway, \<^verbatim>\<open>gateway/sql_analyzer.go\<close>. The PostgreSQL parser
  (\<^verbatim>\<open>pg_query_go\<close>, third-party) is the parameter \<open>parse\<close> of \<open>analyzeSQL\<close>: it maps a query to an
  error message or to the list of its statements, a \<^verbatim>\<open>nil\<close> statement being \<open>None\<close>. The datatype
  \<open>node\<close> has the node kinds of the parse tree the classifier distinguishes, with the parts its
  getters read, and \<open>OtherNode\<close> for every kind it does not name. A \<open>SelectStmt\<close> carries the
  queries of its WITH clause, which the parser delivers and the classifier does not read.
\<close>

section \<open>Risk levels\<close>

abbreviation RiskSafe :: string where "RiskSafe \<equiv> ''SAFE''"
abbreviation RiskHigh :: string where "RiskHigh \<equiv> ''HIGH''"
abbreviation RiskImpactCritical :: string where "RiskImpactCritical \<equiv> ''IMPACT_CRITICAL''"
abbreviation RiskCritical :: string where "RiskCritical \<equiv> ''CRITICAL''"

section \<open>The parse tree\<close>

record RangeVar =
  schemaname :: string
  relname :: string

datatype TransactionStmtKind =
    TRANS_STMT_BEGIN | TRANS_STMT_START | TRANS_STMT_COMMIT | TRANS_STMT_ROLLBACK
  | TRANS_STMT_SAVEPOINT | TRANS_STMT_RELEASE | TRANS_STMT_ROLLBACK_TO
  | TRANS_STMT_PREPARE | TRANS_STMT_COMMIT_PREPARED | TRANS_STMT_ROLLBACK_PREPARED
  | TRANS_STMT_UNDEFINED

datatype ObjectType = OBJECT_TABLE | OBJECT_DATABASE | OBJECT_SCHEMA | OBJECT_OTHER string

datatype node =
    SelectStmt "node list"
  | VariableShowStmt
  | TransactionStmt TransactionStmtKind
  | VariableSetStmt
  | InsertStmt "RangeVar option"
  | DeleteStmt "RangeVar option" "node option"
  | UpdateStmt "RangeVar option" "node option"
  | MergeStmt "RangeVar option"
  | DropStmt ObjectType "node option list"
  | DropdbStmt
  | TruncateStmt "node option list"
  | ExplainStmt "node option list" "node option"
  | CreateStmt | IndexStmt | ViewStmt | CreateSeqStmt | CreateSchemaStmt | CreateTableAsStmt
  | AlterTableStmt | CopyStmt | CallStmt | DoStmt | RefreshMatViewStmt
  | ListNode "node option list"
  | StringNode string
  | RangeVarNode RangeVar
  | DefElem string
  | OtherNode string
  | EmptyNode

text \<open>
  What \<^verbatim>\<open>fmt.Sprintf("%T", stmt)\<close> prints for a statement of the default branch: the name of the
  wrapper type of the parse tree, and \<^verbatim>\<open><nil>\<close> for a node with nothing in it.
\<close>

fun node_type_name :: "node \<Rightarrow> string" where
  "node_type_name (ListNode _) = ''*pg_query.Node_List''"
| "node_type_name (StringNode _) = ''*pg_query.Node_String_''"
| "node_type_name (RangeVarNode _) = ''*pg_query.Node_RangeVar''"
| "node_type_name (DefElem _) = ''*pg_query.Node_DefElem''"
| "node_type_name (OtherNode k) = ''*pg_query.Node_'' @ k"
| "node_type_name _ = ''<nil>''"

section \<open>The analysis record\<close>

record ImpactAnalysis =
  Status :: string
  ImpactReason :: string
  EstimatedAffectedRows :: int
  EstimatedTableRows :: int
  AffectedPercent :: rat
  ProtectedTable :: bool
  ProtectedColumns :: "string list"
  ImpactCritical :: bool

record sqlAnalysis =
  RiskLevel :: string
  Operation :: string
  Table :: string
  Schema :: string
  StatementCount :: int
  TableRecoverable :: bool
  Reason :: string
  ParseError :: "string option"
  Impact :: "ImpactAnalysis option"

definition safeAnalysis :: "string \<Rightarrow> string \<Rightarrow> sqlAnalysis" where
  "safeAnalysis operation reason =
     \<lparr>RiskLevel = RiskSafe, Operation = operation, Table = '''', Schema = '''', StatementCount = 0,
      TableRecoverable = False, Reason = reason, ParseError = None, Impact = None\<rparr>"

definition highAnalysis :: "string \<Rightarrow> string \<Rightarrow> string \<Rightarrow> string \<Rightarrow> sqlAnalysis" where
  "highAnalysis operation schema table reason =
     \<lparr>RiskLevel = RiskHigh, Operation = operation, Table = table, Schema = schema, StatementCount = 0,
      TableRecoverable = False, Reason = reason, ParseError = None, Impact = None\<rparr>"

definition criticalAnalysis :: "string \<Rightarrow> string \<Rightarrow> string \<Rightarrow> bool \<Rightarrow> string \<Rightarrow> sqlAnalysis" where
  "criticalAnalysis operation schema table recoverable reason =
     \<lparr>RiskLevel = RiskCritical, Operation = operation, Table = table, Schema = schema,
      StatementCount = 0, TableRecoverable = recoverable, Reason = reason, ParseError = None,
      Impact = None\<rparr>"

section \<open>Names in the parse tree\<close>

definition rangeVarParts :: "RangeVar option \<Rightarrow> string \<times> string" where
  "rangeVarParts relation =
     (case relation of None \<Rightarrow> ('''', '''') | Some r \<Rightarrow> (schemaname r, relname r))"

definition rangeVarName :: "RangeVar option \<Rightarrow> string" where
  "rangeVarName relation = snd (rangeVarParts relation)"

text \<open>The nil-safe getters \<open>GetString\<close>, \<open>GetRangeVar\<close> and \<open>GetDefElem\<close> of the parse tree.\<close>

fun GetString :: "node option \<Rightarrow> string option" where
  "GetString (Some (StringNode s)) = Some s"
| "GetString _ = None"

fun GetRangeVar :: "node option \<Rightarrow> RangeVar option" where
  "GetRangeVar (Some (RangeVarNode r)) = Some r"
| "GetRangeVar _ = None"

fun GetDefElem :: "node option \<Rightarrow> string option" where
  "GetDefElem (Some (DefElem d)) = Some d"
| "GetDefElem _ = None"

record relationName =
  schema :: string
  table :: string

fun objectName :: "node option \<Rightarrow> string \<times> string" where
  "objectName None = ('''', '''')"
| "objectName (Some (ListNode items)) =
     (if items = [] then ('''', '''')
      else
        let tbl = (case GetString (last items) of None \<Rightarrow> '''' | Some v \<Rightarrow> v);
            sch = (if 1 < length items
                   then case GetString (items ! (length items - 2)) of None \<Rightarrow> '''' | Some v \<Rightarrow> v
                   else '''')
        in (sch, tbl))"
| "objectName (Some (StringNode v)) = ('''', v)"
| "objectName (Some (RangeVarNode r)) = rangeVarParts (Some r)"
| "objectName _ = ('''', '''')"

fun relationNodeNames :: "node option list \<Rightarrow> relationName list" where
  "relationNodeNames [] = []"
| "relationNodeNames (n # ns) =
     (let (sch, tbl) = rangeVarParts (GetRangeVar n)
      in if tbl \<noteq> '''' then \<lparr>schema = sch, table = tbl\<rparr> # relationNodeNames ns
         else relationNodeNames ns)"

fun dropObjectNames :: "node option list \<Rightarrow> relationName list" where
  "dropObjectNames [] = []"
| "dropObjectNames (n # ns) =
     (let (sch, tbl) = objectName n
      in if tbl \<noteq> '''' then \<lparr>schema = sch, table = tbl\<rparr> # dropObjectNames ns
         else dropObjectNames ns)"

text \<open>The schema the loops of \<open>analyzeDrop\<close> and \<open>analyzeTruncate\<close> keep: the first non-empty one.\<close>

fun first_schema :: "relationName list \<Rightarrow> string" where
  "first_schema [] = ''''"
| "first_schema (r # rs) = (if schema r \<noteq> '''' then schema r else first_schema rs)"

section \<open>Statements\<close>

definition highRelationAnalysis :: "string \<Rightarrow> RangeVar option \<Rightarrow> string \<Rightarrow> sqlAnalysis" where
  "highRelationAnalysis operation relation reason =
     (let (sch, tbl) = rangeVarParts relation in highAnalysis operation sch tbl reason)"

definition analyzeTransaction :: "TransactionStmtKind \<Rightarrow> sqlAnalysis" where
  "analyzeTransaction kind =
     (if kind \<in> {TRANS_STMT_BEGIN, TRANS_STMT_START, TRANS_STMT_COMMIT, TRANS_STMT_ROLLBACK,
                 TRANS_STMT_SAVEPOINT, TRANS_STMT_RELEASE, TRANS_STMT_ROLLBACK_TO}
      then safeAnalysis ''TRANSACTION'' ''transaction control statement''
      else highAnalysis ''TRANSACTION'' '''' '''' ''prepared transaction statement changes database state'')"

fun object_type_name :: "ObjectType \<Rightarrow> string" where
  "object_type_name OBJECT_TABLE = ''OBJECT_TABLE''"
| "object_type_name OBJECT_DATABASE = ''OBJECT_DATABASE''"
| "object_type_name OBJECT_SCHEMA = ''OBJECT_SCHEMA''"
| "object_type_name (OBJECT_OTHER n) = n"

fun analyzeDrop :: "ObjectType \<Rightarrow> node option list \<Rightarrow> sqlAnalysis" where
  "analyzeDrop OBJECT_TABLE objects =
     (let names = dropObjectNames objects; tables = map table names in
      case tables of
        [t] \<Rightarrow> criticalAnalysis ''DROP TABLE'' (first_schema names) t True ''DROP TABLE destroys a table''
      | _ \<Rightarrow> criticalAnalysis ''DROP TABLE'' '''' (Join tables '','') False
               ''DROP TABLE must target exactly one table for sidecar recovery'')"
| "analyzeDrop OBJECT_DATABASE objects =
     criticalAnalysis ''DROP DATABASE'' '''' '''' False ''DROP DATABASE is not recoverable by table snapshots''"
| "analyzeDrop OBJECT_SCHEMA objects =
     criticalAnalysis ''DROP SCHEMA'' '''' '''' False ''DROP SCHEMA is not recoverable by table snapshots''"
| "analyzeDrop kind objects =
     highAnalysis ''DROP'' '''' '''' (''DROP '' @ object_type_name kind @ '' changes database objects'')"

definition analyzeTruncate :: "node option list \<Rightarrow> sqlAnalysis" where
  "analyzeTruncate relations =
     (let names = relationNodeNames relations; tables = map table names in
      case tables of
        [t] \<Rightarrow> criticalAnalysis ''TRUNCATE'' (first_schema names) t True ''TRUNCATE removes all rows from a table''
      | _ \<Rightarrow> criticalAnalysis ''TRUNCATE'' '''' (Join tables '','') False
               ''TRUNCATE must target exactly one table for sidecar recovery'')"

fun explainAnalyze :: "node option list \<Rightarrow> bool" where
  "explainAnalyze [] = False"
| "explainAnalyze (opt # opts) =
     (case GetDefElem opt of
        None \<Rightarrow> explainAnalyze opts
      | Some name \<Rightarrow> (if EqualFold name ''analyze'' then True else explainAnalyze opts))"

function analyzeStatement :: "node option \<Rightarrow> sqlAnalysis"
  and analyzeExplain :: "node option list \<Rightarrow> node option \<Rightarrow> sqlAnalysis" where
  "analyzeStatement None = criticalAnalysis ''UNKNOWN'' '''' '''' False ''statement node is missing''"
| "analyzeStatement (Some n) =
     (case n of
        SelectStmt ctes \<Rightarrow> safeAnalysis ''SELECT'' ''read-only SELECT''
      | VariableShowStmt \<Rightarrow> safeAnalysis ''SHOW'' ''read-only SHOW''
      | TransactionStmt kind \<Rightarrow> analyzeTransaction kind
      | VariableSetStmt \<Rightarrow> safeAnalysis ''SET'' ''session variable change''
      | InsertStmt r \<Rightarrow> highRelationAnalysis ''INSERT'' r ''INSERT modifies table data''
      | DeleteStmt r w \<Rightarrow>
          (let (sch, tbl) = rangeVarParts r in
           if w = None
           then criticalAnalysis ''DELETE'' sch tbl (tbl \<noteq> '''') ''DELETE without WHERE removes all rows''
           else highAnalysis ''DELETE'' sch tbl ''DELETE with WHERE modifies table data'')
      | UpdateStmt r w \<Rightarrow>
          (let (sch, tbl) = rangeVarParts r in
           if w = None
           then criticalAnalysis ''UPDATE'' sch tbl (tbl \<noteq> '''') ''UPDATE without WHERE modifies all rows''
           else highAnalysis ''UPDATE'' sch tbl ''UPDATE with WHERE modifies table data'')
      | MergeStmt r \<Rightarrow> highRelationAnalysis ''MERGE'' r ''MERGE modifies table data''
      | DropStmt kind objects \<Rightarrow> analyzeDrop kind objects
      | DropdbStmt \<Rightarrow> criticalAnalysis ''DROP DATABASE'' '''' '''' False
                        ''DROP DATABASE is not recoverable by table snapshots''
      | TruncateStmt relations \<Rightarrow> analyzeTruncate relations
      | ExplainStmt options query \<Rightarrow> analyzeExplain options query
      | CreateStmt \<Rightarrow> highAnalysis ''DDL'' '''' '''' ''DDL changes database objects''
      | IndexStmt \<Rightarrow> highAnalysis ''DDL'' '''' '''' ''DDL changes database objects''
      | ViewStmt \<Rightarrow> highAnalysis ''DDL'' '''' '''' ''DDL changes database objects''
      | CreateSeqStmt \<Rightarrow> highAnalysis ''DDL'' '''' '''' ''DDL changes database objects''
      | CreateSchemaStmt \<Rightarrow> highAnalysis ''DDL'' '''' '''' ''DDL changes database objects''
      | CreateTableAsStmt \<Rightarrow> highAnalysis ''DDL'' '''' '''' ''DDL changes database objects''
      | AlterTableStmt \<Rightarrow> highAnalysis ''WRITE'' '''' '''' ''statement may modify database state''
      | CopyStmt \<Rightarrow> highAnalysis ''WRITE'' '''' '''' ''statement may modify database state''
      | CallStmt \<Rightarrow> highAnalysis ''WRITE'' '''' '''' ''statement may modify database state''
      | DoStmt \<Rightarrow> highAnalysis ''WRITE'' '''' '''' ''statement may modify database state''
      | RefreshMatViewStmt \<Rightarrow> highAnalysis ''WRITE'' '''' '''' ''statement may modify database state''
      | other \<Rightarrow> criticalAnalysis (node_type_name other) '''' '''' False
                   ''parsed statement kind is not explicitly classified'')"
| "analyzeExplain options query =
     (if explainAnalyze options
      then let inner = analyzeStatement query
           in inner\<lparr>Operation := ''EXPLAIN ANALYZE '' @ Operation inner\<rparr>
      else safeAnalysis ''EXPLAIN'' ''EXPLAIN without ANALYZE does not execute the query'')"
  by pat_completeness auto
termination
  by (relation "measure (\<lambda>x. case x of Inl n \<Rightarrow> 2 * size_option size n
                                   | Inr (opts, q) \<Rightarrow> Suc (2 * size_option size q))") auto

section \<open>Batches\<close>

definition riskRank :: "string \<Rightarrow> int" where
  "riskRank level =
     (if level = RiskCritical then 3
      else if level = RiskImpactCritical then 3
      else if level = RiskHigh then 2
      else 0)"

definition higherRisk :: "sqlAnalysis \<Rightarrow> sqlAnalysis \<Rightarrow> sqlAnalysis" where
  "higherRisk current nxt =
     (if riskRank (RiskLevel nxt) > riskRank (RiskLevel current) then nxt else current)"

text \<open>
  The variables of the loop over the statements. The Go map \<open>criticalTables\<close> is used as a set of
  keys; \<open>sortedKeys\<close> makes its order irrelevant.
\<close>

record batch =
  result :: "sqlAnalysis option"
  criticalTables :: "string list"
  criticalSchemas :: "(string, string) gomap"
  criticalUnrecoverable :: bool

definition batch0 :: batch where
  "batch0 = \<lparr>result = None, criticalTables = [], criticalSchemas = [], criticalUnrecoverable = False\<rparr>"

definition batch_step :: "batch \<Rightarrow> node option \<Rightarrow> batch" where
  "batch_step b raw =
     (let statement = analyzeStatement raw;
          b1 = b\<lparr>result := Some (case result b of None \<Rightarrow> statement | Some r \<Rightarrow> higherRisk r statement)\<rparr>
      in if RiskLevel statement = RiskCritical
         then if TableRecoverable statement \<and> Table statement \<noteq> ''''
              then b1\<lparr>criticalTables := List.insert (Table statement) (criticalTables b1),
                      criticalSchemas := (if Schema statement \<noteq> ''''
                                          then map_put (Table statement) (Schema statement) (criticalSchemas b1)
                                          else criticalSchemas b1)\<rparr>
              else b1\<lparr>criticalUnrecoverable := True\<rparr>
         else b1)"

definition sortedKeys :: "string list \<Rightarrow> string list" where
  "sortedKeys values = sort values"

definition batch_result :: "batch \<Rightarrow> sqlAnalysis \<Rightarrow> sqlAnalysis" where
  \<comment> \<open>the block after the loop: what is recorded of the tables of a CRITICAL batch\<close>
  "batch_result b r =
     (if RiskLevel r = RiskCritical
      then let tables = sortedKeys (criticalTables b) in
           if length tables = 1 \<and> \<not> criticalUnrecoverable b
           then r\<lparr>Table := hd tables, Schema := map_get_or '''' (criticalSchemas b) (hd tables),
                  TableRecoverable := True\<rparr>
           else if 1 < length tables
           then r\<lparr>Table := Join tables '','', TableRecoverable := False,
                  Reason := ''CRITICAL SQL affects multiple tables; require a single table recovery point''\<rparr>
           else if criticalUnrecoverable b
           then r\<lparr>Table := '''', TableRecoverable := False\<rparr>
           else r
      else r)"

definition analyzeSQL :: "(string \<Rightarrow> string + node option list) \<Rightarrow> string \<Rightarrow> sqlAnalysis" where
  "analyzeSQL parse query =
     (if TrimSpace query = '''' then safeAnalysis ''EMPTY'' ''empty SQL is a validation no-op''
      else case parse query of
        Inl err \<Rightarrow>
          (criticalAnalysis ''PARSE_FAILURE'' '''' '''' False
             ''PostgreSQL parser rejected SQL; gateway fails closed'')\<lparr>ParseError := Some err\<rparr>
      | Inr statements \<Rightarrow>
          (if statements = [] then safeAnalysis ''EMPTY'' ''no parseable SQL statements''
           else let b = foldl batch_step batch0 statements
                in (batch_result b (the (result b)))\<lparr>StatementCount := int (length statements)\<rparr>))"

definition classifySQL :: "(string \<Rightarrow> string + node option list) \<Rightarrow> string \<Rightarrow> string" where
  "classifySQL parse query = RiskLevel (analyzeSQL parse query)"

section \<open>The recovery table of a critical query\<close>

definition criticalRecoveryTableFromAnalysis :: "sqlAnalysis \<Rightarrow> string + string" where
  "criticalRecoveryTableFromAnalysis analysis =
     (if RiskLevel analysis \<noteq> RiskCritical \<and> RiskLevel analysis \<noteq> RiskImpactCritical
      then Inl ''query is not CRITICAL''
      else if \<not> TableRecoverable analysis \<or> TrimSpace (Table analysis) = ''''
      then (case ParseError analysis of
              Some e \<Rightarrow> Inl (Reason analysis @ '': '' @ e)
            | None \<Rightarrow> Inl (Reason analysis))
      else if Contains (Table analysis) '',''
      then Inl ''CRITICAL SQL must target exactly one table for sidecar recovery''
      else Inr (Table analysis))"

definition criticalRecoveryTable ::
  "(string \<Rightarrow> string + node option list) \<Rightarrow> string \<Rightarrow> string + string" where
  "criticalRecoveryTable parse query = criticalRecoveryTableFromAnalysis (analyzeSQL parse query)"

section \<open>Lemmas on single statements\<close>

lemmas analysis_defs =
  safeAnalysis_def highAnalysis_def criticalAnalysis_def highRelationAnalysis_def
  analyzeTransaction_def analyzeTruncate_def

lemma RiskLevel_analyzers [simp]:
  "RiskLevel (safeAnalysis oper why) = RiskSafe"
  "RiskLevel (highAnalysis oper sch tbl why) = RiskHigh"
  "RiskLevel (criticalAnalysis oper sch tbl rec why) = RiskCritical"
  "RiskLevel (highRelationAnalysis oper r why) = RiskHigh"
  by (simp_all add: analysis_defs split: prod.splits)

lemma RiskLevel_analyzeDrop [simp]:
  "RiskLevel (analyzeDrop kind objects) = (case kind of OBJECT_OTHER _ \<Rightarrow> RiskHigh | _ \<Rightarrow> RiskCritical)"
  by (cases kind) (simp_all add: Let_def split: list.splits)

lemma RiskLevel_analyzeTruncate [simp]: "RiskLevel (analyzeTruncate rels) = RiskCritical"
  by (simp add: analyzeTruncate_def Let_def split: list.splits)

lemma RiskLevel_analyzeTransaction:
  "RiskLevel (analyzeTransaction kind) = RiskSafe \<or> RiskLevel (analyzeTransaction kind) = RiskHigh"
  by (simp add: analyzeTransaction_def)

lemma analyze_risk_cases:
  "RiskLevel (analyzeStatement n) \<in> {RiskSafe, RiskHigh, RiskCritical}"
  "RiskLevel (analyzeExplain opts q) \<in> {RiskSafe, RiskHigh, RiskCritical}"
proof (induction n and opts q rule: analyzeStatement_analyzeExplain.induct)
  case 1
  then show ?case by simp
next
  case (2 n)
  then show ?case
    using RiskLevel_analyzeTransaction
    by (cases n) (auto simp: Let_def split: prod.splits ObjectType.splits)
next
  case (3 options query)
  then show ?case by (auto simp: Let_def)
qed

text \<open>
  An independent list of the statements the classifier passes as SAFE: reads, session settings,
  transaction control, EXPLAIN without ANALYZE, and EXPLAIN ANALYZE of such a statement.
\<close>

fun read_only :: "node option \<Rightarrow> bool" where
  "read_only (Some (SelectStmt _)) = True"
| "read_only (Some VariableShowStmt) = True"
| "read_only (Some VariableSetStmt) = True"
| "read_only (Some (TransactionStmt k)) =
     (k \<notin> {TRANS_STMT_PREPARE, TRANS_STMT_COMMIT_PREPARED, TRANS_STMT_ROLLBACK_PREPARED, TRANS_STMT_UNDEFINED})"
| "read_only (Some (ExplainStmt opts q)) = (explainAnalyze opts \<longrightarrow> read_only q)"
| "read_only _ = False"

lemma RiskSafe_iff_read_only:
  "RiskLevel (analyzeStatement n) = RiskSafe \<longleftrightarrow> read_only n"
  "RiskLevel (analyzeExplain opts q) = RiskSafe \<longleftrightarrow> (explainAnalyze opts \<longrightarrow> read_only q)"
proof (induction n and opts q rule: analyzeStatement_analyzeExplain.induct)
  case 1
  then show ?case by simp
next
  case (2 n)
  show ?case
  proof (cases n)
    case (TransactionStmt k)
    then show ?thesis by (cases k) (simp_all add: analyzeTransaction_def)
  qed (use 2 in \<open>simp_all split: prod.splits ObjectType.splits\<close>)
next
  case (3 options query)
  then show ?case by (simp add: Let_def)
qed

section \<open>Lemmas on batches\<close>

definition analyses :: "node option list \<Rightarrow> sqlAnalysis list" where
  "analyses sts = map analyzeStatement sts"

definition criticals :: "node option list \<Rightarrow> sqlAnalysis list" where
  "criticals sts = filter (\<lambda>a. RiskLevel a = RiskCritical) (analyses sts)"

definition has_table :: "sqlAnalysis \<Rightarrow> bool" where
  "has_table a \<longleftrightarrow> TableRecoverable a \<and> Table a \<noteq> ''''"

lemma batch_tables:
  "set (criticalTables (foldl batch_step batch0 sts)) = Table ` {a \<in> set (criticals sts). has_table a}"
proof (induction sts rule: rev_induct)
  case Nil
  then show ?case by (simp add: batch0_def criticals_def analyses_def)
next
  case (snoc n sts)
  then show ?case
    by (auto simp: batch_step_def Let_def criticals_def analyses_def has_table_def)
qed

lemma batch_tables_distinct: "distinct (criticalTables (foldl batch_step batch0 sts))"
  by (induction sts rule: rev_induct) (auto simp: batch0_def batch_step_def Let_def)

lemma batch_unrecoverable:
  "criticalUnrecoverable (foldl batch_step batch0 sts) \<longleftrightarrow> (\<exists>a \<in> set (criticals sts). \<not> has_table a)"
proof (induction sts rule: rev_induct)
  case Nil
  then show ?case by (simp add: batch0_def criticals_def analyses_def)
next
  case (snoc n sts)
  then show ?case
    by (auto simp: batch_step_def Let_def criticals_def analyses_def has_table_def)
qed

lemma result_batch_step:
  "result (batch_step b n) = Some (case result b of None \<Rightarrow> analyzeStatement n
                                    | Some r \<Rightarrow> higherRisk r (analyzeStatement n))"
  by (simp add: batch_step_def Let_def)

lemma batch_result_max:
  "result (foldl batch_step batch0 sts) = Some r \<Longrightarrow>
     r \<in> set (analyses sts) \<and> (\<forall>a \<in> set (analyses sts). riskRank (RiskLevel a) \<le> riskRank (RiskLevel r))"
proof (induction sts arbitrary: r rule: rev_induct)
  case Nil
  then show ?case by (simp add: batch0_def)
next
  case (snoc n sts)
  let ?b = "foldl batch_step batch0 sts"
  have empty: "result ?b = None \<Longrightarrow> sts = []"
    by (cases sts rule: rev_cases) (simp_all add: result_batch_step)
  show ?case
  proof (cases "result ?b")
    case None
    with snoc.prems empty show ?thesis by (simp add: result_batch_step analyses_def batch0_def)
  next
    case (Some r')
    with snoc.IH [OF Some] snoc.prems show ?thesis
      by (force simp: result_batch_step analyses_def higherRisk_def split: if_splits)
  qed
qed

lemma batch_result_exists: "sts \<noteq> [] \<Longrightarrow> \<exists>r. result (foldl batch_step batch0 sts) = Some r"
  by (cases sts rule: rev_cases) (simp_all add: result_batch_step)

lemma RiskLevel_batch_result [simp]: "RiskLevel (batch_result b r) = RiskLevel r"
  by (simp add: batch_result_def Let_def)

lemma Operation_batch_result [simp]: "Operation (batch_result b r) = Operation r"
  by (simp add: batch_result_def Let_def)

lemma riskRank_critical: "l \<in> {RiskSafe, RiskHigh, RiskCritical} \<Longrightarrow> riskRank l = 3 \<longleftrightarrow> l = RiskCritical"
  by (auto simp: riskRank_def)

lemma riskRank_le3: "riskRank l \<le> 3"
  by (simp add: riskRank_def)

text \<open>The branch of \<open>analyzeSQL\<close> that has statements to look at.\<close>

lemma analyzeSQL_stmts:
  assumes "TrimSpace q \<noteq> ''''" "parse q = Inr sts" "sts \<noteq> []"
  obtains r where "result (foldl batch_step batch0 sts) = Some r"
    and "analyzeSQL parse q =
      (batch_result (foldl batch_step batch0 sts) r)\<lparr>StatementCount := int (length sts)\<rparr>"
  using assms batch_result_exists [OF assms(3)] by (auto simp: analyzeSQL_def Let_def)

lemma criticals_iff_critical_result:
  assumes "result (foldl batch_step batch0 sts) = Some r"
  shows "RiskLevel r = RiskCritical \<longleftrightarrow> criticals sts \<noteq> []"
proof
  assume "RiskLevel r = RiskCritical"
  with batch_result_max [OF assms] show "criticals sts \<noteq> []"
    by (auto simp: criticals_def filter_empty_conv)
next
  assume "criticals sts \<noteq> []"
  then obtain a where a: "a \<in> set (analyses sts)" "RiskLevel a = RiskCritical"
    by (auto simp: criticals_def filter_empty_conv)
  then have "riskRank (RiskLevel a) = 3" by (simp add: riskRank_def)
  moreover have "riskRank (RiskLevel a) \<le> riskRank (RiskLevel r)"
    using batch_result_max [OF assms] a(1) by blast
  ultimately have "riskRank (RiskLevel r) = 3" using riskRank_le3 [of "RiskLevel r"] by linarith
  moreover have "RiskLevel r \<in> {RiskSafe, RiskHigh, RiskCritical}"
    using batch_result_max [OF assms] analyze_risk_cases(1) by (auto simp: analyses_def)
  ultimately show "RiskLevel r = RiskCritical" by (simp only: riskRank_critical)
qed

text \<open>
  When all critical statements of a batch have one and the same table, the batch is recoverable
  and has that table; otherwise it is not recoverable.
\<close>

definition single_target :: "node option list \<Rightarrow> string \<Rightarrow> bool" where
  "single_target sts t \<longleftrightarrow> criticals sts \<noteq> [] \<and> (\<forall>a \<in> set (criticals sts). has_table a \<and> Table a = t)"

lemma batch_recoverable:
  assumes r: "result (foldl batch_step batch0 sts) = Some r" and crit: "RiskLevel r = RiskCritical"
  shows "TableRecoverable (batch_result (foldl batch_step batch0 sts) r) \<and>
           Table (batch_result (foldl batch_step batch0 sts) r) = t \<longleftrightarrow> single_target sts t"
proof -
  let ?b = "foldl batch_step batch0 sts"
  let ?ts = "sortedKeys (criticalTables ?b)"
  have set_ts: "set ?ts = Table ` {a \<in> set (criticals sts). has_table a}"
    by (simp add: sortedKeys_def batch_tables)
  have ne: "criticals sts \<noteq> []" using criticals_iff_critical_result [OF r] crit by simp
  consider (one) u where "?ts = [u]" "\<not> criticalUnrecoverable ?b"
    | (bad) "length ?ts \<le> 1" "criticalUnrecoverable ?b"
    | (many) "1 < length ?ts"
    | (none) "?ts = []" "\<not> criticalUnrecoverable ?b"
    by (cases ?ts rule: list.exhaust; cases "tl ?ts") auto
  then show ?thesis
  proof cases
    case one
    then have all: "\<forall>a \<in> set (criticals sts). has_table a \<and> Table a = u"
      using set_ts batch_unrecoverable by auto
    then have "single_target sts t \<longleftrightarrow> u = t" using ne by (cases "criticals sts") (auto simp: single_target_def)
    with one crit show ?thesis by (simp add: batch_result_def Let_def)
  next
    case bad
    then show ?thesis
      using crit batch_unrecoverable by (auto simp: batch_result_def Let_def single_target_def)
  next
    case many
    have "distinct ?ts" using batch_tables_distinct by (simp add: sortedKeys_def)
    with many obtain v w where "v \<in> set ?ts" "w \<in> set ?ts" "v \<noteq> w"
      by (cases ?ts; cases "tl ?ts") auto
    with set_ts have "\<not> single_target sts t" by (auto simp: single_target_def)
    with many crit show ?thesis by (simp add: batch_result_def Let_def)
  next
    case none
    with ne set_ts batch_unrecoverable show ?thesis by (cases "criticals sts") auto
  qed
qed

section \<open>Sample queries\<close>

text \<open>
  A table of parse trees for a few queries, used where a theorem is applied at a concrete input:
  it stands for the parser on these queries and rejects everything else.
\<close>

definition users :: RangeVar where
  "users = \<lparr>schemaname = '''', relname = ''users''\<rparr>"

definition sample_parse :: "string \<Rightarrow> string + node option list" where
  "sample_parse q =
     (if q = ''SELECT 1'' then Inr [Some (SelectStmt [])]
      else if q = ''DELETE FROM users'' then Inr [Some (DeleteStmt (Some users) None)]
      else if q = ''DELETE FROM users WHERE id=1''
      then Inr [Some (DeleteStmt (Some users) (Some (OtherNode ''A_Expr'')))]
      else if q = ''DROP TABLE users'' then Inr [Some (DropStmt OBJECT_TABLE [Some (ListNode [Some (StringNode ''users'')])])]
      else if q = ''SELECT 1; DROP TABLE users''
      then Inr [Some (SelectStmt []), Some (DropStmt OBJECT_TABLE [Some (ListNode [Some (StringNode ''users'')])])]
      else if q = ''DROP DATABASE prod'' then Inr [Some DropdbStmt]
      else if q = ''LISTEN c'' then Inr [Some (OtherNode ''ListenStmt'')]
      else Inl ''syntax error'')"

lemma TrimSpace_samples [simp]:
  "TrimSpace ''SELECT 1'' = ''SELECT 1''"
  "TrimSpace ''DELETE FROM users'' = ''DELETE FROM users''"
  "TrimSpace ''DELETE FROM users WHERE id=1'' = ''DELETE FROM users WHERE id=1''"
  "TrimSpace ''DROP TABLE users'' = ''DROP TABLE users''"
  "TrimSpace ''SELECT 1; DROP TABLE users'' = ''SELECT 1; DROP TABLE users''"
  "TrimSpace ''DROP DATABASE prod'' = ''DROP DATABASE prod''"
  "TrimSpace ''LISTEN c'' = ''LISTEN c''"
  "TrimSpace ''users'' = ''users''"
  by (simp_all add: TrimSpace_plain space_first_def space_last_def)

section \<open>Properties\<close>

text \<open>
  The risk of a batch is the highest risk of its statements: it is the risk of one of them,
  and no statement has a higher rank, so a dangerous statement cannot hide behind harmless ones.
\<close>

theorem analyzeSQL_highest_risk:
  assumes "TrimSpace q \<noteq> ''''" "parse q = Inr sts" "sts \<noteq> []"
  shows "RiskLevel (analyzeSQL parse q) \<in> RiskLevel ` set (map analyzeStatement sts) \<and>
    (\<forall>st \<in> set sts. riskRank (RiskLevel (analyzeStatement st)) \<le> riskRank (RiskLevel (analyzeSQL parse q)))"
proof -
  obtain r where r: "result (foldl batch_step batch0 sts) = Some r"
    and eq: "analyzeSQL parse q =
      (batch_result (foldl batch_step batch0 sts) r)\<lparr>StatementCount := int (length sts)\<rparr>"
    using analyzeSQL_stmts [of q parse sts, OF assms] .
  from batch_result_max [OF r] show ?thesis by (auto simp: eq analyses_def)
qed

theorem analyzeSQL_highest_risk_witness:
  "RiskLevel (analyzeSQL sample_parse ''SELECT 1; DROP TABLE users'') \<in> {RiskSafe, RiskCritical} \<and>
   3 \<le> riskRank (RiskLevel (analyzeSQL sample_parse ''SELECT 1; DROP TABLE users''))"
  using analyzeSQL_highest_risk [of "''SELECT 1; DROP TABLE users''" sample_parse]
  by (simp add: sample_parse_def riskRank_def)

text \<open>
  The gateway asks for the recovery point of a table exactly when every critical statement of
  the query is recoverable from that one table: the table is named only if it covers all critical
  statements, and it is named whenever there is such a table.
\<close>

theorem criticalRecoveryTable_iff:
  assumes "TrimSpace q \<noteq> ''''" "parse q = Inr sts"
  shows "criticalRecoveryTable parse q = Inr t \<longleftrightarrow>
           single_target sts t \<and> TrimSpace t \<noteq> '''' \<and> CHR '','' \<notin> set t"
proof (cases "sts = []")
  case True
  with assms show ?thesis
    by (simp add: criticalRecoveryTable_def criticalRecoveryTableFromAnalysis_def analyzeSQL_def
        single_target_def criticals_def analyses_def)
next
  case False
  obtain r where r: "result (foldl batch_step batch0 sts) = Some r"
    and eq: "analyzeSQL parse q =
      (batch_result (foldl batch_step batch0 sts) r)\<lparr>StatementCount := int (length sts)\<rparr>"
    using analyzeSQL_stmts [of q parse sts, OF assms False] .
  have levels: "RiskLevel r \<in> {RiskSafe, RiskHigh, RiskCritical}"
    using batch_result_max [OF r] analyze_risk_cases(1) by (auto simp: analyses_def)
  show ?thesis
  proof (cases "RiskLevel r = RiskCritical")
    case True
    then show ?thesis
      using batch_recoverable [OF r True, of t]
      by (auto simp: criticalRecoveryTable_def criticalRecoveryTableFromAnalysis_def eq Contains_char
          split: option.splits)
  next
    case False
    with levels criticals_iff_critical_result [OF r] show ?thesis
      by (auto simp: criticalRecoveryTable_def criticalRecoveryTableFromAnalysis_def eq
          single_target_def)
  qed
qed

theorem criticalRecoveryTable_iff_witness:
  "criticalRecoveryTable sample_parse ''SELECT 1; DROP TABLE users'' = Inr ''users''"
  using criticalRecoveryTable_iff [of "''SELECT 1; DROP TABLE users''" sample_parse _ "''users''"]
  by (auto simp: sample_parse_def single_target_def criticals_def analyses_def has_table_def
      criticalAnalysis_def safeAnalysis_def Let_def)

text \<open>
  A statement passes as SAFE, and so without approval under the default policy, exactly when
  it is one of the listed reads, settings and transaction controls, or an EXPLAIN that executes
  nothing but such a statement. Everything else, unknown statement kinds included, is HIGH or
  CRITICAL.
\<close>

theorem analyzeStatement_safe_iff:
  "RiskLevel (analyzeStatement n) = RiskSafe \<longleftrightarrow> read_only n"
  by (rule RiskSafe_iff_read_only(1))

end
