(* ===== verification/Go_Numbers.thy ===== *)
theory Go_Numbers
  imports Prelude "HOL-Library.Log_Nat"
begin

text \<open>
  Go's \<^verbatim>\<open>float64\<close> arithmetic as the program uses it: a float is the rational number it stands
  for, and every operation rounds its exact result to the nearest number with a 53-bit
  significand, ties to even (\<open>fl64\<close>). The program computes quotients of row counts and a product
  with 100; these stay far inside the exponent range, so overflow and subnormal numbers do not
  occur and are not modelled. Conversions from \<^verbatim>\<open>int64\<close> round the same way; a conversion to
  \<^verbatim>\<open>int64\<close> truncates, and out of range yields the smallest \<^verbatim>\<open>int64\<close>, as on amd64.
\<close>

definition round_half_even :: "rat \<Rightarrow> int" where
  "round_half_even x =
     (let f = \<lfloor>x\<rfloor>; d = x - of_int f in
      if d < 1 / 2 then f else if 1 / 2 < d then f + 1 else if even f then f else f + 1)"

definition log2_floor :: "rat \<Rightarrow> int" where
  \<comment> \<open>for \<open>0 < x\<close>, the exponent \<open>e\<close> with \<open>2 ^ e \<le> x < 2 ^ (e + 1)\<close>\<close>
  "log2_floor x =
     (let (p, q) = quotient_of x; e = bitlen p - bitlen q in
      if 2 powi e \<le> x then e else e - 1)"

definition fl64 :: "rat \<Rightarrow> rat" where
  "fl64 x = (if x = 0 then 0
             else let s = 2 powi (log2_floor \<bar>x\<bar> - 52) in of_int (round_half_even (x / s)) * s)"

definition float_of_int :: "int \<Rightarrow> rat" where
  "float_of_int n = fl64 (of_int n)"

definition fdiv :: "rat \<Rightarrow> rat \<Rightarrow> rat" where
  "fdiv x y = fl64 (x / y)"

definition fmul :: "rat \<Rightarrow> rat \<Rightarrow> rat" where
  "fmul x y = fl64 (x * y)"

definition int64_of_float :: "rat \<Rightarrow> int" where
  "int64_of_float x =
     (let t = (if 0 \<le> x then \<lfloor>x\<rfloor> else \<lceil>x\<rceil>) in if in_int64 t then t else - (2 ^ 63))"

lemma round_half_even_mono: "x \<le> y \<Longrightarrow> round_half_even x \<le> round_half_even y"
proof -
  assume le: "x \<le> y"
  show ?thesis
  proof (cases "\<lfloor>x\<rfloor> = \<lfloor>y\<rfloor>")
    case True
    with le show ?thesis by (auto simp: round_half_even_def Let_def)
  next
    case False
    with floor_mono [OF le] have "\<lfloor>x\<rfloor> + 1 \<le> \<lfloor>y\<rfloor>" by linarith
    then show ?thesis by (auto simp: round_half_even_def Let_def)
  qed
qed

lemma round_half_even_of_int [simp]: "round_half_even (of_int n) = n"
  by (simp add: round_half_even_def)

lemma round_half_even_nonneg: "0 \<le> x \<Longrightarrow> 0 \<le> round_half_even x"
  using round_half_even_mono [of 0 x] round_half_even_of_int [of 0] by simp

lemma fl64_0 [simp]: "fl64 0 = 0"
  by (simp add: fl64_def)

lemma fl64_nonneg: "0 \<le> x \<Longrightarrow> 0 \<le> fl64 x"
  by (simp add: fl64_def Let_def round_half_even_nonneg)

lemma int64_of_float_in_int64: "in_int64 (int64_of_float x)"
  by (simp add: int64_of_float_def Let_def in_int64_def)

end
