(* ===== verification/Go_Json.thy ===== *)
theory Go_Json
  imports Go_Strings Go_Numbers
begin

text \<open>
  What the program uses of \<^verbatim>\<open>encoding/json\<close>: JSON values as trees, decoding of a tree into basic
  types, slices, maps and structs, and encoding of structs. A text is represented by the tree it
  denotes; strings are taken to be valid UTF-8. A struct's decoder is a table of its fields, and a
  key selects the field of exactly that name or else the first field whose name differs in case
  only.
\<close>

section \<open>JSON trees\<close>

text \<open>
  A number literal without fraction and exponent is a \<open>JInt\<close>; any other is a \<open>JFloat\<close> with the
  float64 it denotes.
\<close>

datatype json =
    JNull
  | JBool bool
  | JInt int
  | JFloat rat
  | JStr string
  | JArr "json list"
  | JObj "(string \<times> json) list"

text \<open>
  \<^verbatim>\<open>json.Unmarshal\<close> of a value into a variable that holds \<open>old\<close>: \<open>None\<close> is a type error; a
  \<^verbatim>\<open>null\<close> leaves a basic type alone and makes a slice or a map nil.
\<close>

definition into_bool :: "json \<Rightarrow> bool \<Rightarrow> bool option" where
  "into_bool v old = (case v of JBool b \<Rightarrow> Some b | JNull \<Rightarrow> Some old | _ \<Rightarrow> None)"

definition into_int :: "json \<Rightarrow> int \<Rightarrow> int option" where
  "into_int v old =
     (case v of JInt n \<Rightarrow> (if in_int64 n then Some n else None) | JNull \<Rightarrow> Some old | _ \<Rightarrow> None)"

definition into_float :: "json \<Rightarrow> rat \<Rightarrow> rat option" where
  "into_float v old =
     (case v of JInt n \<Rightarrow> Some (float_of_int n) | JFloat x \<Rightarrow> Some x | JNull \<Rightarrow> Some old | _ \<Rightarrow> None)"

definition into_str :: "json \<Rightarrow> string \<Rightarrow> string option" where
  "into_str v old = (case v of JStr s \<Rightarrow> Some s | JNull \<Rightarrow> Some old | _ \<Rightarrow> None)"

fun all_some :: "'a option list \<Rightarrow> 'a list option" where
  "all_some [] = Some []"
| "all_some (x # xs) = (case x of None \<Rightarrow> None | Some y \<Rightarrow> map_option ((#) y) (all_some xs))"

definition into_strs :: "json \<Rightarrow> string list \<Rightarrow> string list option" where
  "into_strs v old =
     (case v of JArr xs \<Rightarrow> all_some (map (\<lambda>x. into_str x '''') xs) | JNull \<Rightarrow> Some [] | _ \<Rightarrow> None)"

text \<open>A map of slices: the entries are added to the map that is there.\<close>

fun add_groups :: "(string \<times> json) list \<Rightarrow> (string, string list) gomap \<Rightarrow> (string, string list) gomap option" where
  "add_groups [] m = Some m"
| "add_groups ((k, v) # kvs) m =
     (case into_strs v [] of None \<Rightarrow> None | Some xs \<Rightarrow> add_groups kvs (map_put k xs m))"

definition into_groups ::
  "json \<Rightarrow> (string, string list) gomap option \<Rightarrow> (string, string list) gomap option option" where
  "into_groups v old =
     (case v of
        JObj kvs \<Rightarrow> map_option Some (add_groups kvs (case old of None \<Rightarrow> [] | Some m \<Rightarrow> m))
      | JNull \<Rightarrow> Some None
      | _ \<Rightarrow> None)"

text \<open>What reading a file and parsing it as JSON gives.\<close>

datatype file_result = ReadError string | NotJSON string | Parsed json

section \<open>Structs\<close>

text \<open>
  A field table gives each JSON name the function that stores a value into the struct. Keys that
  select no field are ignored.
\<close>

type_synonym 'r field_table = "(string \<times> (json \<Rightarrow> 'r \<Rightarrow> 'r option)) list"

definition field_for :: "'r field_table \<Rightarrow> string \<Rightarrow> (json \<Rightarrow> 'r \<Rightarrow> 'r option) option" where
  "field_for tbl k =
     (case map_of tbl k of
        Some f \<Rightarrow> Some f
      | None \<Rightarrow> map_option snd (find (\<lambda>nf. EqualFold (fst nf) k) tbl))"

fun decode_fields :: "'r field_table \<Rightarrow> (string \<times> json) list \<Rightarrow> 'r \<Rightarrow> 'r option" where
  "decode_fields tbl [] r = Some r"
| "decode_fields tbl ((k, v) # kvs) r =
     (case field_for tbl k of
        None \<Rightarrow> decode_fields tbl kvs r
      | Some f \<Rightarrow> (case f v r of None \<Rightarrow> None | Some r' \<Rightarrow> decode_fields tbl kvs r'))"

definition decode_struct :: "'r field_table \<Rightarrow> json \<Rightarrow> 'r \<Rightarrow> 'r option" where
  "decode_struct tbl v r =
     (case v of JObj kvs \<Rightarrow> decode_fields tbl kvs r | JNull \<Rightarrow> Some r | _ \<Rightarrow> None)"

definition str_field :: "('r \<Rightarrow> string) \<Rightarrow> (string \<Rightarrow> 'r \<Rightarrow> 'r) \<Rightarrow> json \<Rightarrow> 'r \<Rightarrow> 'r option" where
  "str_field get put v r = map_option (\<lambda>x. put x r) (into_str v (get r))"

definition int_field :: "('r \<Rightarrow> int) \<Rightarrow> (int \<Rightarrow> 'r \<Rightarrow> 'r) \<Rightarrow> json \<Rightarrow> 'r \<Rightarrow> 'r option" where
  "int_field get put v r = map_option (\<lambda>x. put x r) (into_int v (get r))"

definition bool_field :: "('r \<Rightarrow> bool) \<Rightarrow> (bool \<Rightarrow> 'r \<Rightarrow> 'r) \<Rightarrow> json \<Rightarrow> 'r \<Rightarrow> 'r option" where
  "bool_field get put v r = map_option (\<lambda>x. put x r) (into_bool v (get r))"

definition strs_field :: "('r \<Rightarrow> string list) \<Rightarrow> (string list \<Rightarrow> 'r \<Rightarrow> 'r) \<Rightarrow> json \<Rightarrow> 'r \<Rightarrow> 'r option" where
  "strs_field get put v r = map_option (\<lambda>x. put x r) (into_strs v (get r))"

definition raw_field :: "(json \<Rightarrow> 'r \<Rightarrow> 'r) \<Rightarrow> json \<Rightarrow> 'r \<Rightarrow> 'r option" where
  \<comment> \<open>a \<open>json.RawMessage\<close> or \<open>any\<close> field takes every value\<close>
  "raw_field put v r = Some (put v r)"

text \<open>A string field with \<open>omitempty\<close>.\<close>

definition omit_str :: "string \<Rightarrow> string \<Rightarrow> (string \<times> json) list" where
  "omit_str k s = (if s = '''' then [] else [(k, JStr s)])"

lemma into_str_JStr [simp]: "into_str (JStr s) old = Some s"
  by (simp add: into_str_def)

lemma into_int_JInt [simp]: "in_int64 n \<Longrightarrow> into_int (JInt n) old = Some n"
  by (simp add: into_int_def)

lemma into_bool_JBool [simp]: "into_bool (JBool b) old = Some b"
  by (simp add: into_bool_def)

lemma decode_exact [simp]:
  "map_of tbl k = Some f \<Longrightarrow>
   decode_fields tbl ((k, v) # kvs) r = (case f v r of None \<Rightarrow> None | Some r' \<Rightarrow> decode_fields tbl kvs r')"
  by (simp add: field_for_def)

declare decode_fields.simps(2) [simp del]

lemma decode_omitted [simp]:
  "map_of tbl k = Some (str_field get put) \<Longrightarrow>
   decode_fields tbl (omit_str k s @ kvs) r =
     (if s = '''' then decode_fields tbl kvs r else decode_fields tbl kvs (put s r))"
  by (simp add: omit_str_def str_field_def)

end
