(* ===== verification/Policy.thy ===== *)
theory Policy
  imports Sql_Analyzer Go_Json
begin

text \<open>
  The gateway's policy, \<^verbatim>\<open>gateway/policy.go\<close>: the policy record with its defaults, the loading of
  a policy file over the defaults, and the decision \<open>Decide\<close> that turns an analysis into execute,
  approve or block. The policy file is an argument of \<open>LoadGatewayPolicy\<close>: a read error, or the
  outcome of parsing its text as JSON; the storing of a JSON tree into the policy record is
  modelled field by field, on the decoders of \<open>Go_Json\<close>.
\<close>

section \<open>The policy record\<close>

abbreviation PolicyActionExecute :: string where "PolicyActionExecute \<equiv> ''execute''"
abbreviation PolicyActionApprove :: string where "PolicyActionApprove \<equiv> ''approve''"
abbreviation PolicyActionBlock :: string where "PolicyActionBlock \<equiv> ''block''"

record GatewayPolicy =
  RequireApprovalForRisks :: "string list"
  BlockOperations :: "string list"
  RequireRecoveryForCritical :: bool
  BlockUnknownOrParseFailure :: bool
  BlockUnrecoverableOperations :: bool
  MaxSnapshotAgeSeconds :: int
  RequireSidecarHeartbeat :: bool
  MaxSidecarHeartbeatSeconds :: int
  RequireObjectChecksum :: bool
  ImpactAnalysisEnabled :: bool
  MaxWriteRowsWithoutCritical :: int
  MaxWritePercentWithoutCritical :: rat
  ProtectedTables :: "string list"
  PolicyProtectedColumns :: "(string, string list) gomap option"
  UnknownImpactAction :: string
  RecoveryGroups :: "(string, string list) gomap option"
  ForeignKeyGroupingEnabled :: bool
  CascadeRiskRequiresGroupReadiness :: bool
  MaxBlockedAttemptsPerWindow :: int
  QuarantineDurationSeconds :: int
  DangerousRetryWindowSeconds :: int
  QuarantineBlocksSafeQueries :: bool

record PolicyDecision =
  Action :: string
  DecisionReason :: string
  RequiresApproval :: bool
  RequiresRecovery :: bool
  RecoveryPossible :: bool

definition DefaultGatewayPolicy :: GatewayPolicy where
  "DefaultGatewayPolicy =
     \<lparr>RequireApprovalForRisks = [RiskHigh, RiskImpactCritical, RiskCritical],
      BlockOperations = [''DROP DATABASE'', ''DROP SCHEMA''],
      RequireRecoveryForCritical = True,
      BlockUnknownOrParseFailure = True,
      BlockUnrecoverableOperations = True,
      MaxSnapshotAgeSeconds = 300,
      RequireSidecarHeartbeat = True,
      MaxSidecarHeartbeatSeconds = 120,
      RequireObjectChecksum = False,
      ImpactAnalysisEnabled = True,
      MaxWriteRowsWithoutCritical = 1000,
      MaxWritePercentWithoutCritical = 50,
      ProtectedTables = [],
      PolicyProtectedColumns = Some [],
      UnknownImpactAction = PolicyActionApprove,
      RecoveryGroups = Some [],
      ForeignKeyGroupingEnabled = False,
      CascadeRiskRequiresGroupReadiness = False,
      MaxBlockedAttemptsPerWindow = 3,
      QuarantineDurationSeconds = 1800,
      DangerousRetryWindowSeconds = 600,
      QuarantineBlocksSafeQueries = False\<rparr>"

section \<open>Loading a policy file\<close>

text \<open>One key of the object, stored into the field it names; other keys are ignored.\<close>

definition set_field :: "string \<Rightarrow> json \<Rightarrow> GatewayPolicy \<Rightarrow> GatewayPolicy option" where
  "set_field k v p =
     (if EqualFold ''require_approval_for_risks'' k
      then map_option (\<lambda>x. p\<lparr>RequireApprovalForRisks := x\<rparr>) (into_strs v (RequireApprovalForRisks p))
      else if EqualFold ''block_operations'' k
      then map_option (\<lambda>x. p\<lparr>BlockOperations := x\<rparr>) (into_strs v (BlockOperations p))
      else if EqualFold ''require_recovery_for_critical'' k
      then map_option (\<lambda>x. p\<lparr>RequireRecoveryForCritical := x\<rparr>) (into_bool v (RequireRecoveryForCritical p))
      else if EqualFold ''block_unknown_or_parse_failure'' k
      then map_option (\<lambda>x. p\<lparr>BlockUnknownOrParseFailure := x\<rparr>) (into_bool v (BlockUnknownOrParseFailure p))
      else if EqualFold ''block_unrecoverable_operations'' k
      then map_option (\<lambda>x. p\<lparr>BlockUnrecoverableOperations := x\<rparr>) (into_bool v (BlockUnrecoverableOperations p))
      else if EqualFold ''max_snapshot_age_seconds'' k
      then map_option (\<lambda>x. p\<lparr>MaxSnapshotAgeSeconds := x\<rparr>) (into_int v (MaxSnapshotAgeSeconds p))
      else if EqualFold ''require_sidecar_heartbeat'' k
      then map_option (\<lambda>x. p\<lparr>RequireSidecarHeartbeat := x\<rparr>) (into_bool v (RequireSidecarHeartbeat p))
      else if EqualFold ''max_sidecar_heartbeat_seconds'' k
      then map_option (\<lambda>x. p\<lparr>MaxSidecarHeartbeatSeconds := x\<rparr>) (into_int v (MaxSidecarHeartbeatSeconds p))
      else if EqualFold ''require_object_checksum'' k
      then map_option (\<lambda>x. p\<lparr>RequireObjectChecksum := x\<rparr>) (into_bool v (RequireObjectChecksum p))
      else if EqualFold ''impact_analysis_enabled'' k
      then map_option (\<lambda>x. p\<lparr>ImpactAnalysisEnabled := x\<rparr>) (into_bool v (ImpactAnalysisEnabled p))
      else if EqualFold ''max_write_rows_without_critical'' k
      then map_option (\<lambda>x. p\<lparr>MaxWriteRowsWithoutCritical := x\<rparr>) (into_int v (MaxWriteRowsWithoutCritical p))
      else if EqualFold ''max_write_percent_without_critical'' k
      then map_option (\<lambda>x. p\<lparr>MaxWritePercentWithoutCritical := x\<rparr>) (into_float v (MaxWritePercentWithoutCritical p))
      else if EqualFold ''protected_tables'' k
      then map_option (\<lambda>x. p\<lparr>ProtectedTables := x\<rparr>) (into_strs v (ProtectedTables p))
      else if EqualFold ''protected_columns'' k
      then map_option (\<lambda>x. p\<lparr>PolicyProtectedColumns := x\<rparr>) (into_groups v (PolicyProtectedColumns p))
      else if EqualFold ''unknown_impact_action'' k
      then map_option (\<lambda>x. p\<lparr>UnknownImpactAction := x\<rparr>) (into_str v (UnknownImpactAction p))
      else if EqualFold ''recovery_groups'' k
      then map_option (\<lambda>x. p\<lparr>RecoveryGroups := x\<rparr>) (into_groups v (RecoveryGroups p))
      else if EqualFold ''foreign_key_grouping_enabled'' k
      then map_option (\<lambda>x. p\<lparr>ForeignKeyGroupingEnabled := x\<rparr>) (into_bool v (ForeignKeyGroupingEnabled p))
      else if EqualFold ''cascade_risk_requires_group_readiness'' k
      then map_option (\<lambda>x. p\<lparr>CascadeRiskRequiresGroupReadiness := x\<rparr>) (into_bool v (CascadeRiskRequiresGroupReadiness p))
      else if EqualFold ''max_blocked_attempts_per_window'' k
      then map_option (\<lambda>x. p\<lparr>MaxBlockedAttemptsPerWindow := x\<rparr>) (into_int v (MaxBlockedAttemptsPerWindow p))
      else if EqualFold ''quarantine_duration_seconds'' k
      then map_option (\<lambda>x. p\<lparr>QuarantineDurationSeconds := x\<rparr>) (into_int v (QuarantineDurationSeconds p))
      else if EqualFold ''dangerous_retry_window_seconds'' k
      then map_option (\<lambda>x. p\<lparr>DangerousRetryWindowSeconds := x\<rparr>) (into_int v (DangerousRetryWindowSeconds p))
      else if EqualFold ''quarantine_blocks_safe_queries'' k
      then map_option (\<lambda>x. p\<lparr>QuarantineBlocksSafeQueries := x\<rparr>) (into_bool v (QuarantineBlocksSafeQueries p))
      else Some p)"

fun set_fields :: "(string \<times> json) list \<Rightarrow> GatewayPolicy \<Rightarrow> GatewayPolicy option" where
  "set_fields [] p = Some p"
| "set_fields ((k, v) # kvs) p =
     (case set_field k v p of None \<Rightarrow> None | Some p' \<Rightarrow> set_fields kvs p')"

definition unmarshal_policy :: "json \<Rightarrow> GatewayPolicy \<Rightarrow> GatewayPolicy option" where
  "unmarshal_policy j p =
     (case j of JObj kvs \<Rightarrow> set_fields kvs p | JNull \<Rightarrow> Some p | _ \<Rightarrow> None)"

definition fill_defaults :: "GatewayPolicy \<Rightarrow> GatewayPolicy" where
  \<comment> \<open>the tests for empty, zero and nil fields after the file has been decoded\<close>
  "fill_defaults p =
     (let d = DefaultGatewayPolicy in
      p\<lparr>RequireApprovalForRisks := or_else [] (RequireApprovalForRisks d) (RequireApprovalForRisks p),
        BlockOperations := or_else [] (BlockOperations d) (BlockOperations p),
        MaxSnapshotAgeSeconds := or_else 0 (MaxSnapshotAgeSeconds d) (MaxSnapshotAgeSeconds p),
        MaxSidecarHeartbeatSeconds := or_else 0 (MaxSidecarHeartbeatSeconds d) (MaxSidecarHeartbeatSeconds p),
        MaxWriteRowsWithoutCritical := or_else 0 (MaxWriteRowsWithoutCritical d) (MaxWriteRowsWithoutCritical p),
        MaxWritePercentWithoutCritical := or_else 0 (MaxWritePercentWithoutCritical d) (MaxWritePercentWithoutCritical p),
        UnknownImpactAction := or_else '''' (UnknownImpactAction d) (UnknownImpactAction p),
        PolicyProtectedColumns := or_else None (PolicyProtectedColumns d) (PolicyProtectedColumns p),
        RecoveryGroups := or_else None (RecoveryGroups d) (RecoveryGroups p),
        MaxBlockedAttemptsPerWindow := or_else 0 (MaxBlockedAttemptsPerWindow d) (MaxBlockedAttemptsPerWindow p),
        QuarantineDurationSeconds := or_else 0 (QuarantineDurationSeconds d) (QuarantineDurationSeconds p),
        DangerousRetryWindowSeconds := or_else 0 (DangerousRetryWindowSeconds d) (DangerousRetryWindowSeconds p)\<rparr>)"

definition LoadGatewayPolicy :: "(string \<Rightarrow> file_result) \<Rightarrow> string \<Rightarrow> string + GatewayPolicy" where
  "LoadGatewayPolicy files path =
     (if TrimSpace path = '''' then Inr DefaultGatewayPolicy
      else case files path of
        ReadError e \<Rightarrow> Inl e
      | NotJSON e \<Rightarrow> Inl (''parse policy file: '' @ e)
      | Parsed j \<Rightarrow>
          (case unmarshal_policy j DefaultGatewayPolicy of
             None \<Rightarrow> Inl ''parse policy file: json: cannot unmarshal''
           | Some p \<Rightarrow> Inr (fill_defaults p)))"

section \<open>The decision\<close>

fun any_fold :: "string list \<Rightarrow> string \<Rightarrow> bool" where
  \<comment> \<open>the loops of \<open>requiresApproval\<close>, \<open>blocksOperation\<close> and \<open>containsFold\<close>\<close>
  "any_fold [] x = False"
| "any_fold (v # vs) x = (if EqualFold v x then True else any_fold vs x)"

definition requiresApproval :: "GatewayPolicy \<Rightarrow> string \<Rightarrow> bool" where
  "requiresApproval p risk = any_fold (RequireApprovalForRisks p) risk"

definition blocksOperation :: "GatewayPolicy \<Rightarrow> string \<Rightarrow> bool" where
  "blocksOperation p operation = any_fold (BlockOperations p) operation"

definition critical_risk :: "sqlAnalysis \<Rightarrow> bool" where
  "critical_risk a \<longleftrightarrow> RiskLevel a = RiskCritical \<or> RiskLevel a = RiskImpactCritical"

definition recovery_possible :: "sqlAnalysis \<Rightarrow> bool" where
  "recovery_possible a \<longleftrightarrow> critical_risk a \<and> TableRecoverable a \<and> TrimSpace (Table a) \<noteq> ''''"

definition Decide :: "GatewayPolicy \<Rightarrow> sqlAnalysis \<Rightarrow> PolicyDecision" where
  "Decide p analysis =
     (let recoveryPossible = recovery_possible analysis in
      if blocksOperation p (Operation analysis)
      then \<lparr>Action = PolicyActionBlock, DecisionReason = Operation analysis @ '' is blocked by policy'',
            RequiresApproval = False, RequiresRecovery = False, RecoveryPossible = recoveryPossible\<rparr>
      else if BlockUnknownOrParseFailure p \<and>
              (Operation analysis = ''PARSE_FAILURE'' \<or> Operation analysis = ''UNKNOWN''
               \<or> HasPrefix (Operation analysis) ''*'')
      then \<lparr>Action = PolicyActionBlock, DecisionReason = ''unknown or unparsable SQL is blocked by policy'',
            RequiresApproval = False, RequiresRecovery = False, RecoveryPossible = False\<rparr>
      else if critical_risk analysis \<and> BlockUnrecoverableOperations p \<and> \<not> recoveryPossible
      then \<lparr>Action = PolicyActionBlock, DecisionReason = ''critical SQL has no single table recovery point'',
            RequiresApproval = False, RequiresRecovery = False, RecoveryPossible = False\<rparr>
      else if requiresApproval p (RiskLevel analysis)
      then \<lparr>Action = PolicyActionApprove, DecisionReason = RiskLevel analysis @ '' SQL requires approval'',
            RequiresApproval = True,
            RequiresRecovery = critical_risk analysis \<and> RequireRecoveryForCritical p,
            RecoveryPossible = recoveryPossible\<rparr>
      else \<lparr>Action = PolicyActionExecute, DecisionReason = RiskLevel analysis @ '' SQL may execute immediately'',
            RequiresApproval = False, RequiresRecovery = False, RecoveryPossible = recoveryPossible\<rparr>)"

text \<open>Evaluating a decision under the default policy.\<close>

lemmas default_decision = Decide_def Let_def blocksOperation_def requiresApproval_def critical_risk_def
  recovery_possible_def DefaultGatewayPolicy_def EqualFold_def lower_char_def is_upper_def less_eq_char_def HasPrefix_def

section \<open>Lemmas\<close>

lemma any_fold_iff: "any_fold vs x \<longleftrightarrow> (\<exists>v \<in> set vs. EqualFold v x)"
  by (induction vs) auto

lemma any_fold_mem: "x \<in> set vs \<Longrightarrow> any_fold vs x"
  unfolding any_fold_iff by (rule bexI [of _ x]) simp_all

lemma Action_Decide_cases:
  "Action (Decide p a) \<in> {PolicyActionExecute, PolicyActionApprove, PolicyActionBlock}"
  by (simp add: Decide_def Let_def)

text \<open>The three guards of \<open>Decide\<close> that block.\<close>

definition policy_blocks :: "GatewayPolicy \<Rightarrow> sqlAnalysis \<Rightarrow> bool" where
  "policy_blocks p a \<longleftrightarrow>
     blocksOperation p (Operation a) \<or>
     BlockUnknownOrParseFailure p \<and>
       (Operation a = ''PARSE_FAILURE'' \<or> Operation a = ''UNKNOWN'' \<or> HasPrefix (Operation a) ''*'') \<or>
     critical_risk a \<and> BlockUnrecoverableOperations p \<and> \<not> recovery_possible a"

lemma Decide_block_iff: "Action (Decide p a) = PolicyActionBlock \<longleftrightarrow> policy_blocks p a"
  by (auto simp: Decide_def Let_def policy_blocks_def)

lemma Decide_approve_iff:
  "Action (Decide p a) = PolicyActionApprove \<longleftrightarrow> \<not> policy_blocks p a \<and> requiresApproval p (RiskLevel a)"
  by (auto simp: Decide_def Let_def policy_blocks_def)

lemma Decide_execute_iff:
  "Action (Decide p a) = PolicyActionExecute \<longleftrightarrow> \<not> policy_blocks p a \<and> \<not> requiresApproval p (RiskLevel a)"
  by (auto simp: Decide_def Let_def policy_blocks_def)

lemma Decide_recovery:
  "Action (Decide p a) = PolicyActionApprove \<Longrightarrow>
     RequiresRecovery (Decide p a) \<longleftrightarrow> critical_risk a \<and> RequireRecoveryForCritical p"
  by (auto simp: Decide_def Let_def split: if_splits)

text \<open>A policy under which every write needs approval, as the default one.\<close>

definition reviews_writes :: "GatewayPolicy \<Rightarrow> bool" where
  "reviews_writes p \<longleftrightarrow>
     requiresApproval p RiskHigh \<and> requiresApproval p RiskImpactCritical \<and> requiresApproval p RiskCritical"

lemma reviews_writes_default [simp]: "reviews_writes DefaultGatewayPolicy"
  by (simp add: reviews_writes_def requiresApproval_def DefaultGatewayPolicy_def)

lemma execute_safe:
  assumes "reviews_writes p" "RiskLevel a \<in> {RiskSafe, RiskHigh, RiskImpactCritical, RiskCritical}"
    "Action (Decide p a) = PolicyActionExecute"
  shows "RiskLevel a = RiskSafe"
proof -
  from assms(3) have "\<not> requiresApproval p (RiskLevel a)" using Decide_execute_iff by blast
  then have "RiskLevel a \<noteq> r" if "requiresApproval p r" for r
    using that by auto
  with assms(1,2) show ?thesis unfolding reviews_writes_def by auto
qed

text \<open>What \<open>LoadGatewayPolicy\<close> guarantees of a policy: no list, limit or map is left empty, zero or nil.\<close>

definition policy_wf :: "GatewayPolicy \<Rightarrow> bool" where
  "policy_wf p \<longleftrightarrow>
     RequireApprovalForRisks p \<noteq> [] \<and> BlockOperations p \<noteq> [] \<and> MaxSnapshotAgeSeconds p \<noteq> 0 \<and>
     MaxSidecarHeartbeatSeconds p \<noteq> 0 \<and> MaxWriteRowsWithoutCritical p \<noteq> 0 \<and>
     MaxWritePercentWithoutCritical p \<noteq> 0 \<and> UnknownImpactAction p \<noteq> '''' \<and>
     PolicyProtectedColumns p \<noteq> None \<and> RecoveryGroups p \<noteq> None \<and>
     MaxBlockedAttemptsPerWindow p \<noteq> 0 \<and> QuarantineDurationSeconds p \<noteq> 0 \<and>
     DangerousRetryWindowSeconds p \<noteq> 0"

lemma policy_wf_default: "policy_wf DefaultGatewayPolicy"
  by (simp add: policy_wf_def DefaultGatewayPolicy_def)

lemma policy_wf_fill_defaults: "policy_wf (fill_defaults p)"
  by (simp add: policy_wf_def fill_defaults_def DefaultGatewayPolicy_def Let_def or_else_not_zero)

lemma fill_defaults_wf: "policy_wf p \<Longrightarrow> fill_defaults p = p"
  by (simp add: policy_wf_def fill_defaults_def Let_def or_else_id)

text \<open>A file that names none of the policy's fields changes nothing.\<close>

definition policy_keys :: "string list" where
  "policy_keys =
     [''require_approval_for_risks'', ''block_operations'', ''require_recovery_for_critical'',
      ''block_unknown_or_parse_failure'', ''block_unrecoverable_operations'', ''max_snapshot_age_seconds'',
      ''require_sidecar_heartbeat'', ''max_sidecar_heartbeat_seconds'', ''require_object_checksum'',
      ''impact_analysis_enabled'', ''max_write_rows_without_critical'',
      ''max_write_percent_without_critical'', ''protected_tables'', ''protected_columns'',
      ''unknown_impact_action'', ''recovery_groups'', ''foreign_key_grouping_enabled'',
      ''cascade_risk_requires_group_readiness'', ''max_blocked_attempts_per_window'',
      ''quarantine_duration_seconds'', ''dangerous_retry_window_seconds'', ''quarantine_blocks_safe_queries'']"

lemma set_field_other: "\<not> any_fold policy_keys k \<Longrightarrow> set_field k v p = Some p"
  by (simp add: set_field_def policy_keys_def any_fold_iff)

lemma set_fields_other: "\<forall>kv \<in> set kvs. \<not> any_fold policy_keys (fst kv) \<Longrightarrow> set_fields kvs p = Some p"
proof (induction kvs)
  case Nil
  then show ?case by simp
next
  case (Cons kv kvs)
  then show ?case by (cases kv) (simp add: set_field_other)
qed

lemma analyzeSQL_risk_cases:
  "RiskLevel (analyzeSQL parse q) \<in> {RiskSafe, RiskHigh, RiskImpactCritical, RiskCritical}"
proof (cases "TrimSpace q = '''' \<or> parse q = Inr []")
  case True
  then show ?thesis by (auto simp: analyzeSQL_def safeAnalysis_def)
next
  case False
  show ?thesis
  proof (cases "parse q")
    case (Inl e)
    with False show ?thesis by (simp add: analyzeSQL_def criticalAnalysis_def)
  next
    case (Inr sts)
    obtain r where r: "result (foldl batch_step batch0 sts) = Some r"
      and eq: "analyzeSQL parse q =
        (batch_result (foldl batch_step batch0 sts) r)\<lparr>StatementCount := int (length sts)\<rparr>"
      using analyzeSQL_stmts [of q parse sts] False Inr by auto
    with batch_result_max [OF r] show ?thesis
      using analyze_risk_cases(1) by (auto simp: analyses_def)
  qed
qed

lemma safe_query_read_only:
  assumes "RiskLevel (analyzeSQL parse q) = RiskSafe"
  shows "TrimSpace q = '''' \<or> (\<exists>sts. parse q = Inr sts \<and> (\<forall>st \<in> set sts. read_only st))"
proof (cases "TrimSpace q = '''' \<or> parse q = Inr []")
  case True
  then show ?thesis by auto
next
  case False
  with assms obtain sts where sts: "parse q = Inr sts" "sts \<noteq> []"
    by (cases "parse q") (auto simp: analyzeSQL_def criticalAnalysis_def)
  obtain r where r: "result (foldl batch_step batch0 sts) = Some r"
    and eq: "analyzeSQL parse q =
      (batch_result (foldl batch_step batch0 sts) r)\<lparr>StatementCount := int (length sts)\<rparr>"
    using analyzeSQL_stmts [of q parse sts] False sts by auto
  have max: "\<forall>a \<in> set (analyses sts). riskRank (RiskLevel a) \<le> riskRank (RiskLevel r)"
    using batch_result_max [OF r] by auto
  have "RiskLevel r = RiskSafe" using assms by (simp add: eq)
  with max have "\<forall>st \<in> set sts. riskRank (RiskLevel (analyzeStatement st)) \<le> 0"
    by (simp add: analyses_def riskRank_def)
  moreover have "riskRank (RiskLevel (analyzeStatement st)) \<le> 0 \<Longrightarrow> RiskLevel (analyzeStatement st) = RiskSafe" for st
    using analyze_risk_cases(1) [of st] by (auto simp: riskRank_def split: if_splits)
  ultimately show ?thesis using RiskSafe_iff_read_only(1) sts(1) by blast
qed

section \<open>Properties\<close>





text \<open>
  C35. Every policy that loads is well-formed: no list, limit or map in it is empty, zero or nil, so
  a file cannot switch approval or blocking off by giving an empty list; and a file that names no
  policy field yields the default policy.
\<close>

theorem LoadGatewayPolicy_wf:
  "(\<forall>p. LoadGatewayPolicy files path = Inr p \<longrightarrow> policy_wf p) \<and>
   (\<forall>kvs. files path = Parsed (JObj kvs) \<and> (\<forall>kv \<in> set kvs. \<not> any_fold policy_keys (fst kv)) \<longrightarrow>
      LoadGatewayPolicy files path = Inr DefaultGatewayPolicy)"
proof (intro conjI allI impI)
  fix p
  assume "LoadGatewayPolicy files path = Inr p"
  then show "policy_wf p"
    by (auto simp: LoadGatewayPolicy_def policy_wf_default policy_wf_fill_defaults
        split: file_result.splits option.splits if_splits)
next
  fix kvs
  assume "files path = Parsed (JObj kvs) \<and> (\<forall>kv \<in> set kvs. \<not> any_fold policy_keys (fst kv))"
  then show "LoadGatewayPolicy files path = Inr DefaultGatewayPolicy"
    by (simp add: LoadGatewayPolicy_def unmarshal_policy_def set_fields_other fill_defaults_wf
        policy_wf_default)
qed

theorem LoadGatewayPolicy_wf_witness:
  "LoadGatewayPolicy (\<lambda>_. Parsed (JObj [(''comment'', JStr ''x'')])) ''policy.json'' = Inr DefaultGatewayPolicy \<and>
   policy_wf DefaultGatewayPolicy"
proof -
  have "\<not> any_fold policy_keys ''comment''"
    by (simp add: policy_keys_def EqualFold_def lower_char_def is_upper_def less_eq_char_def)
  then show ?thesis
    using LoadGatewayPolicy_wf [of "\<lambda>_. Parsed (JObj [(''comment'', JStr ''x'')])" "''policy.json''"] by simp
qed

end
