(* ===== verification/Host.thy ===== *)
theory Host
  imports Go_Time Go_Json
begin

text \<open>
  What the processes get from outside, and the metadata database they share. The readings of the
  clock, the outcomes of SQLite transactions and reads, of file writes, of webhook calls and of the random source
  are streams given from outside; \<open>draws\<close> counts how many outcomes were consumed, so that two uses never
  share one. The tables are those of the \<^verbatim>\<open>CREATE TABLE\<close> statements of \<^verbatim>\<open>gateway/metadata_store.go\<close>
  and \<^verbatim>\<open>sync/metadata_store.go\<close>; a column that a reader scans although it may be NULL is an \<open>option\<close>.
  The locale \<open>keyed_table\<close> is the contract of a table with a primary key.
\<close>

section \<open>Tables with a primary key\<close>

type_synonym ('k, 'v) table = "('k \<times> 'v) list"

definition insert_or_replace :: "'k \<Rightarrow> 'v \<Rightarrow> ('k, 'v) table \<Rightarrow> ('k, 'v) table" where
  \<comment> \<open>\<^verbatim>\<open>INSERT OR REPLACE\<close>: the row of that key goes, a new row comes last\<close>
  "insert_or_replace k v t = filter (\<lambda>r. fst r \<noteq> k) t @ [(k, v)]"

definition select_key :: "('k, 'v) table \<Rightarrow> 'k \<Rightarrow> 'v option" where
  "select_key t k = map_of t k"

definition update_key :: "'k \<Rightarrow> ('v \<Rightarrow> 'v) \<Rightarrow> ('k, 'v) table \<Rightarrow> ('k, 'v) table" where
  \<comment> \<open>\<^verbatim>\<open>UPDATE .. WHERE key = k\<close>\<close>
  "update_key k f t = map (\<lambda>r. if fst r = k then (fst r, f (snd r)) else r) t"

definition rows_with_key :: "'k \<Rightarrow> ('k, 'v) table \<Rightarrow> nat" where
  "rows_with_key k t = length (filter (\<lambda>r. fst r = k) t)"

locale keyed_table =
  fixes put :: "'k \<Rightarrow> 'v \<Rightarrow> 't \<Rightarrow> 't"
    and upd :: "'k \<Rightarrow> ('v \<Rightarrow> 'v) \<Rightarrow> 't \<Rightarrow> 't"
    and get :: "'t \<Rightarrow> 'k \<Rightarrow> 'v option"
    and wf :: "'t \<Rightarrow> bool"
  assumes get_put: "get (put k v t) k' = (if k' = k then Some v else get t k')"
    and get_upd: "get (upd k f t) k' = (if k' = k then map_option f (get t k) else get t k')"
    and wf_put: "wf t \<Longrightarrow> wf (put k v t)"
    and wf_upd: "wf t \<Longrightarrow> wf (upd k f t)"
begin

lemma get_put_same: "get (put k v t) k = Some v"
  by (simp add: get_put)

lemma get_put_other: "k' \<noteq> k \<Longrightarrow> get (put k v t) k' = get t k'"
  by (simp add: get_put)

lemma last_put_wins: "get (put k v (put k u t)) = get (put k v t)"
  by (rule ext) (simp add: get_put)

lemma put_upd: "get (put k v (upd k f t)) = get (put k v t)"
  by (rule ext) (simp add: get_put get_upd)

lemma upd_absent: "get t k = None \<Longrightarrow> get (upd k f t) = get t"
  by (rule ext) (simp add: get_upd)

end

lemma map_of_filter_other: "map_of (filter (\<lambda>r. fst r \<noteq> k) t) k' = (if k' = k then None else map_of t k')"
  by (induction t) auto

lemma map_of_update_key: "map_of (update_key k f t) k' = (if k' = k then map_option f (map_of t k) else map_of t k')"
  by (induction t) (auto simp: update_key_def)

interpretation tab: keyed_table insert_or_replace update_key select_key "\<lambda>t. distinct (map fst t)"
proof unfold_locales
  show "select_key (insert_or_replace k v t) k' = (if k' = k then Some v else select_key t k')"
    for k k' :: 'k and v :: 'v and t
    by (auto simp: select_key_def insert_or_replace_def map_add_def map_of_filter_other split: option.splits)
  show "select_key (update_key k f t) k' = (if k' = k then map_option f (select_key t k) else select_key t k')"
    for k k' :: 'k and f :: "'v \<Rightarrow> 'v" and t
    by (simp add: select_key_def map_of_update_key)
  show "distinct (map fst (insert_or_replace k v t))" if "distinct (map fst t)" for k :: 'k and v :: 'v and t
    using that by (auto simp: insert_or_replace_def distinct_map_filter)
  show "distinct (map fst (update_key k f t))" if "distinct (map fst t)" for k :: 'k and f :: "'v \<Rightarrow> 'v" and t
  proof -
    have "map fst (update_key k f t) = map fst t" by (simp add: update_key_def)
    then show ?thesis using that by simp
  qed
qed

lemma rows_with_key: "distinct (map fst t) \<Longrightarrow> rows_with_key k t = (if select_key t k = None then 0 else 1)"
  by (induction t) (auto simp: rows_with_key_def select_key_def filter_empty_conv map_of_eq_None_iff image_iff)

lemma rows_with_key_0: "rows_with_key k t = 0 \<longleftrightarrow> select_key t k = None"
  by (induction t) (auto simp: rows_with_key_def select_key_def)

lemma filter_pos_distinct:
  "distinct (map fst t) \<Longrightarrow> (k, v) \<in> set t \<longleftrightarrow> select_key t k = Some v"
  by (simp add: select_key_def)

section \<open>The metadata database\<close>

record audit_row =
  au_timestamp :: string
  au_agent_id :: string
  au_query :: string
  au_risk_level :: string
  au_approved :: int
  au_query_sha256 :: string
  au_environment :: string
  au_cluster_id :: string

record approval_row =
  ap_agent_id :: string
  ap_query :: string
  ap_risk_level :: string
  ap_status :: string
  ap_created_at :: string
  ap_resolved_at :: "string option"
  ap_query_sha256 :: string
  ap_operation :: string
  ap_schema_name :: string
  ap_table_name :: string
  ap_environment :: string
  ap_cluster_id :: string
  ap_snapshot_id :: string
  ap_resolved_by :: "string option"

record snapshot_row =
  sn_table_name :: string
  sn_writer :: string
  sn_snapshot_scope :: string
  sn_row_count :: int
  sn_manifest_key :: "string option"
  sn_timestamp :: string
  sn_payload_json :: "json option"
  sn_status :: string
  sn_validation_error :: string

record alert_row =
  al_timestamp :: string
  al_severity :: string
  al_event_type :: string
  al_table_name :: string
  al_status :: string
  al_payload_json :: json

record health_row =
  he_status :: string
  he_checked_at :: string
  he_detail_json :: json

record agent_row =
  ag_risky_attempts :: int
  ag_window_started_at :: string
  ag_quarantine_until :: "string option"
  ag_last_reason :: "string option"
  ag_last_table :: "string option"
  ag_updated_at :: string

record sqlite =
  audit_events :: "audit_row list"
  approvals_tbl :: "(string, approval_row) table"
  snapshots_tbl :: "(string, snapshot_row) table"
  alerts_tbl :: "alert_row list"
  health_checks :: "(string, health_row) table"
  agent_state :: "(string, agent_row) table"

definition empty_sqlite :: sqlite where
  "empty_sqlite =
     \<lparr>audit_events = [], approvals_tbl = [], snapshots_tbl = [], alerts_tbl = [], health_checks = [],
      agent_state = []\<rparr>"

definition keys_unique :: "sqlite \<Rightarrow> bool" where
  \<comment> \<open>the PRIMARY KEY constraints\<close>
  "keys_unique db \<longleftrightarrow>
     distinct (map fst (approvals_tbl db)) \<and> distinct (map fst (snapshots_tbl db)) \<and>
     distinct (map fst (health_checks db)) \<and> distinct (map fst (agent_state db))"

section \<open>Outcomes given from outside\<close>

datatype left_behind = Untouched | Torn nat | Whole
  \<comment> \<open>the file after a write that failed: when opening it, after some bytes, or after all of them\<close>

record world =
  clock :: "nat \<Rightarrow> instant"
  tx_fault :: "nat \<Rightarrow> string option"
  read_fault :: "nat \<Rightarrow> string option"
  file_fault :: "nat \<Rightarrow> string option"
  file_left :: "nat \<Rightarrow> left_behind"
  webhook_out :: "nat \<Rightarrow> int option"
  rand_hex :: "nat \<Rightarrow> string"
  draws :: nat
  store :: sqlite

definition drawn :: "world \<Rightarrow> world" where
  "drawn w = w\<lparr>draws := Suc (draws w)\<rparr>"

definition Now :: "world \<Rightarrow> instant \<times> world" where
  \<comment> \<open>\<^verbatim>\<open>time.Now().UTC()\<close>\<close>
  "Now w = (clock w (draws w), drawn w)"

definition withTx :: "(sqlite \<Rightarrow> string + sqlite) \<Rightarrow> world \<Rightarrow> string option \<times> world" where
  \<comment> \<open>begin, run, commit; rolled back when any of them fails\<close>
  "withTx f w =
     (case tx_fault w (draws w) of
        Some e \<Rightarrow> (Some e, drawn w)
      | None \<Rightarrow> (case f (store w) of
                   Inl e \<Rightarrow> (Some e, drawn w)
                 | Inr db \<Rightarrow> (None, (drawn w)\<lparr>store := db\<rparr>)))"

lemma drawn_simps [simp]:
  "clock (drawn w) = clock w" "tx_fault (drawn w) = tx_fault w" "read_fault (drawn w) = read_fault w"
  "file_fault (drawn w) = file_fault w" "file_left (drawn w) = file_left w" "webhook_out (drawn w) = webhook_out w" "rand_hex (drawn w) = rand_hex w" "store (drawn w) = store w"
  "draws (drawn w) = Suc (draws w)"
  by (simp_all add: drawn_def)

lemma withTx_cases:
  assumes "withTx f w = (r, w')"
  obtains (fault) e where "r = Some e" "store w' = store w"
  | (committed) "r = None" "Inr (store w') = f (store w)"
proof (cases "tx_fault w (draws w)")
  case None
  with assms show ?thesis
    by (cases "f (store w)") (auto simp: withTx_def intro: fault committed)
next
  case (Some e)
  with assms show ?thesis by (intro fault [of e]) (auto simp: withTx_def)
qed

lemma withTx_ok: "tx_fault w (draws w) = None \<Longrightarrow> f (store w) = Inr db \<Longrightarrow> withTx f w = (None, (drawn w)\<lparr>store := db\<rparr>)"
  by (simp add: withTx_def)

definition same_outside :: "world \<Rightarrow> world \<Rightarrow> bool" where
  \<comment> \<open>the streams are the same, and outcomes are only ever consumed\<close>
  "same_outside w w' \<longleftrightarrow>
     clock w' = clock w \<and> tx_fault w' = tx_fault w \<and> read_fault w' = read_fault w \<and>
     file_fault w' = file_fault w \<and> file_left w' = file_left w \<and> webhook_out w' = webhook_out w \<and> rand_hex w' = rand_hex w \<and> draws w \<le> draws w'"

lemma same_outside_refl [simp]: "same_outside w w"
  by (simp add: same_outside_def)

lemma same_outside_trans: "same_outside u v \<Longrightarrow> same_outside v w \<Longrightarrow> same_outside u w"
  by (auto simp: same_outside_def)

lemma same_outside_drawn [simp]: "same_outside w (drawn w)"
  by (simp add: same_outside_def)

lemma same_outside_withTx: "same_outside w (snd (withTx f w))"
  by (auto simp: withTx_def same_outside_def split: option.splits sum.splits)

definition quiet_world :: world where
  \<comment> \<open>a world in which nothing fails and the clock stands at the epoch\<close>
  "quiet_world =
     \<lparr>clock = (\<lambda>_. 0), tx_fault = (\<lambda>_. None), read_fault = (\<lambda>_. None), file_fault = (\<lambda>_. None), file_left = (\<lambda>_. Untouched), webhook_out = (\<lambda>_. None),
      rand_hex = (\<lambda>_. ''00''), draws = 0, store = empty_sqlite\<rparr>"

lemma quiet_simps [simp]:
  "clock quiet_world n = 0" "tx_fault quiet_world n = None" "file_fault quiet_world n = None" "file_left quiet_world n = Untouched" "read_fault quiet_world n = None"
  "draws quiet_world = 0" "store quiet_world = empty_sqlite" "rand_hex quiet_world n = ''00''"
  by (simp_all add: quiet_world_def)

end
