(* ===== verification/Impact.thy ===== *)
theory Impact
  imports Policy Host
begin

text \<open>
  Impact analysis, \<^verbatim>\<open>gateway/impact.go\<close>, with \<open>applyImpactAnalysis\<close> of \<^verbatim>\<open>gateway/mcp_server.go\<close>. The
  outcomes of talking to PostgreSQL are an argument, indexed by the number of outcomes consumed so
  far; every statement sent is returned in order. The search for the assignments of an UPDATE is the
  regular expression of the code, with its word boundaries, case folding and lazy group.
\<close>

section \<open>PostgreSQL\<close>

datatype db_call = Explained string | Counted string | Queried string | Executed string

datatype explain_outcome =
    ExplainError string
  | ExplainNoRows
  | ExplainText "json option" \<comment> \<open>the text of the first row, as the JSON value it is\<close>

record row_set =
  rs_columns :: "string list"
  rs_rows :: "json list list"
  rs_error :: "string option"

record postgres =
  pg_open_error :: "string \<Rightarrow> string option"
  pg_explain :: "nat \<Rightarrow> string \<Rightarrow> explain_outcome"
  pg_count :: "nat \<Rightarrow> string \<Rightarrow> string + int"
  pg_query :: "nat \<Rightarrow> string \<Rightarrow> string + row_set"
  pg_exec :: "nat \<Rightarrow> string \<Rightarrow> string + int"

record executeQueryParams =
  eq_Query :: string
  eq_AgentID :: string
  eq_DBURL :: string
  eq_SnapshotID :: string

section \<open>Identifiers\<close>

definition quoteIdent :: "string \<Rightarrow> string" where
  "quoteIdent identifier = [CHR 0x22] @ ReplaceChar identifier CHR 0x22 [CHR 0x22, CHR 0x22] @ [CHR 0x22]"

definition quoteQualified :: "string \<Rightarrow> string \<Rightarrow> string" where
  "quoteQualified sch tab =
     (if TrimSpace sch = '''' then quoteIdent tab else quoteIdent sch @ ''.'' @ quoteIdent tab)"

section \<open>The updated columns\<close>

definition word_char :: "char \<Rightarrow> bool" where
  "word_char c \<longleftrightarrow> is_upper c \<or> is_lower c \<or> c \<in> set ''0123456789_''"

definition word_start :: "string \<Rightarrow> bool" where
  "word_start s \<longleftrightarrow> s \<noteq> [] \<and> word_char (hd s)"

definition set_here :: "bool \<Rightarrow> string \<Rightarrow> string option" where
  \<comment> \<open>\<^verbatim>\<open>\bset\b\<close> under \<^verbatim>\<open>(?i)\<close>, which also folds the long s: the rest after it\<close>
  "set_here prev s =
     (let at_t = (\<lambda>r. case r of
                        e # t # rest \<Rightarrow>
                          (if lower_char e = CHR ''e'' \<and> lower_char t = CHR ''t'' \<and> \<not> word_start rest
                           then Some rest else None)
                      | _ \<Rightarrow> None)
      in if s \<noteq> [] \<and> lower_char (hd s) = CHR ''s'' \<and> \<not> prev then at_t (tl s)
         else if HasPrefix s [CHR 0xC5, CHR 0xBF] \<and> prev then at_t (drop 2 s)
         else None)"

definition where_here :: "bool \<Rightarrow> string \<Rightarrow> bool" where
  \<comment> \<open>\<^verbatim>\<open>\bwhere\b\<close> under \<^verbatim>\<open>(?i)\<close>\<close>
  "where_here prev s \<longleftrightarrow> \<not> prev \<and> ToLower (take 5 s) = ''where'' \<and> \<not> word_start (drop 5 s)"

fun upto_where :: "bool \<Rightarrow> string \<Rightarrow> string" where
  "upto_where prev [] = []"
| "upto_where prev (c # s) =
     (if where_here prev (c # s) then [] else c # upto_where (word_char c) s)"

fun set_group :: "bool \<Rightarrow> string \<Rightarrow> string option" where
  \<comment> \<open>the group of the leftmost match of \<^verbatim>\<open>\bset\b(.+?)(?:\bwhere\b|$)\<close>\<close>
  "set_group prev [] = None"
| "set_group prev (c # s) =
     (case set_here prev (c # s) of
        Some (d # rest) \<Rightarrow> Some (d # upto_where (word_char d) rest)
      | _ \<Rightarrow> set_group (word_char c) s)"

definition assigned_name :: "string \<Rightarrow> string" where
  "assigned_name assignment = TrimChar (TrimSpace (fst (SplitN2 assignment CHR ''=''))) CHR 0x22"

definition protectedUpdatedColumns :: "string \<Rightarrow> string list \<Rightarrow> string list" where
  "protectedUpdatedColumns query protected =
     (if protected = [] then []
      else case set_group False query of
        None \<Rightarrow> []
      | Some g \<Rightarrow> filter (any_fold protected) (map assigned_name (Split g CHR '','')))"

section \<open>The row estimate of a plan\<close>

definition object_get :: "(string \<times> json) list \<Rightarrow> string \<Rightarrow> json option" where
  \<comment> \<open>a decoded object: the last binding of a key counts\<close>
  "object_get kvs k = map_of (rev kvs) k"

lemma object_get_size: "object_get kvs k = Some v \<Longrightarrow> size v < size (JObj kvs)"
proof -
  assume "object_get kvs k = Some v"
  then have "(k, v) \<in> set kvs" by (auto simp: object_get_def dest: map_of_SomeD)
  then have "size v \<le> size_list (size_prod (\<lambda>_. 0) size) kvs"
    by (rule size_list_estimation') (simp add: size_prod_def)
  then show ?thesis by simp
qed

definition as_float :: "json \<Rightarrow> rat option" where
  "as_float v = (case v of JInt n \<Rightarrow> Some (float_of_int n) | JFloat x \<Rightarrow> Some x | _ \<Rightarrow> None)"

function firstPlanRows :: "json \<Rightarrow> int option" where
  "firstPlanRows v =
     (case v of
        JArr [] \<Rightarrow> None
      | JArr (x # xs) \<Rightarrow> (case firstPlanRows x of Some rows \<Rightarrow> Some rows | None \<Rightarrow> firstPlanRows (JArr xs))
      | JObj kvs \<Rightarrow>
          (case Option.bind (object_get kvs ''Plan Rows'') as_float of
             Some raw \<Rightarrow> Some (int64_of_float raw)
           | None \<Rightarrow>
               (case Option.bind (object_get kvs ''Plan'') firstPlanRows of
                  Some rows \<Rightarrow> Some rows
                | None \<Rightarrow> Option.bind (object_get kvs ''Plans'') firstPlanRows))
      | _ \<Rightarrow> None)"
  by pat_completeness auto
termination
  by (relation "measure size") (use object_get_size in auto)

declare firstPlanRows.simps [simp del]

definition estimateAffectedRowsWithExplain ::
  "postgres \<Rightarrow> string \<Rightarrow> world \<Rightarrow> (string + int) \<times> db_call list \<times> world" where
  "estimateAffectedRowsWithExplain pg query w =
     (let stmt = ''EXPLAIN (FORMAT JSON) '' @ TrimSpace query;
          r = (case pg_explain pg (draws w) stmt of
                 ExplainError e \<Rightarrow> Inl e
               | ExplainNoRows \<Rightarrow> Inl ''EXPLAIN returned no rows''
               | ExplainText None \<Rightarrow> Inl ''invalid JSON''
               | ExplainText (Some payload) \<Rightarrow>
                   (case firstPlanRows payload of
                      Some estimate \<Rightarrow> Inr estimate
                    | None \<Rightarrow> Inl ''EXPLAIN plan did not include row estimate''))
      in (r, [Explained stmt], drawn w))"

section \<open>The analysis\<close>

definition zero_impact :: ImpactAnalysis where
  "zero_impact = \<lparr>Status = '''', ImpactReason = '''', EstimatedAffectedRows = 0, EstimatedTableRows = 0,
     AffectedPercent = 0, ProtectedTable = False, ProtectedColumns = [], ImpactCritical = False\<rparr>"

definition unknownImpact :: "GatewayPolicy \<Rightarrow> string \<Rightarrow> ImpactAnalysis" where
  "unknownImpact p reason =
     zero_impact\<lparr>Status := ''unknown'', ImpactReason := reason,
       ImpactCritical := EqualFold (UnknownImpactAction p) PolicyActionBlock \<or>
                         EqualFold (UnknownImpactAction p) PolicyActionApprove\<rparr>"

definition openQueryDB :: "postgres \<Rightarrow> bool \<Rightarrow> executeQueryParams \<Rightarrow> string option" where
  \<comment> \<open>the error, if any; the second argument says whether the gateway has a database of its own\<close>
  "openQueryDB pg db args =
     (if db then None
      else if TrimSpace (eq_DBURL args) = '''' then Some ''impact analysis requires gateway --db or db_url''
      else pg_open_error pg (eq_DBURL args))"

definition affected_percent :: "int \<Rightarrow> int \<Rightarrow> rat" where
  "affected_percent affected trows =
     (if 0 < trows then fmul (fdiv (float_of_int affected) (float_of_int trows)) 100 else 0)"

definition impact_of_counts :: "GatewayPolicy \<Rightarrow> int \<Rightarrow> int \<Rightarrow> ImpactAnalysis" where
  \<comment> \<open>the end of the analysis, with both counts at hand\<close>
  "impact_of_counts p affected trows =
     (let percent = affected_percent affected trows;
          critical = (affected > MaxWriteRowsWithoutCritical p \<or> percent > MaxWritePercentWithoutCritical p)
      in zero_impact\<lparr>Status := ''estimated'', EstimatedAffectedRows := affected, EstimatedTableRows := trows,
           AffectedPercent := percent, ImpactCritical := critical,
           ImpactReason := (if critical then ''write impact exceeds configured thresholds''
                            else ''write impact is below configured critical thresholds'')\<rparr>)"

definition analyzeImpact ::
  "postgres \<Rightarrow> bool \<Rightarrow> GatewayPolicy \<Rightarrow> executeQueryParams \<Rightarrow> sqlAnalysis \<Rightarrow> world \<Rightarrow>
   ImpactAnalysis option \<times> db_call list \<times> world" where
  "analyzeImpact pg db p args analysis w =
     (if \<not> ImpactAnalysisEnabled p \<or> (Operation analysis \<noteq> ''DELETE'' \<and> Operation analysis \<noteq> ''UPDATE'')
      then (None, [], w)
      else let tab = TrimSpace (Table analysis) in
      if tab = '''' \<or> TrimSpace (eq_Query args) = ''''
      then (Some (unknownImpact p ''impact analysis requires a single target table''), [], w)
      else let protectedTable = any_fold (ProtectedTables p) tab;
               columns = (if Operation analysis = ''UPDATE''
                          then protectedUpdatedColumns (eq_Query args)
                                 (case PolicyProtectedColumns p of None \<Rightarrow> [] | Some m \<Rightarrow> map_get_or [] m tab)
                          else [])
      in if protectedTable \<or> columns \<noteq> []
         then (Some (zero_impact\<lparr>Status := ''protected_object'', ProtectedTable := protectedTable,
                 ProtectedColumns := columns, ImpactCritical := True,
                 ImpactReason := ''write touches protected table or column''\<rparr>), [], w)
         else if StatementCount analysis \<noteq> 1
         then (Some (unknownImpact p ''impact analysis requires exactly one SQL statement''), [], w)
         else case openQueryDB pg db args of
           Some e \<Rightarrow> (Some (unknownImpact p e), [], w)
         | None \<Rightarrow>
             (case estimateAffectedRowsWithExplain pg (eq_Query args) w of
                (Inl e, calls, w1) \<Rightarrow>
                  (Some (unknownImpact p (''affected row estimate failed: '' @ e)), calls, w1)
              | (Inr estimated, calls, w1) \<Rightarrow>
                  (let totalQuery = ''SELECT count(*) FROM '' @ quoteQualified (Schema analysis) tab in
                   case pg_count pg (draws w1) totalQuery of
                     Inl e \<Rightarrow> (Some (unknownImpact p (''table row count failed: '' @ e)),
                               calls @ [Counted totalQuery], drawn w1)
                   | Inr trows \<Rightarrow> (Some (impact_of_counts p estimated trows),
                                  calls @ [Counted totalQuery], drawn w1))))"

definition applyImpactAnalysis :: "sqlAnalysis \<Rightarrow> ImpactAnalysis option \<Rightarrow> sqlAnalysis" where
  "applyImpactAnalysis analysis impact =
     (let a = analysis\<lparr>Impact := impact\<rparr> in
      case impact of
        Some i \<Rightarrow>
          (if ImpactCritical i
           then let b = a\<lparr>RiskLevel := RiskImpactCritical, Reason := ImpactReason i\<rparr>
                in if TrimSpace (Table b) \<noteq> '''' then b\<lparr>TableRecoverable := True\<rparr> else b
           else a)
      | None \<Rightarrow> a)"

section \<open>Properties\<close>

lemma unknownImpact_critical:
  "EqualFold (UnknownImpactAction p) PolicyActionBlock \<or> EqualFold (UnknownImpactAction p) PolicyActionApprove \<Longrightarrow>
   ImpactCritical (unknownImpact p reason)"
  by (simp add: unknownImpact_def zero_impact_def)

lemma estimate_calls:
  "estimateAffectedRowsWithExplain pg q w = (r, calls, w') \<Longrightarrow>
   calls = [Explained (''EXPLAIN (FORMAT JSON) '' @ TrimSpace q)] \<and> w' = drawn w"
  by (auto simp: estimateAffectedRowsWithExplain_def Let_def)

text \<open>Impact analysis never executes the query: it sends at most its EXPLAIN and a count.\<close>

definition probe :: "db_call \<Rightarrow> bool" where
  "probe c = (case c of Explained _ \<Rightarrow> True | Counted _ \<Rightarrow> True | _ \<Rightarrow> False)"

lemma analyzeImpact_probes:
  assumes "analyzeImpact pg db p args a w = (i, calls, w')"
  shows "(\<forall>c \<in> set calls. probe c) \<and> store w' = store w \<and> same_outside w w'"
proof -
  obtain r cs w1 where e: "estimateAffectedRowsWithExplain pg (eq_Query args) w = (r, cs, w1)" by (metis prod_cases3)
  from estimate_calls [OF e] assms show ?thesis
    by (auto simp: analyzeImpact_def Let_def e probe_def same_outside_def split: if_splits option.splits sum.splits)
qed

text \<open>The ways through the analysis of a write: unknown or critical impact, or the counting of rows.\<close>

lemma analyzeImpact_known:
  assumes on: "ImpactAnalysisEnabled p" "Operation a = ''DELETE'' \<or> Operation a = ''UPDATE''"
    and res: "analyzeImpact pg db p args a w = (i, calls, w')"
    and unk: "\<not> (\<exists>reason. i = Some (unknownImpact p reason))" "\<not> (\<exists>r. i = Some r \<and> ImpactCritical r)"
  shows "\<not> any_fold (ProtectedTables p) (TrimSpace (Table a)) \<and> StatementCount a = 1 \<and>
     (\<exists>n t. i = Some (impact_of_counts p n t) \<and>
        pg_count pg (Suc (draws w)) (''SELECT count(*) FROM '' @ quoteQualified (Schema a) (TrimSpace (Table a))) = Inr t \<and>
        calls = [Explained (''EXPLAIN (FORMAT JSON) '' @ TrimSpace (eq_Query args)),
                 Counted (''SELECT count(*) FROM '' @ quoteQualified (Schema a) (TrimSpace (Table a)))])"
proof -
  obtain r cs w1 where e: "estimateAffectedRowsWithExplain pg (eq_Query args) w = (r, cs, w1)" by (metis prod_cases3)
  define cols where "cols = (if Operation a = ''UPDATE''
    then protectedUpdatedColumns (eq_Query args)
      (case PolicyProtectedColumns p of None \<Rightarrow> [] | Some m \<Rightarrow> map_get_or [] m (TrimSpace (Table a))) else [])"
  have op: "\<not> (\<not> ImpactAnalysisEnabled p \<or> (Operation a \<noteq> ''DELETE'' \<and> Operation a \<noteq> ''UPDATE''))"
    using on by auto
  note step = res [unfolded analyzeImpact_def Let_def e prod.case, folded cols_def, unfolded if_not_P [OF op]]
  have 1: "\<not> (TrimSpace (Table a) = '''' \<or> TrimSpace (eq_Query args) = '''')"
  proof
    assume "TrimSpace (Table a) = '''' \<or> TrimSpace (eq_Query args) = ''''"
    from step [unfolded if_P [OF this]] unk show False by blast
  qed
  note step = step [unfolded if_not_P [OF 1]]
  have 2: "\<not> (any_fold (ProtectedTables p) (TrimSpace (Table a)) \<or> cols \<noteq> [])"
  proof
    assume "any_fold (ProtectedTables p) (TrimSpace (Table a)) \<or> cols \<noteq> []"
    from step [unfolded if_P [OF this]] unk show False by auto
  qed
  note step = step [unfolded if_not_P [OF 2]]
  from unk step obtain n where known: "StatementCount a = 1" "openQueryDB pg db args = None" "r = Inr n"
    by (cases r; cases "openQueryDB pg db args"; cases "StatementCount a = 1") auto
  from unk step [unfolded known] 2 known(1) estimate_calls [OF e] show ?thesis
    by (auto split: sum.splits)
qed


fun read_body :: "string \<Rightarrow> (string \<times> string) option" where
  \<comment> \<open>a quoted identifier after its opening quote, up to a quote that is not doubled\<close>
  "read_body [] = None"
| "read_body [c] = (if c = CHR 0x22 then Some ([], []) else None)"
| "read_body (c # d # s) =
     (if c = CHR 0x22 then (if d = CHR 0x22 then map_option (\<lambda>(n, r). (CHR 0x22 # n, r)) (read_body s)
                            else Some ([], d # s))
      else map_option (\<lambda>(n, r). (c # n, r)) (read_body (d # s)))"

definition read_quoted :: "string \<Rightarrow> (string \<times> string) option" where
  "read_quoted s = (case s of c # t \<Rightarrow> (if c = CHR 0x22 then read_body t else None) | [] \<Rightarrow> None)"

definition read_name :: "string \<Rightarrow> (string list \<times> string) option" where
  \<comment> \<open>one quoted identifier, or two joined by a dot\<close>
  "read_name s =
     (case read_quoted s of
        None \<Rightarrow> None
      | Some (a, CHR ''.'' # t) \<Rightarrow> map_option (\<lambda>(b, r). ([a, b], r)) (read_quoted t)
      | Some (a, r) \<Rightarrow> Some ([a], r))"

lemma read_body_quoted:
  "HasPrefix rest [CHR 0x22] = False \<Longrightarrow>
   read_body (ReplaceChar s CHR 0x22 [CHR 0x22, CHR 0x22] @ CHR 0x22 # rest) = Some (s, rest)"
proof (induction s)
  case Nil
  then show ?case by (cases rest) (auto simp: ReplaceChar_def HasPrefix_def)
next
  case (Cons c s)
  have ne: "\<exists>d t. ReplaceChar s CHR 0x22 [CHR 0x22, CHR 0x22] @ CHR 0x22 # rest = d # t"
    by (cases "ReplaceChar s CHR 0x22 [CHR 0x22, CHR 0x22]") auto
  show ?case
  proof (cases "c = CHR 0x22")
    case True
    with Cons show ?thesis by (simp add: ReplaceChar_def)
  next
    case False
    from ne obtain d t where dt: "ReplaceChar s CHR 0x22 [CHR 0x22, CHR 0x22] @ CHR 0x22 # rest = d # t" by blast
    have "ReplaceChar (c # s) CHR 0x22 [CHR 0x22, CHR 0x22] @ CHR 0x22 # rest = c # d # t"
      using False dt by (simp add: ReplaceChar_def)
    with False Cons dt show ?thesis by simp
  qed
qed

lemma read_quoted_quoteIdent:
  "HasPrefix rest [CHR 0x22] = False \<Longrightarrow> read_quoted (quoteIdent s @ rest) = Some (s, rest)"
  by (simp add: read_quoted_def quoteIdent_def read_body_quoted)

text \<open>
  Identifiers cannot break out of their quotes: reading the text that quoting produces, as
  PostgreSQL reads quoted identifiers, gives back the schema and the table, whatever characters
  they contain.
\<close>

theorem quoteQualified_read_back:
  "read_name (quoteQualified sch tab) = Some (if TrimSpace sch = '''' then [tab] else [sch, tab], '''')"
  using read_quoted_quoteIdent [of "''''" tab] read_quoted_quoteIdent [of "CHR ''.'' # quoteIdent tab" sch]
  by (simp add: read_name_def quoteQualified_def HasPrefix_def)

text \<open>A gateway whose database answers every plan with ten rows and every count with a thousand.\<close>

definition sample_pg :: postgres where
  "sample_pg = \<lparr>pg_open_error = (\<lambda>_. None),
     pg_explain = (\<lambda>_ _. ExplainText (Some (JArr [JObj [(''Plan'', JObj [(''Plan Rows'', JFloat 10)])]]))),
     pg_count = (\<lambda>_ _. Inr 1000),
     pg_query = (\<lambda>_ _. Inr \<lparr>rs_columns = [], rs_rows = [], rs_error = None\<rparr>),
     pg_exec = (\<lambda>_ _. Inr 10)\<rparr>"

definition sample_delete :: sqlAnalysis where
  "sample_delete = (highAnalysis ''DELETE'' '''' ''users'' ''DELETE with WHERE modifies table data'')\<lparr>StatementCount := 1\<rparr>"

lemma sample_percent: "affected_percent 10 1000 = 1"
  by code_simp

lemma sample_rows:
  "firstPlanRows (JArr [JObj [(''Plan'', JObj [(''Plan Rows'', JFloat 10)])]]) = Some 10"
  by (simp add: firstPlanRows.simps object_get_def as_float_def int64_of_float_def in_int64_def)

lemma sample_trim:
  "TrimSpace ''users'' = ''users''"
  "TrimSpace ''DELETE FROM users WHERE id = 1'' = ''DELETE FROM users WHERE id = 1''"
  by (simp_all add: TrimSpace_plain space_first_def space_last_def)

definition sample_args :: executeQueryParams where
  "sample_args = \<lparr>eq_Query = ''DELETE FROM users WHERE id = 1'', eq_AgentID = ''a'', eq_DBURL = '''', eq_SnapshotID = ''''\<rparr>"

lemma sample_impact:
  "fst (analyzeImpact sample_pg True DefaultGatewayPolicy sample_args sample_delete quiet_world) =
     Some (impact_of_counts DefaultGatewayPolicy 10 1000)"
  by (simp add: analyzeImpact_def sample_args_def sample_delete_def highAnalysis_def sample_trim Let_def
      openQueryDB_def estimateAffectedRowsWithExplain_def sample_pg_def sample_rows)
    (simp add: DefaultGatewayPolicy_def)


text \<open>
  The search for protected columns sees an assignment written \<^verbatim>\<open>column = value\<close> and misses the same
  update written with a column list in parentheses, which PostgreSQL accepts as well: the first
  reports the protected column, the second reports nothing.
\<close>

theorem protected_column_row_form_missed:
  "protectedUpdatedColumns ''UPDATE users SET password = 1'' [''password''] = [''password''] \<and>
   protectedUpdatedColumns ''UPDATE users SET (password) = ROW(1)'' [''password''] = []"
  by (rule conjI; code_simp)

end
