(* ===== verification/Metadata_Store.thy ===== *)
theory Metadata_Store
  imports Host
begin

text \<open>
  The gateway's metadata store, \<^verbatim>\<open>gateway/metadata_store.go\<close>, with the structs it stores:
  \<open>SnapshotManifest\<close> (\<^verbatim>\<open>gateway/snapshot_verifier.go\<close>), \<open>AuditEntry\<close> (\<^verbatim>\<open>gateway/agent_identity.go\<close>) and
  \<open>ApprovalDetails\<close> (\<^verbatim>\<open>gateway/approval.go\<close>). A \<open>*MetadataStore\<close> is a boolean: false is nil. A writing
  operation returns the error, if any, and the world after its transaction.
\<close>

section \<open>The stored structs\<close>

definition sidecarWriter :: string where "sidecarWriter = ''sync-sidecar''"

record SnapshotManifest =
  m_ManifestVersion :: int
  m_Writer :: string
  m_DBName :: string
  m_SchemaName :: string
  m_SnapshotID :: string
  m_Timestamp :: string
  m_TableName :: string
  m_Operation :: string
  m_RowCount :: int
  m_S3DataKey :: string
  m_S3ManifestKey :: string
  m_SnapshotScope :: string
  m_DataSHA256 :: string
  m_Status :: string
  m_ValidationError :: string

definition zero_manifest :: SnapshotManifest where
  "zero_manifest =
     \<lparr>m_ManifestVersion = 0, m_Writer = '''', m_DBName = '''', m_SchemaName = '''', m_SnapshotID = '''',
      m_Timestamp = '''', m_TableName = '''', m_Operation = '''', m_RowCount = 0, m_S3DataKey = '''',
      m_S3ManifestKey = '''', m_SnapshotScope = '''', m_DataSHA256 = '''', m_Status = '''',
      m_ValidationError = ''''\<rparr>"

definition manifest_fields :: "SnapshotManifest field_table" where
  "manifest_fields =
     [(''manifest_version'', int_field m_ManifestVersion (\<lambda>x. m_ManifestVersion_update (\<lambda>_. x))),
      (''writer'', str_field m_Writer (\<lambda>x. m_Writer_update (\<lambda>_. x))),
      (''db_name'', str_field m_DBName (\<lambda>x. m_DBName_update (\<lambda>_. x))),
      (''schema_name'', str_field m_SchemaName (\<lambda>x. m_SchemaName_update (\<lambda>_. x))),
      (''snapshot_id'', str_field m_SnapshotID (\<lambda>x. m_SnapshotID_update (\<lambda>_. x))),
      (''timestamp'', str_field m_Timestamp (\<lambda>x. m_Timestamp_update (\<lambda>_. x))),
      (''table_name'', str_field m_TableName (\<lambda>x. m_TableName_update (\<lambda>_. x))),
      (''operation'', str_field m_Operation (\<lambda>x. m_Operation_update (\<lambda>_. x))),
      (''row_count'', int_field m_RowCount (\<lambda>x. m_RowCount_update (\<lambda>_. x))),
      (''s3_data_key'', str_field m_S3DataKey (\<lambda>x. m_S3DataKey_update (\<lambda>_. x))),
      (''s3_manifest_key'', str_field m_S3ManifestKey (\<lambda>x. m_S3ManifestKey_update (\<lambda>_. x))),
      (''snapshot_scope'', str_field m_SnapshotScope (\<lambda>x. m_SnapshotScope_update (\<lambda>_. x))),
      (''data_sha256'', str_field m_DataSHA256 (\<lambda>x. m_DataSHA256_update (\<lambda>_. x))),
      (''status'', str_field m_Status (\<lambda>x. m_Status_update (\<lambda>_. x))),
      (''validation_error'', str_field m_ValidationError (\<lambda>x. m_ValidationError_update (\<lambda>_. x)))]"

definition unmarshal_manifest :: "json \<Rightarrow> SnapshotManifest option" where
  "unmarshal_manifest v = decode_struct manifest_fields v zero_manifest"

definition marshal_manifest :: "SnapshotManifest \<Rightarrow> json" where
  "marshal_manifest m =
     JObj ([(''manifest_version'', JInt (m_ManifestVersion m)),
            (''writer'', JStr (m_Writer m)),
            (''db_name'', JStr (m_DBName m)),
            (''schema_name'', JStr (m_SchemaName m)),
            (''snapshot_id'', JStr (m_SnapshotID m)),
            (''timestamp'', JStr (m_Timestamp m)),
            (''table_name'', JStr (m_TableName m)),
            (''operation'', JStr (m_Operation m)),
            (''row_count'', JInt (m_RowCount m)),
            (''s3_data_key'', JStr (m_S3DataKey m)),
            (''s3_manifest_key'', JStr (m_S3ManifestKey m)),
            (''snapshot_scope'', JStr (m_SnapshotScope m)),
            (''data_sha256'', JStr (m_DataSHA256 m)),
            (''status'', JStr (m_Status m))]
           @ omit_str ''validation_error'' (m_ValidationError m))"

definition manifest_ints :: "SnapshotManifest \<Rightarrow> bool" where
  "manifest_ints m \<longleftrightarrow> in_int64 (m_ManifestVersion m) \<and> in_int64 (m_RowCount m)"

lemma manifest_round_trip: "manifest_ints m \<Longrightarrow> unmarshal_manifest (marshal_manifest m) = Some m"
  using decode_omitted [of manifest_fields "''validation_error''" _ _ _ "[]"]
  by (simp add: unmarshal_manifest_def marshal_manifest_def decode_struct_def manifest_fields_def
      zero_manifest_def str_field_def int_field_def manifest_ints_def)

record AuditEntry =
  ae_AgentID :: string
  ae_Query :: string
  ae_QuerySHA256 :: string
  ae_RiskLevel :: string
  ae_Approved :: bool
  ae_Environment :: string
  ae_ClusterID :: string
  ae_Timestamp :: instant

record ApprovalDetails =
  ad_ID :: string
  ad_Query :: string
  ad_QuerySHA256 :: string
  ad_AgentID :: string
  ad_RiskLevel :: string
  ad_Operation :: string
  ad_Schema :: string
  ad_Table :: string
  ad_Environment :: string
  ad_ClusterID :: string
  ad_SnapshotID :: string

record AgentState =
  st_AgentID :: string
  st_RiskyAttempts :: int
  st_WindowStartedAt :: instant
  st_QuarantineUntil :: "instant option"
  st_LastReason :: string
  st_LastTable :: string

section \<open>Agent state\<close>

definition GetAgentState :: "bool \<Rightarrow> string \<Rightarrow> world \<Rightarrow> AgentState option \<times> world" where
  \<comment> \<open>\<open>None\<close> when the second result is false: no store, no row, a NULL text or a failed read\<close>
  "GetAgentState s agentID w =
     (if \<not> s then (None, w)
      else case read_fault w (draws w) of
        Some e \<Rightarrow> (None, drawn w)
      | None \<Rightarrow>
          (case select_key (agent_state (store w)) agentID of
             None \<Rightarrow> (None, drawn w)
           | Some r \<Rightarrow>
               (case (ag_last_reason r, ag_last_table r) of
                  (Some reason, Some tab) \<Rightarrow>
                    (Some \<lparr>st_AgentID = agentID, st_RiskyAttempts = ag_risky_attempts r,
                           st_WindowStartedAt =
                             (case ParseRFC3339 (ag_window_started_at r) of Some t \<Rightarrow> t | None \<Rightarrow> zero_time),
                           st_QuarantineUntil =
                             (case ag_quarantine_until r of
                                None \<Rightarrow> None
                              | Some q \<Rightarrow> if q = '''' then None else ParseRFC3339 q),
                           st_LastReason = reason, st_LastTable = tab\<rparr>, drawn w)
                | _ \<Rightarrow> (None, drawn w))))"

definition SaveAgentState :: "bool \<Rightarrow> AgentState \<Rightarrow> world \<Rightarrow> string option \<times> world" where
  "SaveAgentState s st w =
     (if \<not> s then (None, w)
      else let quarantine = (case st_QuarantineUntil st of None \<Rightarrow> '''' | Some u \<Rightarrow> FormatRFC3339Nano u);
               (now, w1) = Now w
           in withTx (\<lambda>db. Inr (db\<lparr>agent_state := insert_or_replace (st_AgentID st)
                \<lparr>ag_risky_attempts = st_RiskyAttempts st,
                 ag_window_started_at = FormatRFC3339Nano (st_WindowStartedAt st),
                 ag_quarantine_until = Some quarantine,
                 ag_last_reason = Some (st_LastReason st),
                 ag_last_table = Some (st_LastTable st),
                 ag_updated_at = FormatRFC3339Nano now\<rparr> (agent_state db)\<rparr>)) w1)"

section \<open>Audit and approvals\<close>

definition boolInt :: "bool \<Rightarrow> int" where
  "boolInt value = (if value then 1 else 0)"

definition RecordAudit :: "bool \<Rightarrow> AuditEntry \<Rightarrow> world \<Rightarrow> string option \<times> world" where
  "RecordAudit s entry w =
     (if \<not> s then (None, w)
      else withTx (\<lambda>db. Inr (db\<lparr>audit_events := audit_events db @
             [\<lparr>au_timestamp = FormatRFC3339Nano (ae_Timestamp entry), au_agent_id = ae_AgentID entry,
               au_query = ae_Query entry, au_risk_level = ae_RiskLevel entry,
               au_approved = boolInt (ae_Approved entry), au_query_sha256 = ae_QuerySHA256 entry,
               au_environment = ae_Environment entry, au_cluster_id = ae_ClusterID entry\<rparr>]\<rparr>)) w)"

definition StoreApprovalRequested :: "bool \<Rightarrow> ApprovalDetails \<Rightarrow> world \<Rightarrow> string option \<times> world" where
  "StoreApprovalRequested s d w =
     (if \<not> s then (None, w)
      else let (now, w1) = Now w
           in withTx (\<lambda>db. Inr (db\<lparr>approvals_tbl := insert_or_replace (ad_ID d)
                \<lparr>ap_agent_id = ad_AgentID d, ap_query = ad_Query d, ap_risk_level = ad_RiskLevel d,
                 ap_status = ''pending'', ap_created_at = FormatRFC3339Nano now, ap_resolved_at = None,
                 ap_query_sha256 = ad_QuerySHA256 d, ap_operation = ad_Operation d,
                 ap_schema_name = ad_Schema d, ap_table_name = ad_Table d,
                 ap_environment = ad_Environment d, ap_cluster_id = ad_ClusterID d,
                 ap_snapshot_id = ad_SnapshotID d, ap_resolved_by = None\<rparr> (approvals_tbl db)\<rparr>)) w1)"

definition StoreApprovalResolved :: "bool \<Rightarrow> string \<Rightarrow> string \<Rightarrow> string \<Rightarrow> world \<Rightarrow> string option \<times> world" where
  "StoreApprovalResolved s approvalID status actor w =
     (if \<not> s then (None, w)
      else let (now, w1) = Now w
           in withTx (\<lambda>db.
                let rows = rows_with_key approvalID (approvals_tbl db) in
                if rows \<noteq> 1
                then Inl (''approval metadata update affected '' @ int_str (int rows)
                          @ '' rows for approval_id='' @ approvalID)
                else Inr (db\<lparr>approvals_tbl := update_key approvalID
                       (\<lambda>r. r\<lparr>ap_status := status, ap_resolved_at := Some (FormatRFC3339Nano now),
                               ap_resolved_by := Some actor\<rparr>) (approvals_tbl db)\<rparr>)) w1)"

section \<open>Snapshots\<close>

definition RecordSnapshot :: "bool \<Rightarrow> SnapshotManifest \<Rightarrow> world \<Rightarrow> string option \<times> world" where
  "RecordSnapshot s m w =
     (if \<not> s then (None, w)
      else withTx (\<lambda>db. Inr (db\<lparr>snapshots_tbl := insert_or_replace (m_SnapshotID m)
             \<lparr>sn_table_name = m_TableName m, sn_writer = m_Writer m, sn_snapshot_scope = m_SnapshotScope m,
              sn_row_count = m_RowCount m, sn_manifest_key = Some (m_S3ManifestKey m),
              sn_timestamp = m_Timestamp m, sn_payload_json = Some (marshal_manifest m),
              sn_status = or_else '''' ''valid'' (m_Status m),
              sn_validation_error = m_ValidationError m\<rparr> (snapshots_tbl db)\<rparr>)) w)"

definition RecordInvalidSnapshot :: "bool \<Rightarrow> SnapshotManifest \<Rightarrow> string \<Rightarrow> world \<Rightarrow> string option \<times> world" where
  "RecordInvalidSnapshot s m validationErr w =
     (if \<not> s then (None, w)
      else let m1 = m\<lparr>m_Status := ''invalid'', m_ValidationError := validationErr\<rparr>
           in if m_Timestamp m1 = ''''
              then let (now, w1) = Now w in RecordSnapshot s (m1\<lparr>m_Timestamp := FormatRFC3339 now\<rparr>) w1
              else RecordSnapshot s m1 w)"

definition QuarantineManifest :: "bool \<Rightarrow> string \<Rightarrow> string \<Rightarrow> string \<Rightarrow> string \<Rightarrow> world \<Rightarrow> string option \<times> world" where
  "QuarantineManifest s snapshotID tab manifestKey reason w =
     (if \<not> s then (None, w)
      else let (sid, w1) = (if snapshotID = ''''
                            then let (t, w') = Now w in (''unknown_'' @ FormatCompact t, w')
                            else (snapshotID, w));
               (now, w2) = Now w1
           in RecordSnapshot s (zero_manifest\<lparr>m_SnapshotID := sid, m_TableName := tab,
                m_S3ManifestKey := manifestKey, m_Timestamp := FormatRFC3339 now,
                m_Status := ''quarantined'', m_ValidationError := reason, m_Writer := sidecarWriter,
                m_SnapshotScope := ''table''\<rparr>) w2)"

definition payload_matches :: "SnapshotManifest \<Rightarrow> SnapshotManifest \<Rightarrow> bool" where
  "payload_matches recorded m \<longleftrightarrow>
     m_SnapshotID recorded = m_SnapshotID m \<and> m_TableName recorded = m_TableName m \<and>
     m_S3ManifestKey recorded = m_S3ManifestKey m \<and> m_S3DataKey recorded = m_S3DataKey m \<and>
     m_DataSHA256 recorded = m_DataSHA256 m \<and> m_Status recorded = ''valid''"

definition ValidateSnapshotRecord :: "bool \<Rightarrow> SnapshotManifest \<Rightarrow> world \<Rightarrow> string option \<times> world" where
  "ValidateSnapshotRecord s m w =
     (if \<not> s then (Some ''metadata store is unavailable'', w)
      else case read_fault w (draws w) of
        Some e \<Rightarrow> (Some (''metadata snapshot lookup failed for '' @ m_SnapshotID m @ '': '' @ e), drawn w)
      | None \<Rightarrow>
         (case select_key (snapshots_tbl (store w)) (m_SnapshotID m) of
            None \<Rightarrow> (Some (''metadata state is ambiguous: snapshot '' @ m_SnapshotID m
                          @ '' is missing from SQLite metadata''), drawn w)
          | Some r \<Rightarrow>
              (case (sn_manifest_key r, sn_payload_json r) of
                 (Some manifestKey, Some payload) \<Rightarrow>
                   (if sn_status r \<noteq> ''valid''
                    then (Some (''metadata snapshot '' @ m_SnapshotID m @ '' is not valid: status='' @ sn_status r), drawn w)
                    else if sn_table_name r \<noteq> m_TableName m
                    then (Some (''metadata snapshot table mismatch: metadata='' @ sn_table_name r
                                @ '' manifest='' @ m_TableName m), drawn w)
                    else if manifestKey \<noteq> m_S3ManifestKey m
                    then (Some (''metadata snapshot manifest_key mismatch: metadata='' @ manifestKey
                                @ '' manifest='' @ m_S3ManifestKey m), drawn w)
                    else case unmarshal_manifest payload of
                      None \<Rightarrow> (Some (''metadata snapshot payload is corrupt for '' @ m_SnapshotID m), drawn w)
                    | Some recorded \<Rightarrow>
                        (if \<not> payload_matches recorded m
                         then (Some (''metadata snapshot payload does not match verified manifest for ''
                                     @ m_SnapshotID m), drawn w)
                         else (None, drawn w)))
               | _ \<Rightarrow> (Some (''metadata snapshot lookup failed for '' @ m_SnapshotID m
                             @ '': converting NULL to string is unsupported''), drawn w))))"

section \<open>Alerts and health\<close>

definition StoreAlert :: "bool \<Rightarrow> string \<Rightarrow> string \<Rightarrow> string \<Rightarrow> string \<Rightarrow> json \<Rightarrow> world \<Rightarrow> string option \<times> world" where
  "StoreAlert s severity eventType tab status payload w =
     (if \<not> s then (None, w)
      else let (now, w1) = Now w
           in withTx (\<lambda>db. Inr (db\<lparr>alerts_tbl := alerts_tbl db @
                [\<lparr>al_timestamp = FormatRFC3339Nano now, al_severity = severity, al_event_type = eventType,
                  al_table_name = tab, al_status = status, al_payload_json = payload\<rparr>]\<rparr>)) w1)"

definition RecordHealth :: "bool \<Rightarrow> string \<Rightarrow> string \<Rightarrow> json \<Rightarrow> world \<Rightarrow> string option \<times> world" where
  "RecordHealth s component status detail w =
     (if \<not> s then (None, w)
      else let (now, w1) = Now w
           in withTx (\<lambda>db. Inr (db\<lparr>health_checks := insert_or_replace component
                \<lparr>he_status = status, he_checked_at = FormatRFC3339Nano now, he_detail_json = detail\<rparr>
                (health_checks db)\<rparr>)) w1)"

definition GetHealth :: "bool \<Rightarrow> string \<Rightarrow> world \<Rightarrow> (string \<times> instant) option \<times> world" where
  "GetHealth s component w =
     (if \<not> s then (None, w)
      else case read_fault w (draws w) of
        Some e \<Rightarrow> (None, drawn w)
      | None \<Rightarrow>
          (case select_key (health_checks (store w)) component of
             None \<Rightarrow> (None, drawn w)
           | Some r \<Rightarrow>
               (case ParseRFC3339 (he_checked_at r) of
                  None \<Rightarrow> (None, drawn w)
                | Some t \<Rightarrow> (Some (he_status r, t), drawn w))))"

section \<open>Queries of the dashboards\<close>

text \<open>
  \<^verbatim>\<open>ORDER BY c DESC LIMIT 500\<close>: rows with equal text stay in table order. The rows are returned as
  records of the columns; an empty filter value filters nothing.
\<close>

definition order_desc :: "('r \<Rightarrow> string) \<Rightarrow> 'r list \<Rightarrow> 'r list" where
  "order_desc c rows = rev (sort_key c (rev rows))"

definition matches :: "string \<Rightarrow> string \<Rightarrow> bool" where
  "matches filter_value column \<longleftrightarrow> filter_value = '''' \<or> column = filter_value"

definition queryControlledRows ::
  "bool \<Rightarrow> (sqlite \<Rightarrow> 'r list) \<Rightarrow> ('r \<Rightarrow> string) \<Rightarrow> ('r \<Rightarrow> bool) \<Rightarrow> world \<Rightarrow> (string + 'r list) \<times> world" where
  "queryControlledRows s tab orderBy filters w =
     (if \<not> s then (Inr [], w)
      else case read_fault w (draws w) of
        Some e \<Rightarrow> (Inl e, drawn w)
      | None \<Rightarrow> (Inr (take 500 (order_desc orderBy (filter filters (tab (store w))))), drawn w))"

definition QueryAudit :: "bool \<Rightarrow> string \<Rightarrow> string \<Rightarrow> world \<Rightarrow> (string + audit_row list) \<times> world" where
  "QueryAudit s agentID risk =
     queryControlledRows s audit_events au_timestamp
       (\<lambda>r. matches agentID (au_agent_id r) \<and> matches risk (au_risk_level r))"

definition latest_valid :: "(string, snapshot_row) table \<Rightarrow> string \<times> snapshot_row \<Rightarrow> bool" where
  \<comment> \<open>valid, and with the largest timestamp text of the valid rows of its table\<close>
  "latest_valid t r \<longleftrightarrow>
     sn_status (snd r) = ''valid'' \<and>
     list_all (\<lambda>r'. sn_table_name (snd r') = sn_table_name (snd r) \<and> sn_status (snd r') = ''valid''
                 \<longrightarrow> sn_timestamp (snd r') \<le> sn_timestamp (snd r)) t"

definition QuerySnapshots ::
  "bool \<Rightarrow> string \<Rightarrow> bool \<Rightarrow> world \<Rightarrow> (string + (string \<times> snapshot_row) list) \<times> world" where
  "QuerySnapshots s tab latestValidOnly w =
     (if \<not> latestValidOnly
      then queryControlledRows s snapshots_tbl (\<lambda>r. sn_timestamp (snd r))
             (\<lambda>r. matches tab (sn_table_name (snd r))) w
      else queryControlledRows s snapshots_tbl (\<lambda>r. sn_timestamp (snd r))
             (\<lambda>r. latest_valid (snapshots_tbl (store w)) r \<and> matches tab (sn_table_name (snd r))) w)"

definition QueryAlerts :: "bool \<Rightarrow> world \<Rightarrow> (string + alert_row list) \<times> world" where
  "QueryAlerts s = queryControlledRows s alerts_tbl al_timestamp (\<lambda>_. True)"

definition QueryHealth :: "bool \<Rightarrow> world \<Rightarrow> (string + (string \<times> health_row) list) \<times> world" where
  "QueryHealth s = queryControlledRows s health_checks (\<lambda>r. he_checked_at (snd r)) (\<lambda>_. True)"

section \<open>What the operations promise\<close>

lemma Now_same [simp]: "same_outside w (snd (Now w))" "store (snd (Now w)) = store w"
  by (simp_all add: Now_def)

text \<open>Every writer fails only by leaving the tables as they were, and keeps the primary keys.\<close>

definition atomic_write :: "(world \<Rightarrow> string option \<times> world) \<Rightarrow> bool" where
  "atomic_write f \<longleftrightarrow>
     (\<forall>w. (fst (f w) \<noteq> None \<longrightarrow> store (snd (f w)) = store w) \<and>
          (keys_unique (store w) \<longrightarrow> keys_unique (store (snd (f w)))) \<and> same_outside w (snd (f w)))"

lemma withTx_read_fault: "withTx f w = (r, w') \<Longrightarrow> read_fault w' = read_fault w"
  using same_outside_withTx [of w f] by (simp add: same_outside_def)

lemma atomic_withTx:
  assumes "\<And>db db'. f db = Inr db' \<Longrightarrow> keys_unique db \<Longrightarrow> keys_unique db'"
  shows "atomic_write (withTx f)"
  unfolding atomic_write_def
proof (intro allI)
  fix w
  obtain r w' where rw: "withTx f w = (r, w')" by fastforce
  then show "(fst (withTx f w) \<noteq> None \<longrightarrow> store (snd (withTx f w)) = store w) \<and>
      (keys_unique (store w) \<longrightarrow> keys_unique (store (snd (withTx f w)))) \<and> same_outside w (snd (withTx f w))"
    using same_outside_withTx [of w f] assms [OF sym] by (cases rule: withTx_cases) (auto simp: rw)
qed

lemma atomic_Now: "(\<And>t. atomic_write (f t)) \<Longrightarrow> atomic_write (\<lambda>w. let (t, w1) = Now w in f t w1)"
  unfolding atomic_write_def
  by (auto simp: Now_def) (metis drawn_simps same_outside_drawn same_outside_trans)+

lemma atomic_skip: "atomic_write (\<lambda>w. (None, w))"
  by (simp add: atomic_write_def)

lemma atomic_if: "atomic_write f \<Longrightarrow> atomic_write g \<Longrightarrow> atomic_write (\<lambda>w. if b then f w else g w)"
  by (simp add: atomic_write_def)

lemma atomic_eta: "atomic_write (\<lambda>w. f w) \<Longrightarrow> atomic_write f"
  by simp

lemma keys_unique_put [simp]:
  "keys_unique db \<Longrightarrow> keys_unique (db\<lparr>agent_state := insert_or_replace k a (agent_state db)\<rparr>)"
  "keys_unique db \<Longrightarrow> keys_unique (db\<lparr>approvals_tbl := insert_or_replace k b (approvals_tbl db)\<rparr>)"
  "keys_unique db \<Longrightarrow> keys_unique (db\<lparr>approvals_tbl := update_key k f (approvals_tbl db)\<rparr>)"
  "keys_unique db \<Longrightarrow> keys_unique (db\<lparr>snapshots_tbl := insert_or_replace k c (snapshots_tbl db)\<rparr>)"
  "keys_unique db \<Longrightarrow> keys_unique (db\<lparr>health_checks := insert_or_replace k d (health_checks db)\<rparr>)"
  "keys_unique db \<Longrightarrow> keys_unique (db\<lparr>audit_events := xs\<rparr>)"
  "keys_unique db \<Longrightarrow> keys_unique (db\<lparr>alerts_tbl := ys\<rparr>)"
  by (simp_all add: keys_unique_def tab.wf_put tab.wf_upd)

lemma atomic_RecordSnapshot: "atomic_write (RecordSnapshot s m)"
  unfolding RecordSnapshot_def
  by (rule atomic_eta, rule atomic_if, rule atomic_skip, rule atomic_withTx) auto

lemma atomic_writers:
  "atomic_write (SaveAgentState s st)"
  "atomic_write (RecordAudit s entry)"
  "atomic_write (StoreApprovalRequested s d)"
  "atomic_write (StoreApprovalResolved s approvalID status actor)"
  "atomic_write (StoreAlert s severity eventType t status payload)"
  "atomic_write (RecordHealth s component status detail)"
  unfolding SaveAgentState_def RecordAudit_def StoreApprovalRequested_def StoreApprovalResolved_def
    StoreAlert_def RecordHealth_def Let_def
  by (rule atomic_eta, rule atomic_if, rule atomic_skip,
      (rule atomic_Now [unfolded Let_def])?, rule atomic_withTx, auto split: if_splits)+

lemma atomic_RecordInvalidSnapshot: "atomic_write (RecordInvalidSnapshot s m e)"
  unfolding RecordInvalidSnapshot_def Let_def
  by (intro atomic_if atomic_skip atomic_Now [unfolded Let_def] atomic_RecordSnapshot)

lemma atomic_QuarantineManifest: "atomic_write (QuarantineManifest s sid t key reason)"
proof -
  let ?m = "\<lambda>sid now. zero_manifest\<lparr>m_SnapshotID := sid, m_TableName := t, m_S3ManifestKey := key,
      m_Timestamp := FormatRFC3339 now, m_Status := ''quarantined'', m_ValidationError := reason,
      m_Writer := sidecarWriter, m_SnapshotScope := ''table''\<rparr>"
  have "QuarantineManifest s sid t key reason =
      (\<lambda>w. if \<not> s then (None, w)
           else if sid = ''''
           then let (t1, w1) = Now w in let (now, w2) = Now w1 in
                RecordSnapshot s (?m (''unknown_'' @ FormatCompact t1) now) w2
           else let (now, w2) = Now w in RecordSnapshot s (?m sid now) w2)"
    by (rule ext) (simp add: QuarantineManifest_def Now_def)
  then show ?thesis by (simp only:) (intro atomic_if atomic_skip atomic_Now atomic_RecordSnapshot)
qed

section \<open>Properties of the store\<close>


text \<open>The state a row of the table stands for, and that a saved state is the one its row stands for.\<close>

definition stored_state :: "sqlite \<Rightarrow> string \<Rightarrow> AgentState option" where
  "stored_state db agentID =
     (case select_key (agent_state db) agentID of
        None \<Rightarrow> None
      | Some r \<Rightarrow>
          (case (ag_last_reason r, ag_last_table r) of
             (Some reason, Some tab) \<Rightarrow>
               Some \<lparr>st_AgentID = agentID, st_RiskyAttempts = ag_risky_attempts r,
                     st_WindowStartedAt =
                       (case ParseRFC3339 (ag_window_started_at r) of Some t \<Rightarrow> t | None \<Rightarrow> zero_time),
                     st_QuarantineUntil =
                       (case ag_quarantine_until r of
                          None \<Rightarrow> None
                        | Some q \<Rightarrow> if q = '''' then None else ParseRFC3339 q),
                     st_LastReason = reason, st_LastTable = tab\<rparr>
           | _ \<Rightarrow> None))"

lemma GetAgentState_stored:
  "read_fault w (draws w) = None \<Longrightarrow> GetAgentState True i w = (stored_state (store w) i, drawn w)"
  by (simp add: GetAgentState_def stored_state_def split: option.splits)

lemma SaveAgentState_stored:
  assumes save: "SaveAgentState True st w = (None, w')" and "printable (st_WindowStartedAt st)"
    and "\<forall>u. st_QuarantineUntil st = Some u \<longrightarrow> printable u"
  shows "stored_state (store w') (st_AgentID st) = Some st \<and> same_outside w w'"
proof -
  let ?q = "case st_QuarantineUntil st of None \<Rightarrow> '''' | Some u \<Rightarrow> FormatRFC3339Nano u"
  have q: "(if ?q = '''' then None else ParseRFC3339 ?q) = st_QuarantineUntil st"
    using nano.optional_round_trip [OF assms(3)] by (simp add: Let_def)
  let ?f = "\<lambda>db. Inr (db\<lparr>agent_state := insert_or_replace (st_AgentID st)
        \<lparr>ag_risky_attempts = st_RiskyAttempts st,
         ag_window_started_at = FormatRFC3339Nano (st_WindowStartedAt st),
         ag_quarantine_until = Some ?q, ag_last_reason = Some (st_LastReason st),
         ag_last_table = Some (st_LastTable st),
         ag_updated_at = FormatRFC3339Nano (clock w (draws w))\<rparr> (agent_state db)\<rparr>)"
  have tx: "withTx ?f (drawn w) = (None, w')"
    using save by (simp add: SaveAgentState_def Now_def)
  have "same_outside w w'"
    using same_outside_trans [OF same_outside_drawn [of w] same_outside_withTx [of "drawn w" ?f]] tx by simp
  moreover from tx have "stored_state (store w') (st_AgentID st) = Some st"
  proof (cases rule: withTx_cases)
    case committed
    with q assms(2) show ?thesis
      by (simp add: stored_state_def tab.get_put_same nano.parse_print)
  qed simp
  ultimately show ?thesis by simp
qed

text \<open>
  What is saved of an agent is what is read back: after a successful save, a read that does not
  fail returns exactly the saved state, the quarantine included, to the nanosecond.
\<close>

theorem agent_state_round_trip:
  assumes "fst (SaveAgentState True st w) = None"
    and "read_fault w (draws (snd (SaveAgentState True st w))) = None"
    and "printable (st_WindowStartedAt st)"
    and "\<forall>u. st_QuarantineUntil st = Some u \<longrightarrow> printable u"
  shows "fst (GetAgentState True (st_AgentID st) (snd (SaveAgentState True st w))) = Some st"
proof -
  obtain r w' where rw: "SaveAgentState True st w = (r, w')" by fastforce
  with assms(1) have "SaveAgentState True st w = (None, w')" by simp
  from SaveAgentState_stored [OF this assms(3,4)] assms(2) rw show ?thesis
    by (simp add: GetAgentState_stored same_outside_def)
qed

theorem agent_state_round_trip_witness:
  "fst (GetAgentState True ''a'' (snd (SaveAgentState True
      \<lparr>st_AgentID = ''a'', st_RiskyAttempts = 3, st_WindowStartedAt = 0, st_QuarantineUntil = Some (5 * Second),
       st_LastReason = ''blocked'', st_LastTable = ''users''\<rparr> quiet_world))) =
   Some \<lparr>st_AgentID = ''a'', st_RiskyAttempts = 3, st_WindowStartedAt = 0, st_QuarantineUntil = Some (5 * Second),
       st_LastReason = ''blocked'', st_LastTable = ''users''\<rparr>"
  using agent_state_round_trip [of "\<lparr>st_AgentID = ''a'', st_RiskyAttempts = 3, st_WindowStartedAt = 0,
      st_QuarantineUntil = Some (5 * Second), st_LastReason = ''blocked'', st_LastTable = ''users''\<rparr>" quiet_world]
    printable_range [of 0] printable_range [of "5 * Second"]
  by (simp add: SaveAgentState_def Now_def withTx_def Second_def)

text \<open>
  A snapshot passes validation exactly when the last record under its identifier says so: after
  a snapshot was recorded, a manifest with that identifier is accepted if and only if the recorded
  one was marked valid explicitly and agrees on table, keys and data hash. A record with an empty
  status gets the column value valid but is still rejected.
\<close>

theorem validate_after_record:
  assumes "fst (RecordSnapshot True m w) = None" "manifest_ints m"
    and "read_fault w (draws (snd (RecordSnapshot True m w))) = None"
    and "m_SnapshotID m' = m_SnapshotID m"
  shows "fst (ValidateSnapshotRecord True m' (snd (RecordSnapshot True m w))) = None \<longleftrightarrow>
     m_Status m = ''valid'' \<and> m_TableName m' = m_TableName m \<and> m_S3ManifestKey m' = m_S3ManifestKey m \<and>
     m_S3DataKey m' = m_S3DataKey m \<and> m_DataSHA256 m' = m_DataSHA256 m"
proof -
  obtain r w' where rw: "RecordSnapshot True m w = (r, w')" by fastforce
  then have tx: "withTx (\<lambda>db. Inr (db\<lparr>snapshots_tbl := insert_or_replace (m_SnapshotID m)
             \<lparr>sn_table_name = m_TableName m, sn_writer = m_Writer m, sn_snapshot_scope = m_SnapshotScope m,
              sn_row_count = m_RowCount m, sn_manifest_key = Some (m_S3ManifestKey m),
              sn_timestamp = m_Timestamp m, sn_payload_json = Some (marshal_manifest m),
              sn_status = or_else '''' ''valid'' (m_Status m),
              sn_validation_error = m_ValidationError m\<rparr> (snapshots_tbl db)\<rparr>)) w = (r, w')"
    by (simp add: RecordSnapshot_def)
  have rf: "read_fault w' (draws w') = None"
    using assms(3) withTx_read_fault [OF tx] rw by simp
  from tx show ?thesis
  proof (cases rule: withTx_cases)
    case (fault e)
    with assms(1) rw show ?thesis by simp
  next
    case committed
    with rw rf assms(2,4) show ?thesis
      by (auto simp: ValidateSnapshotRecord_def tab.get_put_same manifest_round_trip payload_matches_def or_else_def)
  qed
qed

definition sample_manifest :: SnapshotManifest where
  "sample_manifest = zero_manifest\<lparr>m_SnapshotID := ''snap_1'', m_TableName := ''users'', m_Writer := ''sync-sidecar'',
     m_SnapshotScope := ''table'', m_S3ManifestKey := ''p/snapshots/users/snap_1/manifest.json'',
     m_S3DataKey := ''p/snapshots/users/snap_1/data.parquet'', m_Timestamp := ''1970-01-01T00:00:00Z'',
     m_DataSHA256 := ''ab'', m_Status := ''valid''\<rparr>"

theorem validate_after_record_witness:
  "fst (ValidateSnapshotRecord True sample_manifest (snd (RecordSnapshot True sample_manifest quiet_world))) = None"
  using validate_after_record [of sample_manifest quiet_world sample_manifest]
  by (simp add: sample_manifest_def zero_manifest_def manifest_ints_def in_int64_def RecordSnapshot_def withTx_def)

lemma quarantine_rejects:
  assumes "sid \<noteq> ''''" "fst (QuarantineManifest True sid t key reason w) = None" "m_SnapshotID m = sid"
  shows "fst (ValidateSnapshotRecord True m (snd (QuarantineManifest True sid t key reason w))) \<noteq> None"
proof -
  obtain r w' where rw: "QuarantineManifest True sid t key reason w = (r, w')" by fastforce
  then have "withTx (\<lambda>db. Inr (db\<lparr>snapshots_tbl := insert_or_replace sid
             \<lparr>sn_table_name = t, sn_writer = sidecarWriter, sn_snapshot_scope = ''table'', sn_row_count = 0,
              sn_manifest_key = Some key, sn_timestamp = FormatRFC3339 (clock w (draws w)),
              sn_payload_json = Some (marshal_manifest (zero_manifest\<lparr>m_SnapshotID := sid, m_TableName := t,
                m_S3ManifestKey := key, m_Timestamp := FormatRFC3339 (clock w (draws w)),
                m_Status := ''quarantined'', m_ValidationError := reason, m_Writer := sidecarWriter,
                m_SnapshotScope := ''table''\<rparr>)),
              sn_status = ''quarantined'', sn_validation_error = reason\<rparr> (snapshots_tbl db)\<rparr>)) (drawn w) = (r, w')"
    using assms(1) by (simp add: QuarantineManifest_def RecordSnapshot_def Now_def or_else_def zero_manifest_def)
  then show ?thesis
  proof (cases rule: withTx_cases)
    case (fault e)
    with assms(2) rw show ?thesis by simp
  next
    case committed
    with rw assms(3) show ?thesis
      by (auto simp: ValidateSnapshotRecord_def tab.get_put_same split: option.splits)
  qed
qed



section \<open>The order of the listings\<close>

text \<open>
  Listings are ordered by the text of a time stamp that drops trailing zeros of the fraction, so within a second
  the text does not order by time: an entry recorded half a second later than another
  comes after it in the listing of the newest first.
\<close>

definition event_at :: "instant \<Rightarrow> audit_row" where
  "event_at t = \<lparr>au_timestamp = FormatRFC3339Nano t, au_agent_id = ''a'', au_query = ''SELECT 1'', au_risk_level = ''SAFE'', au_approved = 1,
     au_query_sha256 = '''', au_environment = '''', au_cluster_id = ''''\<rparr>"

lemma less_append_same: "p @ a < p @ b \<longleftrightarrow> a < (b :: string)"
  by (induction p) simp_all

theorem audit_listing_order:
  "fst (QueryAudit True '''' '''' (quiet_world\<lparr>store := empty_sqlite\<lparr>audit_events := [event_at 0, event_at 500000000]\<rparr>\<rparr>)) =
     Inr [event_at 0, event_at 500000000]"
proof -
  have same: "date_time_str (civil_of 500000000) = date_time_str (civil_of 0)"
    by (simp add: civil_of_def date_time_str_def Let_def Second_def split: prod.split)
  have nano: "cnano (civil_of t) = t mod Second" for t
    by (simp add: civil_of_def Let_def split: prod.split)
  have step: "pad (numeral k) n = pad (pred_numeral k) (n div 10) @ [digit (n mod 10)]" for k n
    by (subst numeral_eq_Suc) (rule pad.simps)
  have digits: "digit 0 = CHR ''0''" "digit 5 = CHR ''5''" "pad 1 n = [digit (n mod 10)]" for n
    by (code_simp, code_simp, simp)
  have half: "frac9 500000000 = ''.5''" and whole: "frac9 0 = []"
    by (simp_all add: frac9_def rtrim0_def step digits del: One_nat_def)
  have "au_timestamp (event_at 500000000) < au_timestamp (event_at 0)"
    by (simp add: event_at_def FormatRFC3339Nano_def same nano less_append_same half whole Second_def less_char_def)
  then show ?thesis by (simp add: QueryAudit_def queryControlledRows_def order_desc_def matches_def)
qed

end
