(* ===== verification/Registry.thy ===== *)
theory Registry
  imports Metadata_Store
begin

text \<open>
  The audit registry, \<^verbatim>\<open>gateway/agent_identity.go\<close>: the scrubbing of secrets, the bounded list of
  entries in memory, the optional JSONL file and the optional metadata store. The audit
  file is a list of lines and perhaps a torn one at the end; a line is its length and the entry it decodes to, if it does.
  Shown are the bound of the memory, that a restart on the file brings the history back, and that one line
  longer than the reader's buffer loses all of it.
\<close>

section \<open>Replacing matches\<close>

text \<open>
  \<^verbatim>\<open>ReplaceAllString\<close> with a pattern that depends on the text ahead only and never matches the empty
  string: a matcher returns what replaces the match at the front of a text and the rest after it.
\<close>

type_synonym matcher = "string \<Rightarrow> (string \<times> string) option"

function ReplaceAll :: "matcher \<Rightarrow> string \<Rightarrow> string" where
  "ReplaceAll m [] = []"
| "ReplaceAll m (c # cs) =
     (case m (c # cs) of
        Some (out, rest) \<Rightarrow>
          (if length rest \<le> length cs then out @ ReplaceAll m rest else c # ReplaceAll m cs)
      | None \<Rightarrow> c # ReplaceAll m cs)"
  by pat_completeness auto
termination by (relation "measure (\<lambda>(m, s). length s)") auto

definition re_space :: "char \<Rightarrow> bool" where
  \<comment> \<open>the class \<^verbatim>\<open>\s\<close>\<close>
  "re_space c \<longleftrightarrow> c \<in> {CHR 0x09, CHR 0x0A, CHR 0x0C, CHR 0x0D, CHR 0x20}"

fun fold_lit :: "string \<Rightarrow> string \<Rightarrow> (string \<times> string) option" where
  \<comment> \<open>a literal in lower case under \<^verbatim>\<open>(?i)\<close>: the matched text and the rest. The letters s and k also
      match the long s and the Kelvin sign\<close>
  "fold_lit [] s = Some ([], s)"
| "fold_lit (p # ps) s =
     (case s of
        [] \<Rightarrow> None
      | c # cs \<Rightarrow>
          (if lower_char c = p
           then map_option (\<lambda>(a, r). (c # a, r)) (fold_lit ps cs)
           else if p = CHR ''s'' \<and> HasPrefix s [CHR 0xC5, CHR 0xBF]
           then map_option (\<lambda>(a, r). ([CHR 0xC5, CHR 0xBF] @ a, r)) (fold_lit ps (drop 2 s))
           else if p = CHR ''k'' \<and> HasPrefix s [CHR 0xE2, CHR 0x84, CHR 0xAA]
           then map_option (\<lambda>(a, r). ([CHR 0xE2, CHR 0x84, CHR 0xAA] @ a, r)) (fold_lit ps (drop 3 s))
           else None))"

definition run :: "(char \<Rightarrow> bool) \<Rightarrow> string \<Rightarrow> string \<times> string" where
  \<comment> \<open>a greedy class under \<^verbatim>\<open>*\<close>; what follows it in each pattern starts outside the class\<close>
  "run P s = (takeWhile P s, dropWhile P s)"

definition url_secret :: matcher where
  \<comment> \<open>\<^verbatim>\<open>://([^:\s/]+):([^@\s]+)@\<close> becomes \<^verbatim>\<open>://$1:***@\<close>\<close>
  "url_secret s =
     (if \<not> HasPrefix s ''://'' then None
      else let (user, r1) = run (\<lambda>c. c \<noteq> CHR '':'' \<and> \<not> re_space c \<and> c \<noteq> CHR ''/'') (drop 3 s)
           in if user = [] \<or> \<not> HasPrefix r1 '':'' then None
              else let (pw, r2) = run (\<lambda>c. c \<noteq> CHR ''@'' \<and> \<not> re_space c) (drop 1 r1)
                   in if pw = [] \<or> \<not> HasPrefix r2 ''@'' then None
                      else Some (''://'' @ user @ '':***@'', drop 1 r2))"

definition quoted :: "string \<Rightarrow> string option" where
  \<comment> \<open>\<^verbatim>\<open>'[^']*'\<close>: the rest after it\<close>
  "quoted s =
     (if HasPrefix s [CHR 0x27]
      then let r = snd (run (\<lambda>c. c \<noteq> CHR 0x27) (drop 1 s))
           in if r = [] then None else Some (drop 1 r)
      else None)"

definition value_mask :: string where
  "value_mask = [CHR 0x27] @ ''***'' @ [CHR 0x27]"

definition password_quoted :: matcher where
  \<comment> \<open>\<^verbatim>\<open>(?i)(password\s*)'[^']*'\<close>\<close>
  "password_quoted s =
     (case fold_lit ''password'' s of
        None \<Rightarrow> None
      | Some (a, r) \<Rightarrow>
          (let (sp, r1) = run re_space r
           in map_option (\<lambda>r2. (a @ sp @ value_mask, r2)) (quoted r1)))"

definition assignment :: "string \<Rightarrow> string \<Rightarrow> (string \<times> string) option" where
  \<comment> \<open>\<^verbatim>\<open>(?i)(name\s*=\s*)\<close>: the group and the rest\<close>
  "assignment name s =
     (case fold_lit name s of
        None \<Rightarrow> None
      | Some (a, r) \<Rightarrow>
          (let (sp, r1) = run re_space r
           in if \<not> HasPrefix r1 ''='' then None
              else let (sp2, r2) = run re_space (drop 1 r1) in Some (a @ sp @ ''='' @ sp2, r2)))"

definition assigned_quoted :: "string \<Rightarrow> matcher" where
  "assigned_quoted name s =
     (case assignment name s of
        None \<Rightarrow> None
      | Some (g, r) \<Rightarrow> map_option (\<lambda>r2. (g @ value_mask, r2)) (quoted r))"

definition assigned_word :: "string \<Rightarrow> matcher" where
  \<comment> \<open>\<^verbatim>\<open>(?i)(name\s*=\s*)\S+\<close>\<close>
  "assigned_word name s =
     (case assignment name s of
        None \<Rightarrow> None
      | Some (g, r) \<Rightarrow>
          (let (w, r2) = run (\<lambda>c. \<not> re_space c) r
           in if w = [] then None else Some (g @ ''***'', r2)))"

definition bearer_word :: matcher where
  \<comment> \<open>\<^verbatim>\<open>(?i)(authorization:\s*bearer\s+)\S+\<close>\<close>
  "bearer_word s =
     (case fold_lit ''authorization:'' s of
        None \<Rightarrow> None
      | Some (a, r) \<Rightarrow>
          (let (sp, r1) = run re_space r
           in case fold_lit ''bearer'' r1 of
                None \<Rightarrow> None
              | Some (b, r2) \<Rightarrow>
                  (let (sp2, r3) = run re_space r2;
                       (w, r4) = run (\<lambda>c. \<not> re_space c) r3
                   in if sp2 = [] \<or> w = [] then None else Some (a @ sp @ b @ sp2 @ ''***'', r4))))"

definition secretScrubbers :: "matcher list" where
  "secretScrubbers =
     [url_secret, password_quoted, assigned_quoted ''password'', assigned_word ''password'',
      assigned_word ''aws_secret_access_key'', bearer_word]"

definition scrubSecrets :: "string \<Rightarrow> string" where
  "scrubSecrets value = foldl (\<lambda>out m. ReplaceAll m out) value secretScrubbers"

section \<open>The registry\<close>

definition maxInMemoryAuditEntries :: nat where "maxInMemoryAuditEntries = 10000"

text \<open>
  The audit file by lines: their length in bytes and what decoding them as an entry gives. Bytes after the last
  newline are its tail. The length of the line written for an entry and what it decodes to are
  \<^verbatim>\<open>encoding/json\<close>'s, the field \<open>rg_line\<close>.
\<close>

record audit_line =
  ln_size :: nat
  ln_entry :: "AuditEntry option"

record audit_file =
  af_lines :: "audit_line list"
  af_tail :: "audit_line option"

record AgentRegistry =
  rg_entries :: "AuditEntry list"
  rg_auditPath :: string
  rg_line :: "AuditEntry \<Rightarrow> audit_line"
  rg_auditFile :: "audit_file option" \<comment> \<open>\<open>None\<close> for a file that does not exist\<close>
  rg_metadata :: bool

definition write_line :: "audit_line \<Rightarrow> audit_file \<Rightarrow> audit_file" where
  \<comment> \<open>two values on one line do not decode\<close>
  "write_line l f =
     \<lparr>af_lines = af_lines f @ [case af_tail f of
        None \<Rightarrow> l | Some t \<Rightarrow> \<lparr>ln_size = ln_size t + ln_size l, ln_entry = None\<rparr>], af_tail = None\<rparr>"

definition write_torn :: "nat \<Rightarrow> audit_line \<Rightarrow> audit_file \<Rightarrow> audit_file" where
  \<comment> \<open>the first \<open>k\<close> bytes of a line\<close>
  "write_torn k l f =
     (let n = min k (ln_size l)
      in if n = 0 then f
         else f\<lparr>af_tail := Some (case af_tail f of
                  None \<Rightarrow> \<lparr>ln_size = n, ln_entry = (if n = ln_size l then ln_entry l else None)\<rparr>
                | Some t \<Rightarrow> \<lparr>ln_size = ln_size t + n, ln_entry = None\<rparr>)\<rparr>)"

definition trimLocked :: "AuditEntry list \<Rightarrow> AuditEntry list" where
  "trimLocked entries =
     (if length entries \<le> maxInMemoryAuditEntries then entries
      else drop (length entries - maxInMemoryAuditEntries) entries)"

fun scan_lines :: "audit_line list \<Rightarrow> AuditEntry list \<times> string option" where
  \<comment> \<open>\<^verbatim>\<open>bufio.Scanner\<close> over the lines: a line must fit, with its newline, into a buffer of 64 KiB; malformed lines are skipped\<close>
  "scan_lines [] = ([], None)"
| "scan_lines (l # ls) =
     (if 65535 < ln_size l then ([], Some ''bufio.Scanner: token too long'')
      else case scan_lines ls of
        (es, err) \<Rightarrow> (case ln_entry l of None \<Rightarrow> es | Some e \<Rightarrow> e # es, err))"

definition file_lines :: "audit_file \<Rightarrow> audit_line list" where
  "file_lines f = af_lines f @ (case af_tail f of None \<Rightarrow> [] | Some t \<Rightarrow> [t])"

definition loadAuditLog :: "string option \<Rightarrow> string option \<Rightarrow> AgentRegistry \<Rightarrow> string option \<times> AgentRegistry" where
  \<comment> \<open>given the errors of opening and of reading an existing file\<close>
  "loadAuditLog openErr readErr r =
     (case rg_auditFile r of
        None \<Rightarrow> (None, r)
      | Some f \<Rightarrow>
          (case openErr of
             Some e \<Rightarrow> (Some e, r)
           | None \<Rightarrow>
               (case (scan_lines (file_lines f), readErr) of
                  ((loaded, Some e), _) \<Rightarrow> (Some e, r)
                | ((loaded, None), Some e) \<Rightarrow> (Some e, r)
                | ((loaded, None), None) \<Rightarrow> (None, r\<lparr>rg_entries := trimLocked (rg_entries r @ loaded)\<rparr>))))"

definition NewAgentRegistryWithStores ::
  "string option \<Rightarrow> string option \<Rightarrow> (AuditEntry \<Rightarrow> audit_line) \<Rightarrow> audit_file option \<Rightarrow> string \<Rightarrow> bool \<Rightarrow> AgentRegistry" where
  "NewAgentRegistryWithStores openErr readErr line disk auditPath metadata =
     (let r = \<lparr>rg_entries = [], rg_auditPath = auditPath, rg_line = line, rg_auditFile = disk, rg_metadata = metadata\<rparr>
      in if auditPath \<noteq> '''' then snd (loadAuditLog openErr readErr r) else r)"

definition NewAgentRegistryWithAuditLog ::
  "string option \<Rightarrow> string option \<Rightarrow> (AuditEntry \<Rightarrow> audit_line) \<Rightarrow> audit_file option \<Rightarrow> string \<Rightarrow> AgentRegistry" where
  "NewAgentRegistryWithAuditLog openErr readErr line disk auditPath =
     NewAgentRegistryWithStores openErr readErr line disk auditPath False"

definition NewAgentRegistry :: "(AuditEntry \<Rightarrow> audit_line) \<Rightarrow> AgentRegistry" where
  "NewAgentRegistry line = NewAgentRegistryWithAuditLog None None line None ''''"

definition disk_of :: "AgentRegistry \<Rightarrow> audit_file" where
  \<comment> \<open>what \<^verbatim>\<open>O_CREATE\<close> opens\<close>
  "disk_of r = (case rg_auditFile r of None \<Rightarrow> \<lparr>af_lines = [], af_tail = None\<rparr> | Some f \<Rightarrow> f)"

definition appendAuditLog :: "AuditEntry \<Rightarrow> AgentRegistry \<Rightarrow> world \<Rightarrow> string option \<times> AgentRegistry \<times> world" where
  "appendAuditLog entry r w =
     (let l = rg_line r entry; f = disk_of r
      in case file_fault w (draws w) of
           None \<Rightarrow> (None, r\<lparr>rg_auditFile := Some (write_line l f)\<rparr>, drawn w)
         | Some e \<Rightarrow>
             (Some e,
              r\<lparr>rg_auditFile := (case file_left w (draws w) of
                  Untouched \<Rightarrow> rg_auditFile r
                | Torn k \<Rightarrow> Some (write_torn k l f)
                | Whole \<Rightarrow> Some (write_line l f))\<rparr>, drawn w))"

definition RecordDetailed ::
  "string \<Rightarrow> string \<Rightarrow> string \<Rightarrow> bool \<Rightarrow> string \<Rightarrow> string \<Rightarrow> string \<Rightarrow> AgentRegistry \<Rightarrow> world \<Rightarrow> AgentRegistry \<times> world" where
  "RecordDetailed agentID query riskLevel approved sha environment clusterID r w =
     (let (now, w1) = Now w;
          entry = \<lparr>ae_AgentID = agentID, ae_Query = scrubSecrets query, ae_QuerySHA256 = sha,
                   ae_RiskLevel = riskLevel, ae_Approved = approved, ae_Environment = environment,
                   ae_ClusterID = clusterID, ae_Timestamp = now\<rparr>;
          r1 = r\<lparr>rg_entries := trimLocked (rg_entries r @ [entry])\<rparr>;
          (r2, w2) = (if rg_auditPath r1 \<noteq> '''' then snd (appendAuditLog entry r1 w1) else (r1, w1));
          w3 = (if rg_metadata r2 then snd (RecordAudit True entry w2) else w2)
      in (r2, w3))"

definition Record :: "string \<Rightarrow> string \<Rightarrow> string \<Rightarrow> bool \<Rightarrow> AgentRegistry \<Rightarrow> world \<Rightarrow> AgentRegistry \<times> world" where
  "Record agentID query riskLevel approved = RecordDetailed agentID query riskLevel approved '''' '''' ''''"

definition RecordApprovalRequested :: "ApprovalDetails \<Rightarrow> AgentRegistry \<Rightarrow> world \<Rightarrow> string option \<times> world" where
  "RecordApprovalRequested details r w =
     (if \<not> rg_metadata r then (None, w)
      else StoreApprovalRequested True (details\<lparr>ad_Query := scrubSecrets (ad_Query details)\<rparr>) w)"

definition RecordApprovalResolved :: "string \<Rightarrow> string \<Rightarrow> string \<Rightarrow> AgentRegistry \<Rightarrow> world \<Rightarrow> string option \<times> world" where
  "RecordApprovalResolved approvalID status actor r w =
     (if \<not> rg_metadata r then (None, w) else StoreApprovalResolved True approvalID status actor w)"

definition GetHistory :: "string \<Rightarrow> AgentRegistry \<Rightarrow> AuditEntry list" where
  "GetHistory agentID r = filter (\<lambda>e. ae_AgentID e = agentID) (rg_entries r)"

definition AllEntries :: "AgentRegistry \<Rightarrow> AuditEntry list" where
  "AllEntries r = rg_entries r"

definition sample_line :: "AuditEntry \<Rightarrow> audit_line" where
  "sample_line e = \<lparr>ln_size = 200 + length (ae_Query e), ln_entry = Some e\<rparr>"

section \<open>What the registry keeps\<close>

text \<open>The last \<open>n\<close> elements of a list.\<close>

definition last_n :: "nat \<Rightarrow> 'a list \<Rightarrow> 'a list" where
  "last_n n xs = drop (length xs - n) xs"

lemma trimLocked_last_n: "trimLocked xs = last_n maxInMemoryAuditEntries xs"
  by (simp add: trimLocked_def last_n_def)

lemma last_n_append: "last_n n (last_n n xs @ ys) = last_n n (xs @ ys)"
  by (cases "length xs \<le> n") (auto simp: last_n_def add.commute)

lemma length_last_n: "length (last_n n xs) \<le> n"
  by (simp add: last_n_def)

record audit_call =
  ac_agent :: string
  ac_query :: string
  ac_risk :: string
  ac_approved :: bool
  ac_sha :: string
  ac_env :: string
  ac_cluster :: string

definition record_call :: "audit_call \<Rightarrow> AgentRegistry \<times> world \<Rightarrow> AgentRegistry \<times> world" where
  "record_call c rw = RecordDetailed (ac_agent c) (ac_query c) (ac_risk c) (ac_approved c) (ac_sha c)
      (ac_env c) (ac_cluster c) (fst rw) (snd rw)"

definition call_entry :: "audit_call \<Rightarrow> instant \<Rightarrow> AuditEntry" where
  "call_entry c t = \<lparr>ae_AgentID = ac_agent c, ae_Query = scrubSecrets (ac_query c), ae_QuerySHA256 = ac_sha c,
     ae_RiskLevel = ac_risk c, ae_Approved = ac_approved c, ae_Environment = ac_env c,
     ae_ClusterID = ac_cluster c, ae_Timestamp = t\<rparr>"

lemma record_call_entries:
  "rg_entries (fst (record_call c rw)) = trimLocked (rg_entries (fst rw) @ [call_entry c (clock (snd rw) (draws (snd rw)))])"
  by (simp add: record_call_def RecordDetailed_def Now_def Let_def appendAuditLog_def call_entry_def
      split: option.splits prod.splits)

lemma same_outside_RecordDetailed: "same_outside w (snd (RecordDetailed a q k b h e c r w))"
proof -
  have "same_outside w1 (snd (RecordAudit True x w1))" for x w1
    by (simp add: RecordAudit_def same_outside_withTx)
  then show ?thesis
    by (simp add: RecordDetailed_def Now_def Let_def appendAuditLog_def split: option.splits prod.splits)
      (metis same_outside_drawn same_outside_refl same_outside_trans)
qed

text \<open>
  The registry is a bounded log of the newest entries: whatever calls record into it, it holds
  exactly the last ten thousand of the entries it had and the entries of the calls, in order, each
  with its query scrubbed of secrets; nothing else is dropped, added or reordered.
\<close>

theorem registry_keeps_last:
  "\<exists>ts. length ts = length cs \<and>
     last_n maxInMemoryAuditEntries (rg_entries (fst (fold record_call cs rw))) =
       last_n maxInMemoryAuditEntries (rg_entries (fst rw) @ map2 call_entry cs ts) \<and>
     (cs = [] \<or> length (AllEntries (fst (fold record_call cs rw))) \<le> maxInMemoryAuditEntries)"
proof (induction cs arbitrary: rw)
  case Nil
  show ?case by simp
next
  case (Cons c cs)
  let ?t = "clock (snd rw) (draws (snd rw))"
  obtain ts where ts: "length ts = length cs"
    "last_n maxInMemoryAuditEntries (rg_entries (fst (fold record_call cs (record_call c rw)))) =
       last_n maxInMemoryAuditEntries (rg_entries (fst (record_call c rw)) @ map2 call_entry cs ts)"
    "cs = [] \<or> length (AllEntries (fst (fold record_call cs (record_call c rw)))) \<le> maxInMemoryAuditEntries"
    using Cons.IH by blast
  have "length (AllEntries (fst (fold record_call (c # cs) rw))) \<le> maxInMemoryAuditEntries"
  proof (cases cs)
    case Nil
    then show ?thesis by (simp add: AllEntries_def record_call_entries trimLocked_last_n length_last_n)
  next
    case (Cons _ _)
    with ts(3) show ?thesis by simp
  qed
  moreover have "last_n maxInMemoryAuditEntries (rg_entries (fst (fold record_call (c # cs) rw))) =
      last_n maxInMemoryAuditEntries (rg_entries (fst rw) @ map2 call_entry (c # cs) (?t # ts))"
    by (simp add: ts(2) record_call_entries trimLocked_last_n last_n_append)
  ultimately show ?case using ts(1) by (intro exI [of _ "?t # ts"]) simp
qed

section \<open>The history after a restart\<close>

definition readable :: "audit_line \<Rightarrow> bool" where
  "readable l \<longleftrightarrow> ln_size l \<le> 65535"

definition entries_of :: "audit_line list \<Rightarrow> AuditEntry list" where
  "entries_of ls = map (\<lambda>l. the (ln_entry l)) (filter (\<lambda>l. ln_entry l \<noteq> None) ls)"

lemma scan_readable: "list_all readable ls \<Longrightarrow> scan_lines ls = (entries_of ls, None)"
  by (induction ls) (auto simp: readable_def entries_of_def split: option.split)

lemma scan_too_long: "\<not> list_all readable ls \<Longrightarrow> \<exists>es e. scan_lines ls = (es, Some e)"
  by (induction ls) (auto simp: readable_def split: prod.split)

definition clean :: "audit_file \<Rightarrow> bool" where
  "clean f \<longleftrightarrow> af_tail f = None"

lemma write_line_clean: "clean f \<Longrightarrow> write_line l f = \<lparr>af_lines = af_lines f @ [l], af_tail = None\<rparr>"
  by (simp add: clean_def write_line_def)

lemma record_call_file:
  assumes "rg_auditPath (fst rw) \<noteq> ''''" "\<And>n. file_fault (snd rw) n = None"
  shows "rg_auditFile (fst (record_call c rw)) =
      Some (write_line (rg_line (fst rw) (call_entry c (clock (snd rw) (draws (snd rw))))) (disk_of (fst rw)))"
    "rg_auditPath (fst (record_call c rw)) = rg_auditPath (fst rw)" "rg_line (fst (record_call c rw)) = rg_line (fst rw)"
    "file_fault (snd (record_call c rw)) = file_fault (snd rw)"
proof -
  show "file_fault (snd (record_call c rw)) = file_fault (snd rw)"
    using same_outside_RecordDetailed by (simp add: record_call_def same_outside_def)
qed (use assms in \<open>simp_all add: record_call_def RecordDetailed_def Now_def Let_def appendAuditLog_def call_entry_def disk_of_def split: option.split\<close>)

lemma run_of_calls:
  assumes "rg_auditPath (fst rw) \<noteq> ''''" "\<And>n. file_fault (snd rw) n = None" "clean (disk_of (fst rw))"
  shows "\<exists>ts. length ts = length cs \<and> clean (disk_of (fst (fold record_call cs rw))) \<and>
     af_lines (disk_of (fst (fold record_call cs rw))) = af_lines (disk_of (fst rw)) @ map (rg_line (fst rw)) (map2 call_entry cs ts) \<and>
     last_n maxInMemoryAuditEntries (rg_entries (fst (fold record_call cs rw))) =
       last_n maxInMemoryAuditEntries (rg_entries (fst rw) @ map2 call_entry cs ts) \<and>
     (cs \<noteq> [] \<longrightarrow> rg_auditFile (fst (fold record_call cs rw)) = Some (disk_of (fst (fold record_call cs rw))))"
  using assms
proof (induction cs arbitrary: rw)
  case (Cons c cs)
  let ?t = "clock (snd rw) (draws (snd rw))" and ?rw = "record_call c rw"
  note f = record_call_file [OF Cons.prems(1,2), of c]
  have disk: "disk_of (fst ?rw) = \<lparr>af_lines = af_lines (disk_of (fst rw)) @ [rg_line (fst rw) (call_entry c ?t)], af_tail = None\<rparr>"
    using f(1) Cons.prems(3) by (simp add: disk_of_def [of "fst ?rw"] write_line_clean)
  then have "clean (disk_of (fst ?rw))" by (simp add: clean_def)
  from Cons.IH [of ?rw, OF _ _ this] f(2,4) Cons.prems(1,2) obtain ts where ts: "length ts = length cs"
    "clean (disk_of (fst (fold record_call cs ?rw)))"
    "af_lines (disk_of (fst (fold record_call cs ?rw))) = af_lines (disk_of (fst ?rw)) @ map (rg_line (fst ?rw)) (map2 call_entry cs ts)"
    "last_n maxInMemoryAuditEntries (rg_entries (fst (fold record_call cs ?rw))) =
       last_n maxInMemoryAuditEntries (rg_entries (fst ?rw) @ map2 call_entry cs ts)"
    "cs \<noteq> [] \<longrightarrow> rg_auditFile (fst (fold record_call cs ?rw)) = Some (disk_of (fst (fold record_call cs ?rw)))" by auto
  have "rg_auditFile (fst (fold record_call (c # cs) rw)) = Some (disk_of (fst (fold record_call (c # cs) rw)))"
    using ts(5) f(1) by (cases cs) (simp_all add: disk_of_def)
  with ts disk f(3) show ?case
    by (intro exI [of _ "?t # ts"]) (simp add: record_call_entries trimLocked_last_n last_n_append)
qed simp

lemma reload:
  assumes "path \<noteq> ''''" "clean f" "list_all readable (af_lines f)"
  shows "AllEntries (NewAgentRegistryWithStores None None line (Some f) path md) = last_n maxInMemoryAuditEntries (entries_of (af_lines f))"
  using assms scan_readable [of "af_lines f"]
  by (simp add: NewAgentRegistryWithStores_def loadAuditLog_def file_lines_def clean_def AllEntries_def trimLocked_last_n)

lemma fold_bounded:
  "length (rg_entries (fst rw)) \<le> maxInMemoryAuditEntries \<Longrightarrow> length (rg_entries (fst (fold record_call cs rw))) \<le> maxInMemoryAuditEntries"
  by (induction cs arbitrary: rw) (simp_all add: record_call_entries trimLocked_last_n length_last_n)

lemma last_n_short: "length xs \<le> n \<Longrightarrow> last_n n xs = xs"
  by (simp add: last_n_def)

lemma fresh_registry:
  "r = NewAgentRegistryWithStores None None line disk path md \<Longrightarrow> path \<noteq> '''' \<Longrightarrow>
   rg_auditPath r = path \<and> rg_line r = line \<and> rg_auditFile r = disk"
  by (simp add: NewAgentRegistryWithStores_def loadAuditLog_def Let_def split: option.split prod.split)

text \<open>
  C33. The audit trail survives a restart: a gateway that starts on a file whose lines are whole and not too long, and records
  into it without file errors entries whose lines are not too long either and decode to what was written,
  leaves a file on which the next gateway comes up with exactly the history this one had.
\<close>

theorem audit_survives_restart:
  assumes r: "r = NewAgentRegistryWithStores None None line (Some f) path md" "path \<noteq> ''''" "clean f" "list_all readable (af_lines f)"
    and quiet: "\<forall>n. file_fault w n = None"
    and lines: "\<forall>c \<in> set cs. \<forall>t. readable (line (call_entry c t)) \<and> ln_entry (line (call_entry c t)) = Some (call_entry c t)"
    and r': "r' = fst (fold record_call cs (r, w))"
  shows "AllEntries (NewAgentRegistryWithStores None None line (rg_auditFile r') path md') = AllEntries r'"
proof -
  let ?N = maxInMemoryAuditEntries
  note fresh = fresh_registry [OF r(1,2)]
  have disk: "disk_of r = f" using fresh by (simp add: disk_of_def)
  have r0: "rg_entries r = last_n ?N (entries_of (af_lines f))" using reload [OF r(2-4), of line md] r(1) by (simp add: AllEntries_def)
  obtain ts where ts: "length ts = length cs" "clean (disk_of r')" "af_lines (disk_of r') = af_lines f @ map line (map2 call_entry cs ts)"
    "last_n ?N (rg_entries r') = last_n ?N (rg_entries r @ map2 call_entry cs ts)" "cs \<noteq> [] \<longrightarrow> rg_auditFile r' = Some (disk_of r')"
    using run_of_calls [of "(r, w)" cs] fresh r(2,3) quiet disk r' by auto
  have on_disk: "rg_auditFile r' = Some (disk_of r')" using ts(5) fresh disk r' by (cases cs) auto
  have new: "list_all readable (map line (map2 call_entry cs ts)) \<and> entries_of (map line (map2 call_entry cs ts)) = map2 call_entry cs ts"
    using ts(1) lines by (induction cs ts rule: list_induct2') (simp_all add: entries_of_def)
  have "AllEntries (NewAgentRegistryWithStores None None line (rg_auditFile r') path md') = last_n ?N (entries_of (af_lines (disk_of r')))"
    using reload [OF r(2) ts(2), of line md'] ts(3) r(4) new by (simp add: on_disk)
  also have "\<dots> = last_n ?N (entries_of (af_lines f) @ map2 call_entry cs ts)" using ts(3) new by (simp add: entries_of_def)
  also have "\<dots> = last_n ?N (rg_entries r')" by (simp add: ts(4) r0 last_n_append)
  also have "\<dots> = AllEntries r'"
    using fold_bounded [of "(r, w)" cs] by (simp add: r' AllEntries_def last_n_short r0 length_last_n)
  finally show ?thesis .
qed

definition sample_call :: audit_call where
  "sample_call = \<lparr>ac_agent = ''a'', ac_query = '''', ac_risk = ''SAFE'', ac_approved = True, ac_sha = '''', ac_env = '''', ac_cluster = ''''\<rparr>"

lemma scrub_empty: "scrubSecrets '''' = ''''"
  by code_simp

theorem audit_survives_restart_witness:
  "AllEntries (NewAgentRegistryWithStores None None sample_line
     (rg_auditFile (fst (fold record_call [sample_call, sample_call]
        (NewAgentRegistryWithStores None None sample_line (Some \<lparr>af_lines = [], af_tail = None\<rparr>) ''audit.jsonl'' False, quiet_world))))
     ''audit.jsonl'' False) = [call_entry sample_call 0, call_entry sample_call 0]"
proof -
  let ?r = "NewAgentRegistryWithStores None None sample_line (Some \<lparr>af_lines = [], af_tail = None\<rparr>) ''audit.jsonl'' False"
  have e: "rg_entries ?r = []" using reload [of "''audit.jsonl''" "\<lparr>af_lines = [], af_tail = None\<rparr>" sample_line False]
    by (simp add: clean_def AllEntries_def entries_of_def last_n_def)
  have "same_outside quiet_world (snd (record_call sample_call (?r, quiet_world)))"
    using same_outside_RecordDetailed by (simp add: record_call_def)
  then have "clock (snd (record_call sample_call (?r, quiet_world))) n = 0" for n by (simp add: same_outside_def)
  then have "AllEntries (fst (fold record_call [sample_call, sample_call] (?r, quiet_world))) = [call_entry sample_call 0, call_entry sample_call 0]"
    by (simp add: AllEntries_def record_call_entries e trimLocked_def maxInMemoryAuditEntries_def)
  moreover have "readable (sample_line (call_entry sample_call t)) \<and> ln_entry (sample_line (call_entry sample_call t)) = Some (call_entry sample_call t)" for t
    by (simp add: sample_line_def readable_def call_entry_def sample_call_def scrub_empty)
  ultimately show ?thesis
    using audit_survives_restart [of ?r sample_line "\<lparr>af_lines = [], af_tail = None\<rparr>" "''audit.jsonl''" False quiet_world
        "[sample_call, sample_call]" _ False, OF refl] by (simp add: clean_def)
qed

text \<open>
  C38. One long query loses the whole trail: when an entry is recorded whose line is longer than the reader's
  buffer of 64 KiB, the next gateway on the file comes up with no history at all, however short the
  other lines are. Requests may be up to 1 MiB long.
\<close>

theorem long_entry_loses_history:
  assumes "rg_auditPath r \<noteq> ''''" "clean (disk_of r)" "\<forall>n. file_fault w n = None"
    and "c \<in> set cs" "\<forall>t. 65535 < ln_size (rg_line r (call_entry c t))" "r' = fst (fold record_call cs (r, w))" "path \<noteq> ''''"
  shows "AllEntries (NewAgentRegistryWithStores None None line (rg_auditFile r') path md) = []"
proof -
  obtain ts where ts: "length ts = length cs" "clean (disk_of r')"
    "af_lines (disk_of r') = af_lines (disk_of r) @ map (rg_line r) (map2 call_entry cs ts)" "rg_auditFile r' = Some (disk_of r')"
    using run_of_calls [of "(r, w)" cs] assms(1-4,6) by auto
  obtain i where "i < length cs" "cs ! i = c" using assms(4) by (auto simp: in_set_conv_nth)
  with ts(1) have "rg_line r (call_entry c (ts ! i)) \<in> set (map (rg_line r) (map2 call_entry cs ts))"
    by (force simp: in_set_conv_nth)
  then have "rg_line r (call_entry c (ts ! i)) \<in> set (file_lines (disk_of r'))" by (simp add: file_lines_def ts(3))
  moreover have "\<not> readable (rg_line r (call_entry c (ts ! i)))" using assms(5) by (simp add: readable_def not_le)
  ultimately have "\<not> list_all readable (file_lines (disk_of r'))" by (auto simp: list_all_iff)
  from scan_too_long [OF this] obtain es e where "scan_lines (file_lines (disk_of r')) = (es, Some e)" by blast
  then show ?thesis using assms(7) by (simp add: NewAgentRegistryWithStores_def loadAuditLog_def ts(4) AllEntries_def)
qed

theorem long_entry_loses_history_witness:
  "\<exists>r. AllEntries r = [call_entry sample_call 0] \<and>
     AllEntries (NewAgentRegistryWithStores None None (rg_line r)
       (rg_auditFile (fst (fold record_call [sample_call] (r, quiet_world)))) ''audit.jsonl'' False) = []"
proof -
  let ?line = "\<lambda>e. \<lparr>ln_size = 70000, ln_entry = Some e\<rparr>"
  let ?r = "\<lparr>rg_entries = [call_entry sample_call 0], rg_auditPath = ''audit.jsonl'', rg_line = ?line, rg_auditFile = None, rg_metadata = False\<rparr>"
  have "AllEntries (NewAgentRegistryWithStores None None ?line (rg_auditFile (fst (fold record_call [sample_call] (?r, quiet_world)))) ''audit.jsonl'' False) = []"
    by (rule long_entry_loses_history [of ?r quiet_world sample_call "[sample_call]", OF _ _ _ _ _ refl]) (simp_all add: clean_def disk_of_def)
  then show ?thesis by (intro exI [of _ ?r]) (simp add: AllEntries_def)
qed

end
