(* ===== verification/Pause.thy ===== *)
theory Pause
  imports Metadata_Store Sql_Analyzer
begin

text \<open>
  The emergency pause, \<^verbatim>\<open>gateway/pause.go\<close>: the controller's state, its constructor, \<open>SetPaused\<close>,
  \<open>BlocksRisk\<close>, and the loading and saving of the state file. The contents of the file belong to the
  state: \<open>Absent\<close>, or what reading and decoding it gives. A nil controller is \<open>None\<close> at the callers.
\<close>

record pauseStateFile =
  pf_Paused :: bool
  pf_Reason :: string
  pf_UpdatedAt :: string

definition pause_fields :: "pauseStateFile field_table" where
  "pause_fields =
     [(''paused'', bool_field pf_Paused (\<lambda>x. pf_Paused_update (\<lambda>_. x))),
      (''reason'', str_field pf_Reason (\<lambda>x. pf_Reason_update (\<lambda>_. x))),
      (''updated_at'', str_field pf_UpdatedAt (\<lambda>x. pf_UpdatedAt_update (\<lambda>_. x)))]"

definition marshal_pause :: "pauseStateFile \<Rightarrow> json" where
  "marshal_pause f =
     JObj ([(''paused'', JBool (pf_Paused f))] @ omit_str ''reason'' (pf_Reason f)
           @ [(''updated_at'', JStr (pf_UpdatedAt f))])"

definition unmarshal_pause :: "json \<Rightarrow> pauseStateFile option" where
  "unmarshal_pause v = decode_struct pause_fields v \<lparr>pf_Paused = False, pf_Reason = '''', pf_UpdatedAt = ''''\<rparr>"

lemma pause_file_round_trip: "unmarshal_pause (marshal_pause f) = Some f"
  by (simp add: unmarshal_pause_def marshal_pause_def decode_struct_def pause_fields_def bool_field_def
      str_field_def omit_str_def)

datatype state_file = Absent | Unreadable string | Garbage | Content json

record PauseController =
  pc_paused :: bool
  pc_reason :: string
  pc_updatedAt :: instant
  pc_file :: string
  pc_pauseBlocksSafe :: bool
  pc_disk :: state_file

datatype load_error = ErrNotExist | LoadFailed string

definition load :: "PauseController \<Rightarrow> load_error option \<times> PauseController" where
  "load p =
     (case pc_disk p of
        Absent \<Rightarrow> (Some ErrNotExist, p)
      | Unreadable e \<Rightarrow> (Some (LoadFailed e), p)
      | Garbage \<Rightarrow> (Some (LoadFailed ''invalid JSON''), p)
      | Content v \<Rightarrow>
          (case unmarshal_pause v of
             None \<Rightarrow> (Some (LoadFailed ''cannot unmarshal''), p)
           | Some state \<Rightarrow>
               (None, p\<lparr>pc_paused := pf_Paused state, pc_reason := pf_Reason state,
                        pc_updatedAt :=
                          (if pf_UpdatedAt state \<noteq> ''''
                           then (case ParseRFC3339 (pf_UpdatedAt state) of Some ts \<Rightarrow> ts | None \<Rightarrow> pc_updatedAt p)
                           else pc_updatedAt p)\<rparr>)))"

definition WriteFile :: "json \<Rightarrow> state_file \<Rightarrow> world \<Rightarrow> string option \<times> state_file \<times> world" where
  \<comment> \<open>\<^verbatim>\<open>os.WriteFile\<close> truncates before it writes; a proper prefix of an object is not JSON\<close>
  "WriteFile v disk w =
     (case file_fault w (draws w) of
        None \<Rightarrow> (None, Content v, drawn w)
      | Some e \<Rightarrow>
          (Some e, case file_left w (draws w) of Untouched \<Rightarrow> disk | Torn _ \<Rightarrow> Garbage | Whole \<Rightarrow> Content v, drawn w))"

definition save :: "PauseController \<Rightarrow> world \<Rightarrow> string option \<times> PauseController \<times> world" where
  "save p w =
     (if pc_file p = '''' then (None, p, w)
      else case WriteFile (marshal_pause
                   \<lparr>pf_Paused = pc_paused p, pf_Reason = pc_reason p,
                    pf_UpdatedAt = FormatRFC3339Nano (pc_updatedAt p)\<rparr>) (pc_disk p) w of
        (err, disk, w') \<Rightarrow> (err, p\<lparr>pc_disk := disk\<rparr>, w'))"

definition SetPaused :: "bool \<Rightarrow> string \<Rightarrow> PauseController \<Rightarrow> world \<Rightarrow> string option \<times> PauseController \<times> world" where
  "SetPaused paused reason p w =
     (let (now, w1) = Now w
      in save (p\<lparr>pc_paused := paused, pc_reason := TrimSpace reason, pc_updatedAt := now\<rparr>) w1)"

definition NewPauseController ::
  "string \<Rightarrow> bool \<Rightarrow> bool \<Rightarrow> state_file \<Rightarrow> world \<Rightarrow> (string + PauseController) \<times> world" where
  "NewPauseController file startPaused pauseBlocksSafe disk w =
     (let (now, w1) = Now w;
          c = \<lparr>pc_paused = startPaused, pc_reason = '''', pc_updatedAt = now, pc_file = TrimSpace file,
               pc_pauseBlocksSafe = pauseBlocksSafe, pc_disk = disk\<rparr>
      in if pc_file c = '''' then (Inr c, w1)
         else case load c of
           (Some (LoadFailed e), _) \<Rightarrow> (Inl e, w1)
         | (_, c1) \<Rightarrow>
             (if startPaused
              then (case SetPaused True ''start-paused'' c1 w1 of
                      (Some e, _, w2) \<Rightarrow> (Inl e, w2)
                    | (None, c2, w2) \<Rightarrow> (Inr c2, w2))
              else (Inr c1, w1)))"

definition BlocksRisk :: "PauseController option \<Rightarrow> string \<Rightarrow> bool" where
  "BlocksRisk p risk =
     (case p of
        None \<Rightarrow> False
      | Some p \<Rightarrow> (if \<not> pc_paused p then False else pc_pauseBlocksSafe p \<or> risk \<noteq> RiskSafe))"

definition PauseStatus :: "PauseController option \<Rightarrow> json" where
  "PauseStatus p =
     (case p of
        None \<Rightarrow> JObj [(''paused'', JBool False)]
      | Some p \<Rightarrow> JObj [(''paused'', JBool (pc_paused p)), (''reason'', JStr (pc_reason p)),
                        (''updated_at'', JStr (FormatRFC3339Nano (pc_updatedAt p))),
                        (''pause_blocks_safe'', JBool (pc_pauseBlocksSafe p))])"

section \<open>A pause survives a restart\<close>

lemma save_disk:
  "save p w = (None, p', w') \<Longrightarrow> pc_file p \<noteq> '''' \<Longrightarrow>
   p' = p\<lparr>pc_disk := Content (marshal_pause
          \<lparr>pf_Paused = pc_paused p, pf_Reason = pc_reason p, pf_UpdatedAt = FormatRFC3339Nano (pc_updatedAt p)\<rparr>)\<rparr>"
  by (simp add: save_def WriteFile_def split: option.splits)

lemma SetPaused_paused: "SetPaused x reason p w = (e, p', w') \<Longrightarrow> pc_paused p' = x"
  by (auto simp: SetPaused_def Now_def save_def split: if_splits prod.splits)

lemma start_paused: "fst (NewPauseController file True blocksSafe disk v) = Inr q \<Longrightarrow> pc_paused q"
  by (auto simp: NewPauseController_def Now_def Let_def dest!: SetPaused_paused
      split: if_splits prod.splits option.splits load_error.splits)

text \<open>
  C32. An operator's pause survives a restart of the gateway: when \<open>SetPaused\<close> has returned without
  error, a controller started later on the same file comes up with the same pause, reason and
  time, whether the pause was set or lifted; and started with \<^verbatim>\<open>--start-paused\<close> it comes up paused,
  or not at all.
\<close>

theorem pause_survives_restart:
  assumes "SetPaused paused reason p w = (None, p', w')" "TrimSpace file = pc_file p" "pc_file p \<noteq> ''''"
    and "printable (clock w (draws w))"
  shows "(\<exists>q v'. NewPauseController file False blocksSafe (pc_disk p') v = (Inr q, v') \<and>
     pc_paused q = paused \<and> pc_reason q = TrimSpace reason \<and> pc_updatedAt q = clock w (draws w)) \<and>
     (\<forall>q. fst (NewPauseController file True blocksSafe (pc_disk p') v) = Inr q \<longrightarrow> pc_paused q)"
proof
  have "pc_disk p' = Content (marshal_pause \<lparr>pf_Paused = paused, pf_Reason = TrimSpace reason,
          pf_UpdatedAt = FormatRFC3339Nano (clock w (draws w))\<rparr>)"
    using assms(1,3) by (auto simp: SetPaused_def Now_def dest!: save_disk)
  then show "\<exists>q v'. NewPauseController file False blocksSafe (pc_disk p') v = (Inr q, v') \<and>
     pc_paused q = paused \<and> pc_reason q = TrimSpace reason \<and> pc_updatedAt q = clock w (draws w)"
    using assms(2-4) nano.print_not_empty nano.parse_print
    by (simp add: NewPauseController_def Now_def load_def pause_file_round_trip)
qed (use start_paused in blast)

theorem pause_survives_restart_witness:
  "\<exists>q v'. NewPauseController ''pause.json'' False True
      (pc_disk (fst (snd (SetPaused True ''incident''
        \<lparr>pc_paused = False, pc_reason = '''', pc_updatedAt = 0, pc_file = ''pause.json'',
         pc_pauseBlocksSafe = True, pc_disk = Absent\<rparr> quiet_world)))) quiet_world = (Inr q, v') \<and>
     pc_paused q \<and> pc_reason q = ''incident'' \<and> pc_updatedAt q = 0"
proof -
  let ?p = "\<lparr>pc_paused = False, pc_reason = '''', pc_updatedAt = 0, pc_file = ''pause.json'',
         pc_pauseBlocksSafe = True, pc_disk = Absent\<rparr>"
  have "TrimSpace ''pause.json'' = ''pause.json''" "TrimSpace ''incident'' = ''incident''"
    by (simp_all add: TrimSpace_plain space_first_def space_last_def)
  moreover obtain p' w' where "SetPaused True ''incident'' ?p quiet_world = (None, p', w')"
    by (simp add: SetPaused_def Now_def save_def WriteFile_def)
  ultimately show ?thesis
    using pause_survives_restart [of True "''incident''" ?p quiet_world p' w' "''pause.json''" True quiet_world]
      printable_range [of 0] by (simp add: Second_def)
qed

end
