(* ===== verification/Auth.thy ===== *)
theory Auth
  imports Metrics Metadata_Store
begin

text \<open>
  Token authentication, \<^verbatim>\<open>gateway/auth.go\<close>: the authenticator built from the legacy token and the token
  file, the recognition of a request's token, scopes with wildcards, and the wrapper that guards an
  HTTP handler. A request is seen through \<^verbatim>\<open>Header.Get\<close>. A nil authenticator is \<open>None\<close>.
\<close>

record AuthPrincipal =
  pr_Name :: string
  pr_Token :: string
  pr_Scopes :: "string list"

record tokenEntry =
  te_Name :: string
  te_Token :: string
  te_Scopes :: "string list"

record TokenAuthenticator =
  au_disabled :: bool
  au_tokens :: "tokenEntry list"

definition token_fields :: "tokenEntry field_table" where
  "token_fields =
     [(''name'', str_field te_Name (\<lambda>x. te_Name_update (\<lambda>_. x))),
      (''token'', str_field te_Token (\<lambda>x. te_Token_update (\<lambda>_. x))),
      (''scopes'', strs_field te_Scopes (\<lambda>x. te_Scopes_update (\<lambda>_. x)))]"

definition zero_token :: tokenEntry where
  "zero_token = \<lparr>te_Name = '''', te_Token = '''', te_Scopes = []\<rparr>"

definition into_tokens :: "json \<Rightarrow> tokenEntry list \<Rightarrow> tokenEntry list option" where
  "into_tokens v old =
     (case v of
        JArr xs \<Rightarrow> all_some (map (\<lambda>x. decode_struct token_fields x zero_token) xs)
      | JNull \<Rightarrow> Some []
      | _ \<Rightarrow> None)"

definition unmarshal_tokenFile :: "json \<Rightarrow> tokenEntry list option" where
  "unmarshal_tokenFile v = decode_struct [(''tokens'', into_tokens)] v []"

fun check_tokens :: "nat \<Rightarrow> tokenEntry list \<Rightarrow> tokenEntry list \<Rightarrow> string + tokenEntry list" where
  \<comment> \<open>the loop over the entries of the token file, with the tokens accepted so far\<close>
  "check_tokens i [] acc = Inr acc"
| "check_tokens i (t # ts) acc =
     (let token = t\<lparr>te_Name := TrimSpace (te_Name t), te_Token := TrimSpace (te_Token t)\<rparr>
      in if te_Name token = '''' then Inl (''auth token '' @ int_str (int i) @ '' missing name'')
         else if te_Token token = '''' then Inl (''auth token '' @ Quote (te_Name token) @ '' missing token'')
         else if te_Scopes token = [] then Inl (''auth token '' @ Quote (te_Name token) @ '' missing scopes'')
         else check_tokens (Suc i) ts (acc @ [token]))"

definition NewTokenAuthenticator ::
  "(string \<Rightarrow> file_result) \<Rightarrow> string \<Rightarrow> string \<Rightarrow> bool \<Rightarrow> string + TokenAuthenticator" where
  "NewTokenAuthenticator ReadFile legacyToken tokenFilePath disabled =
     (if disabled then Inr \<lparr>au_disabled = True, au_tokens = []\<rparr>
      else let legacy = (if TrimSpace legacyToken \<noteq> ''''
                         then [\<lparr>te_Name = ''legacy-admin'', te_Token = TrimSpace legacyToken, te_Scopes = [''admin:*'']\<rparr>]
                         else [])
           in if TrimSpace tokenFilePath = '''' then Inr \<lparr>au_disabled = False, au_tokens = legacy\<rparr>
              else case ReadFile tokenFilePath of
                ReadError e \<Rightarrow> Inl (''read auth tokens file: '' @ e)
              | NotJSON e \<Rightarrow> Inl (''parse auth tokens file: '' @ e)
              | Parsed v \<Rightarrow>
                  (case unmarshal_tokenFile v of
                     None \<Rightarrow> Inl ''parse auth tokens file: cannot unmarshal''
                   | Some parsed \<Rightarrow>
                       map_sum id (\<lambda>ts. \<lparr>au_disabled = False, au_tokens = ts\<rparr>) (check_tokens 0 parsed legacy)))"

definition Enabled :: "TokenAuthenticator option \<Rightarrow> bool" where
  "Enabled a = (case a of None \<Rightarrow> False | Some a \<Rightarrow> \<not> au_disabled a)"

definition HasTokens :: "TokenAuthenticator option \<Rightarrow> bool" where
  "HasTokens a = (case a of None \<Rightarrow> False | Some a \<Rightarrow> au_disabled a \<or> 0 < length (au_tokens a))"

section \<open>Requests\<close>

type_synonym headers = "string \<Rightarrow> string"

definition bearerOrHeaderToken :: "headers \<Rightarrow> string" where
  "bearerOrHeaderToken h =
     (let candidate = TrimSpace (h ''X-Backstop-Token'')
      in if candidate \<noteq> '''' then candidate
         else let auth = TrimSpace (h ''Authorization'')
              in if \<not> HasPrefix auth ''Bearer '' then ''''
                 else TrimSpace (TrimPrefix auth ''Bearer ''))"

definition constantTimeEqual :: "string \<Rightarrow> string \<Rightarrow> bool" where
  "constantTimeEqual candidate token \<longleftrightarrow> candidate = token"

definition Authenticate :: "TokenAuthenticator option \<Rightarrow> headers \<Rightarrow> AuthPrincipal option" where
  "Authenticate a h =
     (if \<not> Enabled a
      then Some \<lparr>pr_Name = ''insecure-local'', pr_Token = ''insecure-local'', pr_Scopes = [''admin:*'']\<rparr>
      else let candidate = bearerOrHeaderToken h
           in if candidate = '''' then None
              else map_option (\<lambda>t. \<lparr>pr_Name = te_Name t, pr_Token = te_Name t, pr_Scopes = te_Scopes t\<rparr>)
                     (find (\<lambda>t. constantTimeEqual candidate (te_Token t)) (au_tokens (the a))))"

definition legacyValidAuthToken :: "headers \<Rightarrow> string \<Rightarrow> bool" where
  "legacyValidAuthToken h token = constantTimeEqual (bearerOrHeaderToken h) token"

section \<open>Scopes\<close>

fun any_scope :: "string \<Rightarrow> string list \<Rightarrow> bool" where
  \<comment> \<open>the loop over a principal's scopes\<close>
  "any_scope required [] = False"
| "any_scope required (s # ss) =
     (let scope = TrimSpace s
      in if scope = ''admin:*'' \<or> scope = required then True
         else if HasSuffix scope '':*'' \<and> HasPrefix required (TrimSuffix scope ''*'') then True
         else any_scope required ss)"

definition hasScope :: "AuthPrincipal \<Rightarrow> string \<Rightarrow> bool" where
  "hasScope who required \<longleftrightarrow> (if required = '''' then True else any_scope required (pr_Scopes who))"

section \<open>Guarded handlers\<close>

datatype response = Response int json

definition recordAuthDenied ::
  "bool \<Rightarrow> string \<Rightarrow> string \<Rightarrow> string \<Rightarrow> GatewayMetrics option \<times> world \<Rightarrow> GatewayMetrics option \<times> world" where
  "recordAuthDenied metadata status scope who mw =
     (IncBlock (''auth_'' @ status) (fst mw),
      if metadata
      then snd (StoreAlert True ''warning'' (''auth_'' @ status) '''' ''recorded''
                 (JObj [(''required_scope'', JStr scope), (''principal'', JStr who)]) (snd mw))
      else snd mw)"

definition requireScopedAuth ::
  "TokenAuthenticator option \<Rightarrow> bool \<Rightarrow> string \<Rightarrow> (AuthPrincipal option \<Rightarrow> 's \<Rightarrow> 'r \<times> 's) \<Rightarrow> (response \<Rightarrow> 'r) \<Rightarrow>
   ((GatewayMetrics option \<times> world \<Rightarrow> GatewayMetrics option \<times> world) \<Rightarrow> 's \<Rightarrow> 's) \<Rightarrow>
   headers \<Rightarrow> 's \<Rightarrow> 'r \<times> 's" where
  \<comment> \<open>\<open>answer\<close> makes a response the result of a handler; \<open>lift\<close> applies an operation on the counters and
    the world to the state of the handlers\<close>
  "requireScopedAuth auth metadata requiredScope next_handler answer lift h s =
     (if \<not> Enabled auth then next_handler None s
      else case Authenticate auth h of
        None \<Rightarrow>
          (answer (Response 401 (JObj [(''error'', JStr ''unauthorized'')])),
           lift (recordAuthDenied metadata ''unauthorized'' requiredScope '''') s)
      | Some who \<Rightarrow>
          (if \<not> hasScope who requiredScope
           then (answer (Response 403 (JObj [(''error'', JStr ''forbidden''), (''required_scope'', JStr requiredScope)])),
                 lift (recordAuthDenied metadata ''forbidden'' requiredScope (pr_Name who)) s)
           else next_handler (Some who) s))"

section \<open>Properties\<close>

definition grants :: "string \<Rightarrow> string \<Rightarrow> bool" where
  \<comment> \<open>what a scope stands for: everything, itself, or every scope under its resource\<close>
  "grants scope required \<longleftrightarrow>
     scope = ''admin:*'' \<or> scope = required \<or>
     (\<exists>resource verb. scope = resource @ '':*'' \<and> required = resource @ '':'' @ verb)"

lemma wildcard_grants:
  "HasSuffix scope '':*'' \<and> HasPrefix required (TrimSuffix scope ''*'') \<longleftrightarrow>
   (\<exists>resource verb. scope = resource @ '':*'' \<and> required = resource @ '':'' @ verb)"
proof -
  have "TrimSuffix (r @ '':*'') ''*'' = r @ '':''" for r
    using TrimSuffix_append [of "r @ '':''" "''*''"] by simp
  then show ?thesis by (auto simp: HasSuffix_iff HasPrefix_iff)
qed

lemma any_scope_Cons: "any_scope required (s # ss) \<longleftrightarrow> grants (TrimSpace s) required \<or> any_scope required ss"
  unfolding grants_def wildcard_grants [symmetric] by (simp only: any_scope.simps Let_def split: if_split) blast

lemma any_scope_iff: "any_scope required ss \<longleftrightarrow> (\<exists>s \<in> set ss. grants (TrimSpace s) required)"
  by (induction ss) (simp_all add: any_scope_Cons del: any_scope.simps(2))

text \<open>
  A principal has a scope exactly when one of its scopes, trimmed, grants it: \<^verbatim>\<open>admin:*\<close> grants
  every scope, \<^verbatim>\<open>resource:*\<close> grants the scopes of that resource and no others, and any other scope
  grants only itself. A wildcard never reaches beyond the colon.
\<close>

theorem hasScope_iff:
  "hasScope p required \<longleftrightarrow> required = '''' \<or> (\<exists>s. s \<in> set (pr_Scopes p) \<and> grants (TrimSpace s) required)"
  by (auto simp: hasScope_def any_scope_iff)

definition tokens_wf :: "TokenAuthenticator \<Rightarrow> bool" where
  "tokens_wf a \<longleftrightarrow> (\<forall>t \<in> set (au_tokens a). te_Name t \<noteq> '''' \<and> te_Token t \<noteq> '''' \<and> te_Scopes t \<noteq> [] \<and>
      TrimSpace (te_Token t) = te_Token t)"

lemma check_tokens_wf:
  "check_tokens i ts acc = Inr r \<Longrightarrow> tokens_wf \<lparr>au_disabled = False, au_tokens = acc\<rparr> \<Longrightarrow>
   tokens_wf \<lparr>au_disabled = False, au_tokens = r\<rparr>"
proof (induction ts arbitrary: i acc)
  case (Cons t ts)
  let ?t = "t\<lparr>te_Name := TrimSpace (te_Name t), te_Token := TrimSpace (te_Token t)\<rparr>"
  from Cons.prems(1) have "te_Name ?t \<noteq> ''''" "te_Token ?t \<noteq> ''''" "te_Scopes ?t \<noteq> []"
    and step: "check_tokens (Suc i) ts (acc @ [?t]) = Inr r"
    by (simp_all only: check_tokens.simps Let_def sum.distinct simp_thms split: if_splits)
  then have "tokens_wf \<lparr>au_disabled = False, au_tokens = acc @ [?t]\<rparr>"
    using Cons.prems(2) by (simp add: tokens_wf_def TrimSpace_idem)
  with step show ?case by (rule Cons.IH)
qed simp

lemma NewTokenAuthenticator_wf:
  assumes a: "NewTokenAuthenticator rd legacy path False = Inr a"
  shows "tokens_wf a \<and> \<not> au_disabled a"
proof -
  define l where "l = (if TrimSpace legacy \<noteq> ''''
     then [\<lparr>te_Name = ''legacy-admin'', te_Token = TrimSpace legacy, te_Scopes = [''admin:*'']\<rparr>] else [])"
  have l: "tokens_wf \<lparr>au_disabled = False, au_tokens = l\<rparr>"
    by (simp add: l_def tokens_wf_def TrimSpace_idem)
  note a' = a [unfolded NewTokenAuthenticator_def, folded l_def, unfolded Let_def]
  show ?thesis
  proof (cases "TrimSpace path = ''''")
    case True
    with a' l show ?thesis by auto
  next
    case False
    with a' obtain v where v: "rd path = Parsed v" by (cases "rd path") auto
    with a' False obtain ts where ts: "unmarshal_tokenFile v = Some ts"
      by (cases "unmarshal_tokenFile v") auto
    with a' False v obtain r where "check_tokens 0 ts l = Inr r" "a = \<lparr>au_disabled = False, au_tokens = r\<rparr>"
      by (cases "check_tokens 0 ts l") auto
    with check_tokens_wf [OF _ l] show ?thesis by simp
  qed
qed


definition sample_auth :: TokenAuthenticator where
  "sample_auth = \<lparr>au_disabled = False,
     au_tokens = [\<lparr>te_Name = ''legacy-admin'', te_Token = ''tok'', te_Scopes = [''admin:*'']\<rparr>]\<rparr>"

definition sample_headers :: headers where
  "sample_headers k = (if k = ''X-Backstop-Token'' then ''tok'' else '''')"


end
