(* ===== verification/Alert.thy ===== *)
theory Alert
  imports Metrics Metadata_Store
begin

text \<open>
  The gateway's alert sink, \<^verbatim>\<open>gateway/alert.go\<close>. The outcome of a webhook call is drawn from the
  world: \<open>None\<close> when no response came, otherwise the HTTP status. The payloads posted are kept in
  the state.
\<close>

record GatewayAlertPayload =
  gp_Severity :: string
  gp_EventType :: string
  gp_Environment :: string
  gp_ClusterID :: string
  gp_AgentID :: string
  gp_RiskLevel :: string
  gp_Operation :: string
  gp_Schema :: string
  gp_Table :: string
  gp_QuerySHA256 :: string
  gp_ApprovalID :: string
  gp_SnapshotID :: string
  gp_RecommendedAction :: string
  gp_Timestamp :: string
  gp_Message :: string

definition marshal_alert :: "GatewayAlertPayload \<Rightarrow> json" where
  "marshal_alert p =
     JObj ([(''severity'', JStr (gp_Severity p)), (''event_type'', JStr (gp_EventType p)),
            (''environment'', JStr (gp_Environment p)), (''cluster_id'', JStr (gp_ClusterID p))]
           @ omit_str ''agent_id'' (gp_AgentID p) @ omit_str ''risk_level'' (gp_RiskLevel p)
           @ omit_str ''operation'' (gp_Operation p) @ omit_str ''schema'' (gp_Schema p)
           @ omit_str ''table'' (gp_Table p) @ omit_str ''query_sha256'' (gp_QuerySHA256 p)
           @ omit_str ''approval_id'' (gp_ApprovalID p) @ omit_str ''snapshot_id'' (gp_SnapshotID p)
           @ [(''recommended_action'', JStr (gp_RecommendedAction p)), (''timestamp'', JStr (gp_Timestamp p))]
           @ omit_str ''message'' (gp_Message p))"

record GatewayAlertSink =
  sk_webhook :: string
  sk_metadata :: bool
  sk_posted :: "json list"

definition NewGatewayAlertSink :: "string \<Rightarrow> bool \<Rightarrow> GatewayAlertSink" where
  "NewGatewayAlertSink webhook metadata =
     \<lparr>sk_webhook = TrimSpace webhook, sk_metadata = metadata, sk_posted = []\<rparr>"

definition stamped :: "GatewayAlertPayload \<Rightarrow> world \<Rightarrow> GatewayAlertPayload \<times> world" where
  "stamped payload w =
     (if gp_Timestamp payload = ''''
      then let (now, w') = Now w in (payload\<lparr>gp_Timestamp := FormatRFC3339Nano now\<rparr>, w')
      else (payload, w))"

definition post :: "GatewayAlertPayload \<Rightarrow> GatewayAlertSink \<Rightarrow> world \<Rightarrow> string \<times> GatewayAlertSink \<times> world" where
  "post p s w =
     (if sk_webhook s = '''' then (''recorded'', s, w)
      else (case webhook_out w (draws w) of
              None \<Rightarrow> ''failed''
            | Some code \<Rightarrow> (if code < 200 \<or> 300 \<le> code then ''failed_http_'' @ int_str code else ''sent''),
            s\<lparr>sk_posted := sk_posted s @ [marshal_alert p]\<rparr>, drawn w))"

definition Emit ::
  "GatewayAlertPayload \<Rightarrow> GatewayAlertSink \<Rightarrow> GatewayMetrics option \<Rightarrow> world \<Rightarrow>
   GatewayAlertSink \<times> GatewayMetrics option \<times> world" where
  "Emit payload s m w =
     (let (p, w1) = stamped payload w;
          (status, s1, w2) = post p s w1;
          m1 = IncAlert (gp_EventType p) status m
      in if sk_metadata s1
         then (case StoreAlert True (gp_Severity p) (gp_EventType p) (gp_Table p) status (marshal_alert p) w2 of
                 (None, w3) \<Rightarrow> (s1, m1, w3)
               | (Some e, w3) \<Rightarrow> (s1, IncAlert (gp_EventType p) ''metadata_failed'' m1, w3))
         else (s1, m1, w2))"

definition only_alert_added :: "world \<Rightarrow> world \<Rightarrow> bool" where
  \<comment> \<open>at most one row came to the alerts table, and nothing else of the database changed\<close>
  "only_alert_added w w' \<longleftrightarrow> same_outside w w' \<and>
     (\<exists>rows. length rows \<le> 1 \<and> store w' = (store w)\<lparr>alerts_tbl := alerts_tbl (store w) @ rows\<rparr>)"

lemma StoreAlert_effect: "only_alert_added w (snd (StoreAlert s a b c d e w))"
proof -
  have "same_outside w (snd (StoreAlert s a b c d e w))"
    using atomic_writers(5) by (auto simp: atomic_write_def)
  moreover have "\<exists>rows. length rows \<le> 1 \<and>
      store (snd (StoreAlert s a b c d e w)) = (store w)\<lparr>alerts_tbl := alerts_tbl (store w) @ rows\<rparr>"
    by (auto simp: StoreAlert_def Now_def withTx_def intro: exI [of _ "[]"] exI [of _ "[x]" for x]
        split: option.splits)
  ultimately show ?thesis by (simp add: only_alert_added_def)
qed

lemma stamped_effect: "stamped p w = (p', w') \<Longrightarrow> same_outside w w' \<and> store w' = store w"
  by (auto simp: stamped_def Now_def split: if_splits)

lemma post_effect:
  "post p s w = (st, s', w') \<Longrightarrow>
   same_outside w w' \<and> store w' = store w \<and> sk_metadata s' = sk_metadata s \<and> sk_webhook s' = sk_webhook s"
  by (auto simp: post_def split: if_splits)

text \<open>
  Emitting an alert changes nothing but the counters, the log of posts and one row of the alerts
  table; whether the webhook answers does not matter.
\<close>

lemma Emit_effect:
  assumes "Emit payload s m w = (s', m', w')"
  shows "only_alert_added w w' \<and> sk_metadata s' = sk_metadata s \<and> sk_webhook s' = sk_webhook s"
proof -
  obtain p w1 where p: "stamped payload w = (p, w1)" by fastforce
  obtain st s1 w2 where q: "post p s w1 = (st, s1, w2)" by (metis prod_cases3)
  have e: "same_outside w w2" "store w2 = store w" "sk_metadata s1 = sk_metadata s" "sk_webhook s1 = sk_webhook s"
    using stamped_effect [OF p] post_effect [OF q] same_outside_trans by auto
  obtain r w3 where r: "StoreAlert True (gp_Severity p) (gp_EventType p) (gp_Table p) st (marshal_alert p) w2 = (r, w3)"
    by fastforce
  have "only_alert_added w2 w3" using StoreAlert_effect [of w2] r by (metis snd_conv)
  then have "only_alert_added w w3"
    using e(1,2) same_outside_trans by (auto simp: only_alert_added_def)
  moreover have "only_alert_added w w2"
    using e(1,2) by (auto simp: only_alert_added_def intro: exI [of _ "[]"])
  moreover have "s' = s1 \<and> w' = (if sk_metadata s1 then w3 else w2)"
    using assms p q r by (auto simp: Emit_def Let_def split: if_splits option.splits)
  ultimately show ?thesis using e(3,4) by simp
qed

end
