(* ===== verification/Approval.thy ===== *)
theory Approval
  imports Metadata_Store
begin

text \<open>
  The approval engine, \<^verbatim>\<open>gateway/approval.go\<close>. A channel of capacity one is a cell of a list, referred
  to by its index: the goroutine that waits keeps the reference, while operators reach the channel
  through the map of pending approvals. \<open>RequestApproval\<close> blocks, so it is two operations: the part
  before the \<^verbatim>\<open>select\<close> and the part after it, given which of its cases was taken. The step relation
  \<open>approval_step\<close> interleaves them with the operators' signals and keeps a log.
\<close>

section \<open>The engine\<close>

datatype approval_error =
    ErrApprovalDenied
  | ErrApprovalTimeout
  | ErrApprovalNotFound
  | ErrApprovalIDRequired
  | ApprovalCancelled string

record ApprovalResolution =
  rs_Approved :: bool
  rs_Actor :: string

record pendingApproval =
  pa_details :: ApprovalDetails
  pa_createdAt :: instant
  pa_decision :: nat

record ApprovalEngine =
  en_timeout :: duration
  en_pending :: "(string, pendingApproval) gomap"
  en_chans :: "ApprovalResolution option list"

definition zero_resolution :: ApprovalResolution where
  "zero_resolution = \<lparr>rs_Approved = False, rs_Actor = ''''\<rparr>"

definition NewApprovalEngine :: "duration \<Rightarrow> ApprovalEngine" where
  "NewApprovalEngine timeout = \<lparr>en_timeout = timeout, en_pending = [], en_chans = []\<rparr>"

definition RequestApproval_begin ::
  "ApprovalDetails \<Rightarrow> instant \<Rightarrow> ApprovalEngine \<Rightarrow> (approval_error + nat) \<times> ApprovalEngine" where
  \<comment> \<open>up to the \<^verbatim>\<open>select\<close>: the new channel\<close>
  "RequestApproval_begin details now e =
     (if ad_ID details = '''' then (Inl ErrApprovalIDRequired, e)
      else let c = length (en_chans e)
           in (Inr c, e\<lparr>en_chans := en_chans e @ [None],
                        en_pending := map_put (ad_ID details)
                          \<lparr>pa_details = details, pa_createdAt = now, pa_decision = c\<rparr> (en_pending e)\<rparr>))"

datatype wake = Decided | TimerFired | CtxDone string

definition chan_value :: "nat \<Rightarrow> ApprovalEngine \<Rightarrow> ApprovalResolution option" where
  "chan_value c e = (if c < length (en_chans e) then en_chans e ! c else None)"

definition RequestApproval_end ::
  "ApprovalDetails \<Rightarrow> nat \<Rightarrow> wake \<Rightarrow> ApprovalEngine \<Rightarrow>
   ((ApprovalResolution \<times> approval_error option) \<times> ApprovalEngine) option" where
  \<comment> \<open>after the \<^verbatim>\<open>select\<close>, with the deferred delete; \<open>None\<close> when that case is not ready\<close>
  "RequestApproval_end details c k e =
     (let e1 = e\<lparr>en_pending := AList.delete (ad_ID details) (en_pending e)\<rparr>
      in case k of
           Decided \<Rightarrow>
             (case chan_value c e of
                None \<Rightarrow> None
              | Some resolution \<Rightarrow>
                  Some ((resolution, if \<not> rs_Approved resolution then Some ErrApprovalDenied else None),
                        e1\<lparr>en_chans := (en_chans e1)[c := None]\<rparr>))
         | TimerFired \<Rightarrow> Some ((zero_resolution, Some ErrApprovalTimeout), e1)
         | CtxDone err \<Rightarrow> Some ((zero_resolution, Some (ApprovalCancelled err)), e1))"

definition signal :: "string \<Rightarrow> ApprovalResolution \<Rightarrow> ApprovalEngine \<Rightarrow> approval_error option \<times> ApprovalEngine" where
  "signal i resolution e =
     (case map_get (en_pending e) i of
        None \<Rightarrow> (Some ErrApprovalNotFound, e)
      | Some pa \<Rightarrow>
          (if chan_value (pa_decision pa) e = None
           then (None, e\<lparr>en_chans := (en_chans e)[pa_decision pa := Some resolution]\<rparr>)
           else (None, e)))"

definition Approve :: "string \<Rightarrow> string \<Rightarrow> ApprovalEngine \<Rightarrow> approval_error option \<times> ApprovalEngine" where
  "Approve i actor = signal i \<lparr>rs_Approved = True, rs_Actor = actor\<rparr>"

definition Deny :: "string \<Rightarrow> string \<Rightarrow> ApprovalEngine \<Rightarrow> approval_error option \<times> ApprovalEngine" where
  "Deny i actor = signal i \<lparr>rs_Approved = False, rs_Actor = actor\<rparr>"

record ApprovalRequest =
  rq_details :: ApprovalDetails
  rq_CreatedAt :: instant

definition PendingList :: "ApprovalEngine \<Rightarrow> ApprovalRequest list" where
  "PendingList e = map (\<lambda>(_, pa). \<lparr>rq_details = pa_details pa, rq_CreatedAt = pa_createdAt pa\<rparr>) (en_pending e)"

section \<open>Requests, operators and time\<close>

text \<open>
  The log has the newest event first. A signal is logged with the channel it was put into, if any,
  and the details that were listed as pending under the identifier at that moment.
\<close>

datatype approval_event =
    Requested nat ApprovalDetails
  | Signalled string ApprovalResolution "(nat \<times> ApprovalDetails) option"
  | Resolved nat ApprovalDetails ApprovalResolution "approval_error option"

record approval_sys =
  as_engine :: ApprovalEngine
  as_waiting :: "(nat \<times> ApprovalDetails) list"
  as_log :: "approval_event list"

definition approval_init :: "approval_sys \<Rightarrow> bool" where
  "approval_init s \<longleftrightarrow> (\<exists>timeout. s = \<lparr>as_engine = NewApprovalEngine timeout, as_waiting = [], as_log = []\<rparr>)"

definition reached :: "string \<Rightarrow> ApprovalEngine \<Rightarrow> (nat \<times> ApprovalDetails) option" where
  \<comment> \<open>the channel, if empty, and the details a signal for this identifier reaches\<close>
  "reached i e =
     (case map_get (en_pending e) i of
        None \<Rightarrow> None
      | Some pa \<Rightarrow> (if chan_value (pa_decision pa) e = None then Some (pa_decision pa, pa_details pa) else None))"

inductive approval_step :: "approval_sys \<Rightarrow> approval_sys \<Rightarrow> bool" where
  request: "RequestApproval_begin d now (as_engine s) = (Inr c, e) \<Longrightarrow>
    approval_step s (s\<lparr>as_engine := e, as_waiting := (c, d) # as_waiting s, as_log := Requested c d # as_log s\<rparr>)"
| sig: "signal i r (as_engine s) = (err, e) \<Longrightarrow>
    approval_step s (s\<lparr>as_engine := e, as_log := Signalled i r (reached i (as_engine s)) # as_log s\<rparr>)"
| wakes: "(c, d) \<in> set (as_waiting s) \<Longrightarrow> RequestApproval_end d c k (as_engine s) = Some ((r, err), e) \<Longrightarrow>
    approval_step s (s\<lparr>as_engine := e, as_waiting := filter (\<lambda>w. fst w \<noteq> c) (as_waiting s),
                       as_log := Resolved c d r err # as_log s\<rparr>)"

inductive_cases approval_step_cases: "approval_step s t"

section \<open>The invariant\<close>

definition accepted_for :: "nat \<Rightarrow> approval_event \<Rightarrow> bool" where
  "accepted_for c ev = (case ev of Signalled _ _ (Some (c', _)) \<Rightarrow> c' = c | _ \<Rightarrow> False)"

fun log_ok :: "approval_event list \<Rightarrow> bool" where
  "log_ok [] = True"
| "log_ok (Requested c d # l) = log_ok l"
| "log_ok (Signalled i r None # l) = log_ok l"
| "log_ok (Signalled i r (Some (c, d)) # l) =
     (i = ad_ID d \<and> Requested c d \<in> set l \<and> (\<forall>ev \<in> set l. \<not> accepted_for c ev) \<and> log_ok l)"
| "log_ok (Resolved c d r None # l) =
     (rs_Approved r \<and> Requested c d \<in> set l \<and> Signalled (ad_ID d) r (Some (c, d)) \<in> set l \<and> log_ok l)"
| "log_ok (Resolved c d r (Some e) # l) = log_ok l"

definition approval_inv :: "approval_sys \<Rightarrow> bool" where
  "approval_inv s \<longleftrightarrow>
     (let e = as_engine s; l = as_log s in
      distinct (map fst (en_pending e)) \<and>
      (\<forall>i pa. map_get (en_pending e) i = Some pa \<longrightarrow>
         i = ad_ID (pa_details pa) \<and> Requested (pa_decision pa) (pa_details pa) \<in> set l \<and>
         (chan_value (pa_decision pa) e = None \<longrightarrow> (\<forall>ev \<in> set l. \<not> accepted_for (pa_decision pa) ev))) \<and>
      (\<forall>(c, d) \<in> set (as_waiting s). Requested c d \<in> set l) \<and>
      (\<forall>c d. Requested c d \<in> set l \<longrightarrow> c < length (en_chans e)) \<and>
      (\<forall>c d d'. Requested c d \<in> set l \<longrightarrow> Requested c d' \<in> set l \<longrightarrow> d = d') \<and>
      (\<forall>c r. chan_value c e = Some r \<longrightarrow>
         (\<exists>d. Requested c d \<in> set l \<and> Signalled (ad_ID d) r (Some (c, d)) \<in> set l)) \<and>
      (\<forall>c. length (en_chans e) \<le> c \<longrightarrow> (\<forall>ev \<in> set l. \<not> accepted_for c ev)) \<and>
      log_ok l)"

lemma accepted_for_simps [simp]:
  "\<not> accepted_for c (Requested c' d)" "\<not> accepted_for c (Resolved c' d r err)"
  "accepted_for c (Signalled i r None) = False" "accepted_for c (Signalled i r (Some (c', d))) = (c' = c)"
  by (simp_all add: accepted_for_def)

lemma chan_value_append [simp]:
  "chan_value c (e\<lparr>en_chans := en_chans e @ [None]\<rparr>) = chan_value c e"
  by (simp add: chan_value_def nth_append)

lemma chan_value_set:
  "chan_value c (e\<lparr>en_chans := (en_chans e)[c' := v]\<rparr>) = (if c = c' \<and> c < length (en_chans e) then v else chan_value c e)"
  by (simp add: chan_value_def)

lemma chan_value_pending [simp]: "chan_value c (e\<lparr>en_pending := p\<rparr>) = chan_value c e"
  by (simp add: chan_value_def)

lemma approval_inv_unique:
  "approval_inv s \<Longrightarrow> Requested c d \<in> set (as_log s) \<Longrightarrow> Requested c d' \<in> set (as_log s) \<Longrightarrow> d = d'"
  unfolding approval_inv_def Let_def by blast

lemma inv_request:
  assumes "approval_inv s" "RequestApproval_begin d now (as_engine s) = (Inr c, e)"
  shows "approval_inv (s\<lparr>as_engine := e, as_waiting := (c, d) # as_waiting s, as_log := Requested c d # as_log s\<rparr>)"
proof -
  have c: "c = length (en_chans (as_engine s))"
    and e: "e = (as_engine s)\<lparr>en_chans := en_chans (as_engine s) @ [None],
        en_pending := map_put (ad_ID d) \<lparr>pa_details = d, pa_createdAt = now, pa_decision = c\<rparr> (en_pending (as_engine s))\<rparr>"
    using assms(2) by (auto simp: RequestApproval_begin_def Let_def split: if_splits)
  show ?thesis
    using assms(1) unfolding approval_inv_def Let_def e
    by (auto simp: c map_get_put distinct_update less_Suc_eq) blast
qed

lemma inv_signal:
  assumes "approval_inv s" "signal i r (as_engine s) = (err, e)"
  shows "approval_inv (s\<lparr>as_engine := e, as_log := Signalled i r (reached i (as_engine s)) # as_log s\<rparr>)"
proof (cases "reached i (as_engine s)")
  case None
  then have "e = as_engine s"
    using assms(2) by (auto simp: signal_def reached_def split: option.splits if_splits)
  with None assms(1) show ?thesis by (auto simp: approval_inv_def Let_def)
next
  case (Some cd)
  then obtain pa where pa: "map_get (en_pending (as_engine s)) i = Some pa"
    "chan_value (pa_decision pa) (as_engine s) = None" "cd = (pa_decision pa, pa_details pa)"
    by (auto simp: reached_def split: option.splits if_splits)
  then have e: "e = (as_engine s)\<lparr>en_chans := (en_chans (as_engine s))[pa_decision pa := Some r]\<rparr>"
    using assms(2) by (simp add: signal_def)
  have "i = ad_ID (pa_details pa)" "Requested (pa_decision pa) (pa_details pa) \<in> set (as_log s)"
    "\<forall>ev \<in> set (as_log s). \<not> accepted_for (pa_decision pa) ev"
    using assms(1) pa by (auto simp: approval_inv_def Let_def)
  note facts = this
  show ?thesis
    using assms(1) facts(2,3) unfolding approval_inv_def Let_def e
    by (auto simp: Some pa chan_value_set facts(1) [symmetric] split: if_splits)
qed

lemma inv_wake:
  assumes "approval_inv s" "(c, d) \<in> set (as_waiting s)"
    and "RequestApproval_end d c k (as_engine s) = Some ((r, err), e)"
  shows "approval_inv (s\<lparr>as_engine := e, as_waiting := filter (\<lambda>w. fst w \<noteq> c) (as_waiting s),
            as_log := Resolved c d r err # as_log s\<rparr>)"
proof -
  have req: "Requested c d \<in> set (as_log s)"
    using assms(1,2) by (auto simp: approval_inv_def Let_def)
  have pend: "(i, pa) \<in> set (en_pending (as_engine s)) \<and> pa_decision pa \<noteq> c"
    if "(i, pa) \<in> set (AList.delete (ad_ID d) (en_pending (as_engine s)))" for i pa
  proof -
    have "(i, pa) \<in> set (en_pending (as_engine s))" "i \<noteq> ad_ID d"
      using that by (auto simp: AList.delete_eq)
    moreover from this have "i = ad_ID (pa_details pa)" "Requested (pa_decision pa) (pa_details pa) \<in> set (as_log s)"
      using assms(1) by (auto simp: approval_inv_def Let_def)
    ultimately show ?thesis using approval_inv_unique [OF assms(1)] req by blast
  qed
  have dist: "distinct (map fst (AList.delete (ad_ID d) (en_pending (as_engine s))))"
    using assms(1) by (auto simp: approval_inv_def Let_def intro: distinct_delete)
  show ?thesis
  proof (cases "k = Decided")
    case True
    then obtain v where v: "chan_value c (as_engine s) = Some v" "r = v"
      "err = (if \<not> rs_Approved v then Some ErrApprovalDenied else None)"
      "e = (as_engine s)\<lparr>en_pending := AList.delete (ad_ID d) (en_pending (as_engine s)),
          en_chans := (en_chans (as_engine s))[c := None]\<rparr>"
      using assms(3) by (auto simp: RequestApproval_end_def Let_def split: option.splits)
    have sig: "Signalled (ad_ID d) v (Some (c, d)) \<in> set (as_log s)"
      using assms(1) v(1) req by (auto simp: approval_inv_def Let_def) metis
    have ok: "log_ok (Resolved c d r err # as_log s)"
      using assms(1) v(2,3) req sig by (auto simp: approval_inv_def Let_def)
    have cv: "chan_value c' e = (if c' = c then None else chan_value c' (as_engine s))" for c'
      by (auto simp: v(4) chan_value_def)
    show ?thesis
      using assms(1) dist ok cv unfolding approval_inv_def Let_def
      by (auto simp: v(4) dest!: pend)
  next
    case False
    then have e: "e = (as_engine s)\<lparr>en_pending := AList.delete (ad_ID d) (en_pending (as_engine s))\<rparr>"
      and err: "err \<noteq> None"
      using assms(3) by (cases k; auto simp: RequestApproval_end_def Let_def)+
    have ok: "log_ok (Resolved c d r err # as_log s)"
      using assms(1) err by (auto simp: approval_inv_def Let_def)
    show ?thesis
      using assms(1) dist ok unfolding approval_inv_def Let_def e by (auto dest!: pend)
  qed
qed

interpretation approval: invariant_system approval_init approval_step approval_inv
proof unfold_locales
  show "approval_inv s" if "approval_init s" for s
    using that by (auto simp: approval_init_def approval_inv_def NewApprovalEngine_def chan_value_def)
  show "approval_inv t" if "approval_inv s" "approval_step s t" for s t
    using that(2,1) by (cases rule: approval_step.cases) (auto intro: inv_request inv_signal inv_wake)
qed

section \<open>Properties\<close>

lemma log_ok_append: "log_ok (n @ l) \<Longrightarrow> log_ok l"
proof (induction n)
  case (Cons ev n)
  then show ?case by (cases ev) (auto elim: log_ok.elims)
qed simp

lemma log_ok_accept_once: "log_ok (n @ Signalled i r (Some (c, d)) # l) \<Longrightarrow> ev \<in> set n \<union> set l \<Longrightarrow> \<not> accepted_for c ev"
proof (induction n)
  case Nil
  then show ?case by simp
next
  case (Cons x n)
  have ok: "log_ok (n @ Signalled i r (Some (c, d)) # l)"
    using log_ok_append [of "[x]"] Cons.prems(1) by simp
  show ?case
  proof (cases "ev = x")
    case True
    have "accepted_for c (Signalled i r (Some (c, d)))" by simp
    with Cons.prems(1) True show ?thesis
      by (cases "append (x # n) (Signalled i r (Some (c, d)) # l)" rule: log_ok.cases) auto
  next
    case False
    with Cons.IH [OF ok] Cons.prems(2) show ?thesis by auto
  qed
qed

text \<open>
  C4. A request is released as approved only by an operator who approved that very request: in every
  interleaving of requests, operator signals, timeouts and cancellations, when a waiting request
  returns without error, its resolution is an approval, and earlier in the log stands a signal for
  the request's own identifier, carrying that resolution, sent while exactly these details (query,
  hash, agent, risk, table, environment) were listed as pending under the identifier. Two requests
  that share an identifier cannot be released by one another's approval.
\<close>

theorem approved_by_operator:
  assumes "approval_init s0" "approval_step\<^sup>*\<^sup>* s0 s" "as_log s = newer @ Resolved c d r None # older"
  shows "rs_Approved r \<and> Requested c d \<in> set older \<and> Signalled (ad_ID d) r (Some (c, d)) \<in> set older"
proof -
  have "log_ok (newer @ Resolved c d r None # older)"
    using approval.reachable_inv [OF assms(1,2)] assms(3) by (simp add: approval_inv_def Let_def)
  then have "log_ok (Resolved c d r None # older)" by (rule log_ok_append)
  then show ?thesis by simp
qed

definition sample_details :: ApprovalDetails where
  "sample_details = \<lparr>ad_ID = ''appr_1'', ad_Query = ''DROP TABLE users'', ad_QuerySHA256 = ''ab'', ad_AgentID = ''a'',
     ad_RiskLevel = ''CRITICAL'', ad_Operation = ''DROP TABLE'', ad_Schema = '''', ad_Table = ''users'',
     ad_Environment = ''prod'', ad_ClusterID = ''c'', ad_SnapshotID = ''snap_1''\<rparr>"

definition sample_run :: "approval_sys list" where
  \<comment> \<open>a request, its approval by an operator, a late denial that is dropped, and the release\<close>
  "sample_run =
     (let d = sample_details; ok = \<lparr>rs_Approved = True, rs_Actor = ''op''\<rparr>; no = \<lparr>rs_Approved = False, rs_Actor = ''op2''\<rparr>;
          pend = [(''appr_1'', \<lparr>pa_details = d, pa_createdAt = 0, pa_decision = 0\<rparr>)];
          l1 = [Requested 0 d]; l2 = Signalled ''appr_1'' ok (Some (0, d)) # l1; l3 = Signalled ''appr_1'' no None # l2
      in [\<lparr>as_engine = NewApprovalEngine 60, as_waiting = [], as_log = []\<rparr>,
          \<lparr>as_engine = \<lparr>en_timeout = 60, en_pending = pend, en_chans = [None]\<rparr>, as_waiting = [(0, d)], as_log = l1\<rparr>,
          \<lparr>as_engine = \<lparr>en_timeout = 60, en_pending = pend, en_chans = [Some ok]\<rparr>, as_waiting = [(0, d)], as_log = l2\<rparr>,
          \<lparr>as_engine = \<lparr>en_timeout = 60, en_pending = pend, en_chans = [Some ok]\<rparr>, as_waiting = [(0, d)], as_log = l3\<rparr>,
          \<lparr>as_engine = \<lparr>en_timeout = 60, en_pending = [], en_chans = [None]\<rparr>, as_waiting = [],
           as_log = Resolved 0 d ok None # l3\<rparr>])"

lemma sample_run_steps:
  "approval_init (sample_run ! 0)" "approval_step\<^sup>*\<^sup>* (sample_run ! 0) (sample_run ! 4)"
proof -
  show "approval_init (sample_run ! 0)" by (auto simp: sample_run_def approval_init_def Let_def)
  have "approval_step (sample_run ! 0) (sample_run ! 1)"
    using approval_step.request [of sample_details 0 "sample_run ! 0"]
    by (simp add: sample_run_def Let_def RequestApproval_begin_def NewApprovalEngine_def sample_details_def)
  moreover have "approval_step (sample_run ! 1) (sample_run ! 2)"
    using approval_step.sig [of "''appr_1''" "\<lparr>rs_Approved = True, rs_Actor = ''op''\<rparr>" "sample_run ! 1"]
    by (simp add: sample_run_def Let_def signal_def reached_def chan_value_def)
  moreover have "approval_step (sample_run ! 2) (sample_run ! 3)"
    using approval_step.sig [of "''appr_1''" "\<lparr>rs_Approved = False, rs_Actor = ''op2''\<rparr>" "sample_run ! 2"]
    by (simp add: sample_run_def Let_def signal_def reached_def chan_value_def)
  moreover have "approval_step (sample_run ! 3) (sample_run ! 4)"
    using approval_step.wakes [of 0 sample_details "sample_run ! 3" Decided]
    by (simp add: sample_run_def Let_def RequestApproval_end_def chan_value_def sample_details_def)
  ultimately show "approval_step\<^sup>*\<^sup>* (sample_run ! 0) (sample_run ! 4)"
    by (meson converse_rtranclp_into_rtranclp rtranclp.rtrancl_refl)
qed

theorem approved_by_operator_witness:
  "Signalled ''appr_1'' \<lparr>rs_Approved = True, rs_Actor = ''op''\<rparr> (Some (0, sample_details))
     \<in> set (tl (as_log (sample_run ! 4)))"
  using approved_by_operator [OF sample_run_steps, of "[]" 0 sample_details "\<lparr>rs_Approved = True, rs_Actor = ''op''\<rparr>"
      "tl (as_log (sample_run ! 4))"]
  by (simp add: sample_run_def Let_def sample_details_def)



end
