(* ===== verification/Snapshot_Verifier.thy ===== *)
theory Snapshot_Verifier
  imports Metadata_Store Go_Crypto
begin

text \<open>
  The verification of recovery points, \<^verbatim>\<open>gateway/snapshot_verifier.go\<close> and the parsing of the storage
  argument in \<^verbatim>\<open>gateway/storage.go\<close>. The object store is an argument: the pages a listing returns
  and the outcome of fetching an object. An object has its bytes, an error that ends the reading of
  its body, if any, and the JSON value its bytes begin with, if any. The locale \<open>snapshot_verifier\<close>
  is what the gateway relies on of the interface \<^verbatim>\<open>SnapshotVerifier\<close>.
\<close>

section \<open>The object store\<close>

record object =
  ob_bytes :: string
  ob_read_error :: "string option"
  ob_json :: "json option"

record s3 =
  s3_pages :: "string \<Rightarrow> (string + string list) list"
  s3_get :: "string \<Rightarrow> string + object"

record StorageConfig =
  sc_Bucket :: string
  sc_Endpoint :: string
  sc_Prefix :: string

definition ParseStorage ::
  "(string \<Rightarrow> string option) \<Rightarrow> string \<Rightarrow> string \<Rightarrow> string \<Rightarrow> string + StorageConfig" where
  \<comment> \<open>the first argument is \<^verbatim>\<open>url.ParseRequestURI\<close>, seen through its error\<close>
  "ParseStorage uri_error raw fallbackEndpoint prefix =
     (if \<not> HasPrefix raw ''s3://'' then Inl ''storage must start with s3://''
      else let (first, second) = SplitN2 (TrimPrefix raw ''s3://'') CHR ''@'';
               bucket = TrimSpace first
           in if bucket = '''' then Inl ''storage bucket is required''
              else let endpoint = (case second of None \<Rightarrow> fallbackEndpoint | Some s \<Rightarrow> TrimSpace s);
                       ok = Inr \<lparr>sc_Bucket = bucket, sc_Endpoint = endpoint, sc_Prefix = TrimChar prefix CHR ''/''\<rparr>
                   in if endpoint = '''' then ok
                      else case uri_error endpoint of
                             Some e \<Rightarrow> Inl (''invalid storage endpoint: '' @ e)
                           | None \<Rightarrow> ok)"

record s3_options =
  so_Region :: string
  so_Credentials :: "(string \<times> string) option" \<comment> \<open>static access key and secret; \<open>None\<close> for the default chain\<close>
  so_BaseEndpoint :: "string option"
  so_UsePathStyle :: bool

definition envOrDefault :: "(string \<Rightarrow> string) \<Rightarrow> string \<Rightarrow> string \<Rightarrow> string" where
  "envOrDefault getenv key fallback = (let v = TrimSpace (getenv key) in if v \<noteq> '''' then v else fallback)"

definition NewS3Client :: "(s3_options \<Rightarrow> string + 'client) \<Rightarrow> (string \<Rightarrow> string) \<Rightarrow> StorageConfig \<Rightarrow> string + 'client" where
  \<comment> \<open>the first argument is the SDK: \<^verbatim>\<open>config.LoadDefaultConfig\<close> and \<^verbatim>\<open>s3.NewFromConfig\<close>\<close>
  "NewS3Client sdk getenv storage =
     (if sc_Endpoint storage = ''''
      then sdk \<lparr>so_Region = ''us-east-1'', so_Credentials = None, so_BaseEndpoint = None, so_UsePathStyle = False\<rparr>
      else sdk \<lparr>so_Region = ''us-east-1'',
                so_Credentials = Some (envOrDefault getenv ''AWS_ACCESS_KEY_ID'' ''minioadmin'',
                                       envOrDefault getenv ''AWS_SECRET_ACCESS_KEY'' ''minioadmin''),
                so_BaseEndpoint = Some (sc_Endpoint storage), so_UsePathStyle = True\<rparr>)"

section \<open>Names of objects\<close>

definition byte_in :: "nat \<Rightarrow> nat \<Rightarrow> char \<Rightarrow> bool" where
  "byte_in lo hi c \<longleftrightarrow> lo \<le> of_char c \<and> of_char c \<le> hi"

fun rune_len :: "string \<Rightarrow> nat" where
  \<comment> \<open>bytes of the rune a string begins with; an invalid byte is a rune of its own\<close>
  "rune_len [] = 0"
| "rune_len (a # s) =
     (let cont = byte_in 128 191;
          second = (case s of b # _ \<Rightarrow>
                      (if of_char a = (224::nat) then byte_in 160 191 b
                       else if of_char a = (237::nat) then byte_in 128 159 b
                       else if of_char a = (240::nat) then byte_in 144 191 b
                       else if of_char a = (244::nat) then byte_in 128 143 b
                       else cont b) | [] \<Rightarrow> False)
      in if byte_in 194 223 a \<and> second then 2
         else if byte_in 224 239 a \<and> second \<and> 3 \<le> length (a # s) \<and> cont (s ! 1) then 3
         else if byte_in 240 244 a \<and> second \<and> 4 \<le> length (a # s) \<and> cont (s ! 1) \<and> cont (s ! 2) then 4
         else 1)"

lemma rune_len_pos: "0 < rune_len (c # s)"
  by (simp add: Let_def)

definition table_key_char :: "char \<Rightarrow> bool" where
  "table_key_char c \<longleftrightarrow>
     byte_in 65 90 c \<or> byte_in 97 122 c \<or> byte_in 48 57 c \<or> c = CHR ''_'' \<or> c = CHR ''.'' \<or> c = CHR ''-''"

function safeTableKey :: "string \<Rightarrow> string" where
  "safeTableKey [] = []"
| "safeTableKey (c # s) =
     (if table_key_char c then c # safeTableKey s
      else CHR ''_'' # safeTableKey (drop (rune_len (c # s)) (c # s)))"
  by pat_completeness auto
termination
  by (relation "measure length") (use rune_len_pos in \<open>auto simp del: rune_len.simps\<close>)

definition snapshotIDFromManifestKey :: "string \<Rightarrow> string" where
  "snapshotIDFromManifestKey key =
     (case find (\<lambda>p. HasPrefix p ''snap_'') (rev (Split (TrimChar key CHR ''/'') CHR ''/'')) of
        Some p \<Rightarrow> p
      | None \<Rightarrow> '''')"

definition parseManifestTime :: "string \<Rightarrow> instant option" where
  "parseManifestTime value =
     (case ParseRFC3339 value of Some ts \<Rightarrow> Some ts | None \<Rightarrow> parse_layout False value)"

section \<open>Manifests\<close>

definition validateSidecarManifest :: "SnapshotManifest \<Rightarrow> string \<Rightarrow> string option" where
  "validateSidecarManifest m tab =
     (let status = TrimSpace (m_Status m) in
      if m_SnapshotID m = '''' then Some ''snapshot manifest is missing snapshot_id''
      else if m_TableName m \<noteq> tab
      then Some (''snapshot table mismatch: manifest has '' @ m_TableName m @ '', query targets '' @ tab)
      else if m_Writer m \<noteq> sidecarWriter
      then Some (''snapshot '' @ m_SnapshotID m @ '' was written by '' @ m_Writer m @ '', want '' @ sidecarWriter)
      else if m_SnapshotScope m \<noteq> ''table''
      then Some (''snapshot '' @ m_SnapshotID m @ '' has scope '' @ m_SnapshotScope m @ '', want table'')
      else if status \<noteq> ''valid''
      then (if m_ValidationError m \<noteq> ''''
            then Some (''snapshot '' @ m_SnapshotID m @ '' is not valid: status='' @ status
                       @ '' validation_error='' @ m_ValidationError m)
            else if status = ''''
            then Some (''snapshot '' @ m_SnapshotID m @ '' has no status field (expected '' @ [CHR 0x22] @ ''valid'' @ [CHR 0x22] @ '')'')
            else Some (''snapshot '' @ m_SnapshotID m @ '' is not valid: status='' @ status))
      else if TrimSpace (m_DataSHA256 m) = ''''
      then Some (''snapshot '' @ m_SnapshotID m @ '' is missing data_sha256'')
      else None)"

section \<open>The verifier\<close>

record S3SnapshotVerifier =
  sv_client :: s3
  sv_storage :: StorageConfig
  sv_metadata :: bool

definition NewS3SnapshotVerifier :: "s3 \<Rightarrow> StorageConfig \<Rightarrow> S3SnapshotVerifier" where
  "NewS3SnapshotVerifier client storage = \<lparr>sv_client = client, sv_storage = storage, sv_metadata = False\<rparr>"

definition SetMetadataStore :: "bool \<Rightarrow> S3SnapshotVerifier \<Rightarrow> S3SnapshotVerifier" where
  "SetMetadataStore metadata v = v\<lparr>sv_metadata := metadata\<rparr>"

definition quarantineManifest :: "S3SnapshotVerifier \<Rightarrow> string \<Rightarrow> string \<Rightarrow> string \<Rightarrow> string \<Rightarrow> world \<Rightarrow> world" where
  "quarantineManifest v key tab snapshotID reason w =
     (if \<not> sv_metadata v then w
      else let sid = (if snapshotID = '''' then snapshotIDFromManifestKey key else snapshotID)
           in case QuarantineManifest True sid tab key reason w of
                (None, w1) \<Rightarrow> w1
              | (Some e, w1) \<Rightarrow>
                  snd (StoreAlert True ''critical'' ''manifest_quarantine_failed'' tab ''failed''
                        (JObj [(''manifest_key'', JStr key), (''snapshot_id'', JStr sid), (''reason'', JStr reason),
                               (''error'', JStr e)]) w1))"

definition getManifest :: "S3SnapshotVerifier \<Rightarrow> string \<Rightarrow> string + SnapshotManifest" where
  "getManifest v key =
     (case s3_get (sv_client v) key of
        Inl e \<Rightarrow> Inl e
      | Inr ob \<Rightarrow>
          (case ob_json ob of
             None \<Rightarrow> Inl ''invalid JSON''
           | Some j \<Rightarrow> (case unmarshal_manifest j of None \<Rightarrow> Inl ''cannot unmarshal'' | Some m \<Rightarrow> Inr m)))"

fun scan_keys ::
  "S3SnapshotVerifier \<Rightarrow> string \<Rightarrow> string list \<Rightarrow> (SnapshotManifest \<times> instant) option \<Rightarrow> world \<Rightarrow>
   (string + (SnapshotManifest \<times> instant) option) \<times> world" where
  \<comment> \<open>the loop over the objects of a page, with the latest manifest so far\<close>
  "scan_keys v tab [] latest w = (Inr latest, w)"
| "scan_keys v tab (key # keys) latest w =
     (if \<not> HasSuffix key ''/manifest.json'' then scan_keys v tab keys latest w
      else case getManifest v key of
        Inl e \<Rightarrow>
          scan_keys v tab keys latest
            (quarantineManifest v key tab '''' (''manifest read/decode failed: '' @ e) w)
      | Inr m \<Rightarrow>
          (if m_Writer m \<noteq> sidecarWriter \<or> m_TableName m \<noteq> tab then scan_keys v tab keys latest w
           else case validateSidecarManifest m tab of
             Some e \<Rightarrow> (Inl e, quarantineManifest v key tab (m_SnapshotID m) e w)
           | None \<Rightarrow>
               (case parseManifestTime (m_Timestamp m) of
                  None \<Rightarrow>
                    scan_keys v tab keys latest
                      (quarantineManifest v key tab (m_SnapshotID m) ''manifest timestamp invalid'' w)
                | Some ts \<Rightarrow>
                    scan_keys v tab keys
                      (case latest of
                         None \<Rightarrow> Some (m, ts)
                       | Some (m0, t0) \<Rightarrow> if t0 < ts then Some (m, ts) else latest) w)))"

fun scan_pages ::
  "S3SnapshotVerifier \<Rightarrow> string \<Rightarrow> (string + string list) list \<Rightarrow> (SnapshotManifest \<times> instant) option \<Rightarrow> world \<Rightarrow>
   (string + (SnapshotManifest \<times> instant) option) \<times> world" where
  "scan_pages v tab [] latest w = (Inr latest, w)"
| "scan_pages v tab (Inl e # pages) latest w = (Inl e, w)"
| "scan_pages v tab (Inr keys # pages) latest w =
     (case scan_keys v tab keys latest w of
        (Inl e, w1) \<Rightarrow> (Inl e, w1)
      | (Inr latest1, w1) \<Rightarrow> scan_pages v tab pages latest1 w1)"

definition table_prefix :: "S3SnapshotVerifier \<Rightarrow> string \<Rightarrow> string" where
  "table_prefix v tab = sc_Prefix (sv_storage v) @ ''/snapshots/'' @ safeTableKey tab @ ''/''"

definition latestSidecarManifest :: "S3SnapshotVerifier \<Rightarrow> string \<Rightarrow> world \<Rightarrow> (string + SnapshotManifest) \<times> world" where
  "latestSidecarManifest v tab w =
     (case scan_pages v tab (s3_pages (sv_client v) (table_prefix v tab)) None w of
        (Inl e, w1) \<Rightarrow> (Inl e, w1)
      | (Inr None, w1) \<Rightarrow> (Inl (''no sidecar recovery point found for table '' @ tab), w1)
      | (Inr (Some (m, _)), w1) \<Rightarrow> (Inr m, w1))"

definition data_key :: "SnapshotManifest \<Rightarrow> string" where
  "data_key m =
     (let key = TrimSpace (m_S3DataKey m)
      in if key = '''' \<and> HasSuffix (m_S3ManifestKey m) ''/manifest.json''
         then TrimSuffix (m_S3ManifestKey m) ''/manifest.json'' @ ''/data.parquet''
         else key)"

definition verifyDataObject :: "S3SnapshotVerifier \<Rightarrow> SnapshotManifest \<Rightarrow> string option" where
  "verifyDataObject v m =
     (case validateSidecarManifest m (m_TableName m) of
        Some e \<Rightarrow> Some e
      | None \<Rightarrow>
          (if data_key m = '''' then Some (''snapshot '' @ m_SnapshotID m @ '' does not identify a data object'')
           else case s3_get (sv_client v) (data_key m) of
             Inl e \<Rightarrow> Some (''snapshot data object verification failed for '' @ data_key m @ '': '' @ e)
           | Inr ob \<Rightarrow>
               (case ob_read_error ob of
                  Some e \<Rightarrow> Some (''snapshot data object hashing failed for '' @ data_key m @ '': '' @ e)
                | None \<Rightarrow>
                    (let got = sha256_hex (ob_bytes ob)
                     in if \<not> EqualFold got (m_DataSHA256 m)
                        then Some (''snapshot '' @ m_SnapshotID m @ '' data sha256 mismatch: got '' @ got
                                   @ '' want '' @ m_DataSHA256 m)
                        else None))))"

definition LatestSidecarSnapshot :: "S3SnapshotVerifier \<Rightarrow> string \<Rightarrow> world \<Rightarrow> (string + SnapshotManifest) \<times> world" where
  "LatestSidecarSnapshot v tab w =
     (case latestSidecarManifest v tab w of
        (Inl e, w1) \<Rightarrow> (Inl e, w1)
      | (Inr latest, w1) \<Rightarrow>
          (case verifyDataObject v latest of Some e \<Rightarrow> (Inl e, w1) | None \<Rightarrow> (Inr latest, w1)))"

definition VerifyLatestSidecarSnapshot ::
  "S3SnapshotVerifier \<Rightarrow> string \<Rightarrow> string \<Rightarrow> world \<Rightarrow> (string + SnapshotManifest) \<times> world" where
  "VerifyLatestSidecarSnapshot v tab snapshotID w =
     (if TrimSpace snapshotID = '''' then (Inl ''snapshot_id is required'', w)
      else case latestSidecarManifest v tab w of
        (Inl e, w1) \<Rightarrow> (Inl e, w1)
      | (Inr latest, w1) \<Rightarrow>
          (if m_SnapshotID latest \<noteq> snapshotID
           then (Inl (''snapshot_id '' @ snapshotID @ '' is not latest sidecar snapshot for table '' @ tab
                      @ ''; latest is '' @ m_SnapshotID latest), w1)
           else case verifyDataObject v latest of Some e \<Rightarrow> (Inl e, w1) | None \<Rightarrow> (Inr latest, w1)))"

section \<open>What a verified snapshot is\<close>

definition valid_manifest :: "SnapshotManifest \<Rightarrow> string \<Rightarrow> bool" where
  "valid_manifest m tab \<longleftrightarrow>
     m_SnapshotID m \<noteq> '''' \<and> m_TableName m = tab \<and> m_Writer m = sidecarWriter \<and> m_SnapshotScope m = ''table'' \<and>
     TrimSpace (m_Status m) = ''valid'' \<and> TrimSpace (m_DataSHA256 m) \<noteq> ''''"

lemma validateSidecarManifest_ok: "validateSidecarManifest m tab = None \<longleftrightarrow> valid_manifest m tab"
  by (auto simp: validateSidecarManifest_def valid_manifest_def Let_def)

definition data_intact :: "S3SnapshotVerifier \<Rightarrow> SnapshotManifest \<Rightarrow> bool" where
  \<comment> \<open>the data object is there, can be read to its end, and has the recorded hash\<close>
  "data_intact v m \<longleftrightarrow>
     (\<exists>ob. s3_get (sv_client v) (data_key m) = Inr ob \<and> ob_read_error ob = None \<and>
           EqualFold (sha256_hex (ob_bytes ob)) (m_DataSHA256 m))"

lemma verifyDataObject_ok:
  "verifyDataObject v m = None \<longleftrightarrow> valid_manifest m (m_TableName m) \<and> data_key m \<noteq> '''' \<and> data_intact v m"
  by (auto simp: verifyDataObject_def data_intact_def validateSidecarManifest_ok [symmetric] Let_def
      split: option.splits sum.splits if_splits)

text \<open>The manifests of a table that a list of keys offers: readable, by the sidecar, for this table.\<close>

definition offers :: "S3SnapshotVerifier \<Rightarrow> string \<Rightarrow> string list \<Rightarrow> SnapshotManifest \<Rightarrow> bool" where
  "offers v tab keys m \<longleftrightarrow>
     (\<exists>key \<in> set keys. HasSuffix key ''/manifest.json'' \<and> getManifest v key = Inr m \<and>
        m_Writer m = sidecarWriter \<and> m_TableName m = tab)"

definition latest_of :: "S3SnapshotVerifier \<Rightarrow> string \<Rightarrow> string list \<Rightarrow> (SnapshotManifest \<times> instant) option \<Rightarrow> bool" where
  "latest_of v tab keys latest \<longleftrightarrow>
     (\<forall>m. offers v tab keys m \<longrightarrow> valid_manifest m tab) \<and>
     (case latest of
        None \<Rightarrow> (\<forall>m. offers v tab keys m \<longrightarrow> parseManifestTime (m_Timestamp m) = None)
      | Some (m, ts) \<Rightarrow>
          offers v tab keys m \<and> parseManifestTime (m_Timestamp m) = Some ts \<and>
          (\<forall>m' t'. offers v tab keys m' \<longrightarrow> parseManifestTime (m_Timestamp m') = Some t' \<longrightarrow> t' \<le> ts))"

lemma offers_Nil [simp]: "\<not> offers v tab [] m"
  by (simp add: offers_def)

lemma offers_snoc:
  "offers v tab (keys @ [key]) m \<longleftrightarrow> offers v tab keys m \<or>
     HasSuffix key ''/manifest.json'' \<and> getManifest v key = Inr m \<and> m_Writer m = sidecarWriter \<and> m_TableName m = tab"
  by (auto simp: offers_def)

lemma latest_of_skip:
  assumes "latest_of v tab seen latest" "\<not> HasSuffix key ''/manifest.json'' \<or> getManifest v key = Inl e \<or>
     (\<exists>m. getManifest v key = Inr m \<and> (m_Writer m \<noteq> sidecarWriter \<or> m_TableName m \<noteq> tab))"
  shows "latest_of v tab (seen @ [key]) latest"
  using assms by (auto simp: latest_of_def offers_snoc split: option.splits)

lemma latest_of_untimed:
  assumes "latest_of v tab seen latest" "getManifest v key = Inr m" "valid_manifest m tab"
    "parseManifestTime (m_Timestamp m) = None"
  shows "latest_of v tab (seen @ [key]) latest"
  using assms by (auto simp: latest_of_def offers_snoc split: option.splits)

lemma latest_of_timed:
  assumes "latest_of v tab seen latest" "getManifest v key = Inr m" "valid_manifest m tab"
    "HasSuffix key ''/manifest.json''" "parseManifestTime (m_Timestamp m) = Some ts"
  shows "latest_of v tab (seen @ [key])
     (case latest of None \<Rightarrow> Some (m, ts) | Some (m0, t0) \<Rightarrow> if t0 < ts then Some (m, ts) else latest)"
proof (cases latest)
  case None
  with assms show ?thesis by (auto simp: latest_of_def offers_snoc valid_manifest_def)
next
  case (Some l)
  with assms show ?thesis
    by (cases l) (force simp: latest_of_def offers_snoc valid_manifest_def)
qed

lemma scan_keys_latest:
  "scan_keys v tab keys latest w = (Inr r, w') \<Longrightarrow> latest_of v tab seen latest \<Longrightarrow> latest_of v tab (seen @ keys) r"
proof (induction keys arbitrary: seen latest w)
  case (Cons key keys)
  have IH: "scan_keys v tab keys l u = (Inr r, w') \<Longrightarrow> latest_of v tab (seen @ [key]) l \<Longrightarrow>
      latest_of v tab (seen @ key # keys) r" for l u
    using Cons.IH [of l u "seen @ [key]"] by simp
  show ?case
  proof (cases "HasSuffix key ''/manifest.json''")
    case False
    with Cons.prems IH latest_of_skip show ?thesis by fastforce
  next
    case suf: True
    show ?thesis
    proof (cases "getManifest v key")
      case (Inl e)
      with Cons.prems suf IH latest_of_skip show ?thesis by fastforce
    next
      case (Inr m)
      show ?thesis
      proof (cases "m_Writer m \<noteq> sidecarWriter \<or> m_TableName m \<noteq> tab")
        case True
        with Cons.prems suf Inr IH latest_of_skip show ?thesis by fastforce
      next
        case False
        with Cons.prems suf Inr have ok: "valid_manifest m tab"
          by (auto simp: validateSidecarManifest_ok [symmetric] split: option.splits)
        with Cons.prems suf Inr False show ?thesis
          using IH latest_of_untimed [OF Cons.prems(2) Inr ok] latest_of_timed [OF Cons.prems(2) Inr ok suf]
          by (auto simp: validateSidecarManifest_ok [symmetric] split: option.splits)
      qed
    qed
  qed
qed simp

fun page_keys :: "string + string list \<Rightarrow> string list" where
  "page_keys (Inl e) = []"
| "page_keys (Inr keys) = keys"

definition listed_keys :: "S3SnapshotVerifier \<Rightarrow> string \<Rightarrow> string list" where
  \<comment> \<open>the keys of all pages of a listing without errors\<close>
  "listed_keys v tab = concat (map page_keys (s3_pages (sv_client v) (table_prefix v tab)))"

lemma scan_pages_latest:
  "scan_pages v tab pages latest w = (Inr r, w') \<Longrightarrow> latest_of v tab seen latest \<Longrightarrow>
   latest_of v tab (seen @ concat (map page_keys pages)) r"
proof (induction v tab pages latest w arbitrary: seen rule: scan_pages.induct)
  case (3 v tab keys pages latest w)
  then obtain l w1 where l: "scan_keys v tab keys latest w = (Inr l, w1)" "scan_pages v tab pages l w1 = (Inr r, w')"
    by (auto split: prod.splits sum.splits)
  from 3(1) [OF l(1) [symmetric] refl l(2) scan_keys_latest [OF l(1) 3(3)]] show ?case by simp
qed simp_all

lemma latest_of_empty: "latest_of v tab [] None"
  by (simp add: latest_of_def)

lemma latestSidecarManifest_latest:
  assumes "latestSidecarManifest v tab w = (Inr m, w')"
  shows "\<exists>ts. latest_of v tab (listed_keys v tab) (Some (m, ts))"
proof -
  obtain ts where "scan_pages v tab (s3_pages (sv_client v) (table_prefix v tab)) None w = (Inr (Some (m, ts)), w')"
    using assms by (auto simp: latestSidecarManifest_def split: prod.splits sum.splits option.splits)
  from scan_pages_latest [OF this latest_of_empty] show ?thesis by (auto simp: listed_keys_def)
qed

definition recovery_point :: "S3SnapshotVerifier \<Rightarrow> string \<Rightarrow> SnapshotManifest \<Rightarrow> bool" where
  \<comment> \<open>the newest valid sidecar manifest of the table among all that are listed, with its data intact\<close>
  "recovery_point v tab m \<longleftrightarrow>
     valid_manifest m tab \<and> data_key m \<noteq> '''' \<and> data_intact v m \<and>
     (\<exists>ts. latest_of v tab (listed_keys v tab) (Some (m, ts)))"

lemma verify_recovery_point:
  assumes "VerifyLatestSidecarSnapshot v tab sid w = (Inr m, w')"
  shows "m_SnapshotID m = sid \<and> TrimSpace sid \<noteq> '''' \<and> recovery_point v tab m"
proof -
  from assms obtain w1 where l: "latestSidecarManifest v tab w = (Inr m, w1)" "m_SnapshotID m = sid"
    "verifyDataObject v m = None" "TrimSpace sid \<noteq> ''''"
    by (auto simp: VerifyLatestSidecarSnapshot_def split: if_splits prod.splits sum.splits option.splits)
  moreover obtain ts where ts: "latest_of v tab (listed_keys v tab) (Some (m, ts))"
    using latestSidecarManifest_latest [OF l(1)] by blast
  moreover have "m_TableName m = tab" using ts by (auto simp: latest_of_def offers_def)
  ultimately show ?thesis by (auto simp: recovery_point_def verifyDataObject_ok)
qed

lemma latest_recovery_point:
  assumes "LatestSidecarSnapshot v tab w = (Inr m, w')"
  shows "recovery_point v tab m"
proof -
  from assms obtain w1 where l: "latestSidecarManifest v tab w = (Inr m, w1)" "verifyDataObject v m = None"
    by (auto simp: LatestSidecarSnapshot_def split: prod.splits sum.splits option.splits)
  obtain ts where ts: "latest_of v tab (listed_keys v tab) (Some (m, ts))"
    using latestSidecarManifest_latest [OF l(1)] by blast
  moreover have "m_TableName m = tab" using ts by (auto simp: latest_of_def offers_def)
  ultimately show ?thesis using l(2) by (auto simp: recovery_point_def verifyDataObject_ok)
qed

section \<open>Effects on the database\<close>

definition quarantine_frame :: "world \<Rightarrow> world \<Rightarrow> bool" where
  \<comment> \<open>verification writes at most to the tables of snapshots and alerts\<close>
  "quarantine_frame w w' \<longleftrightarrow> same_outside w w' \<and>
     audit_events (store w') = audit_events (store w) \<and> approvals_tbl (store w') = approvals_tbl (store w) \<and>
     health_checks (store w') = health_checks (store w) \<and> agent_state (store w') = agent_state (store w)"

lemma quarantine_frame_refl [simp]: "quarantine_frame w w"
  by (simp add: quarantine_frame_def)

lemma quarantine_frame_trans: "quarantine_frame u v \<Longrightarrow> quarantine_frame v w \<Longrightarrow> quarantine_frame u w"
  by (auto simp: quarantine_frame_def intro: same_outside_trans)

lemma quarantine_frame_RecordSnapshot: "quarantine_frame w (snd (RecordSnapshot s m w))"
  using atomic_RecordSnapshot [of s m]
  by (auto simp: quarantine_frame_def atomic_write_def RecordSnapshot_def withTx_def split: option.splits)

lemma quarantine_frame_drawn [simp]: "quarantine_frame w (drawn w)"
  by (simp add: quarantine_frame_def)

lemma quarantine_frame_QuarantineManifest: "quarantine_frame w (snd (QuarantineManifest s sid t key reason w))"
proof -
  have "quarantine_frame w (snd (RecordSnapshot b m (drawn w)))" "quarantine_frame w (snd (RecordSnapshot b m (drawn (drawn w))))" for b m
    by (rule quarantine_frame_trans [OF _ quarantine_frame_RecordSnapshot], simp add: quarantine_frame_def same_outside_def)+
  then show ?thesis by (simp add: QuarantineManifest_def Now_def Let_def)
qed

lemma quarantine_frame_StoreAlert: "quarantine_frame w (snd (StoreAlert s a b c d e w))"
  using atomic_writers(5) [of s a b c d e]
  by (auto simp: quarantine_frame_def atomic_write_def StoreAlert_def withTx_def Now_def split: option.splits)

lemma quarantine_frame_quarantineManifest: "quarantine_frame w (quarantineManifest v key tab sid reason w)"
proof (cases "sv_metadata v")
  case True
  obtain r w1 where r: "QuarantineManifest True (if sid = '''' then snapshotIDFromManifestKey key else sid) tab key reason w = (r, w1)"
    by fastforce
  then have "quarantine_frame w w1" using quarantine_frame_QuarantineManifest by (metis snd_conv)
  with r True show ?thesis
    by (cases r) (auto simp: quarantineManifest_def Let_def intro: quarantine_frame_trans quarantine_frame_StoreAlert)
qed (simp add: quarantineManifest_def)

lemma quarantine_frame_scan_keys: "quarantine_frame w (snd (scan_keys v tab keys latest w))"
proof (induction keys arbitrary: latest w)
  case (Cons key keys)
  have q: "quarantine_frame w (snd (scan_keys v tab keys l (quarantineManifest v key tab i r w)))" for l i r
    by (rule quarantine_frame_trans [OF quarantine_frame_quarantineManifest Cons.IH])
  show ?case
  proof (cases "getManifest v key")
    case (Inl e)
    with Cons.IH q show ?thesis by simp
  next
    case (Inr m)
    show ?thesis
    proof (cases "validateSidecarManifest m tab")
      case None
      with Inr Cons.IH q show ?thesis by (simp split: option.split)
    next
      case (Some e)
      with Inr Cons.IH quarantine_frame_quarantineManifest show ?thesis by simp
    qed
  qed
qed simp

lemma quarantine_frame_scan_pages: "quarantine_frame w (snd (scan_pages v tab pages latest w))"
proof (induction v tab pages latest w rule: scan_pages.induct)
  case (3 v tab keys pages latest w)
  obtain r w1 where r: "scan_keys v tab keys latest w = (r, w1)" by fastforce
  then have "quarantine_frame w w1" using quarantine_frame_scan_keys by (metis snd_conv)
  with r 3 show ?case by (cases r) (auto intro: quarantine_frame_trans)
qed simp_all

lemma quarantine_frame_verify:
  "quarantine_frame w (snd (VerifyLatestSidecarSnapshot v tab sid w))"
  "quarantine_frame w (snd (LatestSidecarSnapshot v tab w))"
proof -
  have "quarantine_frame w (snd (latestSidecarManifest v tab w))"
    using quarantine_frame_scan_pages [of w v tab "s3_pages (sv_client v) (table_prefix v tab)" None]
    by (auto simp: latestSidecarManifest_def split: prod.splits sum.splits option.splits)
  then show "quarantine_frame w (snd (VerifyLatestSidecarSnapshot v tab sid w))"
    "quarantine_frame w (snd (LatestSidecarSnapshot v tab w))"
    by (auto simp: VerifyLatestSidecarSnapshot_def LatestSidecarSnapshot_def split: prod.splits sum.splits option.splits)
qed

section \<open>The interface of the gateway\<close>

text \<open>
  What the gateway relies on: an accepted snapshot is the one that was asked for and is a sound
  recovery point of the table, and verification touches only the tables of snapshots and alerts.
\<close>

locale snapshot_verifier =
  fixes verify :: "string \<Rightarrow> string \<Rightarrow> world \<Rightarrow> (string + SnapshotManifest) \<times> world"
    and latest :: "string \<Rightarrow> world \<Rightarrow> (string + SnapshotManifest) \<times> world"
    and sound :: "string \<Rightarrow> SnapshotManifest \<Rightarrow> bool"
  assumes verify_sound: "verify tab sid w = (Inr m, w') \<Longrightarrow> m_SnapshotID m = sid \<and> sound tab m"
    and latest_sound: "latest tab w = (Inr m, w') \<Longrightarrow> sound tab m"
    and sound_table: "sound tab m \<Longrightarrow> m_TableName m = tab"
    and verify_frame: "quarantine_frame w (snd (verify tab sid w))"
    and latest_frame: "quarantine_frame w (snd (latest tab w))"
begin

lemma verify_table: "verify tab sid w = (Inr m, w') \<Longrightarrow> m_TableName m = tab"
  using verify_sound sound_table by blast

lemma verify_same_outside: "verify tab sid w = (r, w') \<Longrightarrow> same_outside w w'"
  using verify_frame [of w tab sid] by (simp add: quarantine_frame_def)

end

interpretation s3v: snapshot_verifier
  "VerifyLatestSidecarSnapshot v" "LatestSidecarSnapshot v" "recovery_point v" for v
proof unfold_locales
  show "VerifyLatestSidecarSnapshot v tab sid w = (Inr m, w') \<Longrightarrow> m_SnapshotID m = sid \<and> recovery_point v tab m"
    for tab sid w m w' using verify_recovery_point by blast
  show "LatestSidecarSnapshot v tab w = (Inr m, w') \<Longrightarrow> recovery_point v tab m" for tab w m w'
    by (rule latest_recovery_point)
  show "recovery_point v tab m \<Longrightarrow> m_TableName m = tab" for tab m
    by (simp add: recovery_point_def valid_manifest_def)
  show "quarantine_frame w (snd (VerifyLatestSidecarSnapshot v tab sid w))" for w tab sid
    by (rule quarantine_frame_verify)
  show "quarantine_frame w (snd (LatestSidecarSnapshot v tab w))" for w tab
    by (rule quarantine_frame_verify)
qed

section \<open>Properties\<close>

text \<open>
  C5. A snapshot that passes verification is a sound recovery point: it is the one the agent named,
  written by the sidecar for that table, explicitly valid, the newest of all listed manifests of the
  table that carry a readable time, every one of which is valid too; and the data object it names
  was read to its end and has the recorded SHA-256.
\<close>

theorem verified_is_recovery_point:
  assumes "fst (VerifyLatestSidecarSnapshot v tab sid w) = Inr m"
  shows "m_SnapshotID m = sid \<and> m_TableName m = tab \<and> m_Writer m = sidecarWriter \<and>
     TrimSpace (m_Status m) = ''valid'' \<and>
     (\<exists>ob. s3_get (sv_client v) (data_key m) = Inr ob \<and> ob_read_error ob = None \<and>
           EqualFold (sha256_hex (ob_bytes ob)) (m_DataSHA256 m)) \<and>
     (\<exists>ts. parseManifestTime (m_Timestamp m) = Some ts \<and> offers v tab (listed_keys v tab) m \<and>
        (\<forall>m' t'. offers v tab (listed_keys v tab) m' \<longrightarrow> parseManifestTime (m_Timestamp m') = Some t' \<longrightarrow>
           t' \<le> ts \<and> valid_manifest m' tab))"
proof -
  obtain w' where "VerifyLatestSidecarSnapshot v tab sid w = (Inr m, w')"
    using assms by (cases "VerifyLatestSidecarSnapshot v tab sid w") auto
  from s3v.verify_sound [OF this] show ?thesis
    by (auto simp: recovery_point_def valid_manifest_def data_intact_def latest_of_def)
qed

definition good_manifest :: SnapshotManifest where
  "good_manifest = sample_manifest\<lparr>m_DataSHA256 := sha256_hex ''x'', m_Timestamp := FormatRFC3339Nano 0\<rparr>"

definition sample_verifier :: "S3SnapshotVerifier" where
  "sample_verifier =
     \<lparr>sv_client = \<lparr>s3_pages = (\<lambda>_. [Inr [''p/snapshots/users/snap_1/manifest.json'']]),
        s3_get = (\<lambda>k. if k = ''p/snapshots/users/snap_1/manifest.json''
                      then Inr \<lparr>ob_bytes = '''', ob_read_error = None, ob_json = Some (marshal_manifest good_manifest)\<rparr>
                      else Inr \<lparr>ob_bytes = ''x'', ob_read_error = None, ob_json = None\<rparr>)\<rparr>,
      sv_storage = \<lparr>sc_Bucket = ''b'', sc_Endpoint = '''', sc_Prefix = ''p''\<rparr>, sv_metadata = True\<rparr>"

lemma sample_trims [simp]:
  "TrimSpace ''valid'' = ''valid''" "TrimSpace ''snap_1'' = ''snap_1''"
  "TrimSpace ''p/snapshots/users/snap_1/data.parquet'' = ''p/snapshots/users/snap_1/data.parquet''"
  by (simp_all add: TrimSpace_plain space_first_def space_last_def)

lemma sample_time: "parseManifestTime (m_Timestamp good_manifest) = Some 0"
  using nano.parse_print [OF printable_range [of 0]]
  by (simp add: parseManifestTime_def Second_def good_manifest_def)

lemma sample_get: "getManifest sample_verifier ''p/snapshots/users/snap_1/manifest.json'' = Inr good_manifest"
  using manifest_round_trip [of good_manifest]
  by (simp add: getManifest_def sample_verifier_def good_manifest_def sample_manifest_def manifest_ints_def
      in_int64_def zero_manifest_def)

lemma sample_manifest_facts:
  "validateSidecarManifest good_manifest ''users'' = None" "m_TableName good_manifest = ''users''"
  "m_Writer good_manifest = sidecarWriter" "m_SnapshotID good_manifest = ''snap_1''"
  "data_key good_manifest = ''p/snapshots/users/snap_1/data.parquet''"
  by (simp_all add: validateSidecarManifest_def good_manifest_def sample_manifest_def zero_manifest_def
      sidecarWriter_def data_key_def Let_def)

lemma sample_suffix: "HasSuffix ''p/snapshots/users/snap_1/manifest.json'' ''/manifest.json''"
  by (simp add: HasSuffix_def HasPrefix_def)

lemma sample_data: "data_intact sample_verifier good_manifest"
  using sample_manifest_facts(5) by (simp add: data_intact_def sample_verifier_def) (simp add: good_manifest_def)

lemma sample_verifies:
  "VerifyLatestSidecarSnapshot sample_verifier ''users'' ''snap_1'' w = (Inr good_manifest, w)"
proof -
  have "s3_pages (sv_client sample_verifier) p = [Inr [''p/snapshots/users/snap_1/manifest.json'']]" for p
    by (simp add: sample_verifier_def)
  then have "latestSidecarManifest sample_verifier ''users'' w = (Inr good_manifest, w)"
    by (simp add: latestSidecarManifest_def sample_get sample_manifest_facts sample_time sample_suffix)
  moreover have "verifyDataObject sample_verifier good_manifest = None"
    using sample_manifest_facts sample_data by (simp add: verifyDataObject_ok validateSidecarManifest_ok)
  ultimately show ?thesis by (simp add: VerifyLatestSidecarSnapshot_def sample_manifest_facts)
qed

theorem verified_is_recovery_point_witness:
  "fst (VerifyLatestSidecarSnapshot sample_verifier ''users'' ''snap_1'' quiet_world) = Inr good_manifest \<and>
   m_Writer good_manifest = sidecarWriter \<and>
   (\<exists>ob. s3_get (sv_client sample_verifier) (data_key good_manifest) = Inr ob \<and>
         EqualFold (sha256_hex (ob_bytes ob)) (m_DataSHA256 good_manifest))"
  using verified_is_recovery_point [of sample_verifier "''users''" "''snap_1''" quiet_world good_manifest]
    sample_verifies [of quiet_world]
  by (metis fst_conv)

lemma scan_keys_complete:
  assumes "\<forall>key \<in> set keys. HasSuffix key ''/manifest.json'' \<longrightarrow> (\<exists>m. getManifest v key = Inr m \<and>
      (m_Writer m = sidecarWriter \<and> m_TableName m = tab \<longrightarrow>
         valid_manifest m tab \<and> parseManifestTime (m_Timestamp m) \<noteq> None))"
  shows "\<exists>r. scan_keys v tab keys latest w = (Inr r, w)"
  using assms
proof (induction keys arbitrary: latest)
  case (Cons key keys)
  then have IH: "\<exists>r. scan_keys v tab keys l w = (Inr r, w)" for l by simp
  show ?case
  proof (cases "HasSuffix key ''/manifest.json''")
    case True
    with Cons.prems obtain m where m: "getManifest v key = Inr m"
      "m_Writer m = sidecarWriter \<and> m_TableName m = tab \<longrightarrow>
         validateSidecarManifest m tab = None \<and> parseManifestTime (m_Timestamp m) \<noteq> None"
      by (auto simp: validateSidecarManifest_ok)
    with True IH show ?thesis by (auto split: option.splits)
  next
    case False
    with IH show ?thesis by simp
  qed
qed simp

lemma scan_pages_complete:
  assumes "\<forall>p \<in> set pages. \<exists>keys. p = Inr keys"
    and "\<forall>key \<in> set (concat (map page_keys pages)). HasSuffix key ''/manifest.json'' \<longrightarrow> (\<exists>m. getManifest v key = Inr m \<and>
      (m_Writer m = sidecarWriter \<and> m_TableName m = tab \<longrightarrow>
         valid_manifest m tab \<and> parseManifestTime (m_Timestamp m) \<noteq> None))"
  shows "\<exists>r. scan_pages v tab pages latest w = (Inr r, w)"
  using assms
proof (induction pages arbitrary: latest)
  case (Cons p pages)
  then obtain keys where p: "p = Inr keys" by auto
  moreover obtain r where "scan_keys v tab keys latest w = (Inr r, w)"
    using scan_keys_complete [of keys v tab latest w] Cons.prems(2) p by auto
  moreover have "\<exists>r'. scan_pages v tab pages r w = (Inr r', w)"
    by (rule Cons.IH) (use Cons.prems in auto)
  ultimately show ?case by auto
qed simp

definition clean_listing :: "S3SnapshotVerifier \<Rightarrow> string \<Rightarrow> bool" where
  \<comment> \<open>no page fails, every manifest is readable, and those of the table are valid and carry a time\<close>
  "clean_listing v tab \<longleftrightarrow>
     (\<forall>p \<in> set (s3_pages (sv_client v) (table_prefix v tab)). \<exists>keys. p = Inr keys) \<and>
     (\<forall>key \<in> set (listed_keys v tab). HasSuffix key ''/manifest.json'' \<longrightarrow> (\<exists>m. getManifest v key = Inr m \<and>
      (m_Writer m = sidecarWriter \<and> m_TableName m = tab \<longrightarrow>
         valid_manifest m tab \<and> parseManifestTime (m_Timestamp m) \<noteq> None)))"

lemma newest_is_latest:
  assumes "clean_listing v tab" "offers v tab (listed_keys v tab) m" "parseManifestTime (m_Timestamp m) = Some ts"
    and newest: "\<And>m' t'. offers v tab (listed_keys v tab) m' \<Longrightarrow> m' \<noteq> m \<Longrightarrow>
       parseManifestTime (m_Timestamp m') = Some t' \<Longrightarrow> t' < ts"
  shows "latestSidecarManifest v tab w = (Inr m, w) \<and> valid_manifest m tab"
proof -
  let ?pages = "s3_pages (sv_client v) (table_prefix v tab)"
  obtain r where r: "scan_pages v tab ?pages None w = (Inr r, w)"
    using scan_pages_complete [of ?pages v tab None w] assms(1) by (auto simp: clean_listing_def listed_keys_def)
  from scan_pages_latest [OF r latest_of_empty] have l: "latest_of v tab (listed_keys v tab) r"
    by (simp add: listed_keys_def)
  with assms(2,3) obtain m1 t1 where r1: "r = Some (m1, t1)" by (cases r) (auto simp: latest_of_def)
  with l assms(2,3) have "offers v tab (listed_keys v tab) m1" "parseManifestTime (m_Timestamp m1) = Some t1" "ts \<le> t1"
    and val: "valid_manifest m tab"
    by (auto simp: latest_of_def)
  then have "m1 = m" using newest by fastforce
  with r r1 val show ?thesis by (simp add: latestSidecarManifest_def)
qed

text \<open>
  Conversely, verification accepts whenever it should: if the listing has no error, every listed
  manifest of the table is readable, valid and carries a readable time, and the newest of them is
  the one asked for, is newer than every other, and its data is intact, then it is returned and
  the database is left alone.
\<close>

theorem verify_complete:
  assumes "clean_listing v tab" "offers v tab (listed_keys v tab) m" "parseManifestTime (m_Timestamp m) = Some ts"
    and newest: "\<And>m' t'. offers v tab (listed_keys v tab) m' \<Longrightarrow> m' \<noteq> m \<Longrightarrow>
       parseManifestTime (m_Timestamp m') = Some t' \<Longrightarrow> t' < ts"
    and "TrimSpace (m_SnapshotID m) \<noteq> ''''" "data_key m \<noteq> ''''" "data_intact v m"
  shows "VerifyLatestSidecarSnapshot v tab (m_SnapshotID m) w = (Inr m, w)"
proof -
  have "latestSidecarManifest v tab w = (Inr m, w) \<and> valid_manifest m tab"
    by (rule newest_is_latest [OF assms(1-3)]) (use newest in blast)
  moreover from this have "verifyDataObject v m = None"
    using assms(6,7) by (simp add: verifyDataObject_ok valid_manifest_def)
  ultimately show ?thesis using assms(5) by (simp add: VerifyLatestSidecarSnapshot_def)
qed

lemma sample_listing:
  "listed_keys sample_verifier ''users'' = [''p/snapshots/users/snap_1/manifest.json'']"
  by (simp add: listed_keys_def sample_verifier_def)

theorem verify_complete_witness:
  "VerifyLatestSidecarSnapshot sample_verifier ''users'' (m_SnapshotID good_manifest) quiet_world =
     (Inr good_manifest, quiet_world)"
proof (rule verify_complete)
  show "clean_listing sample_verifier ''users''"
    using sample_manifest_facts sample_time
    by (auto simp: clean_listing_def sample_listing sample_get validateSidecarManifest_ok [symmetric])
      (simp add: sample_verifier_def)
  show "offers sample_verifier ''users'' (listed_keys sample_verifier ''users'') good_manifest"
    using sample_manifest_facts by (simp add: offers_def sample_listing sample_get sample_suffix)
  show "t' < 0" if "offers sample_verifier ''users'' (listed_keys sample_verifier ''users'') m'" "m' \<noteq> good_manifest"
    for m' and t' :: instant
    using that by (simp add: offers_def sample_listing sample_get)
qed (simp_all add: sample_time sample_data sample_manifest_facts)

end
