(* ===== verification/Mcp_Server.thy ===== *)
theory Mcp_Server
  imports Impact Registry Pause Auth Alert Approval Snapshot_Verifier
begin

text \<open>
  The gateway's MCP server, \<^verbatim>\<open>gateway/mcp_server.go\<close> and \<^verbatim>\<open>gateway/behavior.go\<close>: the JSON-RPC dispatch, the
  tools, the risk bookkeeping per agent, the recovery readiness checks and the execution of SQL.
  \<open>MCPServer\<close> holds what is fixed when the server starts, with the SQL parser and PostgreSQL as
  parameters; \<open>gateway\<close> holds what changes. \<open>toolExecuteQuery\<close> blocks while it waits for an operator:
  \<open>toolExecuteQuery_begin\<close> runs up to that point and \<open>toolExecuteQuery_resume\<close> runs on after it.
  Durations inside error texts are left out of the texts.
\<close>

section \<open>The server's state\<close>

record verifier =
  vf_verify :: "string \<Rightarrow> string \<Rightarrow> world \<Rightarrow> (string + SnapshotManifest) \<times> world"
  vf_latest :: "(string \<Rightarrow> world \<Rightarrow> (string + SnapshotManifest) \<times> world) option"

record MCPServer =
  mc_parse :: "string \<Rightarrow> string + node option list"
  mc_pg :: postgres
  mc_db :: bool
  mc_storage :: string
  mc_snapshotBeforeCritical :: bool
  mc_snapshotVerifier :: "verifier option"
  mc_policy :: GatewayPolicy
  mc_environment :: string
  mc_clusterID :: string

record gateway =
  gw_approval :: ApprovalEngine
  gw_registry :: AgentRegistry
  gw_metrics :: "GatewayMetrics option"
  gw_pause :: "PauseController option"
  gw_alerts :: "GatewayAlertSink option"
  gw_calls :: "db_call list"
  gw_world :: world

definition on_metrics :: "(GatewayMetrics option \<Rightarrow> GatewayMetrics option) \<Rightarrow> gateway \<Rightarrow> gateway" where
  "on_metrics f g = g\<lparr>gw_metrics := f (gw_metrics g)\<rparr>"

definition emitAlert ::
  "MCPServer \<Rightarrow> string \<Rightarrow> string \<Rightarrow> string \<Rightarrow> sqlAnalysis \<Rightarrow> string \<Rightarrow> string \<Rightarrow> string \<Rightarrow> string \<Rightarrow> string \<Rightarrow>
   gateway \<Rightarrow> gateway" where
  "emitAlert s severity eventType agentID analysis querySHA approvalID snapshotID recommendedAction message g =
     (case gw_alerts g of
        None \<Rightarrow> g
      | Some sink \<Rightarrow>
          (case Emit \<lparr>gp_Severity = severity, gp_EventType = eventType, gp_Environment = mc_environment s,
                      gp_ClusterID = mc_clusterID s, gp_AgentID = agentID, gp_RiskLevel = RiskLevel analysis,
                      gp_Operation = Operation analysis, gp_Schema = Schema analysis, gp_Table = Table analysis,
                      gp_QuerySHA256 = querySHA, gp_ApprovalID = approvalID, gp_SnapshotID = snapshotID,
                      gp_RecommendedAction = recommendedAction, gp_Timestamp = '''', gp_Message = message\<rparr>
                    sink (gw_metrics g) (gw_world g) of
             (sink', m', w') \<Rightarrow> g\<lparr>gw_alerts := Some sink', gw_metrics := m', gw_world := w'\<rparr>))"

definition audit ::
  "MCPServer \<Rightarrow> executeQueryParams \<Rightarrow> string \<Rightarrow> bool \<Rightarrow> string \<Rightarrow> gateway \<Rightarrow> gateway" where
  \<comment> \<open>\<open>s.registry.RecordDetailed(args.AgentID, args.Query, risk, approved, querySHA, s.environment, s.clusterID)\<close>\<close>
  "audit s args risk approved sha g =
     (case RecordDetailed (eq_AgentID args) (eq_Query args) risk approved sha (mc_environment s) (mc_clusterID s)
             (gw_registry g) (gw_world g) of
        (r, w) \<Rightarrow> g\<lparr>gw_registry := r, gw_world := w\<rparr>)"

definition resolve_record :: "string \<Rightarrow> string \<Rightarrow> string \<Rightarrow> gateway \<Rightarrow> gateway" where
  \<comment> \<open>\<open>s.registry.RecordApprovalResolved\<close>, whose error is ignored\<close>
  "resolve_record approvalID status actor g =
     g\<lparr>gw_world := snd (RecordApprovalResolved approvalID status actor (gw_registry g) (gw_world g))\<rparr>"

section \<open>Risk bookkeeping per agent\<close>

definition agentQuarantined :: "MCPServer \<Rightarrow> string \<Rightarrow> sqlAnalysis \<Rightarrow> gateway \<Rightarrow> bool \<times> gateway" where
  "agentQuarantined s agentID analysis g =
     (if \<not> rg_metadata (gw_registry g) then (False, g)
      else case GetAgentState True agentID (gw_world g) of
        (None, w) \<Rightarrow> (False, g\<lparr>gw_world := w\<rparr>)
      | (Some st, w) \<Rightarrow>
          (case st_QuarantineUntil st of
             None \<Rightarrow> (False, g\<lparr>gw_world := w\<rparr>)
           | Some til \<Rightarrow>
               (case Now w of
                  (now, w1) \<Rightarrow>
                    (if til < now then (False, g\<lparr>gw_world := w1\<rparr>)
                     else (QuarantineBlocksSafeQueries (mc_policy s) \<or> RiskLevel analysis \<noteq> RiskSafe,
                           g\<lparr>gw_world := w1\<rparr>)))))"

definition attempt_state :: "GatewayPolicy \<Rightarrow> string \<Rightarrow> sqlAnalysis \<Rightarrow> string \<Rightarrow> instant \<Rightarrow> AgentState option \<Rightarrow> AgentState \<times> bool" where
  \<comment> \<open>the state after one more attempt, and whether it opens a new quarantine\<close>
  "attempt_state p agentID analysis reason now found =
     (let fresh = \<lparr>st_AgentID = agentID, st_RiskyAttempts = 0, st_WindowStartedAt = now,
                   st_QuarantineUntil = None, st_LastReason = '''', st_LastTable = ''''\<rparr>;
          st0 = (case found of
                   None \<Rightarrow> fresh
                 | Some st \<Rightarrow> if Sub now (st_WindowStartedAt st) > seconds (DangerousRetryWindowSeconds p) then fresh else st);
          st1 = st0\<lparr>st_RiskyAttempts := wrap64 (st_RiskyAttempts st0 + 1), st_LastReason := reason,
                    st_LastTable := Table analysis\<rparr>
      in if st_RiskyAttempts st1 \<ge> MaxBlockedAttemptsPerWindow p
         then (st1\<lparr>st_QuarantineUntil := Some (now + seconds (QuarantineDurationSeconds p))\<rparr>,
               case st_QuarantineUntil st1 of None \<Rightarrow> True | Some q \<Rightarrow> q < now)
         else (st1, False))"

definition recordRiskAttempt :: "MCPServer \<Rightarrow> string \<Rightarrow> sqlAnalysis \<Rightarrow> string \<Rightarrow> gateway \<Rightarrow> gateway" where
  "recordRiskAttempt s agentID analysis reason g =
     (if RiskLevel analysis = RiskSafe \<or> \<not> rg_metadata (gw_registry g) then g
      else let (now, w1) = Now (gw_world g);
               (found, w2) = GetAgentState True agentID w1;
               (st, newQuarantine) = attempt_state (mc_policy s) agentID analysis reason now found;
               g1 = g\<lparr>gw_world := w2\<rparr>;
               g2 = (if newQuarantine
                     then emitAlert s ''critical'' ''agent_quarantined'' agentID analysis '''' '''' ''''
                            ''Inspect agent behavior and deny similar destructive retries.''
                            ''Agent quarantined after repeated risky attempts.'' (on_metrics IncAgentQuarantine g1)
                     else g1)
           in case SaveAgentState True st (gw_world g2) of
                (Some e, w3) \<Rightarrow> on_metrics (IncBlock ''metadata_write_failed'') (g2\<lparr>gw_world := w3\<rparr>)
              | (None, w3) \<Rightarrow> on_metrics (IncRiskyAttempt (RiskLevel analysis)) (g2\<lparr>gw_world := w3\<rparr>))"

section \<open>Recovery readiness\<close>

definition age_check :: "MCPServer \<Rightarrow> SnapshotManifest \<Rightarrow> world \<Rightarrow> string option \<times> world" where
  "age_check s m w =
     (if MaxSnapshotAgeSeconds (mc_policy s) > 0
      then (case parseManifestTime (m_Timestamp m) of
              None \<Rightarrow> (Some ''snapshot timestamp is invalid'', w)
            | Some ts \<Rightarrow>
                (case Now w of
                   (now, w') \<Rightarrow>
                     (if Sub now ts > seconds (MaxSnapshotAgeSeconds (mc_policy s))
                      then (Some ''recovery readiness failed: snapshot age exceeds RPO'', w')
                      else (None, w'))))
      else (None, w))"

definition metadata_check :: "MCPServer \<Rightarrow> bool \<Rightarrow> SnapshotManifest \<Rightarrow> world \<Rightarrow> string option \<times> world" where
  "metadata_check s metadata m w =
     (if \<not> metadata
      then (if RequireSidecarHeartbeat (mc_policy s)
            then (Some ''recovery readiness failed: metadata DB is required for sidecar heartbeat and snapshot metadata validation'', w)
            else (None, w))
      else case ValidateSnapshotRecord True m w of
        (Some e, w') \<Rightarrow> (Some (''recovery readiness failed: '' @ e), w')
      | (None, w') \<Rightarrow> (None, w'))"

definition heartbeat_check :: "MCPServer \<Rightarrow> bool \<Rightarrow> world \<Rightarrow> string option \<times> world" where
  "heartbeat_check s metadata w =
     (if \<not> RequireSidecarHeartbeat (mc_policy s) then (None, w)
      else case GetHealth metadata ''sync'' w of
        (None, w1) \<Rightarrow> (Some ''recovery readiness failed: sync sidecar heartbeat is missing'', w1)
      | (Some (status, checkedAt), w1) \<Rightarrow>
          (if status \<noteq> ''healthy''
           then (Some (''recovery readiness failed: sync sidecar status is '' @ status), w1)
           else case Now w1 of
             (now, w2) \<Rightarrow>
               (if Sub now checkedAt > seconds (MaxSidecarHeartbeatSeconds (mc_policy s))
                then (Some ''recovery readiness failed: sync sidecar heartbeat is stale'', w2)
                else (None, w2))))"

definition checkRecoveryReadiness :: "MCPServer \<Rightarrow> bool \<Rightarrow> SnapshotManifest \<Rightarrow> world \<Rightarrow> string option \<times> world" where
  \<comment> \<open>the second argument says whether the registry has a metadata store\<close>
  "checkRecoveryReadiness s metadata m w =
     (case age_check s m w of
        (Some e, w1) \<Rightarrow> (Some e, w1)
      | (None, w1) \<Rightarrow>
          (case metadata_check s metadata m w1 of
             (Some e, w2) \<Rightarrow> (Some e, w2)
           | (None, w2) \<Rightarrow> heartbeat_check s metadata w2))"

fun group_of :: "(string \<times> string list) list \<Rightarrow> string \<Rightarrow> string \<times> string list" where
  \<comment> \<open>the loop of \<open>recoveryGroupForTable\<close> over the map, in its iteration order\<close>
  "group_of [] tab = ('''', [])"
| "group_of ((name, tables) # gs) tab = (if any_fold tables tab then (name, tables) else group_of gs tab)"

definition recoveryGroupForTable :: "MCPServer \<Rightarrow> string \<Rightarrow> string \<times> string list" where
  "recoveryGroupForTable s tab =
     group_of (case RecoveryGroups (mc_policy s) of None \<Rightarrow> [] | Some m \<Rightarrow> m) tab"

fun missing_members ::
  "MCPServer \<Rightarrow> bool \<Rightarrow> (string \<Rightarrow> world \<Rightarrow> (string + SnapshotManifest) \<times> world) \<Rightarrow> string \<Rightarrow> string list \<Rightarrow> world \<Rightarrow>
   string list \<times> world" where
  \<comment> \<open>the members of the group without a ready snapshot\<close>
  "missing_members s metadata latest tab [] w = ([], w)"
| "missing_members s metadata latest tab (member # ms) w =
     (if EqualFold member tab then missing_members s metadata latest tab ms w
      else case latest member w of
        (Inl e, w1) \<Rightarrow> (case missing_members s metadata latest tab ms w1 of (xs, w') \<Rightarrow> (member # xs, w'))
      | (Inr gm, w1) \<Rightarrow>
          (case checkRecoveryReadiness s metadata gm w1 of
             (Some e, w2) \<Rightarrow> (case missing_members s metadata latest tab ms w2 of (xs, w') \<Rightarrow> (member # xs, w'))
           | (None, w2) \<Rightarrow> missing_members s metadata latest tab ms w2))"

definition verifyRecoveryGroup :: "MCPServer \<Rightarrow> bool \<Rightarrow> verifier \<Rightarrow> string \<Rightarrow> world \<Rightarrow> string option \<times> world" where
  "verifyRecoveryGroup s metadata v tab w =
     (let (groupName, tables) = recoveryGroupForTable s tab
      in if groupName = '''' \<or> length tables \<le> 1 then (None, w)
         else case vf_latest v of
           None \<Rightarrow> (Some (''recovery group '' @ groupName
                         @ '' requires a snapshot verifier that can inspect all group tables''), w)
         | Some latest \<Rightarrow>
             (case missing_members s metadata latest tab tables w of
                (missing, w1) \<Rightarrow>
                  (if missing \<noteq> []
                   then (Some (''recovery group '' @ groupName @ '' is missing ready snapshots for: ''
                               @ Join missing '', ''), w1)
                   else (None, w1))))"

definition verifyCriticalRecoveryPointWithAnalysis ::
  "MCPServer \<Rightarrow> executeQueryParams \<Rightarrow> sqlAnalysis \<Rightarrow> gateway \<Rightarrow> (string + SnapshotManifest) \<times> string \<times> gateway" where
  "verifyCriticalRecoveryPointWithAnalysis s args analysis g =
     (case criticalRecoveryTableFromAnalysis analysis of
        Inl e \<Rightarrow> (Inl e, '''', g)
      | Inr tab \<Rightarrow>
          (if TrimSpace (eq_SnapshotID args) = ''''
           then (Inl ''approved CRITICAL query requires the latest sidecar snapshot_id before gateway execution'', tab, g)
           else case mc_snapshotVerifier s of
             None \<Rightarrow> (Inl ''gateway --storage is required to verify sidecar snapshot_id before CRITICAL execution'', tab, g)
           | Some v \<Rightarrow>
               (case vf_verify v tab (eq_SnapshotID args) (gw_world g) of
                  (Inl e, w1) \<Rightarrow>
                    (Inl (''sidecar recovery point verification failed: '' @ e), tab,
                     on_metrics (IncRecoveryReadiness ''failed'' ''snapshot_verification'') (g\<lparr>gw_world := w1\<rparr>))
                | (Inr m, w1) \<Rightarrow>
                    (case checkRecoveryReadiness s (rg_metadata (gw_registry g)) m w1 of
                       (Some e, w2) \<Rightarrow>
                         (Inl e, tab, on_metrics (IncRecoveryReadiness ''failed'' ''readiness'') (g\<lparr>gw_world := w2\<rparr>))
                     | (None, w2) \<Rightarrow>
                         (case verifyRecoveryGroup s (rg_metadata (gw_registry g)) v tab w2 of
                            (Some e, w3) \<Rightarrow>
                              (Inl e, tab, on_metrics (IncRecoveryReadiness ''failed'' ''group'') (g\<lparr>gw_world := w3\<rparr>))
                          | (None, w3) \<Rightarrow>
                              (Inr m, tab, on_metrics (IncRecoveryReadiness ''ok'' ''verified'') (g\<lparr>gw_world := w3\<rparr>)))))))"

definition verifyCriticalRecoveryPoint ::
  "MCPServer \<Rightarrow> executeQueryParams \<Rightarrow> gateway \<Rightarrow> (string + SnapshotManifest) \<times> string \<times> gateway" where
  "verifyCriticalRecoveryPoint s args g =
     verifyCriticalRecoveryPointWithAnalysis s args (analyzeSQL (mc_parse s) (eq_Query args)) g"

section \<open>Executing SQL\<close>

definition returnsRows :: "sqlAnalysis \<Rightarrow> bool" where
  "returnsRows a \<longleftrightarrow> Operation a = ''SELECT'' \<or> Operation a = ''SHOW'' \<or> HasPrefix (Operation a) ''EXPLAIN''"

definition row_object :: "string list \<Rightarrow> json list \<Rightarrow> json" where
  \<comment> \<open>a row as a map from column to value\<close>
  "row_object cols vals = JObj (foldl (\<lambda>m cv. map_put (fst cv) (snd cv) m) [] (zip cols vals))"

definition executeSQL ::
  "MCPServer \<Rightarrow> executeQueryParams \<Rightarrow> sqlAnalysis \<Rightarrow> gateway \<Rightarrow> (string + (string \<times> json) list) \<times> gateway" where
  "executeSQL s args analysis g =
     (let q = eq_Query args; n = draws (gw_world g);
          send = (\<lambda>c. g\<lparr>gw_calls := gw_calls g @ [c], gw_world := drawn (gw_world g)\<rparr>)
      in if \<not> mc_db s \<and> TrimSpace (eq_DBURL args) = ''''
         then (Inl ''gateway has no --db configured and db_url argument is empty'', g)
         else case (if mc_db s then None else pg_open_error (mc_pg s) (eq_DBURL args)) of
           Some e \<Rightarrow> (Inl e, g)
         | None \<Rightarrow>
             (if returnsRows analysis
              then (case pg_query (mc_pg s) n q of
                      Inl e \<Rightarrow> (Inl e, send (Queried q))
                    | Inr rows \<Rightarrow>
                        (case rs_error rows of
                           Some e \<Rightarrow> (Inl e, send (Queried q))
                         | None \<Rightarrow>
                             (Inr [(''result_type'', JStr ''rows''),
                                   (''columns'', JArr (map JStr (rs_columns rows))),
                                   (''row_count'', JInt (int (length (rs_rows rows)))),
                                   (''preview'', JArr (map (row_object (rs_columns rows)) (take 20 (rs_rows rows))))],
                              send (Queried q))))
              else (case pg_exec (mc_pg s) n q of
                      Inl e \<Rightarrow> (Inl e, send (Executed q))
                    | Inr affected \<Rightarrow>
                        (Inr [(''result_type'', JStr ''command''), (''rows_affected'', JInt affected)],
                         send (Executed q)))))"

section \<open>Responses\<close>

record MCPResponse =
  rp_ID :: json
  rp_Result :: "json option"
  rp_Error :: "(int \<times> string) option"

definition okResponse :: "json \<Rightarrow> (string \<times> json) list \<Rightarrow> MCPResponse" where
  "okResponse i kvs = \<lparr>rp_ID = i, rp_Result = Some (JObj kvs), rp_Error = None\<rparr>"

definition errorResponse :: "json \<Rightarrow> int \<Rightarrow> string \<Rightarrow> MCPResponse" where
  "errorResponse i code message = \<lparr>rp_ID = i, rp_Result = None, rp_Error = Some (code, message)\<rparr>"

definition rpcParseError :: int where "rpcParseError = - 32700"
definition rpcInvalidRequest :: int where "rpcInvalidRequest = - 32600"
definition rpcMethodNotFound :: int where "rpcMethodNotFound = - 32601"
definition rpcInvalidParams :: int where "rpcInvalidParams = - 32602"

definition nullableString :: "string \<Rightarrow> json" where
  "nullableString value = (if TrimSpace value = '''' then JNull else JStr value)"

definition querySHA256 :: "string \<Rightarrow> string" where
  "querySHA256 query = sha256_hex (TrimSpace query)"

definition safetyMetadata :: "MCPServer \<Rightarrow> sqlAnalysis \<Rightarrow> PolicyDecision \<Rightarrow> json" where
  "safetyMetadata s a d =
     JObj ([(''risk_level'', JStr (RiskLevel a)), (''operation'', JStr (Operation a)), (''reason'', JStr (Reason a)),
            (''table'', nullableString (Table a)), (''schema'', nullableString (Schema a)),
            (''table_recoverable'', JBool (TableRecoverable a)), (''recovery_required'', JBool (RequiresRecovery d)),
            (''recovery_possible'', JBool (RecoveryPossible d)), (''policy_action'', JStr (Action d)),
            (''policy_reason'', JStr (DecisionReason d)), (''requires_approval'', JBool (RequiresApproval d)),
            (''parse_error_present'', JBool (ParseError a \<noteq> None)), (''environment'', JStr (mc_environment s)),
            (''cluster_id'', JStr (mc_clusterID s))]
           @ (case Impact a of
                None \<Rightarrow> []
              | Some i \<Rightarrow> [(''estimated_affected_rows'', JInt (EstimatedAffectedRows i)),
                           (''estimated_table_rows'', JInt (EstimatedTableRows i)),
                           (''affected_percent'', JFloat (AffectedPercent i)),
                           (''protected_table'', JBool (ProtectedTable i)),
                           (''protected_columns'', JArr (map JStr (ProtectedColumns i))),
                           (''impact_status'', JStr (Status i))])
           @ (case ParseError a of None \<Rightarrow> [] | Some e \<Rightarrow> [(''parse_error'', JStr e)]))"

definition blockReasonLabel :: "sqlAnalysis \<Rightarrow> PolicyDecision \<Rightarrow> string" where
  "blockReasonLabel a d =
     (if Operation a \<noteq> '''' then Operation a else if DecisionReason d \<noteq> '''' then DecisionReason d else ''unknown'')"

definition generateID :: "string \<Rightarrow> world \<Rightarrow> string \<times> world" where
  \<comment> \<open>the stream gives the hexadecimal text of the random bytes, or of the clock when they fail\<close>
  "generateID prefix w = (prefix @ ''_'' @ rand_hex w (draws w), drawn w)"

section \<open>The tool \<open>execute_query\<close>\<close>

record waiting_query =
  wq_id :: json
  wq_args :: executeQueryParams
  wq_analysis :: sqlAnalysis
  wq_decision :: PolicyDecision
  wq_details :: ApprovalDetails
  wq_recovery :: SnapshotManifest
  wq_chan :: nat

datatype outcome = Replied MCPResponse | Waiting waiting_query

fun approval_error_text :: "approval_error \<Rightarrow> string" where
  "approval_error_text ErrApprovalDenied = ''approval denied by operator''"
| "approval_error_text ErrApprovalTimeout = ''approval timed out'' @ [CHR 0x20, CHR 0xE2, CHR 0x80, CHR 0x94, CHR 0x20] @ ''auto-denied''"
| "approval_error_text ErrApprovalNotFound = ''approval ID not found''"
| "approval_error_text ErrApprovalIDRequired = ''approval id is required''"
| "approval_error_text (ApprovalCancelled e) = ''approval cancelled: '' @ e"

definition approval_reply :: "MCPServer \<Rightarrow> waiting_query \<Rightarrow> string \<Rightarrow> string \<Rightarrow> MCPResponse" where
  \<comment> \<open>the answers after the wait that carry a message\<close>
  "approval_reply s q status message =
     okResponse (wq_id q)
       [(''status'', JStr status), (''approval_id'', JStr (ad_ID (wq_details q))),
        (''risk_level'', JStr (RiskLevel (wq_analysis q))),
        (''safety_metadata'', safetyMetadata s (wq_analysis q) (wq_decision q)), (''message'', JStr message)]"

definition binding_holds :: "MCPServer \<Rightarrow> waiting_query \<Rightarrow> bool" where
  "binding_holds s q \<longleftrightarrow>
     (let d = wq_details q in
      querySHA256 (eq_Query (wq_args q)) = ad_QuerySHA256 d \<and> mc_environment s = ad_Environment d \<and>
      mc_clusterID s = ad_ClusterID d \<and> Table (wq_analysis q) = ad_Table d \<and>
      RiskLevel (wq_analysis q) = ad_RiskLevel d)"

definition recovery_fields :: "SnapshotManifest \<Rightarrow> (string \<times> json) list" where
  "recovery_fields m =
     (if m_SnapshotID m = '''' then []
      else [(''recovery_point'', JObj [(''snapshot_id'', JStr (m_SnapshotID m)), (''table'', JStr (m_TableName m)),
              (''timestamp'', JStr (m_Timestamp m)), (''row_count'', JInt (m_RowCount m)),
              (''manifest_key'', JStr (m_S3ManifestKey m))])])"

definition run_approved :: "MCPServer \<Rightarrow> waiting_query \<Rightarrow> gateway \<Rightarrow> MCPResponse \<times> gateway" where
  \<comment> \<open>the execution of an approved query and its answer\<close>
  "run_approved s q g =
     (let args = wq_args q; a = wq_analysis q; d = wq_decision q; risk = RiskLevel a
      in case executeSQL s args a g of
           (Inl e, g1) \<Rightarrow>
             (okResponse (wq_id q)
                [(''status'', JStr ''failed''), (''approval_id'', JStr (ad_ID (wq_details q))),
                 (''risk_level'', JStr risk), (''snapshot_id'', nullableString (eq_SnapshotID args)),
                 (''safety_metadata'', safetyMetadata s a d), (''error'', JStr e)],
              on_metrics (IncQuery risk ''failed'') g1)
         | (Inr res, g1) \<Rightarrow>
             (okResponse (wq_id q)
                (res @ [(''status'', JStr ''executed''), (''approval_id'', JStr (ad_ID (wq_details q))),
                           (''risk_level'', JStr risk), (''snapshot_id'', nullableString (eq_SnapshotID args)),
                           (''safety_metadata'', safetyMetadata s a d)]
                 @ recovery_fields (wq_recovery q)),
              on_metrics (IncQuery risk ''executed'') g1))"

definition toolExecuteQuery_resume ::
  "MCPServer \<Rightarrow> waiting_query \<Rightarrow> ApprovalResolution \<Rightarrow> approval_error option \<Rightarrow> gateway \<Rightarrow> MCPResponse \<times> gateway" where
  \<comment> \<open>from the return of \<open>RequestApproval\<close> on\<close>
  "toolExecuteQuery_resume s q resolution err g =
     (let args = wq_args q; a = wq_analysis q; d = wq_decision q; risk = RiskLevel a;
          sha = ad_QuerySHA256 (wq_details q); aid = ad_ID (wq_details q); agent = eq_AgentID args;
          sid = eq_SnapshotID args
      in case err of
           Some ErrApprovalTimeout \<Rightarrow>
             (approval_reply s q ''denied'' ''Approval request timed out; query not executed.'',
              emitAlert s ''warning'' ''approval_timeout'' agent a sha aid sid
                ''Re-submit only after confirming current query hash and recovery readiness.''
                ''Approval request timed out; query not executed.''
              (on_metrics (IncQuery risk ''denied'')
              (on_metrics (IncApproval ''timeout'')
              (recordRiskAttempt s agent a ''timeout''
              (resolve_record aid ''timeout'' ''''
              (audit s args risk False sha g))))))
         | Some e \<Rightarrow>
             (approval_reply s q ''denied'' (approval_error_text e),
              emitAlert s ''warning'' ''approval_denied'' agent a sha aid sid
                ''Inspect repeated attempts from this agent before retrying.'' (approval_error_text e)
              (on_metrics (IncQuery risk ''denied'')
              (on_metrics (IncApproval ''denied'')
              (recordRiskAttempt s agent a ''denied''
              (resolve_record aid ''denied'' (rs_Actor resolution)
              (audit s args risk False sha g))))))
         | None \<Rightarrow>
             (if \<not> binding_holds s q
              then (approval_reply s q ''blocked'' ''Approval binding mismatch; query not executed.'',
                    on_metrics (IncBlock ''approval_binding_mismatch'')
                    (on_metrics (IncQuery risk ''blocked'')
                    (on_metrics (IncApproval ''binding_mismatch'')
                    (resolve_record aid ''binding_mismatch'' (rs_Actor resolution)
                    (audit s args risk False sha g)))))
              else if BlocksRisk (gw_pause g) risk
              then (approval_reply s q ''blocked''
                      ''Gateway emergency pause became active after approval; query not executed.'',
                    emitAlert s ''critical'' ''approved_execution_blocked_paused'' agent a sha aid sid
                      ''Gateway was paused after approval. Re-review before resuming.''
                      ''Approved query blocked by emergency pause.''
                    (on_metrics (IncBlock ''paused'')
                    (on_metrics (IncQuery risk ''blocked'')
                    (resolve_record aid ''paused'' (rs_Actor resolution)
                    (audit s args risk False sha g)))))
              else let g1 = audit s args risk (rs_Approved resolution) sha g
                   in if \<not> rs_Approved resolution
                      then (approval_reply s q ''denied'' ''Query denied by operator.'',
                            on_metrics (IncQuery risk ''denied'')
                            (on_metrics (IncApproval ''denied'')
                            (recordRiskAttempt s agent a ''denied''
                            (resolve_record aid ''denied'' (rs_Actor resolution) g1))))
                      else run_approved s q
                             (on_metrics (IncApproval ''approved'')
                             (resolve_record aid ''approved'' (rs_Actor resolution) g1))))"

definition analyze_for ::
  "MCPServer \<Rightarrow> executeQueryParams \<Rightarrow> gateway \<Rightarrow> sqlAnalysis \<times> PolicyDecision \<times> gateway" where
  \<comment> \<open>analysis, impact and decision, as both tools compute them\<close>
  "analyze_for s args g =
     (let a0 = analyzeSQL (mc_parse s) (eq_Query args)
      in case analyzeImpact (mc_pg s) (mc_db s) (mc_policy s) args a0 (gw_world g) of
           (impact, calls, w) \<Rightarrow>
             (let a = applyImpactAnalysis a0 impact
              in (a, Decide (mc_policy s) a, g\<lparr>gw_calls := gw_calls g @ calls, gw_world := w\<rparr>)))"

definition blocked_reply ::
  "MCPServer \<Rightarrow> json \<Rightarrow> sqlAnalysis \<Rightarrow> PolicyDecision \<Rightarrow> string \<Rightarrow> MCPResponse" where
  "blocked_reply s i a d message =
     okResponse i [(''status'', JStr ''blocked''), (''risk_level'', JStr (RiskLevel a)),
                   (''safety_metadata'', safetyMetadata s a d), (''message'', JStr message)]"

definition approval_details :: "MCPServer \<Rightarrow> executeQueryParams \<Rightarrow> sqlAnalysis \<Rightarrow> string \<Rightarrow> ApprovalDetails" where
  "approval_details s args a aid =
     \<lparr>ad_ID = aid, ad_Query = eq_Query args, ad_QuerySHA256 = querySHA256 (eq_Query args),
      ad_AgentID = eq_AgentID args, ad_RiskLevel = RiskLevel a, ad_Operation = Operation a, ad_Schema = Schema a,
      ad_Table = Table a, ad_Environment = mc_environment s, ad_ClusterID = mc_clusterID s,
      ad_SnapshotID = eq_SnapshotID args\<rparr>"

definition run_direct :: "MCPServer \<Rightarrow> json \<Rightarrow> executeQueryParams \<Rightarrow> sqlAnalysis \<Rightarrow> PolicyDecision \<Rightarrow> gateway \<Rightarrow> MCPResponse \<times> gateway" where
  \<comment> \<open>the branch for the action execute\<close>
  "run_direct s i args a d g =
     (let risk = RiskLevel a
      in case executeSQL s args a (audit s args risk True (querySHA256 (eq_Query args)) g) of
           (Inl e, g1) \<Rightarrow>
             (okResponse i [(''status'', JStr ''failed''), (''risk_level'', JStr risk), (''snapshot_id'', JNull),
                            (''safety_metadata'', safetyMetadata s a d), (''error'', JStr e)],
              on_metrics (IncQuery risk ''failed'') g1)
         | (Inr res, g1) \<Rightarrow>
             (okResponse i (res @ [(''status'', JStr ''executed''), (''risk_level'', JStr risk),
                            (''snapshot_id'', JNull), (''safety_metadata'', safetyMetadata s a d)]),
              on_metrics (IncQuery risk ''executed'') g1))"

definition ask_operator ::
  "MCPServer \<Rightarrow> json \<Rightarrow> executeQueryParams \<Rightarrow> sqlAnalysis \<Rightarrow> PolicyDecision \<Rightarrow> string \<Rightarrow> SnapshotManifest \<Rightarrow> gateway \<Rightarrow>
   outcome \<times> gateway" where
  \<comment> \<open>from the recording of the approval request to the wait\<close>
  "ask_operator s i args a d aid recovery g =
     (let details = approval_details s args a aid; sha = querySHA256 (eq_Query args)
      in case RecordApprovalRequested details (gw_registry g) (gw_world g) of
           (Some e, w) \<Rightarrow>
             (Replied (okResponse i
                [(''status'', JStr ''blocked''), (''approval_id'', JStr aid), (''risk_level'', JStr (RiskLevel a)),
                 (''safety_metadata'', safetyMetadata s a d),
                 (''message'', JStr ''Approval metadata could not be durably recorded; query not executed.'')]),
              emitAlert s ''critical'' ''approval_metadata_write_failed'' (eq_AgentID args) a sha aid (eq_SnapshotID args)
                ''Treat recovery state as ambiguous; repair metadata storage before approving destructive operations.'' e
              (on_metrics (IncBlock ''metadata_write_failed'')
              (on_metrics (IncQuery (RiskLevel a) ''blocked'')
              (audit s args (RiskLevel a) False sha (g\<lparr>gw_world := w\<rparr>)))))
         | (None, w) \<Rightarrow>
             (let g1 = emitAlert s ''warning'' ''approval_requested'' (eq_AgentID args) a sha aid (eq_SnapshotID args)
                         ''Review exact query hash, environment, and recovery point before approving.''
                         (DecisionReason d) (g\<lparr>gw_world := w\<rparr>);
                  q = \<lparr>wq_id = i, wq_args = args, wq_analysis = a, wq_decision = d, wq_details = details,
                       wq_recovery = recovery, wq_chan = 0\<rparr>
              in case RequestApproval_begin details (fst (Now (gw_world g1))) (gw_approval g1) of
                   (Inl err, e) \<Rightarrow>
                     (case toolExecuteQuery_resume s q zero_resolution (Some err) (g1\<lparr>gw_approval := e\<rparr>) of
                        (r, g2) \<Rightarrow> (Replied r, g2))
                 | (Inr c, e) \<Rightarrow>
                     (Waiting (q\<lparr>wq_chan := c\<rparr>), g1\<lparr>gw_approval := e, gw_world := snd (Now (gw_world g1))\<rparr>)))"

definition drop_alert_type :: "string \<Rightarrow> string" where
  \<comment> \<open>\<open>"blocked_" + strings.ToLower(strings.ReplaceAll(operation, " ", "_"))\<close>\<close>
  "drop_alert_type operation = ''blocked_'' @ ToLower (ReplaceChar operation CHR '' '' ''_'')"

definition approve_branch ::
  "MCPServer \<Rightarrow> json \<Rightarrow> executeQueryParams \<Rightarrow> sqlAnalysis \<Rightarrow> PolicyDecision \<Rightarrow> gateway \<Rightarrow> outcome \<times> gateway" where
  \<comment> \<open>the branch for the action approve, up to the wait\<close>
  "approve_branch s i args a d g0 =
     (let (aid, w0) = generateID ''appr'' (gw_world g0); g = g0\<lparr>gw_world := w0\<rparr>; sha = querySHA256 (eq_Query args)
      in if RequiresRecovery d \<and> mc_snapshotBeforeCritical s
         then (case verifyCriticalRecoveryPointWithAnalysis s args a g of
                 (Inl e, tab, g1) \<Rightarrow>
                   (Replied (okResponse i
                      [(''status'', JStr ''blocked''), (''approval_id'', JStr aid), (''risk_level'', JStr (RiskLevel a)),
                       (''snapshot_id'', nullableString (eq_SnapshotID args)), (''table'', JStr tab),
                       (''safety_metadata'', safetyMetadata s a d), (''message'', JStr e)]),
                    emitAlert s ''critical'' ''recovery_readiness_failed'' (eq_AgentID args) a sha aid (eq_SnapshotID args)
                      ''Capture or repair a latest sidecar snapshot before approving this operation.'' e
                    (on_metrics (IncQuery (RiskLevel a) ''blocked'')
                    (on_metrics (IncRecovery ''failed'')
                    (audit s args (RiskLevel a) False sha g1))))
               | (Inr verified, tab, g1) \<Rightarrow>
                   ask_operator s i args a d aid verified (on_metrics (IncRecovery ''verified'') g1))
         else ask_operator s i args a d aid zero_manifest g)"

definition unknown_action ::
  "MCPServer \<Rightarrow> json \<Rightarrow> executeQueryParams \<Rightarrow> sqlAnalysis \<Rightarrow> PolicyDecision \<Rightarrow> gateway \<Rightarrow> MCPResponse \<times> gateway" where
  \<comment> \<open>the end of the handler, for an action that is none of the three\<close>
  "unknown_action s i args a d g =
     (blocked_reply s i a d ''policy returned an unknown action; gateway failed closed'',
      on_metrics (IncBlock ''unknown_policy_action'')
      (on_metrics (IncQuery (RiskLevel a) ''blocked'')
      (audit s args (RiskLevel a) False (querySHA256 (eq_Query args)) g)))"

definition decide_branch ::
  "MCPServer \<Rightarrow> json \<Rightarrow> executeQueryParams \<Rightarrow> sqlAnalysis \<Rightarrow> PolicyDecision \<Rightarrow> gateway \<Rightarrow> outcome \<times> gateway" where
  \<comment> \<open>the branches on the policy's action\<close>
  "decide_branch s i args a d g =
     (let risk = RiskLevel a; sha = querySHA256 (eq_Query args)
      in if Action d = PolicyActionBlock
         then (Replied (blocked_reply s i a d (DecisionReason d)),
               (if Operation a = ''DROP DATABASE'' \<or> Operation a = ''DROP SCHEMA''
                then emitAlert s ''critical'' (drop_alert_type (Operation a)) (eq_AgentID args) a sha '''' (eq_SnapshotID args)
                       ''Use native backup/PITR planning. Table snapshots cannot recover this operation.'' (DecisionReason d)
                else id)
               (on_metrics (IncBlock (blockReasonLabel a d))
               (on_metrics (IncQuery risk ''blocked'')
               (recordRiskAttempt s (eq_AgentID args) a ''blocked''
               (audit s args risk False sha g)))))
         else if Action d = PolicyActionExecute
         then (case run_direct s i args a d g of (r, g1) \<Rightarrow> (Replied r, g1))
         else if Action d = PolicyActionApprove
         then approve_branch s i args a d g
         else (case unknown_action s i args a d g of (r, g1) \<Rightarrow> (Replied r, g1)))"

definition guard_decision :: "PolicyDecision \<Rightarrow> string \<Rightarrow> PolicyDecision" where
  \<comment> \<open>the decision reported when a guard stops a query before the policy does\<close>
  "guard_decision d reason =
     \<lparr>Action = PolicyActionBlock, DecisionReason = reason, RequiresApproval = False, RequiresRecovery = False,
      RecoveryPossible = RecoveryPossible d\<rparr>"

definition execute_query_args :: "MCPServer \<Rightarrow> json \<Rightarrow> executeQueryParams \<Rightarrow> gateway \<Rightarrow> outcome \<times> gateway" where
  \<comment> \<open>from the analysis on, with arguments that decoded and passed the checks\<close>
  "execute_query_args s i args g =
     (let (a, d, g1) = analyze_for s args g; risk = RiskLevel a; sha = querySHA256 (eq_Query args)
      in if BlocksRisk (gw_pause g1) risk
         then (Replied (blocked_reply s i a (guard_decision d ''gateway is paused'')
                 ''Gateway emergency pause is active; query not executed.''),
               emitAlert s ''critical'' ''execution_blocked_paused'' (eq_AgentID args) a sha '''' (eq_SnapshotID args)
                 ''Gateway is paused. Resume only after incident review.'' ''Query execution blocked by emergency pause.''
               (on_metrics (IncBlock ''paused'')
               (on_metrics (IncQuery risk ''blocked'')
               (audit s args risk False sha g1))))
         else case agentQuarantined s (eq_AgentID args) a g1 of
           (True, g2) \<Rightarrow>
             (Replied (blocked_reply s i a (guard_decision d ''agent is quarantined'')
                ''Agent is temporarily quarantined after repeated risky attempts.''),
              emitAlert s ''critical'' ''agent_quarantined'' (eq_AgentID args) a sha '''' (eq_SnapshotID args)
                ''Inspect agent prompt/tool loop and keep writes blocked for this agent.''
                ''Agent is quarantined after repeated risky attempts.''
              (on_metrics (IncBlock ''agent_quarantined'')
              (on_metrics (IncQuery risk ''blocked'')
              (audit s args risk False sha g2))))
         | (False, g2) \<Rightarrow> decide_branch s i args a d g2)"

definition execute_fields :: "executeQueryParams field_table" where
  "execute_fields =
     [(''query'', str_field eq_Query (\<lambda>x. eq_Query_update (\<lambda>_. x))),
      (''agent_id'', str_field eq_AgentID (\<lambda>x. eq_AgentID_update (\<lambda>_. x))),
      (''db_url'', str_field eq_DBURL (\<lambda>x. eq_DBURL_update (\<lambda>_. x))),
      (''snapshot_id'', str_field eq_SnapshotID (\<lambda>x. eq_SnapshotID_update (\<lambda>_. x)))]"

definition zero_args :: executeQueryParams where
  "zero_args = \<lparr>eq_Query = '''', eq_AgentID = '''', eq_DBURL = '''', eq_SnapshotID = ''''\<rparr>"

definition toolExecuteQuery_begin :: "MCPServer \<Rightarrow> json \<Rightarrow> json option \<Rightarrow> gateway \<Rightarrow> outcome \<times> gateway" where
  "toolExecuteQuery_begin s i rawArgs g =
     (case Option.bind rawArgs (\<lambda>v. decode_struct execute_fields v zero_args) of
        None \<Rightarrow> (Replied (errorResponse i rpcInvalidParams ''invalid arguments''), g)
      | Some args \<Rightarrow>
          (if TrimSpace (eq_Query args) = '''' then (Replied (errorResponse i rpcInvalidParams ''query is required''), g)
           else if eq_AgentID args = '''' then (Replied (errorResponse i rpcInvalidParams ''agent_id is required''), g)
           else execute_query_args s i args g))"

section \<open>The other tools and the dispatch\<close>

definition analyze_fields :: "executeQueryParams field_table" where
  "analyze_fields =
     [(''query'', str_field eq_Query (\<lambda>x. eq_Query_update (\<lambda>_. x))),
      (''agent_id'', str_field eq_AgentID (\<lambda>x. eq_AgentID_update (\<lambda>_. x))),
      (''db_url'', str_field eq_DBURL (\<lambda>x. eq_DBURL_update (\<lambda>_. x)))]"

definition toolAnalyzeQuery :: "MCPServer \<Rightarrow> json \<Rightarrow> json option \<Rightarrow> gateway \<Rightarrow> MCPResponse \<times> gateway" where
  "toolAnalyzeQuery s i rawArgs g =
     (case Option.bind rawArgs (\<lambda>v. decode_struct analyze_fields v zero_args) of
        None \<Rightarrow> (errorResponse i rpcInvalidParams ''invalid arguments'', g)
      | Some args \<Rightarrow>
          (if TrimSpace (eq_Query args) = '''' then (errorResponse i rpcInvalidParams ''query is required'', g)
           else case analyze_for s args g of
             (a, d, g1) \<Rightarrow>
               (okResponse i [(''status'', JStr ''analyzed''), (''risk_level'', JStr (RiskLevel a)),
                              (''safety_metadata'', safetyMetadata s a d), (''message'', JStr (DecisionReason d))], g1)))"

record restoreSnapshotParams =
  re_SnapshotID :: string
  re_Table :: string
  re_TargetTable :: string
  re_AgentID :: string

definition restore_fields :: "restoreSnapshotParams field_table" where
  "restore_fields =
     [(''snapshot_id'', str_field re_SnapshotID (\<lambda>x. re_SnapshotID_update (\<lambda>_. x))),
      (''table'', str_field re_Table (\<lambda>x. re_Table_update (\<lambda>_. x))),
      (''target_table'', str_field re_TargetTable (\<lambda>x. re_TargetTable_update (\<lambda>_. x))),
      (''agent_id'', str_field re_AgentID (\<lambda>x. re_AgentID_update (\<lambda>_. x)))]"

definition shellQuote :: "string \<Rightarrow> string" where
  "shellQuote value =
     (if value = '''' then [CHR 0x22, CHR 0x22]
      else [CHR 0x27] @ ReplaceChar value CHR 0x27 [CHR 0x27, CHR 0x5C, CHR 0x27, CHR 0x27] @ [CHR 0x27])"

definition restore_command :: "string \<Rightarrow> string \<Rightarrow> string \<Rightarrow> string \<Rightarrow> string" where
  "restore_command storage sid tab target =
     ''backstop restore --db '' @ [CHR 0x22] @ ''$BACKSTOP_RESTORE_DB'' @ [CHR 0x22] @ '' --storage '' @ shellQuote storage
     @ '' --snapshot-id '' @ shellQuote sid @ '' --table '' @ shellQuote tab @ '' --target-table '' @ shellQuote target"

definition toolRestoreSnapshot :: "MCPServer \<Rightarrow> json \<Rightarrow> json option \<Rightarrow> gateway \<Rightarrow> MCPResponse \<times> gateway" where
  "toolRestoreSnapshot s i rawArgs g =
     (case Option.bind rawArgs (\<lambda>v. decode_struct restore_fields v
             \<lparr>re_SnapshotID = '''', re_Table = '''', re_TargetTable = '''', re_AgentID = ''''\<rparr>) of
        None \<Rightarrow> (errorResponse i rpcInvalidParams ''invalid arguments'', g)
      | Some args \<Rightarrow>
          (if re_SnapshotID args = '''' then (errorResponse i rpcInvalidParams ''snapshot_id is required'', g)
           else if re_Table args = '''' then (errorResponse i rpcInvalidParams ''table is required'', g)
           else if re_AgentID args = '''' then (errorResponse i rpcInvalidParams ''agent_id is required'', g)
           else if mc_storage s = ''''
           then (errorResponse i rpcInvalidParams ''gateway --storage is required to build the Python restore command'', g)
           else let (r, w) = RecordDetailed (re_AgentID args)
                      (''RESTORE '' @ re_Table args @ '' FROM '' @ re_SnapshotID args) RiskHigh True ''''
                      (mc_environment s) (mc_clusterID s) (gw_registry g) (gw_world g);
                    target = (if TrimSpace (re_TargetTable args) = '''' then re_Table args @ ''_recovered''
                              else TrimSpace (re_TargetTable args));
                    (now, w1) = Now w
                in (okResponse i
                      [(''status'', JStr ''restore_plan''), (''snapshot_id'', JStr (re_SnapshotID args)),
                       (''source_table'', JStr (re_Table args)), (''target_table'', JStr target),
                       (''restore_command'',
                        JStr (restore_command (mc_storage s) (re_SnapshotID args) (re_Table args) target)),
                       (''message'', JStr ''Run this Backstop CLI command in an operator shell with BACKSTOP_RESTORE_DB set. The gateway intentionally does not return database credentials.''),
                       (''recorded_at'', JStr (FormatRFC3339 now)), (''environment'', JStr (mc_environment s)),
                       (''cluster_id'', JStr (mc_clusterID s))],
                    g\<lparr>gw_registry := r, gw_world := w1\<rparr>)))"

definition prop_schema :: "string \<Rightarrow> string \<Rightarrow> string \<times> json" where
  "prop_schema name description =
     (name, JObj [(''type'', JStr ''string''), (''description'', JStr description)])"

definition tool_def :: "string \<Rightarrow> string \<Rightarrow> (string \<times> json) list \<Rightarrow> string list \<Rightarrow> json" where
  "tool_def name description properties required =
     JObj [(''name'', JStr name), (''description'', JStr description),
           (''inputSchema'', JObj ([(''type'', JStr ''object''), (''properties'', JObj properties)]
              @ (if required = [] then [] else [(''required'', JArr (map JStr required))])))]"

definition builtinTools :: "json list" where
  "builtinTools =
     [tool_def ''execute_query''
        ''Execute SQL through backstop. SAFE reads execute immediately, HIGH and CRITICAL queries may require approval, CRITICAL table operations require recovery readiness, and DROP DATABASE/DROP SCHEMA are blocked.''
        [prop_schema ''query'' ''SQL query to execute'',
         prop_schema ''agent_id'' ''Stable identifier for the calling agent. If using the backstop MCP wrapper, this is normally supplied by BACKSTOP_AGENT_ID.'',
         prop_schema ''db_url'' ''Optional PostgreSQL connection string when gateway was not started with --db'',
         prop_schema ''snapshot_id'' ''Latest sidecar snapshot ID required before approved CRITICAL execution when --snapshot-before-critical is enabled'']
        [''query'', ''agent_id''],
      tool_def ''analyze_query''
        ''Analyze SQL through backstop policy without executing it. Use before UPDATE, DELETE, DROP, ALTER, TRUNCATE, migrations, or any agent-generated SQL that might modify data.''
        [prop_schema ''query'' ''SQL query to analyze without executing'',
         prop_schema ''agent_id'' ''Optional stable identifier for the calling agent'',
         prop_schema ''db_url'' ''Optional PostgreSQL connection string when impact analysis needs a DB and gateway was not started with --db'']
        [''query''],
      tool_def ''prepare_restore_snapshot''
        ''Prepare a restore plan for a previously captured Backstop snapshot. The gateway never returns database passwords; run the Backstop CLI with your local DB URL to perform the restore.''
        [prop_schema ''snapshot_id'' ''Snapshot ID (snap_xxxx)'',
         prop_schema ''table'' ''Original table name'',
         prop_schema ''target_table'' ''Optional restore target table. Defaults to {table}_recovered'',
         prop_schema ''agent_id'' ''Identifier for the calling agent'']
        [''snapshot_id'', ''table'', ''agent_id''],
      tool_def ''list_tools'' ''List all available MCP tools exposed by this gateway.'' [] []]"

record MCPRequest =
  mr_JSONRPC :: string
  mr_ID :: json
  mr_Method :: string
  mr_Params :: "json option"

definition request_fields :: "MCPRequest field_table" where
  "request_fields =
     [(''jsonrpc'', str_field mr_JSONRPC (\<lambda>x. mr_JSONRPC_update (\<lambda>_. x))),
      (''id'', raw_field (\<lambda>x. mr_ID_update (\<lambda>_. x))),
      (''method'', str_field mr_Method (\<lambda>x. mr_Method_update (\<lambda>_. x))),
      (''params'', raw_field (\<lambda>x. mr_Params_update (\<lambda>_. Some x)))]"

record tool_call =
  tc_Name :: string
  tc_Arguments :: "json option"

definition call_fields :: "tool_call field_table" where
  "call_fields =
     [(''name'', str_field tc_Name (\<lambda>x. tc_Name_update (\<lambda>_. x))),
      (''arguments'', raw_field (\<lambda>x. tc_Arguments_update (\<lambda>_. Some x)))]"

definition contextHasScope :: "AuthPrincipal option \<Rightarrow> string \<Rightarrow> bool" where
  "contextHasScope ctx scope = (case ctx of None \<Rightarrow> True | Some who \<Rightarrow> hasScope who scope)"

definition handleListTools :: "MCPRequest \<Rightarrow> MCPResponse" where
  "handleListTools req = okResponse (mr_ID req) [(''tools'', JArr builtinTools)]"

definition replied :: "MCPResponse \<times> gateway \<Rightarrow> outcome \<times> gateway" where
  "replied rg = (Replied (fst rg), snd rg)"

definition forbidden :: "json \<Rightarrow> string \<Rightarrow> MCPResponse" where
  "forbidden i scope = errorResponse i rpcInvalidRequest (''forbidden: '' @ scope @ '' scope is required'')"

definition handleToolsCall :: "MCPServer \<Rightarrow> AuthPrincipal option \<Rightarrow> MCPRequest \<Rightarrow> gateway \<Rightarrow> outcome \<times> gateway" where
  "handleToolsCall s ctx req g =
     (case Option.bind (mr_Params req) (\<lambda>v. decode_struct call_fields v \<lparr>tc_Name = '''', tc_Arguments = None\<rparr>) of
        None \<Rightarrow> (Replied (errorResponse (mr_ID req) rpcInvalidParams ''invalid params''), g)
      | Some c \<Rightarrow>
          (if tc_Name c = ''execute_query''
           then (if \<not> contextHasScope ctx ''query:execute'' then (Replied (forbidden (mr_ID req) ''query:execute''), g)
                 else toolExecuteQuery_begin s (mr_ID req) (tc_Arguments c) g)
           else if tc_Name c = ''analyze_query''
           then (if \<not> contextHasScope ctx ''query:analyze'' then (Replied (forbidden (mr_ID req) ''query:analyze''), g)
                 else replied (toolAnalyzeQuery s (mr_ID req) (tc_Arguments c) g))
           else if tc_Name c = ''prepare_restore_snapshot'' \<or> tc_Name c = ''restore_snapshot''
           then (if \<not> contextHasScope ctx ''restore:prepare'' then (Replied (forbidden (mr_ID req) ''restore:prepare''), g)
                 else replied (toolRestoreSnapshot s (mr_ID req) (tc_Arguments c) g))
           else if tc_Name c = ''list_tools'' then (Replied (handleListTools req), g)
           else (Replied (errorResponse (mr_ID req) rpcMethodNotFound (''unknown tool: '' @ tc_Name c)), g)))"

definition Handle :: "MCPServer \<Rightarrow> AuthPrincipal option \<Rightarrow> json option \<Rightarrow> gateway \<Rightarrow> outcome \<times> gateway" where
  \<comment> \<open>the body of a request as the JSON value it is, \<open>None\<close> when it is not JSON\<close>
  "Handle s ctx body g =
     (case Option.bind body (\<lambda>v. decode_struct request_fields v
             \<lparr>mr_JSONRPC = '''', mr_ID = JNull, mr_Method = '''', mr_Params = None\<rparr>) of
        None \<Rightarrow> (Replied (errorResponse JNull rpcParseError ''parse error''), g)
      | Some req \<Rightarrow>
          (if mr_Method req = '''' then (Replied (errorResponse (mr_ID req) rpcInvalidRequest ''missing method''), g)
           else if mr_Method req = ''tools/list'' then (Replied (handleListTools req), g)
           else if mr_Method req = ''tools/call'' then handleToolsCall s ctx req g
           else (Replied (errorResponse (mr_ID req) rpcMethodNotFound (''unknown method: '' @ mr_Method req)), g)))"

end
