(* ===== verification/Gateway_Safety.thy ===== *)
theory Gateway_Safety
  imports Mcp_Server
begin

text \<open>
  The safety of the gateway as a whole. First what each operation of the server leaves alone, then
  what it sends to the database and under which conditions; then the step relation \<open>gateway_step\<close>
  that interleaves requests, operators, timeouts, pauses and changes of the world outside, its
  simulation by the approval engine's steps, and the invariant that every query sent was either one
  the policy lets run at once or one an operator released.
\<close>

section \<open>What the operations leave alone\<close>

definition keeps :: "gateway \<Rightarrow> gateway \<Rightarrow> bool" where
  \<comment> \<open>same calls to the database, same approval engine, same pause, same kind of registry\<close>
  "keeps g g' \<longleftrightarrow> gw_calls g' = gw_calls g \<and> gw_approval g' = gw_approval g \<and> gw_pause g' = gw_pause g \<and>
     rg_metadata (gw_registry g') = rg_metadata (gw_registry g)"

lemma keeps_refl [simp]: "keeps g g"
  by (simp add: keeps_def)

lemma keeps_trans: "keeps g h \<Longrightarrow> keeps h k \<Longrightarrow> keeps g k"
  by (simp add: keeps_def)

lemma keeps_world [simp]: "keeps g (g\<lparr>gw_world := w\<rparr>)"
  by (simp add: keeps_def)

lemma keeps_on_metrics [simp]: "keeps g (on_metrics f g)"
  by (simp add: keeps_def on_metrics_def)

lemma keeps_emitAlert [simp]: "keeps g (emitAlert s a b c d e f h i j g)"
  by (simp add: keeps_def emitAlert_def split: option.split prod.split)

lemma RecordDetailed_metadata: "RecordDetailed a q k b h e c r w = (r', w') \<Longrightarrow> rg_metadata r' = rg_metadata r"
  by (auto simp: RecordDetailed_def Now_def Let_def appendAuditLog_def split: if_splits option.splits)

lemma keeps_audit [simp]: "keeps g (audit s args risk b sha g)"
  using RecordDetailed_metadata by (auto simp: keeps_def audit_def split: prod.split)

lemma keeps_resolve_record [simp]: "keeps g (resolve_record i st ac g)"
  by (simp add: keeps_def resolve_record_def)

lemma keeps_agentQuarantined: "agentQuarantined s i a g = (b, g') \<Longrightarrow> keeps g g'"
  by (auto simp: agentQuarantined_def Now_def keeps_def split: if_splits option.splits prod.splits)

lemma keeps_recordRiskAttempt [simp]: "keeps g (recordRiskAttempt s i a reason g)"
proof -
  have 1: "keeps g (on_metrics f (h\<lparr>gw_world := w\<rparr>))" if "keeps g h" for f h w
    using that by (simp add: keeps_def on_metrics_def)
  have 2: "keeps g (emitAlert s a1 a2 a3 a4 a5 a6 a7 a8 a9 (on_metrics f (g\<lparr>gw_world := w\<rparr>)))"
    for a1 a2 a3 a4 a5 a6 a7 a8 a9 f w
    by (rule keeps_trans [OF keeps_trans [OF keeps_world keeps_on_metrics] keeps_emitAlert])
  show ?thesis
    using 1 2 by (auto simp: recordRiskAttempt_def Let_def split: prod.splits option.splits)
qed

lemmas keeps_chain = keeps_trans [OF _ keeps_emitAlert] keeps_trans [OF _ keeps_on_metrics]
  keeps_trans [OF _ keeps_recordRiskAttempt] keeps_trans [OF _ keeps_resolve_record]
  keeps_trans [OF _ keeps_audit]

lemma keeps_verify:
  "verifyCriticalRecoveryPointWithAnalysis s args a g = (r, tab, g') \<Longrightarrow> keeps g g'"
  by (auto simp: verifyCriticalRecoveryPointWithAnalysis_def keeps_def on_metrics_def
      split: sum.splits if_splits option.splits prod.splits)

section \<open>What is sent to the database\<close>

definition text_of :: "sqlAnalysis \<Rightarrow> string \<Rightarrow> db_call" where
  "text_of a q = (if returnsRows a then Queried q else Executed q)"

lemma executeSQL_effect:
  assumes "executeSQL s args a g = (r, g')"
  shows "gw_approval g' = gw_approval g \<and> gw_pause g' = gw_pause g \<and> gw_registry g' = gw_registry g \<and>
     gw_calls g' \<in> {gw_calls g, gw_calls g @ [text_of a (eq_Query args)]}"
  using assms
  by (auto simp: executeSQL_def Let_def text_of_def split: if_splits option.splits sum.splits)

lemma run_approved_effect:
  assumes "run_approved s q g = (r, g')"
  shows "gw_approval g' = gw_approval g \<and> gw_pause g' = gw_pause g \<and>
     rg_metadata (gw_registry g') = rg_metadata (gw_registry g) \<and>
     gw_calls g' \<in> {gw_calls g, gw_calls g @ [text_of (wq_analysis q) (eq_Query (wq_args q))]}"
proof -
  obtain x g1 where x: "executeSQL s (wq_args q) (wq_analysis q) g = (x, g1)" by fastforce
  from executeSQL_effect [OF x] assms show ?thesis
    by (cases x) (auto simp: run_approved_def Let_def x on_metrics_def)
qed

lemma run_direct_effect:
  assumes "run_direct s i args a d g = (r, g')"
  shows "gw_approval g' = gw_approval g \<and> gw_pause g' = gw_pause g \<and>
     rg_metadata (gw_registry g') = rg_metadata (gw_registry g) \<and>
     gw_calls g' \<in> {gw_calls g, gw_calls g @ [text_of a (eq_Query args)]}"
proof -
  let ?g = "audit s args (RiskLevel a) True (querySHA256 (eq_Query args)) g"
  obtain x g1 where x: "executeSQL s args a ?g = (x, g1)" by fastforce
  have "keeps g ?g" by simp
  with executeSQL_effect [OF x] assms show ?thesis
    by (cases x) (auto simp: run_direct_def Let_def x on_metrics_def keeps_def)
qed

text \<open>After the wait: the query is sent only when the operator approved, the binding holds and no pause is on.\<close>

lemma resume_effect:
  assumes "toolExecuteQuery_resume s q resolution err g = (r, g')"
  shows "gw_approval g' = gw_approval g \<and> gw_pause g' = gw_pause g \<and>
     rg_metadata (gw_registry g') = rg_metadata (gw_registry g) \<and>
     (gw_calls g' = gw_calls g \<or>
      gw_calls g' = gw_calls g @ [text_of (wq_analysis q) (eq_Query (wq_args q))] \<and>
      err = None \<and> rs_Approved resolution \<and> binding_holds s q \<and>
      \<not> BlocksRisk (gw_pause g) (RiskLevel (wq_analysis q)))"
proof -
  let ?ok = "err = None \<and> binding_holds s q \<and> \<not> BlocksRisk (gw_pause g) (RiskLevel (wq_analysis q)) \<and> rs_Approved resolution"
  show ?thesis
  proof (cases ?ok)
    case True
    let ?h = "on_metrics (IncApproval ''approved'') (resolve_record (ad_ID (wq_details q)) ''approved'' (rs_Actor resolution)
        (audit s (wq_args q) (RiskLevel (wq_analysis q)) (rs_Approved resolution) (ad_QuerySHA256 (wq_details q)) g))"
    have k: "keeps g ?h" by (intro keeps_chain) simp
    have "run_approved s q ?h = (r, g')"
      using assms True by (simp add: toolExecuteQuery_resume_def Let_def)
    from run_approved_effect [OF this] k True show ?thesis by (auto simp: keeps_def)
  next
    case False
    then have "keeps g g'"
      using assms unfolding toolExecuteQuery_resume_def Let_def
      by (auto split: option.splits approval_error.splits if_splits intro!: keeps_chain)
    then show ?thesis by (auto simp: keeps_def)
  qed
qed

section \<open>What waits for an operator\<close>

definition recovery_verified :: "MCPServer \<Rightarrow> waiting_query \<Rightarrow> bool" where
  \<comment> \<open>the recovery point of the query's table was verified, ready, and its group was ready\<close>
  "recovery_verified s q \<longleftrightarrow>
     (\<exists>tab v metadata w w1 w2 w3.
        criticalRecoveryTableFromAnalysis (wq_analysis q) = Inr tab \<and> mc_snapshotVerifier s = Some v \<and>
        vf_verify v tab (eq_SnapshotID (wq_args q)) w = (Inr (wq_recovery q), w1) \<and>
        checkRecoveryReadiness s metadata (wq_recovery q) w1 = (None, w2) \<and>
        verifyRecoveryGroup s metadata v tab w2 = (None, w3))"

definition analysis_of :: "MCPServer \<Rightarrow> string \<Rightarrow> sqlAnalysis \<Rightarrow> bool" where
  \<comment> \<open>the analysis of a query with some outcome of its impact analysis\<close>
  "analysis_of s query a \<longleftrightarrow> (\<exists>impact. a = applyImpactAnalysis (analyzeSQL (mc_parse s) query) impact)"

definition waiting_ok :: "MCPServer \<Rightarrow> waiting_query \<Rightarrow> bool" where
  "waiting_ok s q \<longleftrightarrow>
     analysis_of s (eq_Query (wq_args q)) (wq_analysis q) \<and>
     wq_decision q = Decide (mc_policy s) (wq_analysis q) \<and> Action (wq_decision q) = PolicyActionApprove \<and>
     wq_details q = approval_details s (wq_args q) (wq_analysis q) (ad_ID (wq_details q)) \<and>
     (RequiresRecovery (wq_decision q) \<and> mc_snapshotBeforeCritical s \<longrightarrow> recovery_verified s q)"

lemma waiting_ok_binding: "waiting_ok s q \<Longrightarrow> binding_holds s q"
  unfolding waiting_ok_def binding_holds_def Let_def
  by (metis ApprovalDetails.select_convs approval_details_def)

lemma verify_recovery_verified:
  assumes "verifyCriticalRecoveryPointWithAnalysis s args a g = (Inr m, tab, g')"
    "wq_args q = args" "wq_analysis q = a" "wq_recovery q = m"
  shows "recovery_verified s q"
  using assms
  by (auto simp: verifyCriticalRecoveryPointWithAnalysis_def recovery_verified_def
      split: sum.splits if_splits option.splits prod.splits) blast

lemma ask_operator_effect:
  assumes "ask_operator s i args a d aid recovery g = (out, g')"
  shows "gw_calls g' = gw_calls g \<and> gw_pause g' = gw_pause g \<and>
    (case out of
       Replied r \<Rightarrow> gw_approval g' = gw_approval g
     | Waiting q \<Rightarrow>
         wq_args q = args \<and> wq_analysis q = a \<and> wq_decision q = d \<and> wq_recovery q = recovery \<and>
         wq_details q = approval_details s args a aid \<and>
         (\<exists>now. RequestApproval_begin (wq_details q) now (gw_approval g) = (Inr (wq_chan q), gw_approval g')))"
proof -
  obtain e w where e: "RecordApprovalRequested (approval_details s args a aid) (gw_registry g) (gw_world g) = (e, w)"
    by fastforce
  show ?thesis
  proof (cases e)
    case (Some x)
    let ?h = "audit s args (RiskLevel a) False (querySHA256 (eq_Query args)) (g\<lparr>gw_world := w\<rparr>)"
    have "keeps g ?h" by (rule keeps_trans [OF keeps_world keeps_audit])
    then have "keeps g g'"
      using assms Some e by (auto simp: ask_operator_def Let_def intro!: keeps_chain)
    with assms Some e show ?thesis by (auto simp: keeps_def ask_operator_def Let_def)
  next
    case None
    define g1 where "g1 = emitAlert s ''warning'' ''approval_requested'' (eq_AgentID args) a (querySHA256 (eq_Query args)) aid
        (eq_SnapshotID args) ''Review exact query hash, environment, and recovery point before approving.''
        (DecisionReason d) (g\<lparr>gw_world := w\<rparr>)"
    have k: "keeps g g1" unfolding g1_def by (rule keeps_trans [OF keeps_world keeps_emitAlert])
    obtain x en where x: "RequestApproval_begin (approval_details s args a aid) (fst (Now (gw_world g1))) (gw_approval g1) = (x, en)"
      by fastforce
    show ?thesis
    proof (cases x)
      case (Inl err)
      then have en: "en = gw_approval g1" using x by (auto simp: RequestApproval_begin_def Let_def split: if_splits)
      let ?q = "\<lparr>wq_id = i, wq_args = args, wq_analysis = a, wq_decision = d,
          wq_details = approval_details s args a aid, wq_recovery = recovery, wq_chan = 0\<rparr>"
      obtain r g2 where r: "toolExecuteQuery_resume s ?q zero_resolution (Some err) (g1\<lparr>gw_approval := en\<rparr>) = (r, g2)"
        by fastforce
      from resume_effect [OF r] k en assms None e x Inl r show ?thesis
        by (auto simp: ask_operator_def Let_def g1_def [symmetric] keeps_def)
    next
      case (Inr c)
      with k assms None e x show ?thesis
        by (auto simp: ask_operator_def Let_def g1_def [symmetric] keeps_def)
    qed
  qed
qed

lemma approve_branch_effect:
  assumes "approve_branch s i args a d g = (out, g')" "analysis_of s (eq_Query args) a"
    "d = Decide (mc_policy s) a" "Action d = PolicyActionApprove"
  shows "gw_calls g' = gw_calls g \<and> gw_pause g' = gw_pause g \<and>
    (case out of
       Replied r \<Rightarrow> gw_approval g' = gw_approval g
     | Waiting q \<Rightarrow> waiting_ok s q \<and>
         (\<exists>now. RequestApproval_begin (wq_details q) now (gw_approval g) = (Inr (wq_chan q), gw_approval g')))"
proof -
  obtain aid w0 where aid: "generateID ''appr'' (gw_world g) = (aid, w0)" by fastforce
  let ?g = "g\<lparr>gw_world := w0\<rparr>"
  show ?thesis
  proof (cases "RequiresRecovery d \<and> mc_snapshotBeforeCritical s")
    case rec: True
    obtain x tab g1 where x: "verifyCriticalRecoveryPointWithAnalysis s args a ?g = (x, tab, g1)" by (metis prod_cases3)
    have k: "keeps g g1" using keeps_trans [OF keeps_world keeps_verify [OF x]] .
    show ?thesis
    proof (cases x)
      case (Inl e)
      then have "keeps g g'"
        using assms(1) rec aid x k by (auto simp: approve_branch_def Let_def intro!: keeps_chain)
      with assms(1) rec aid x Inl show ?thesis by (auto simp: approve_branch_def Let_def keeps_def)
    next
      case (Inr m)
      then have ask: "ask_operator s i args a d aid m (on_metrics (IncRecovery ''verified'') g1) = (out, g')"
        using assms(1) rec aid x by (simp add: approve_branch_def Let_def)
      have k2: "keeps g (on_metrics (IncRecovery ''verified'') g1)" by (rule keeps_trans [OF k keeps_on_metrics])
      have "waiting_ok s q" if "out = Waiting q" for q
        using ask_operator_effect [OF ask] that assms(2-4) verify_recovery_verified [OF x [unfolded Inr]]
        by (auto simp: waiting_ok_def approval_details_def)
      with ask_operator_effect [OF ask] k2 show ?thesis
        by (cases out) (auto simp: keeps_def)
    qed
  next
    case False
    then have ask: "ask_operator s i args a d aid zero_manifest ?g = (out, g')"
      using assms(1) aid by (simp only: approve_branch_def Let_def prod.case if_False)
    have "waiting_ok s q" if "out = Waiting q" for q
      using ask_operator_effect [OF ask] that assms(2-4) False
      by (auto simp: waiting_ok_def approval_details_def)
    with ask_operator_effect [OF ask] show ?thesis by (cases out) auto
  qed
qed

lemma analyze_for_effect:
  assumes "analyze_for s args g = (a, d, g')"
  shows "analysis_of s (eq_Query args) a \<and> d = Decide (mc_policy s) a \<and> gw_approval g' = gw_approval g \<and>
    gw_pause g' = gw_pause g \<and> (\<exists>probes. gw_calls g' = gw_calls g @ probes \<and> (\<forall>c \<in> set probes. probe c))"
proof -
  obtain i calls w where i: "analyzeImpact (mc_pg s) (mc_db s) (mc_policy s) args (analyzeSQL (mc_parse s) (eq_Query args))
      (gw_world g) = (i, calls, w)" by (metis prod_cases3)
  from analyzeImpact_probes [OF i] i assms show ?thesis
    by (auto simp: analyze_for_def Let_def analysis_of_def)
qed

definition direct_ok :: "MCPServer \<Rightarrow> PauseController option \<Rightarrow> string \<Rightarrow> bool" where
  \<comment> \<open>the policy lets the query run at once and no pause blocks it\<close>
  "direct_ok s pause query \<longleftrightarrow>
     (\<exists>a. analysis_of s query a \<and> Action (Decide (mc_policy s) a) = PolicyActionExecute \<and>
          \<not> BlocksRisk pause (RiskLevel a))"

definition call_text :: "db_call \<Rightarrow> string" where
  "call_text c = (case c of Explained q \<Rightarrow> q | Counted q \<Rightarrow> q | Queried q \<Rightarrow> q | Executed q \<Rightarrow> q)"

lemma text_of_simps [simp]: "call_text (text_of a q) = q" "\<not> probe (text_of a q)"
  by (simp_all add: text_of_def call_text_def probe_def)

definition begin_effect :: "MCPServer \<Rightarrow> gateway \<Rightarrow> outcome \<Rightarrow> gateway \<Rightarrow> bool" where
  \<comment> \<open>what answering a request, up to its wait if it waits, may do\<close>
  "begin_effect s g out g' \<longleftrightarrow>
     gw_pause g' = gw_pause g \<and>
     (\<exists>new. gw_calls g' = gw_calls g @ new \<and>
        (\<forall>c \<in> set new. probe c \<or> direct_ok s (gw_pause g) (call_text c))) \<and>
     (case out of
        Replied r \<Rightarrow> gw_approval g' = gw_approval g
      | Waiting q \<Rightarrow> waiting_ok s q \<and> (\<forall>c \<in> set (drop (length (gw_calls g)) (gw_calls g')). probe c) \<and>
          (\<exists>now. RequestApproval_begin (wq_details q) now (gw_approval g) = (Inr (wq_chan q), gw_approval g')))"

lemma begin_effect_keeps: "keeps g g' \<Longrightarrow> begin_effect s g (Replied r) g'"
  by (auto simp: begin_effect_def keeps_def)

lemma begin_effect_keeps_before: "keeps g h \<Longrightarrow> begin_effect s h out g' \<Longrightarrow> begin_effect s g out g'"
  by (cases out) (simp_all add: begin_effect_def keeps_def)

lemma decide_branch_effect:
  assumes "decide_branch s i args a d g = (out, g')" "analysis_of s (eq_Query args) a" "d = Decide (mc_policy s) a"
    "\<not> BlocksRisk (gw_pause g) (RiskLevel a)"
  shows "begin_effect s g out g'"
proof -
  consider (block) "Action d = PolicyActionBlock" | (run) "Action d = PolicyActionExecute"
    | (ask) "Action d = PolicyActionApprove"
    | (other) "Action d \<noteq> PolicyActionBlock" "Action d \<noteq> PolicyActionExecute" "Action d \<noteq> PolicyActionApprove"
    by blast
  then show ?thesis
  proof cases
    case block
    then have "(\<exists>r. out = Replied r) \<and> keeps g g'"
      using assms(1) by (auto simp: decide_branch_def Let_def intro!: keeps_chain split: if_splits)
    then show ?thesis by (auto intro: begin_effect_keeps)
  next
    case run
    obtain r g1 where r: "run_direct s i args a d g = (r, g1)" by fastforce
    with run assms(1) have "out = Replied r" "g' = g1" by (auto simp: decide_branch_def Let_def)
    moreover have "direct_ok s (gw_pause g) (eq_Query args)"
      using assms(2-4) run by (auto simp: direct_ok_def)
    ultimately show ?thesis
      using run_direct_effect [OF r] by (auto simp: begin_effect_def)
  next
    case ask
    then have "approve_branch s i args a d g = (out, g')"
      using assms(1) by (simp add: decide_branch_def Let_def)
    from approve_branch_effect [OF this assms(2,3) ask] show ?thesis
      by (cases out) (auto simp: begin_effect_def)
  next
    case other
    then have "(\<exists>r. out = Replied r) \<and> keeps g g'"
      using assms(1) by (auto simp: decide_branch_def unknown_action_def Let_def intro!: keeps_chain)
    then show ?thesis by (auto intro: begin_effect_keeps)
  qed
qed

lemma begin_effect_after_probes:
  assumes "begin_effect s g1 out g'" "gw_approval g1 = gw_approval g" "gw_pause g1 = gw_pause g"
    "gw_calls g1 = gw_calls g @ probes" "\<forall>c \<in> set probes. probe c"
  shows "begin_effect s g out g'"
  using assms by (fastforce simp: begin_effect_def split: outcome.splits)

lemma execute_query_args_effect:
  assumes "execute_query_args s i args g = (out, g')"
  shows "begin_effect s g out g'"
proof -
  obtain a d g1 where a: "analyze_for s args g = (a, d, g1)" by (metis prod_cases3)
  obtain b g2 where b: "agentQuarantined s (eq_AgentID args) a g1 = (b, g2)" by fastforce
  note k = keeps_agentQuarantined [OF b]
  have "begin_effect s g1 out g'"
  proof (cases "BlocksRisk (gw_pause g1) (RiskLevel a)")
    case True
    then have "(\<exists>r. out = Replied r) \<and> keeps g1 g'"
      using assms a by (auto simp: execute_query_args_def Let_def intro!: keeps_chain)
    then show ?thesis by (auto intro: begin_effect_keeps)
  next
    case free: False
    show ?thesis
    proof (cases b)
      case True
      then have "(\<exists>r. out = Replied r) \<and> keeps g1 g'"
        using assms a b free k by (auto simp: execute_query_args_def Let_def intro!: keeps_chain)
      then show ?thesis by (auto intro: begin_effect_keeps)
    next
      case False
      then have "decide_branch s i args a d g2 = (out, g')"
        using assms a b free by (simp add: execute_query_args_def Let_def)
      moreover have "gw_pause g2 = gw_pause g1" using k by (simp add: keeps_def)
      ultimately have "begin_effect s g2 out g'"
        using decide_branch_effect analyze_for_effect [OF a] free by simp
      then show ?thesis by (rule begin_effect_keeps_before [OF k])
    qed
  qed
  then show ?thesis
    using analyze_for_effect [OF a] by (auto intro: begin_effect_after_probes)
qed

lemma toolExecuteQuery_begin_effect: "toolExecuteQuery_begin s i raw g = (out, g') \<Longrightarrow> begin_effect s g out g'"
  using execute_query_args_effect
  by (auto simp: toolExecuteQuery_begin_def split: option.splits if_splits intro: begin_effect_keeps)

lemma toolAnalyzeQuery_effect: "toolAnalyzeQuery s i raw g = (r, g') \<Longrightarrow> begin_effect s g (Replied r) g'"
  using analyze_for_effect
  by (auto simp: toolAnalyzeQuery_def split: option.splits if_splits prod.splits intro: begin_effect_keeps)
    (fastforce simp: begin_effect_def)

lemma toolRestoreSnapshot_effect: "toolRestoreSnapshot s i raw g = (r, g') \<Longrightarrow> begin_effect s g (Replied r) g'"
  using RecordDetailed_metadata
  by (auto simp: toolRestoreSnapshot_def Let_def split: option.splits if_splits prod.splits intro!: begin_effect_keeps)
    (auto simp: keeps_def)

lemma Handle_effect:
  assumes "Handle s ctx body g = (out, g')"
  shows "begin_effect s g out g'"
proof -
  have "begin_effect s g out g'" if "handleToolsCall s ctx req g = (out, g')" for req
    using that toolExecuteQuery_begin_effect toolAnalyzeQuery_effect toolRestoreSnapshot_effect
    by (auto simp: handleToolsCall_def replied_def split: option.splits if_splits intro: begin_effect_keeps)
  with assms show ?thesis
    by (auto simp: Handle_def split: option.splits if_splits intro: begin_effect_keeps)
qed

section \<open>The gateway's steps\<close>

text \<open>
  A call that executes a query is kept with the pause controller of that moment and its cause: \<open>None\<close>
  for a query that ran at once, or the waiting query that was released and the resolution that
  released it.
\<close>

record gateway_sys =
  gs_gateway :: gateway
  gs_inflight :: "waiting_query list"
  gs_log :: "approval_event list"
  gs_sent :: "(db_call \<times> PauseController option \<times> (waiting_query \<times> ApprovalResolution) option) list"

definition new_execs :: "gateway \<Rightarrow> gateway \<Rightarrow> db_call list" where
  "new_execs g g' = filter (\<lambda>c. \<not> probe c) (drop (length (gw_calls g)) (gw_calls g'))"

inductive gateway_step :: "MCPServer \<Rightarrow> gateway_sys \<Rightarrow> gateway_sys \<Rightarrow> bool" for s where
  answered: "Handle s ctx body (gs_gateway t) = (Replied r, g') \<Longrightarrow>
    gateway_step s t (t\<lparr>gs_gateway := g',
      gs_sent := map (\<lambda>c. (c, gw_pause (gs_gateway t), None)) (new_execs (gs_gateway t) g') @ gs_sent t\<rparr>)"
| waits: "Handle s ctx body (gs_gateway t) = (Waiting q, g') \<Longrightarrow>
    gateway_step s t (t\<lparr>gs_gateway := g', gs_inflight := q # gs_inflight t,
      gs_log := Requested (wq_chan q) (wq_details q) # gs_log t,
      gs_sent := map (\<lambda>c. (c, gw_pause (gs_gateway t), None)) (new_execs (gs_gateway t) g') @ gs_sent t\<rparr>)"
| operator: "signal i r (gw_approval (gs_gateway t)) = (err, e) \<Longrightarrow>
    gateway_step s t (t\<lparr>gs_gateway := (gs_gateway t)\<lparr>gw_approval := e\<rparr>,
      gs_log := Signalled i r (reached i (gw_approval (gs_gateway t))) # gs_log t\<rparr>)"
| resumes: "q \<in> set (gs_inflight t) \<Longrightarrow>
    RequestApproval_end (wq_details q) (wq_chan q) k (gw_approval (gs_gateway t)) = Some ((r, err), e) \<Longrightarrow>
    toolExecuteQuery_resume s q r err ((gs_gateway t)\<lparr>gw_approval := e\<rparr>) = (resp, g') \<Longrightarrow>
    gateway_step s t (t\<lparr>gs_gateway := g', gs_inflight := filter (\<lambda>p. wq_chan p \<noteq> wq_chan q) (gs_inflight t),
      gs_log := Resolved (wq_chan q) (wq_details q) r err # gs_log t,
      gs_sent := map (\<lambda>c. (c, gw_pause (gs_gateway t), Some (q, r))) (new_execs (gs_gateway t) g') @ gs_sent t\<rparr>)"
| pause: "SetPaused b reason p (gw_world (gs_gateway t)) = (err, p', w') \<Longrightarrow> gw_pause (gs_gateway t) = Some p \<Longrightarrow>
    gateway_step s t (t\<lparr>gs_gateway := (gs_gateway t)\<lparr>gw_pause := Some p', gw_world := w'\<rparr>\<rparr>)"
| outside: "gateway_step s t (t\<lparr>gs_gateway := (gs_gateway t)\<lparr>gw_metrics := m, gw_alerts := a, gw_world := w\<rparr>\<rparr>)"

definition gateway_init :: "gateway_sys \<Rightarrow> bool" where
  "gateway_init t \<longleftrightarrow>
     (\<exists>timeout. gw_approval (gs_gateway t) = NewApprovalEngine timeout) \<and> gw_calls (gs_gateway t) = [] \<and>
     gs_inflight t = [] \<and> gs_log t = [] \<and> gs_sent t = []"

definition approval_view :: "gateway_sys \<Rightarrow> approval_sys" where
  "approval_view t = \<lparr>as_engine = gw_approval (gs_gateway t),
     as_waiting = map (\<lambda>q. (wq_chan q, wq_details q)) (gs_inflight t), as_log = gs_log t\<rparr>"

lemma approval_view_init: "gateway_init t \<Longrightarrow> approval_init (approval_view t)"
  by (auto simp: gateway_init_def approval_view_def approval_init_def)

text \<open>The gateway's steps, seen through its approvals, are steps of the approval engine or nothing.\<close>

lemma gateway_simulates_approval:
  assumes "gateway_step s t u"
  shows "approval_view t = approval_view u \<or> approval_step (approval_view t) (approval_view u)"
  using assms
proof cases
  case (answered ctx body r g')
  with Handle_effect [OF answered(2)] show ?thesis by (simp add: approval_view_def begin_effect_def)
next
  case (waits ctx body q g')
  with Handle_effect [OF waits(2)] obtain now where
    "RequestApproval_begin (wq_details q) now (as_engine (approval_view t)) = (Inr (wq_chan q), gw_approval g')"
    by (auto simp: begin_effect_def approval_view_def)
  from approval_step.request [OF this] waits(1) show ?thesis by (simp add: approval_view_def)
next
  case (operator i r err e)
  then have "signal i r (as_engine (approval_view t)) = (err, e)" by (simp add: approval_view_def)
  from approval_step.sig [OF this] operator(1) show ?thesis by (simp add: approval_view_def)
next
  case (resumes q k r err e resp g')
  have 1: "(wq_chan q, wq_details q) \<in> set (as_waiting (approval_view t))"
    using resumes(2) by (auto simp: approval_view_def)
  have 2: "RequestApproval_end (wq_details q) (wq_chan q) k (as_engine (approval_view t)) = Some ((r, err), e)"
    using resumes(3) by (simp add: approval_view_def)
  have "gw_approval g' = e" using resume_effect [OF resumes(4)] by simp
  with approval_step.wakes [OF 1 2] resumes(1) show ?thesis
    by (simp add: approval_view_def filter_map comp_def)
next
  case (pause b reason p err p' w')
  then show ?thesis by (simp add: approval_view_def)
next
  case (outside m a w)
  then show ?thesis by (simp add: approval_view_def)
qed

section \<open>The invariant of the gateway\<close>

definition released_ok :: "MCPServer \<Rightarrow> approval_event list \<Rightarrow> db_call \<Rightarrow> PauseController option \<Rightarrow> waiting_query \<Rightarrow> ApprovalResolution \<Rightarrow> bool" where
  "released_ok s lg c pause q r \<longleftrightarrow>
     waiting_ok s q \<and> call_text c = eq_Query (wq_args q) \<and> rs_Approved r \<and>
     Signalled (ad_ID (wq_details q)) r (Some (wq_chan q, wq_details q)) \<in> set lg \<and>
     \<not> BlocksRisk pause (RiskLevel (wq_analysis q))"

definition sent_ok :: "MCPServer \<Rightarrow> approval_event list \<Rightarrow> db_call \<times> PauseController option \<times> (waiting_query \<times> ApprovalResolution) option \<Rightarrow> bool" where
  "sent_ok s lg x =
     (case x of (c, pause, cause) \<Rightarrow>
        (case cause of
           None \<Rightarrow> direct_ok s pause (call_text c)
         | Some (q, r) \<Rightarrow> released_ok s lg c pause q r))"

definition gateway_inv :: "MCPServer \<Rightarrow> gateway_sys \<Rightarrow> bool" where
  "gateway_inv s t \<longleftrightarrow>
     approval_inv (approval_view t) \<and> (\<forall>q \<in> set (gs_inflight t). waiting_ok s q) \<and>
     (\<forall>x \<in> set (gs_sent t). sent_ok s (gs_log t) x)"

lemma sent_ok_simps [simp]:
  "sent_ok s lg (c, pause, None) = direct_ok s pause (call_text c)"
  "sent_ok s lg (c, pause, Some (q, r)) = released_ok s lg c pause q r"
  by (simp_all add: sent_ok_def)

lemma sent_ok_mono: "sent_ok s lg x \<Longrightarrow> set lg \<subseteq> set lg' \<Longrightarrow> sent_ok s lg' x"
  by (auto simp: sent_ok_def released_ok_def split: option.splits prod.splits)

lemma begin_new_execs:
  assumes "begin_effect s g out g'" "c \<in> set (new_execs g g')"
  shows "direct_ok s (gw_pause g) (call_text c)"
  using assms by (auto simp: begin_effect_def new_execs_def)

lemma resumed_sent_ok:
  assumes "waiting_ok s q" "toolExecuteQuery_resume s q r err (g\<lparr>gw_approval := e\<rparr>) = (resp, g')"
    and "c \<in> set (new_execs g g')" "log_ok (Resolved (wq_chan q) (wq_details q) r err # lg)"
  shows "released_ok s (Resolved (wq_chan q) (wq_details q) r err # lg) c (gw_pause g) q r"
proof -
  from resume_effect [OF assms(2)] assms(3) have c: "c = text_of (wq_analysis q) (eq_Query (wq_args q))"
    "err = None" "rs_Approved r" "\<not> BlocksRisk (gw_pause g) (RiskLevel (wq_analysis q))"
    by (auto simp: new_execs_def)
  with assms(1,4) show ?thesis by (auto simp: released_ok_def)
qed

lemma gateway_inv_step:
  assumes inv: "gateway_inv s t" and step: "gateway_step s t u"
  shows "gateway_inv s u"
proof -
  have view: "approval_inv (approval_view u)"
    using gateway_simulates_approval [OF step] inv approval.inv_step by (auto simp: gateway_inv_def)
  have old: "\<forall>x \<in> set (gs_sent t). sent_ok s lg x" if "set (gs_log t) \<subseteq> set lg" for lg
    using inv that sent_ok_mono by (auto simp: gateway_inv_def)
  from step show ?thesis
  proof cases
    case (answered ctx body r g')
    with begin_new_execs [OF Handle_effect [OF answered(2)]] inv view old [of "gs_log t"] show ?thesis
      by (auto simp: gateway_inv_def)
  next
    case (waits ctx body q g')
    have "waiting_ok s q" using Handle_effect [OF waits(2)] by (simp add: begin_effect_def)
    with waits begin_new_execs [OF Handle_effect [OF waits(2)]] inv view old [of "gs_log u"] show ?thesis
      by (auto simp: gateway_inv_def)
  next
    case (operator i r err e)
    with inv view old [of "gs_log u"] show ?thesis by (auto simp: gateway_inv_def)
  next
    case (resumes q k r err e resp g')
    have q: "waiting_ok s q" using inv resumes(2) by (auto simp: gateway_inv_def)
    have "log_ok (gs_log u)" using view by (simp add: approval_inv_def Let_def approval_view_def)
    then have "log_ok (Resolved (wq_chan q) (wq_details q) r err # gs_log t)" using resumes(1) by simp
    from resumed_sent_ok [OF q resumes(4) _ this] resumes(1) inv view old [of "gs_log u"] show ?thesis
      by (auto simp: gateway_inv_def)
  next
    case (pause b reason p err p' w')
    with inv view old [of "gs_log t"] show ?thesis by (auto simp: gateway_inv_def)
  next
    case (outside m a w)
    with inv view old [of "gs_log t"] show ?thesis by (auto simp: gateway_inv_def)
  qed
qed

interpretation gw: invariant_system gateway_init "gateway_step s" "gateway_inv s" for s
proof unfold_locales
  show "gateway_inv s t" if "gateway_init t" for t
    using approval.inv_init [OF approval_view_init [OF that]] that by (simp add: gateway_inv_def gateway_init_def)
  show "gateway_inv s u" if "gateway_inv s t" "gateway_step s t u" for t u
    using gateway_inv_step that by blast
qed

section \<open>What may run at once\<close>

lemma applyImpact_risk:
  "RiskLevel (applyImpactAnalysis a i) = RiskLevel a \<or> RiskLevel (applyImpactAnalysis a i) = RiskImpactCritical"
  by (auto simp: applyImpactAnalysis_def Let_def split: option.splits)

lemma direct_reads_only:
  assumes "direct_ok s pause q" "reviews_writes (mc_policy s)"
  shows "TrimSpace q = '''' \<or> (\<exists>sts. mc_parse s q = Inr sts \<and> (\<forall>st \<in> set sts. read_only st))"
proof -
  obtain i where a: "Action (Decide (mc_policy s) (applyImpactAnalysis (analyzeSQL (mc_parse s) q) i)) = PolicyActionExecute"
    using assms(1) by (auto simp: direct_ok_def analysis_of_def)
  let ?a = "applyImpactAnalysis (analyzeSQL (mc_parse s) q) i"
  have "RiskLevel ?a \<in> {RiskSafe, RiskHigh, RiskImpactCritical, RiskCritical}"
    using applyImpact_risk [of "analyzeSQL (mc_parse s) q" i] analyzeSQL_risk_cases [of "mc_parse s" q] by auto
  from execute_safe [OF assms(2) this a] have "RiskLevel (analyzeSQL (mc_parse s) q) = RiskSafe"
    using applyImpact_risk [of "analyzeSQL (mc_parse s) q" i] by auto
  then show ?thesis by (rule safe_query_read_only)
qed

end
