(* ===== verification/Agent_Risk.thy ===== *)
theory Agent_Risk
  imports Gateway_Safety
begin

text \<open>
  What the risk bookkeeping of \<^verbatim>\<open>gateway/behavior.go\<close> achieves: how one recorded attempt changes the stored
  state of an agent, that enough attempts within a window put the agent into quarantine, and what a
  late attempt does to a quarantine that is still active. Also what a passed recovery readiness check
  says of the snapshot and the sidecar.
\<close>

section \<open>One attempt\<close>

definition no_faults :: "world \<Rightarrow> bool" where
  "no_faults w \<longleftrightarrow> (\<forall>n. read_fault w n = None \<and> tx_fault w n = None)"

lemma no_faults_same: "same_outside w w' \<Longrightarrow> no_faults w \<Longrightarrow> no_faults w'"
  by (simp add: no_faults_def same_outside_def)

lemma emitAlert_agents:
  "agent_state (store (gw_world (emitAlert s a b c d e f h i j g))) = agent_state (store (gw_world g)) \<and>
   same_outside (gw_world g) (gw_world (emitAlert s a b c d e f h i j g))"
proof (cases "gw_alerts g")
  case (Some sink)
  show ?thesis
    by (auto simp: emitAlert_def Some only_alert_added_def split: prod.split dest!: Emit_effect)
qed (simp add: emitAlert_def)

lemma emitAlert_outside: "gw_world g = w \<Longrightarrow> same_outside w (gw_world (emitAlert s a b c d e f h i j g))"
  using emitAlert_agents by blast

lemma on_metrics_world [simp]: "gw_world (on_metrics f g) = gw_world g"
  by (simp add: on_metrics_def)

lemma SaveAgentState_ok: "no_faults w \<Longrightarrow> fst (SaveAgentState True st w) = None"
  by (simp add: SaveAgentState_def Now_def withTx_def no_faults_def)

lemma attempt_state_agent:
  "(\<forall>st. found = Some st \<longrightarrow> st_AgentID st = agentID) \<Longrightarrow> st_AgentID (fst (attempt_state p agentID a reason now found)) = agentID"
  by (auto simp: attempt_state_def Let_def split: option.split)

lemma stored_state_agent: "stored_state db agentID = Some st \<Longrightarrow> st_AgentID st = agentID"
  by (auto simp: stored_state_def split: option.splits)

lemma stored_state_table: "agent_state db' = agent_state db \<Longrightarrow> stored_state db' i = stored_state db i"
  by (simp add: stored_state_def)

lemma recordRiskAttempt_effect:
  fixes s g agentID a reason
  defines "w \<equiv> gw_world g"
  defines "now \<equiv> clock w (draws w)"
  defines "st \<equiv> fst (attempt_state (mc_policy s) agentID a reason now (stored_state (store w) agentID))"
  assumes "rg_metadata (gw_registry g)" "RiskLevel a \<noteq> RiskSafe" "no_faults w"
    and pr: "printable (st_WindowStartedAt st)" "\<forall>u. st_QuarantineUntil st = Some u \<longrightarrow> printable u"
  shows "let g' = recordRiskAttempt s agentID a reason g in
     stored_state (store (gw_world g')) agentID = Some st \<and> same_outside w (gw_world g') \<and>
     rg_metadata (gw_registry g')"
proof -
  define found where "found = stored_state (store w) agentID"
  obtain nq where st: "attempt_state (mc_policy s) agentID a reason now found = (st, nq)"
    unfolding st_def found_def by (metis prod.collapse)
  have get: "GetAgentState True agentID (drawn w) = (found, drawn (drawn w))"
    using assms(6) by (simp add: GetAgentState_stored found_def no_faults_def)
  define g2 where "g2 = (if nq
     then emitAlert s ''critical'' ''agent_quarantined'' agentID a '''' '''' ''''
       ''Inspect agent behavior and deny similar destructive retries.''
       ''Agent quarantined after repeated risky attempts.'' (on_metrics IncAgentQuarantine (g\<lparr>gw_world := drawn (drawn w)\<rparr>))
     else g\<lparr>gw_world := drawn (drawn w)\<rparr>)"
  have "same_outside w (drawn (drawn w))" by (simp add: same_outside_def)
  moreover have "same_outside (drawn (drawn w)) (gw_world g2)"
    by (simp add: g2_def emitAlert_outside)
  ultimately have so: "same_outside w (gw_world g2)" by (rule same_outside_trans)
  then have "fst (SaveAgentState True st (gw_world g2)) = None"
    using SaveAgentState_ok no_faults_same assms(6) by blast
  then obtain w3 where w3: "SaveAgentState True st (gw_world g2) = (None, w3)" by (metis prod.collapse)
  have id: "st_AgentID st = agentID"
    using attempt_state_agent [of found] stored_state_agent unfolding st_def found_def by blast
  have g': "recordRiskAttempt s agentID a reason g = on_metrics (IncRiskyAttempt (RiskLevel a)) (g2\<lparr>gw_world := w3\<rparr>)"
    using assms(4,5) by (simp add: recordRiskAttempt_def Now_def w_def [symmetric] now_def [symmetric] get st g2_def [symmetric] w3)
  have md: "rg_metadata (gw_registry (recordRiskAttempt s agentID a reason g))"
    using keeps_recordRiskAttempt [of g s agentID a reason] assms(4) unfolding keeps_def by metis
  from SaveAgentState_stored [OF w3 pr] same_outside_trans [OF so] id md show ?thesis
    by (simp add: g' on_metrics_def)
qed

section \<open>Repeated attempts\<close>

fun risk_attempts :: "MCPServer \<Rightarrow> string \<Rightarrow> (sqlAnalysis \<times> string) list \<Rightarrow> gateway \<Rightarrow> gateway" where
  \<comment> \<open>the attempts of one agent, one after the other\<close>
  "risk_attempts s agentID [] g = g"
| "risk_attempts s agentID ((a, reason) # xs) g = risk_attempts s agentID xs (recordRiskAttempt s agentID a reason g)"

definition within_window :: "GatewayPolicy \<Rightarrow> world \<Rightarrow> bool" where
  \<comment> \<open>all readings of the clock lie within one retry window, which is no longer than a quarantine\<close>
  "within_window p w \<longleftrightarrow>
     (\<forall>m n. clock w m - clock w n \<le> seconds (DangerousRetryWindowSeconds p)) \<and>
     seconds (DangerousRetryWindowSeconds p) \<le> seconds (QuarantineDurationSeconds p) \<and>
     (\<forall>n. printable (clock w n) \<and> printable (clock w n + seconds (QuarantineDurationSeconds p)))"

definition counted :: "GatewayPolicy \<Rightarrow> world \<Rightarrow> world \<Rightarrow> string \<Rightarrow> nat \<Rightarrow> bool" where
  \<comment> \<open>the state stored in \<open>w\<close> after \<open>k\<close> attempts\<close>
  "counted p w0 w agentID k \<longleftrightarrow>
     same_outside w0 w \<and>
     (if k = 0 then stored_state (store w) agentID = None
      else \<exists>st n m. stored_state (store w) agentID = Some st \<and> st_RiskyAttempts st = int k \<and>
        st_WindowStartedAt st = clock w0 n \<and>
        st_QuarantineUntil st = (if int k \<ge> MaxBlockedAttemptsPerWindow p
                                 then Some (clock w0 m + seconds (QuarantineDurationSeconds p)) else None))"

lemma Sub_le: "t - u \<le> seconds n \<Longrightarrow> Sub t u \<le> seconds n"
  using wrap64_in_int64 [of "n * Second"] by (simp add: Sub_def seconds_def in_int64_def)

lemma counted_attempt:
  assumes "rg_metadata (gw_registry g)" "RiskLevel a \<noteq> RiskSafe" "no_faults w0" "within_window (mc_policy s) w0"
    and k: "counted (mc_policy s) w0 (gw_world g) agentID k" "int k + 1 < 2 ^ 63"
  shows "counted (mc_policy s) w0 (gw_world (recordRiskAttempt s agentID a reason g)) agentID (Suc k) \<and>
     rg_metadata (gw_registry (recordRiskAttempt s agentID a reason g))"
proof -
  let ?p = "mc_policy s" and ?w = "gw_world g"
  define now where "now = clock ?w (draws ?w)"
  define st where "st = fst (attempt_state ?p agentID a reason now (stored_state (store ?w) agentID))"
  have so: "same_outside w0 ?w" using k(1) by (simp add: counted_def)
  then have now: "now = clock w0 (draws ?w)" by (simp add: now_def same_outside_def)
  have wrap: "wrap64 (int k + 1) = int k + 1" using k(2) by (simp add: wrap64_def)
  have win: "Sub now (clock w0 n) \<le> seconds (DangerousRetryWindowSeconds ?p)" for n
    using assms(4) Sub_le by (simp add: within_window_def now)
  let ?goal = "st_RiskyAttempts st = int (Suc k) \<and> (\<exists>n. st_WindowStartedAt st = clock w0 n) \<and>
    (\<exists>m. st_QuarantineUntil st = (if int (Suc k) \<ge> MaxBlockedAttemptsPerWindow ?p
        then Some (clock w0 m + seconds (QuarantineDurationSeconds ?p)) else None))"
  have st: ?goal
  proof (cases k)
    case 0
    with k(1) have "stored_state (store ?w) agentID = None" by (simp add: counted_def)
    with 0 wrap now show ?thesis by (auto simp: st_def attempt_state_def Let_def)
  next
    case (Suc k')
    with k(1) obtain st0 n where st0: "stored_state (store ?w) agentID = Some st0" "st_RiskyAttempts st0 = int k"
      "st_WindowStartedAt st0 = clock w0 n"
      "int k < MaxBlockedAttemptsPerWindow ?p \<Longrightarrow> st_QuarantineUntil st0 = None"
      by (auto simp: counted_def split: if_splits)
    with wrap win [of n] now show ?thesis by (auto simp: st_def attempt_state_def Let_def algebra_simps)
  qed
  have pr: "printable (st_WindowStartedAt st)" "\<forall>u. st_QuarantineUntil st = Some u \<longrightarrow> printable u"
    using st assms(4) by (auto simp: within_window_def split: if_splits)
  have nf: "no_faults ?w" using no_faults_same [OF so assms(3)] .
  from recordRiskAttempt_effect [of g a s agentID reason, folded now_def, folded st_def, OF assms(1,2) nf pr]
  show ?thesis
    using st same_outside_trans [OF so] by (auto simp: counted_def Let_def)
qed

lemma counted_attempts:
  assumes "rg_metadata (gw_registry g)" "\<forall>x \<in> set xs. RiskLevel (fst x) \<noteq> RiskSafe" "no_faults w0"
    "within_window (mc_policy s) w0" "counted (mc_policy s) w0 (gw_world g) agentID k" "int k + int (length xs) < 2 ^ 63"
  shows "counted (mc_policy s) w0 (gw_world (risk_attempts s agentID xs g)) agentID (k + length xs) \<and>
     rg_metadata (gw_registry (risk_attempts s agentID xs g))"
  using assms
proof (induction xs arbitrary: g k)
  case (Cons x xs)
  obtain a reason where x: "x = (a, reason)" by fastforce
  from counted_attempt [of g a w0 s agentID k reason] Cons.prems x
  have "counted (mc_policy s) w0 (gw_world (recordRiskAttempt s agentID a reason g)) agentID (Suc k)"
    "rg_metadata (gw_registry (recordRiskAttempt s agentID a reason g))" by auto
  with Cons.IH [of "recordRiskAttempt s agentID a reason g" "Suc k"] Cons.prems x show ?case by simp
qed simp

section \<open>Reading checks\<close>

definition later :: "world \<Rightarrow> world \<Rightarrow> bool" where
  \<comment> \<open>the same outside and the same database, with some outcomes consumed\<close>
  "later w w' \<longleftrightarrow> same_outside w w' \<and> store w' = store w"

lemma later_refl [simp]: "later w w" "later w (drawn w)"
  by (simp_all add: later_def)

lemma later_trans: "later u v \<Longrightarrow> later v w \<Longrightarrow> later u w"
  using same_outside_trans by (auto simp: later_def)

lemma ValidateSnapshotRecord_later: "later w (snd (ValidateSnapshotRecord s m w))"
  by (simp add: ValidateSnapshotRecord_def split: option.split)

lemma GetHealth_drawn: "snd (GetHealth True c w) = drawn w"
  by (simp add: GetHealth_def split: option.split)

lemma age_check_later: "later w (snd (age_check s m w))"
  by (simp add: age_check_def Now_def split: option.split)

lemma metadata_check_later: "later w (snd (metadata_check s md m w))"
  using ValidateSnapshotRecord_later [of w True m]
  by (auto simp: metadata_check_def split: option.split prod.split)

section \<open>Properties\<close>


definition risk_server :: MCPServer where
  "risk_server = \<lparr>mc_parse = (\<lambda>q. Inr []), mc_pg = sample_pg, mc_db = True, mc_storage = '''',
     mc_snapshotBeforeCritical = True, mc_snapshotVerifier = None, mc_policy = DefaultGatewayPolicy,
     mc_environment = ''prod'', mc_clusterID = ''c1''\<rparr>"

definition risk_gateway :: gateway where
  "risk_gateway = \<lparr>gw_approval = NewApprovalEngine 60,
     gw_registry = \<lparr>rg_entries = [], rg_auditPath = '''', rg_line = sample_line, rg_auditFile = None, rg_metadata = True\<rparr>,
     gw_metrics = None, gw_pause = None, gw_alerts = None, gw_calls = [], gw_world = quiet_world\<rparr>"

lemma quiet_within_window: "within_window DefaultGatewayPolicy quiet_world"
  using printable_range [of 0] printable_range [of "seconds 1800"]
  by (simp add: within_window_def DefaultGatewayPolicy_def seconds_def wrap64_def Second_def)


text \<open>
  A late attempt lifts a quarantine: an attempt recorded after the agent's window has run out
  starts a fresh record, and with a limit above one the fresh record carries no quarantine, although
  the stored one had not ended. This happens when a request that was waiting for an operator is denied
  or times out after the agent was quarantined.
\<close>

theorem late_attempt_lifts_quarantine:
  assumes "st_QuarantineUntil st = Some til" "now < til" "1 < MaxBlockedAttemptsPerWindow p"
    and "seconds (DangerousRetryWindowSeconds p) < Sub now (st_WindowStartedAt st)"
  shows "st_QuarantineUntil (fst (attempt_state p agentID a reason now (Some st))) = None"
  using assms by (simp add: attempt_state_def Let_def wrap64_def)

theorem late_attempt_lifts_quarantine_witness:
  "st_QuarantineUntil (fst (attempt_state DefaultGatewayPolicy ''a'' sample_delete ''timeout'' (seconds 700)
     (Some \<lparr>st_AgentID = ''a'', st_RiskyAttempts = 3, st_WindowStartedAt = 0,
            st_QuarantineUntil = Some (seconds 2300), st_LastReason = ''denied'', st_LastTable = ''users''\<rparr>))) = None"
  by (rule late_attempt_lifts_quarantine [where til = "seconds 2300"])
    (simp_all add: DefaultGatewayPolicy_def seconds_def wrap64_def Second_def Sub_def)

text \<open>
  C13. A passed readiness check means a fresh snapshot and a live sidecar. When the check returns no
  error: with a snapshot age limit, the manifest's time is readable and at the moment of the check not
  older than the limit; with a metadata store, the store's record of the snapshot was found and agrees
  with the manifest; and with the heartbeat requirement there is a metadata store, its last heartbeat
  of the sidecar says healthy, and it is not older than the limit.
\<close>

theorem readiness_means_ready:
  assumes "checkRecoveryReadiness s metadata m w = (None, w')"
  shows "(0 < MaxSnapshotAgeSeconds (mc_policy s) \<longrightarrow>
      (\<exists>ts. parseManifestTime (m_Timestamp m) = Some ts \<and>
         Sub (clock w (draws w)) ts \<le> seconds (MaxSnapshotAgeSeconds (mc_policy s)))) \<and>
    (metadata \<longrightarrow> (\<exists>u. later w u \<and> fst (ValidateSnapshotRecord True m u) = None)) \<and>
    (RequireSidecarHeartbeat (mc_policy s) \<longrightarrow> metadata \<and>
      (\<exists>u checkedAt. later w u \<and> GetHealth True ''sync'' u = (Some (''healthy'', checkedAt), drawn u) \<and>
         Sub (clock w (Suc (draws u))) checkedAt \<le> seconds (MaxSidecarHeartbeatSeconds (mc_policy s))))"
proof -
  from assms obtain u v where u: "age_check s m w = (None, u)" and v: "metadata_check s metadata m u = (None, v)"
    and hb: "heartbeat_check s metadata v = (None, w')"
    by (auto simp: checkRecoveryReadiness_def split: option.splits prod.splits)
  have wu: "later w u" using age_check_later [of w s m] u by simp
  have wv: "later w v" using metadata_check_later [of u s metadata m] v by (auto intro: later_trans [OF wu])
  have "0 < MaxSnapshotAgeSeconds (mc_policy s) \<longrightarrow> (\<exists>ts. parseManifestTime (m_Timestamp m) = Some ts \<and>
         Sub (clock w (draws w)) ts \<le> seconds (MaxSnapshotAgeSeconds (mc_policy s)))"
    using u by (auto simp: age_check_def Now_def split: if_splits option.splits)
  moreover have md: "(metadata \<longrightarrow> fst (ValidateSnapshotRecord True m u) = None) \<and>
      (RequireSidecarHeartbeat (mc_policy s) \<longrightarrow> metadata)"
    using v by (auto simp: metadata_check_def split: if_splits option.splits prod.splits)
  moreover have "\<exists>checkedAt. GetHealth True ''sync'' v = (Some (''healthy'', checkedAt), drawn v) \<and>
      Sub (clock w (Suc (draws v))) checkedAt \<le> seconds (MaxSidecarHeartbeatSeconds (mc_policy s))"
    if "RequireSidecarHeartbeat (mc_policy s)"
    using hb that md wv GetHealth_drawn [of "''sync''" v]
    by (auto simp: heartbeat_check_def Now_def later_def same_outside_def split: if_splits option.splits prod.splits)
  ultimately show ?thesis using wu wv by blast
qed

text \<open>A store in which the sidecar recorded a snapshot and its heartbeat.\<close>

definition ready_world :: world where
  "ready_world = snd (RecordHealth True ''sync'' ''healthy'' JNull (snd (RecordSnapshot True good_manifest quiet_world)))"

lemma ready_world_store:
  "select_key (snapshots_tbl (store ready_world)) ''snap_1'' =
     Some \<lparr>sn_table_name = ''users'', sn_writer = ''sync-sidecar'', sn_snapshot_scope = ''table'', sn_row_count = 0,
           sn_manifest_key = Some (m_S3ManifestKey good_manifest), sn_timestamp = m_Timestamp good_manifest,
           sn_payload_json = Some (marshal_manifest good_manifest), sn_status = ''valid'', sn_validation_error = ''''\<rparr>"
  "select_key (health_checks (store ready_world)) ''sync'' =
     Some \<lparr>he_status = ''healthy'', he_checked_at = FormatRFC3339Nano 0, he_detail_json = JNull\<rparr>"
  "same_outside quiet_world ready_world"
  by (simp_all add: ready_world_def RecordHealth_def RecordSnapshot_def withTx_def Now_def tab.get_put_same
      good_manifest_def sample_manifest_def zero_manifest_def or_else_def same_outside_def)

lemma ready_world_ready: "fst (checkRecoveryReadiness risk_server True good_manifest ready_world) = None"
proof -
  have clk: "clock ready_world = (\<lambda>_. 0)" "read_fault ready_world = (\<lambda>_. None)"
    using ready_world_store(3) by (auto simp: same_outside_def)
  have health: "GetHealth True ''sync'' (drawn (drawn ready_world)) = (Some (''healthy'', 0), drawn (drawn (drawn ready_world)))"
    using ready_world_store(2) nano.parse_print [OF printable_range [of 0]]
    by (simp add: GetHealth_def clk Second_def)
  have valid: "ValidateSnapshotRecord True good_manifest (drawn ready_world) = (None, drawn (drawn ready_world))"
    using ready_world_store(1) manifest_round_trip [of good_manifest]
    by (simp add: ValidateSnapshotRecord_def clk payload_matches_def good_manifest_def sample_manifest_def
        zero_manifest_def manifest_ints_def in_int64_def)
  show ?thesis
    by (simp add: checkRecoveryReadiness_def age_check_def metadata_check_def heartbeat_check_def sample_time valid health
        Now_def clk Sub_def)
      (simp add: risk_server_def DefaultGatewayPolicy_def seconds_def wrap64_def Second_def)
qed

theorem readiness_means_ready_witness:
  "\<exists>u checkedAt. later ready_world u \<and> GetHealth True ''sync'' u = (Some (''healthy'', checkedAt), drawn u) \<and>
     Sub (clock ready_world (Suc (draws u))) checkedAt \<le> seconds 120"
proof -
  obtain w' where "checkRecoveryReadiness risk_server True good_manifest ready_world = (None, w')"
    using ready_world_ready by (metis prod.collapse)
  from readiness_means_ready [OF this] show ?thesis by (simp add: risk_server_def DefaultGatewayPolicy_def)
qed

end
