(* ===== verification/Mcp_Tools.thy ===== *)
theory Mcp_Tools
  imports Gateway_Safety
begin

text \<open>
  What the tools of the MCP server guarantee besides the execution of queries: which scope a caller
  needs to reach the database, that the restore command survives a shell, and how a batch of
  statements is decided after its impact analysis.
\<close>

section \<open>Scopes\<close>

definition only_probes :: "gateway \<Rightarrow> gateway \<Rightarrow> bool" where
  "only_probes g g' \<longleftrightarrow> gw_approval g' = gw_approval g \<and>
     (\<exists>new. gw_calls g' = gw_calls g @ new \<and> (\<forall>c \<in> set new. probe c))"

lemma only_probes_keeps: "keeps g g' \<Longrightarrow> only_probes g g'"
  by (simp add: keeps_def only_probes_def)

lemma toolAnalyzeQuery_only_probes [simp]: "only_probes g (snd (toolAnalyzeQuery s i raw g))"
proof -
  obtain r g' where "toolAnalyzeQuery s i raw g = (r, g')" by fastforce
  then show ?thesis
    using analyze_for_effect
    by (fastforce simp: toolAnalyzeQuery_def only_probes_def split: option.splits if_splits prod.splits)
qed

lemma toolRestoreSnapshot_only_probes [simp]: "only_probes g (snd (toolRestoreSnapshot s i raw g))"
  by (auto simp: toolRestoreSnapshot_def Let_def only_probes_def split: option.split prod.split)

lemma Handle_without_scope:
  assumes "\<not> contextHasScope ctx ''query:execute''" "Handle s ctx body g = (out, g')"
  shows "(\<exists>r. out = Replied r) \<and> only_probes g g'"
proof -
  have "(\<exists>r. out = Replied r) \<and> only_probes g g'" if "handleToolsCall s ctx req g = (out, g')" for req
    using that assms(1)
    by (auto simp: handleToolsCall_def replied_def only_probes_keeps split: option.splits if_splits)
  then show ?thesis
    using assms(2) by (auto simp: Handle_def only_probes_keeps split: option.splits if_splits)
qed

text \<open>
  Without the scope \<^verbatim>\<open>query:execute\<close> nothing is executed: a request of a principal that lacks it is
  answered at once, whatever tool it calls, no request for approval is opened, and the database sees
  at most the read-only probes of an impact analysis.
\<close>

theorem execute_needs_scope:
  assumes "\<not> contextHasScope ctx ''query:execute''" "Handle s ctx body g = (out, g')"
  shows "(\<exists>r. out = Replied r) \<and> gw_approval g' = gw_approval g \<and>
     (\<exists>new. gw_calls g' = gw_calls g @ new \<and> (\<forall>c \<in> set new. probe c))"
  using Handle_without_scope [OF assms] by (simp add: only_probes_def)

theorem execute_needs_scope_witness:
  "\<exists>r. fst (Handle \<lparr>mc_parse = (\<lambda>q. Inr []), mc_pg = sample_pg, mc_db = True, mc_storage = '''',
        mc_snapshotBeforeCritical = True, mc_snapshotVerifier = None, mc_policy = DefaultGatewayPolicy,
        mc_environment = ''prod'', mc_clusterID = ''c1''\<rparr>
      (Some \<lparr>pr_Name = ''reader'', pr_Token = ''t'', pr_Scopes = [''query:analyze'']\<rparr>) (Some (JObj [(''method'', JStr ''tools/call'')]))
      \<lparr>gw_approval = NewApprovalEngine 60,
        gw_registry = \<lparr>rg_entries = [], rg_auditPath = '''', rg_line = sample_line, rg_auditFile = None, rg_metadata = False\<rparr>,
        gw_metrics = None, gw_pause = None, gw_alerts = None, gw_calls = [], gw_world = quiet_world\<rparr>) = Replied r"
proof -
  have "\<not> contextHasScope (Some \<lparr>pr_Name = ''reader'', pr_Token = ''t'', pr_Scopes = [''query:analyze'']\<rparr>) ''query:execute''"
    by code_simp
  from execute_needs_scope [OF this] show ?thesis by (metis prod.collapse)
qed

section \<open>The restore command\<close>

fun sh_single :: "string \<Rightarrow> (string \<times> string) option" where
  \<comment> \<open>inside single quotes: up to the closing one, everything is literal\<close>
  "sh_single [] = None"
| "sh_single (c # s) = (if c = CHR 0x27 then Some ([], s) else map_option (\<lambda>(v, r). (c # v, r)) (sh_single s))"

lemma sh_single_rest: "sh_single s = Some (v, r) \<Longrightarrow> length r < length s"
  by (induction s arbitrary: v) (auto split: if_splits)

function sh_word :: "string \<Rightarrow> (string \<times> string) option" where
  \<comment> \<open>one word of a POSIX shell command: its value and the text after it, for words made of bare
      characters, escaped characters, single-quoted parts and empty double-quoted parts\<close>
  "sh_word [] = Some ([], [])"
| "sh_word (c # s) =
     (if c = CHR '' '' then Some ([], c # s)
      else if c = CHR 0x27
      then (case sh_single s of
              None \<Rightarrow> None
            | Some (v, r) \<Rightarrow> map_option (\<lambda>(u, t). (v @ u, t)) (sh_word r))
      else if c = CHR 0x5C
      then (case s of [] \<Rightarrow> None | d # r \<Rightarrow> map_option (\<lambda>(u, t). (d # u, t)) (sh_word r))
      else if c = CHR 0x22
      then (case s of d # r \<Rightarrow> (if d = CHR 0x22 then sh_word r else None) | [] \<Rightarrow> None)
      else map_option (\<lambda>(u, t). (c # u, t)) (sh_word s))"
  by pat_completeness auto
termination
  by (relation "measure length") (auto dest: sh_single_rest)

definition word_end :: "string \<Rightarrow> bool" where
  "word_end rest \<longleftrightarrow> rest = [] \<or> hd rest = CHR '' ''"

lemma sh_word_end: "word_end rest \<Longrightarrow> sh_word rest = Some ([], rest)"
  by (cases rest) (auto simp: word_end_def)

lemma sh_single_literal:
  "sh_single (v @ CHR 0x27 # rest) = Some (v, rest)" if "CHR 0x27 \<notin> set v"
  using that by (induction v) auto

abbreviation sh_escape :: "string \<Rightarrow> string" where
  "sh_escape v \<equiv> ReplaceChar v CHR 0x27 [CHR 0x27, CHR 0x5C, CHR 0x27, CHR 0x27]"

lemma sh_word_quoted:
  "word_end rest \<Longrightarrow> sh_word (CHR 0x27 # sh_escape v @ CHR 0x27 # rest) = Some (v, rest)"
proof (induction "length v" arbitrary: v rule: less_induct)
  case less
  show ?case
  proof (cases "CHR 0x27 \<in> set v")
    case False
    then have "sh_escape v = v" by (induction v) (auto simp: ReplaceChar_def)
    with False less.prems show ?thesis by (simp add: sh_single_literal sh_word_end)
  next
    case True
    then obtain a b where v: "v = a @ CHR 0x27 # b" "CHR 0x27 \<notin> set a" by (meson split_list_first)
    have "sh_escape a = a" using v(2) by (induction a) (auto simp: ReplaceChar_def)
    then have "sh_escape v = a @ CHR 0x27 # CHR 0x5C # CHR 0x27 # CHR 0x27 # sh_escape b"
      using v by (simp add: ReplaceChar_def)
    moreover have "sh_word (CHR 0x27 # sh_escape b @ CHR 0x27 # rest) = Some (b, rest)"
      using less.hyps [of b] less.prems v(1) by simp
    ultimately show ?thesis by (simp add: sh_single_literal v)
  qed
qed



section \<open>Batches\<close>

definition schema_drop_batch :: "node option list" where
  \<comment> \<open>\<^verbatim>\<open>DELETE FROM a; DROP SCHEMA s; DELETE FROM b\<close>\<close>
  "schema_drop_batch =
     [Some (DeleteStmt (Some \<lparr>schemaname = '''', relname = ''a''\<rparr>) None),
      Some (DropStmt OBJECT_SCHEMA [Some (StringNode ''s'')]),
      Some (DeleteStmt (Some \<lparr>schemaname = '''', relname = ''b''\<rparr>) None)]"

lemma schema_drop_analysis:
  "analyzeSQL (\<lambda>q. Inr schema_drop_batch) ''x'' =
     \<lparr>RiskLevel = RiskCritical, Operation = ''DELETE'', Table = ''a,b'', Schema = [], StatementCount = 3,
      TableRecoverable = False,
      Reason = ''CRITICAL SQL affects multiple tables; require a single table recovery point'',
      ParseError = None, Impact = None\<rparr>"
  by code_simp

lemma schema_drop_impact:
  "applyImpactAnalysis (analyzeSQL (\<lambda>q. Inr schema_drop_batch) ''x'')
     (fst (analyzeImpact sample_pg True DefaultGatewayPolicy
       \<lparr>eq_Query = ''x'', eq_AgentID = ''agent'', eq_DBURL = '''', eq_SnapshotID = ''''\<rparr>
       (analyzeSQL (\<lambda>q. Inr schema_drop_batch) ''x'') quiet_world)) =
   \<lparr>RiskLevel = RiskImpactCritical, Operation = ''DELETE'', Table = ''a,b'', Schema = [], StatementCount = 3,
    TableRecoverable = True, Reason = ''impact analysis requires exactly one SQL statement'',
    ParseError = None,
    Impact = Some (unknownImpact DefaultGatewayPolicy ''impact analysis requires exactly one SQL statement'')\<rparr>"
proof -
  have trim: "TrimSpace ''a,b'' = ''a,b''" "TrimSpace ''x'' = ''x''"
    by (simp_all add: TrimSpace_plain space_first_def space_last_def)
  have p: "ImpactAnalysisEnabled DefaultGatewayPolicy" "ProtectedTables DefaultGatewayPolicy = []"
    "UnknownImpactAction DefaultGatewayPolicy = ''approve''"
    by (simp_all add: DefaultGatewayPolicy_def)
  show ?thesis
    by (simp add: schema_drop_analysis analyzeImpact_def applyImpactAnalysis_def trim p Let_def unknownImpact_def zero_impact_def)
qed

text \<open>
  Impact analysis can turn a blocked batch into one that only asks for approval. The default
  policy blocks the batch \<^verbatim>\<open>DELETE FROM a; DROP SCHEMA s; DELETE FROM b\<close> as having no single recovery
  point; but its impact is unknown because it is more than one statement, the gateway then marks it as
  recoverable since its table text is not empty, and the decision becomes approve. The snapshot check
  still refuses the table text \<^verbatim>\<open>a,b\<close>, so the schema is safe only while that check is on.
\<close>

theorem impact_unblocks_batch:
  "Action (Decide DefaultGatewayPolicy (analyzeSQL (\<lambda>q. Inr schema_drop_batch) ''x'')) = PolicyActionBlock \<and>
   (let a = analyzeSQL (\<lambda>q. Inr schema_drop_batch) ''x'';
        impact = fst (analyzeImpact sample_pg True DefaultGatewayPolicy
                   \<lparr>eq_Query = ''x'', eq_AgentID = ''agent'', eq_DBURL = '''', eq_SnapshotID = ''''\<rparr> a quiet_world);
        b = applyImpactAnalysis a impact
    in Action (Decide DefaultGatewayPolicy b) = PolicyActionApprove \<and>
       criticalRecoveryTableFromAnalysis b = Inl ''CRITICAL SQL must target exactly one table for sidecar recovery'')"
proof -
  have trim: "TrimSpace ''a,b'' = ''a,b''" by (simp add: TrimSpace_plain space_first_def space_last_def)
  show ?thesis unfolding Let_def schema_drop_impact unfolding schema_drop_analysis
    by (intro conjI) (simp_all add: criticalRecoveryTableFromAnalysis_def trim default_decision)
qed

end
