(* ===== verification/Gateway_Http.thy ===== *)
theory Gateway_Http
  imports Gateway_Safety
begin

text \<open>
  The gateway's HTTP surface, \<^verbatim>\<open>gateway/main.go\<close>: the routes, the handlers, the guards in front of them
  and the limit on concurrent requests. A request is what the handlers read of it: method, cleaned
  path by segments, headers through \<^verbatim>\<open>Header.Get\<close>, query parameters through \<^verbatim>\<open>Query().Get\<close>, and the
  body as reading and decoding it gives. A reply keeps the value handed to \<open>writeJSON\<close>. A handler runs
  in one step, apart from the wait for an operator inside \<open>Handle\<close>: then the request is blocked.
\<close>

section \<open>Requests and replies\<close>

record http_request =
  hr_method :: string
  hr_path :: "string list" \<comment> \<open>a trailing slash is a last segment \<^verbatim>\<open>/\<close>\<close>
  hr_header :: headers
  hr_query :: "string \<Rightarrow> string"
  hr_body :: "string + json option" \<comment> \<open>at most 1 MiB of it: a read error, or the JSON value it is, if any\<close>
  hr_first :: "json option" \<comment> \<open>the first JSON value of the body, if there is one\<close>

datatype reply_value =
    JsonValue json
  | RpcValue MCPResponse
  | PendingValue "ApprovalRequest list"
  | EntriesValue "AuditEntry list" nat
  | SnapshotRows "(string \<times> snapshot_row) list" nat
  | AuditRows "audit_row list" nat
  | AlertRows "alert_row list" nat
  | HealthRows "(string \<times> health_row) list" nat
  | PlainText string

datatype http_outcome = Answered int reply_value | Blocked waiting_query

type_synonym http_handler = "http_request \<Rightarrow> AuthPrincipal option \<Rightarrow> gateway \<Rightarrow> http_outcome \<times> gateway"

definition writeJSON :: "int \<Rightarrow> reply_value \<Rightarrow> http_outcome" where
  "writeJSON status v = Answered status v"

definition error_value :: "string \<Rightarrow> reply_value" where
  \<comment> \<open>\<^verbatim>\<open>map[string]string{"error": e}\<close>\<close>
  "error_value e = JsonValue (JObj [(''error'', JStr e)])"

definition ok_status :: int where "ok_status = 200"

section \<open>Handlers\<close>

definition handleHealth :: http_handler where
  "handleHealth r ctx g =
     (case Now (gw_world g) of
        (now, w) \<Rightarrow>
          (writeJSON ok_status (JsonValue (JObj [(''status'', JStr ''ok''), (''service'', JStr ''backstop-gateway''),
              (''time'', JStr (FormatRFC3339 now))])),
           g\<lparr>gw_world := w\<rparr>))"

definition requireAuth :: "string \<Rightarrow> http_handler \<Rightarrow> http_handler" where
  "requireAuth token next_handler r ctx g =
     (if TrimSpace token = '''' then next_handler r ctx g
      else if \<not> legacyValidAuthToken (hr_header r) token then (writeJSON 401 (error_value ''unauthorized''), g)
      else next_handler r ctx g)"

definition makeMCPHandler :: "MCPServer \<Rightarrow> http_handler" where
  "makeMCPHandler s r ctx g =
     (if \<not> HasPrefix (hr_header r ''Content-Type'') ''application/json''
      then (writeJSON 415 (error_value ''Content-Type must be application/json''), g)
      else case hr_body r of
        Inl e \<Rightarrow> (writeJSON 400 (error_value e), g)
      | Inr body \<Rightarrow>
          (case Handle s ctx body g of
             (Replied resp, g') \<Rightarrow> (writeJSON ok_status (RpcValue resp), g')
           | (Waiting q, g') \<Rightarrow> (Blocked q, g')))"

definition actor_of :: "AuthPrincipal option \<Rightarrow> string" where
  "actor_of ctx = (case ctx of None \<Rightarrow> ''unknown'' | Some who \<Rightarrow> pr_Name who)"

definition makeApproveHandler :: "bool \<Rightarrow> string \<Rightarrow> http_handler" where
  \<comment> \<open>the second argument is \<^verbatim>\<open>r.PathValue("id")\<close>\<close>
  "makeApproveHandler approve i r ctx g =
     (if i = '''' then (writeJSON 400 (error_value ''missing approval id''), g)
      else case (if approve then Approve i (actor_of ctx) (gw_approval g) else Deny i (actor_of ctx) (gw_approval g)) of
        (Some e, en) \<Rightarrow>
          (writeJSON (if e \<noteq> ErrApprovalNotFound then 500 else 404) (error_value (approval_error_text e)),
           g\<lparr>gw_approval := en\<rparr>)
      | (None, en) \<Rightarrow>
          (writeJSON ok_status (JsonValue (JObj [(''status'', JStr (if approve then ''approved'' else ''denied'')),
              (''approval_id'', JStr i)])),
           g\<lparr>gw_approval := en\<rparr>))"

fun body_reason :: "(string \<times> json) list \<Rightarrow> string \<Rightarrow> string" where
  \<comment> \<open>decoding into \<^verbatim>\<open>Reason\<close>: a value of another type is skipped, since the error is ignored\<close>
  "body_reason [] r = r"
| "body_reason ((k, v) # kvs) r =
     body_reason kvs (if EqualFold ''reason'' k then (case v of JStr x \<Rightarrow> x | _ \<Rightarrow> r) else r)"

definition pause_reason :: "bool \<Rightarrow> json option \<Rightarrow> string" where
  "pause_reason paused body =
     (let reason = TrimSpace (case body of Some (JObj kvs) \<Rightarrow> body_reason kvs '''' | _ \<Rightarrow> '''')
      in if reason \<noteq> '''' then reason
         else if paused then ''manual emergency pause'' else ''manual emergency resume'')"

definition set_paused :: "bool \<Rightarrow> string \<Rightarrow> gateway \<Rightarrow> string option \<times> gateway" where
  \<comment> \<open>\<^verbatim>\<open>controller.SetPaused\<close>, which does nothing on a nil controller\<close>
  "set_paused paused reason g =
     (case gw_pause g of
        None \<Rightarrow> (None, g)
      | Some p \<Rightarrow>
          (case SetPaused paused reason p (gw_world g) of
             (err, p', w) \<Rightarrow> (err, g\<lparr>gw_pause := Some p', gw_world := w\<rparr>)))"

definition pause_alert :: "MCPServer \<Rightarrow> string \<Rightarrow> string \<Rightarrow> GatewayAlertPayload" where
  "pause_alert s eventType reason =
     \<lparr>gp_Severity = ''critical'', gp_EventType = eventType, gp_Environment = mc_environment s,
      gp_ClusterID = mc_clusterID s, gp_AgentID = '''', gp_RiskLevel = '''', gp_Operation = '''', gp_Schema = '''',
      gp_Table = '''', gp_QuerySHA256 = '''', gp_ApprovalID = '''', gp_SnapshotID = '''',
      gp_RecommendedAction = ''Review active agents and pending destructive operations before resuming writes.'',
      gp_Timestamp = '''', gp_Message = reason\<rparr>"

definition emit_on :: "GatewayAlertPayload \<Rightarrow> gateway \<Rightarrow> gateway" where
  \<comment> \<open>\<^verbatim>\<open>alerts.Emit\<close>, which does nothing on a nil sink\<close>
  "emit_on payload g =
     (case gw_alerts g of
        None \<Rightarrow> g
      | Some sink \<Rightarrow>
          (case Emit payload sink (gw_metrics g) (gw_world g) of
             (sink', m, w) \<Rightarrow> g\<lparr>gw_alerts := Some sink', gw_metrics := m, gw_world := w\<rparr>))"

definition makePauseHandler :: "MCPServer \<Rightarrow> bool \<Rightarrow> http_handler" where
  "makePauseHandler s paused r ctx g =
     (let reason = pause_reason paused (hr_first r);
          eventType = (if paused then ''emergency_paused'' else ''emergency_resumed'')
      in case set_paused paused reason g of
           (Some e, g1) \<Rightarrow> (writeJSON 500 (error_value e), g1)
         | (None, g1) \<Rightarrow>
             (let g2 = emit_on (pause_alert s eventType reason) (on_metrics (SetPauseState paused) g1)
              in (writeJSON ok_status (JsonValue (JObj [(''status'', JStr eventType), (''pause'', PauseStatus (gw_pause g2))])),
                  g2)))"

definition makeAdminStatusHandler :: "MCPServer \<Rightarrow> http_handler" where
  "makeAdminStatusHandler s r ctx g =
     (writeJSON ok_status (JsonValue (JObj [(''environment'', JStr (mc_environment s)),
        (''cluster_id'', JStr (mc_clusterID s)), (''pause'', PauseStatus (gw_pause g))])), g)"

definition makePendingHandler :: http_handler where
  "makePendingHandler r ctx g = (writeJSON ok_status (PendingValue (PendingList (gw_approval g))), g)"

definition makeAuditHandler :: http_handler where
  "makeAuditHandler r ctx g =
     (let agentID = hr_query r ''agent_id'';
          entries = (if agentID \<noteq> '''' then GetHistory agentID (gw_registry g) else AllEntries (gw_registry g))
      in (writeJSON ok_status (EntriesValue entries (length entries)), g))"

definition makeGatewayMetricsHandler :: http_handler where
  "makeGatewayMetricsHandler r ctx g = (Answered ok_status (PlainText (Prometheus (gw_metrics g))), g)"

definition writeMetadataResponse ::
  "('r list \<Rightarrow> nat \<Rightarrow> reply_value) \<Rightarrow> (string + 'r list) \<times> world \<Rightarrow> gateway \<Rightarrow> http_outcome \<times> gateway" where
  "writeMetadataResponse items res g =
     (case res of
        (Inl e, w) \<Rightarrow> (writeJSON 500 (error_value e), g\<lparr>gw_world := w\<rparr>)
      | (Inr rows, w) \<Rightarrow> (writeJSON ok_status (items rows (length rows)), g\<lparr>gw_world := w\<rparr>))"

definition makeMetadataSnapshotsHandler :: "bool \<Rightarrow> http_handler" where
  "makeMetadataSnapshotsHandler metadata r ctx g =
     (let latestValidOnly = (hr_query r ''latest'' = ''valid'' \<or> hr_query r ''latest_valid'' = ''true'')
      in writeMetadataResponse SnapshotRows (QuerySnapshots metadata (hr_query r ''table'') latestValidOnly (gw_world g)) g)"

definition makeMetadataAuditHandler :: "bool \<Rightarrow> http_handler" where
  "makeMetadataAuditHandler metadata r ctx g =
     writeMetadataResponse AuditRows (QueryAudit metadata (hr_query r ''agent_id'') (hr_query r ''risk'') (gw_world g)) g"

definition makeMetadataAlertsHandler :: "bool \<Rightarrow> http_handler" where
  "makeMetadataAlertsHandler metadata r ctx g = writeMetadataResponse AlertRows (QueryAlerts metadata (gw_world g)) g"

definition makeMetadataHealthHandler :: "bool \<Rightarrow> http_handler" where
  "makeMetadataHealthHandler metadata r ctx g = writeMetadataResponse HealthRows (QueryHealth metadata (gw_world g)) g"

section \<open>Routes and guards\<close>

text \<open>
  The patterns of the \<^verbatim>\<open>http.ServeMux\<close>. A \<^verbatim>\<open>GET\<close> pattern also takes \<^verbatim>\<open>HEAD\<close>; a wildcard takes one
  segment that is not a trailing slash; \<^verbatim>\<open>POST /\<close> takes every other path, so a request that matches
  nothing has the wrong method for its path and is answered with 405.
\<close>

datatype endpoint =
    EpHealth
  | EpMCP
  | EpDecision bool string
  | EpPending
  | EpAudit
  | EpSnapshots
  | EpMetadataAudit
  | EpAlerts
  | EpMetadataHealth
  | EpPause bool
  | EpAdminStatus
  | EpMetrics

definition get_routes :: "(string list \<times> endpoint) list" where
  "get_routes =
     [([''health''], EpHealth), ([''pending''], EpPending), ([''audit''], EpAudit),
      ([''metadata'', ''snapshots''], EpSnapshots), ([''metadata'', ''audit''], EpMetadataAudit),
      ([''metadata'', ''alerts''], EpAlerts), ([''metadata'', ''health''], EpMetadataHealth),
      ([''admin'', ''status''], EpAdminStatus), ([''metrics''], EpMetrics)]"

definition post_route :: "string list \<Rightarrow> endpoint" where
  "post_route path =
     (case path of
        [a, b] \<Rightarrow>
          (if a = ''approve'' \<and> b \<noteq> ''/'' then EpDecision True b
           else if a = ''deny'' \<and> b \<noteq> ''/'' then EpDecision False b
           else if a = ''admin'' \<and> b = ''pause'' then EpPause True
           else if a = ''admin'' \<and> b = ''resume'' then EpPause False
           else EpMCP)
      | _ \<Rightarrow> EpMCP)"

definition route :: "http_request \<Rightarrow> endpoint option" where
  "route r =
     (if hr_method r = ''GET'' \<or> hr_method r = ''HEAD'' then map_of get_routes (hr_path r)
      else if hr_method r = ''POST'' then Some (post_route (hr_path r))
      else None)"

record http_config =
  hc_server :: MCPServer
  hc_auth :: "TokenAuthenticator option"
  hc_metadata :: bool
  hc_metricsPublic :: bool
  hc_maxConcurrent :: int

definition required_scope :: "http_config \<Rightarrow> endpoint \<Rightarrow> string option" where
  \<comment> \<open>the scope a route is registered with; \<open>None\<close> for a handler without a guard\<close>
  "required_scope c ep =
     (case ep of
        EpHealth \<Rightarrow> None
      | EpMCP \<Rightarrow> Some ''''
      | EpDecision _ _ \<Rightarrow> Some ''approval:write''
      | EpPending \<Rightarrow> Some ''approval:read''
      | EpPause _ \<Rightarrow> Some ''admin:*''
      | EpAdminStatus \<Rightarrow> Some ''admin:*''
      | EpMetrics \<Rightarrow> (if hc_metricsPublic c then None else Some ''metrics:read'')
      | _ \<Rightarrow> Some ''metadata:read'')"

definition handler_of :: "http_config \<Rightarrow> endpoint \<Rightarrow> http_handler" where
  "handler_of c ep =
     (case ep of
        EpHealth \<Rightarrow> handleHealth
      | EpMCP \<Rightarrow> makeMCPHandler (hc_server c)
      | EpDecision approve i \<Rightarrow> makeApproveHandler approve i
      | EpPending \<Rightarrow> makePendingHandler
      | EpAudit \<Rightarrow> makeAuditHandler
      | EpSnapshots \<Rightarrow> makeMetadataSnapshotsHandler (hc_metadata c)
      | EpMetadataAudit \<Rightarrow> makeMetadataAuditHandler (hc_metadata c)
      | EpAlerts \<Rightarrow> makeMetadataAlertsHandler (hc_metadata c)
      | EpMetadataHealth \<Rightarrow> makeMetadataHealthHandler (hc_metadata c)
      | EpPause paused \<Rightarrow> makePauseHandler (hc_server c) paused
      | EpAdminStatus \<Rightarrow> makeAdminStatusHandler (hc_server c)
      | EpMetrics \<Rightarrow> makeGatewayMetricsHandler)"

fun answer_of :: "response \<Rightarrow> http_outcome" where
  "answer_of (Response status v) = writeJSON status (JsonValue v)"

definition on_counters ::
  "(GatewayMetrics option \<times> world \<Rightarrow> GatewayMetrics option \<times> world) \<Rightarrow> gateway \<Rightarrow> gateway" where
  "on_counters f g = (case f (gw_metrics g, gw_world g) of (m, w) \<Rightarrow> g\<lparr>gw_metrics := m, gw_world := w\<rparr>)"

definition guarded :: "http_config \<Rightarrow> endpoint \<Rightarrow> http_request \<Rightarrow> gateway \<Rightarrow> http_outcome \<times> gateway" where
  "guarded c ep r g =
     (case required_scope c ep of
        None \<Rightarrow> handler_of c ep r None g
      | Some scope \<Rightarrow>
          requireScopedAuth (hc_auth c) (hc_metadata c) scope (handler_of c ep r) answer_of on_counters (hr_header r) g)"

definition limitConcurrent ::
  "int \<Rightarrow> (gateway \<Rightarrow> http_outcome \<times> gateway) \<Rightarrow> nat \<Rightarrow> gateway \<Rightarrow> http_outcome \<times> nat \<times> gateway" where
  \<comment> \<open>the third argument is the number of slots taken; a request that blocks keeps its slot\<close>
  "limitConcurrent max_requests next_handler sem g =
     (if max_requests \<le> 0 then (case next_handler g of (out, g') \<Rightarrow> (out, sem, g'))
      else if int sem < max_requests
      then (case next_handler g of
              (Answered status v, g') \<Rightarrow> (Answered status v, sem, g')
            | (Blocked q, g') \<Rightarrow> (Blocked q, Suc sem, g'))
      else (writeJSON 429 (error_value ''too many concurrent requests''), sem, g))"

definition release :: "int \<Rightarrow> nat \<Rightarrow> nat" where
  \<comment> \<open>the deferred receive, when a blocked request ends\<close>
  "release max_requests sem = (if max_requests \<le> 0 then sem else sem - 1)"

definition serve :: "http_config \<Rightarrow> http_request \<Rightarrow> nat \<Rightarrow> gateway \<Rightarrow> http_outcome \<times> nat \<times> gateway" where
  "serve c r sem g =
     (case route r of
        None \<Rightarrow> (Answered 405 (PlainText ''Method Not Allowed''), sem, g)
      | Some ep \<Rightarrow>
          (if ep = EpMCP then limitConcurrent (hc_maxConcurrent c) (guarded c EpMCP r) sem g
           else (case guarded c ep r g of (out, g') \<Rightarrow> (out, sem, g'))))"

section \<open>The served gateway\<close>

text \<open>
  The state of the served gateway is that of \<^const>\<open>gateway_step\<close>, the slots taken and, as history, the
  requests served so far. Serving a decision on an approval that passes its guard is a signal of an
  operator.
\<close>

record http_sys =
  hs_gw :: gateway_sys
  hs_sem :: nat
  hs_seen :: "http_request list"

definition caller :: "http_config \<Rightarrow> endpoint \<Rightarrow> http_request \<Rightarrow> AuthPrincipal option option" where
  \<comment> \<open>the context the handler runs with, if the guard lets the request pass\<close>
  "caller c ep r =
     (case required_scope c ep of
        None \<Rightarrow> Some None
      | Some scope \<Rightarrow>
          (if \<not> Enabled (hc_auth c) then Some None
           else case Authenticate (hc_auth c) (hr_header r) of
                  None \<Rightarrow> None
                | Some who \<Rightarrow> (if hasScope who scope then Some (Some who) else None)))"

definition signals :: "http_config \<Rightarrow> http_request \<Rightarrow> ApprovalEngine \<Rightarrow> approval_event list" where
  "signals c r e =
     (case route r of
        Some (EpDecision approve i) \<Rightarrow>
          (case caller c (EpDecision approve i) r of
             Some ctx \<Rightarrow> (if i = '''' then []
                          else [Signalled i \<lparr>rs_Approved = approve, rs_Actor = actor_of ctx\<rparr> (reached i e)])
           | None \<Rightarrow> [])
      | _ \<Rightarrow> [])"

definition sends :: "gateway_sys \<Rightarrow> gateway \<Rightarrow> (waiting_query \<times> ApprovalResolution) option \<Rightarrow>
    (db_call \<times> PauseController option \<times> (waiting_query \<times> ApprovalResolution) option) list" where
  "sends t g' cause = map (\<lambda>c. (c, gw_pause (gs_gateway t), cause)) (new_execs (gs_gateway t) g')"

inductive http_step :: "http_config \<Rightarrow> http_sys \<Rightarrow> http_sys \<Rightarrow> bool" for c where
  answers: "serve c r (hs_sem h) (gs_gateway (hs_gw h)) = (Answered status v, sem, g') \<Longrightarrow> t = hs_gw h \<Longrightarrow>
    http_step c h \<lparr>hs_gw = t\<lparr>gs_gateway := g', gs_log := signals c r (gw_approval (gs_gateway t)) @ gs_log t,
                             gs_sent := sends t g' None @ gs_sent t\<rparr>,
                   hs_sem = sem, hs_seen = r # hs_seen h\<rparr>"
| blocks: "serve c r (hs_sem h) (gs_gateway (hs_gw h)) = (Blocked q, sem, g') \<Longrightarrow> t = hs_gw h \<Longrightarrow>
    http_step c h \<lparr>hs_gw = t\<lparr>gs_gateway := g', gs_inflight := q # gs_inflight t,
                             gs_log := Requested (wq_chan q) (wq_details q) # gs_log t,
                             gs_sent := sends t g' None @ gs_sent t\<rparr>,
                   hs_sem = sem, hs_seen = r # hs_seen h\<rparr>"
| wakes: "t = hs_gw h \<Longrightarrow> q \<in> set (gs_inflight t) \<Longrightarrow>
    RequestApproval_end (wq_details q) (wq_chan q) k (gw_approval (gs_gateway t)) = Some ((res, err), e) \<Longrightarrow>
    toolExecuteQuery_resume (hc_server c) q res err ((gs_gateway t)\<lparr>gw_approval := e\<rparr>) = (resp, g') \<Longrightarrow>
    http_step c h (h\<lparr>hs_gw := t\<lparr>gs_gateway := g', gs_inflight := filter (\<lambda>p. wq_chan p \<noteq> wq_chan q) (gs_inflight t),
                               gs_log := Resolved (wq_chan q) (wq_details q) res err # gs_log t,
                               gs_sent := sends t g' (Some (q, res)) @ gs_sent t\<rparr>,
                     hs_sem := release (hc_maxConcurrent c) (hs_sem h)\<rparr>)"
| elsewhere: "t = hs_gw h \<Longrightarrow>
    http_step c h (h\<lparr>hs_gw := t\<lparr>gs_gateway := (gs_gateway t)\<lparr>gw_world := w\<rparr>\<rparr>\<rparr>)"

inductive_cases http_step_cases: "http_step c h h'"

definition http_init :: "http_sys \<Rightarrow> bool" where
  "http_init h \<longleftrightarrow> gateway_init (hs_gw h) \<and> hs_sem h = 0 \<and> hs_seen h = []"

end
