(* ===== verification/Gateway_Properties.thy ===== *)
theory Gateway_Properties
  imports Gateway_Safety
begin

text \<open>
  The properties of the gateway as a whole, over the step relation and the invariant of
  \<open>Gateway_Safety\<close>: what reaches the database, what was verified before it did, how agents are
  quarantined, and what the other tools do. A sample run shows that the hypotheses can be met.
\<close>

section \<open>Approved queries run\<close>

lemma executeSQL_sends:
  "mc_db s \<Longrightarrow> gw_calls (snd (executeSQL s args a g)) = gw_calls g @ [text_of a (eq_Query args)]"
  by (auto simp: executeSQL_def Let_def text_of_def split: sum.split option.split)

lemma on_metrics_calls [simp]: "gw_calls (on_metrics f g) = gw_calls g"
  by (simp add: on_metrics_def)

lemma resume_runs:
  assumes "mc_db s" "binding_holds s q" "\<not> BlocksRisk (gw_pause g) (RiskLevel (wq_analysis q))" "rs_Approved r"
    and res: "toolExecuteQuery_resume s q r None g = (resp, g')"
  shows "gw_calls g' = gw_calls g @ [text_of (wq_analysis q) (eq_Query (wq_args q))]"
proof -
  let ?h = "on_metrics (IncApproval ''approved'') (resolve_record (ad_ID (wq_details q)) ''approved'' (rs_Actor r)
      (audit s (wq_args q) (RiskLevel (wq_analysis q)) (rs_Approved r) (ad_QuerySHA256 (wq_details q)) g))"
  have k: "keeps g ?h" by (intro keeps_chain) simp
  have run: "run_approved s q ?h = (resp, g')"
    using assms by (simp add: toolExecuteQuery_resume_def Let_def)
  obtain x g1 where x: "executeSQL s (wq_args q) (wq_analysis q) ?h = (x, g1)" by fastforce
  have "gw_calls g' = gw_calls g1"
    using run by (cases x) (auto simp: run_approved_def Let_def x)
  with executeSQL_sends [OF assms(1), of "wq_args q" "wq_analysis q" ?h] x k show ?thesis
    by (simp add: keeps_def)
qed

lemma resume_decided:
  assumes "mc_db s" "waiting_ok s q" "chan_value (wq_chan q) (gw_approval g) = Some r" "rs_Approved r"
    and "\<not> BlocksRisk (gw_pause g) (RiskLevel (wq_analysis q))"
  obtains e resp g' where "RequestApproval_end (wq_details q) (wq_chan q) Decided (gw_approval g) = Some ((r, None), e)"
    "toolExecuteQuery_resume s q r None (g\<lparr>gw_approval := e\<rparr>) = (resp, g')"
    "new_execs g g' = [text_of (wq_analysis q) (eq_Query (wq_args q))]"
proof -
  obtain e where e: "RequestApproval_end (wq_details q) (wq_chan q) Decided (gw_approval g) = Some ((r, None), e)"
    using assms(3,4) by (simp add: RequestApproval_end_def Let_def)
  obtain resp g' where r: "toolExecuteQuery_resume s q r None (g\<lparr>gw_approval := e\<rparr>) = (resp, g')"
    by fastforce
  have "gw_calls g' = gw_calls g @ [text_of (wq_analysis q) (eq_Query (wq_args q))]"
    using resume_runs [OF assms(1) waiting_ok_binding [OF assms(2)] _ assms(4) r] assms(5) by simp
  then have "new_execs g g' = [text_of (wq_analysis q) (eq_Query (wq_args q))]"
    by (simp add: new_execs_def)
  with e r show ?thesis by (rule that)
qed

lemma approved_step:
  assumes "mc_db s" "waiting_ok s q" "q \<in> set (gs_inflight t)"
    and "chan_value (wq_chan q) (gw_approval (gs_gateway t)) = Some r" "rs_Approved r"
    and "\<not> BlocksRisk (gw_pause (gs_gateway t)) (RiskLevel (wq_analysis q))"
  shows "\<exists>u. gateway_step s t u \<and>
     (text_of (wq_analysis q) (eq_Query (wq_args q)), gw_pause (gs_gateway t), Some (q, r)) \<in> set (gs_sent u)"
proof -
  obtain e resp g' where
    e: "RequestApproval_end (wq_details q) (wq_chan q) Decided (gw_approval (gs_gateway t)) = Some ((r, None), e)"
    and r: "toolExecuteQuery_resume s q r None ((gs_gateway t)\<lparr>gw_approval := e\<rparr>) = (resp, g')"
    and "new_execs (gs_gateway t) g' = [text_of (wq_analysis q) (eq_Query (wq_args q))]"
    by (rule resume_decided [OF assms(1,2,4-)])
  with gateway_step.resumes [OF assms(3) e r] show ?thesis by fastforce
qed

section \<open>A run of the gateway\<close>

text \<open>
  A gateway with the default policy and a database that answers as \<open>sample_pg\<close>: an agent asks for a
  DELETE of one row, an operator approves it, and it is executed.
\<close>

definition delete_parse :: "string \<Rightarrow> string + node option list" where
  "delete_parse q = Inr [Some (DeleteStmt (Some \<lparr>schemaname = '''', relname = ''users''\<rparr>) (Some EmptyNode))]"

definition sample_server :: MCPServer where
  "sample_server = \<lparr>mc_parse = delete_parse, mc_pg = sample_pg, mc_db = True, mc_storage = '''',
     mc_snapshotBeforeCritical = True, mc_snapshotVerifier = None, mc_policy = DefaultGatewayPolicy,
     mc_environment = ''prod'', mc_clusterID = ''c1''\<rparr>"

definition sample_gateway :: gateway where
  "sample_gateway = \<lparr>gw_approval = NewApprovalEngine 60,
     gw_registry = \<lparr>rg_entries = [], rg_auditPath = '''', rg_line = sample_line, rg_auditFile = None, rg_metadata = False\<rparr>,
     gw_metrics = None, gw_pause = None, gw_alerts = None, gw_calls = [], gw_world = quiet_world\<rparr>"

definition sample_body :: json where
  "sample_body = JObj [(''jsonrpc'', JStr ''2.0''), (''id'', JInt 1), (''method'', JStr ''tools/call''),
     (''params'', JObj [(''name'', JStr ''execute_query''),
        (''arguments'', JObj [(''query'', JStr ''DELETE FROM users WHERE id = 1''), (''agent_id'', JStr ''a'')])])]"

definition sample_start :: gateway_sys where
  "sample_start = \<lparr>gs_gateway = sample_gateway, gs_inflight = [], gs_log = [], gs_sent = []\<rparr>"

definition sample_analysis :: sqlAnalysis where
  "sample_analysis = applyImpactAnalysis sample_delete (Some (impact_of_counts DefaultGatewayPolicy 10 1000))"

definition sample_waiting :: waiting_query where
  "sample_waiting = \<lparr>wq_id = JInt 1, wq_args = sample_args, wq_analysis = sample_analysis,
     wq_decision = Decide DefaultGatewayPolicy sample_analysis,
     wq_details = approval_details sample_server sample_args sample_analysis ''appr_00'',
     wq_recovery = zero_manifest, wq_chan = 0\<rparr>"

lemma sample_sql: "analyzeSQL delete_parse ''DELETE FROM users WHERE id = 1'' = sample_delete"
  by (simp add: analyzeSQL_def sample_trim delete_parse_def sample_delete_def batch0_def batch_step_def
      batch_result_def rangeVarParts_def highAnalysis_def Let_def)

lemma sample_not_critical: "\<not> ImpactCritical (impact_of_counts DefaultGatewayPolicy 10 1000)"
  by (simp add: impact_of_counts_def sample_percent zero_impact_def DefaultGatewayPolicy_def)

lemma sample_analysis_fields [simp]:
  "RiskLevel sample_analysis = RiskHigh" "Operation sample_analysis = ''DELETE''"
  by (simp_all add: sample_analysis_def applyImpactAnalysis_def sample_not_critical sample_delete_def highAnalysis_def)

lemma sample_decision:
  "Action (Decide DefaultGatewayPolicy sample_analysis) = PolicyActionApprove"
  "RequiresRecovery (Decide DefaultGatewayPolicy sample_analysis) = False"
  by (simp_all add: default_decision)

lemma sample_decodes:
  "decode_struct request_fields sample_body \<lparr>mr_JSONRPC = '''', mr_ID = JNull, mr_Method = '''', mr_Params = None\<rparr> =
     Some \<lparr>mr_JSONRPC = ''2.0'', mr_ID = JInt 1, mr_Method = ''tools/call'', mr_Params = Some (JObj
       [(''name'', JStr ''execute_query''),
        (''arguments'', JObj [(''query'', JStr ''DELETE FROM users WHERE id = 1''), (''agent_id'', JStr ''a'')])])\<rparr>"
  "decode_struct call_fields (JObj [(''name'', JStr ''execute_query''),
        (''arguments'', JObj [(''query'', JStr ''DELETE FROM users WHERE id = 1''), (''agent_id'', JStr ''a'')])])
     \<lparr>tc_Name = '''', tc_Arguments = None\<rparr> =
     Some \<lparr>tc_Name = ''execute_query'',
       tc_Arguments = Some (JObj [(''query'', JStr ''DELETE FROM users WHERE id = 1''), (''agent_id'', JStr ''a'')])\<rparr>"
  "decode_struct execute_fields (JObj [(''query'', JStr ''DELETE FROM users WHERE id = 1''), (''agent_id'', JStr ''a'')])
     zero_args = Some sample_args"
  by code_simp+

lemma sample_analyzed:
  "\<exists>calls w. analyze_for sample_server sample_args sample_gateway =
     (sample_analysis, Decide DefaultGatewayPolicy sample_analysis, sample_gateway\<lparr>gw_calls := calls, gw_world := w\<rparr>) \<and>
     (\<forall>c \<in> set calls. probe c) \<and> same_outside quiet_world w"
proof -
  obtain i calls w where i: "analyzeImpact sample_pg True DefaultGatewayPolicy sample_args sample_delete quiet_world = (i, calls, w)"
    by (metis prod_cases3)
  with sample_impact have "i = Some (impact_of_counts DefaultGatewayPolicy 10 1000)" by simp
  with i analyzeImpact_probes [OF i] show ?thesis
    by (auto simp: analyze_for_def sample_server_def sample_args_def sample_gateway_def sample_analysis_def
        sample_sql Let_def)
qed

definition sample_engine :: "ApprovalResolution option \<Rightarrow> ApprovalEngine" where
  "sample_engine v = \<lparr>en_timeout = 60,
     en_pending = [(''appr_00'', \<lparr>pa_details = wq_details sample_waiting, pa_createdAt = 0, pa_decision = 0\<rparr>)],
     en_chans = [v]\<rparr>"

lemma sample_details_id [simp]: "ad_ID (wq_details sample_waiting) = ''appr_00''" "wq_chan sample_waiting = 0"
  by (simp_all add: sample_waiting_def approval_details_def)

lemma sample_handled:
  "\<exists>g. Handle sample_server ctx (Some sample_body) sample_gateway = (Waiting sample_waiting, g) \<and>
     gw_approval g = sample_engine None \<and> gw_pause g = None"
  if "contextHasScope ctx ''query:execute''"
proof -
  from sample_analyzed obtain calls w where
    a: "analyze_for sample_server sample_args sample_gateway =
      (sample_analysis, Decide DefaultGatewayPolicy sample_analysis, sample_gateway\<lparr>gw_calls := calls, gw_world := w\<rparr>)"
    and w: "same_outside quiet_world w" by blast
  let ?g = "sample_gateway\<lparr>gw_calls := calls, gw_world := w\<rparr>"
  have "Handle sample_server ctx (Some sample_body) sample_gateway = execute_query_args sample_server (JInt 1) sample_args sample_gateway"
    by (simp add: Handle_def sample_decodes handleToolsCall_def that toolExecuteQuery_begin_def)
      (simp add: sample_args_def sample_trim)
  also have "\<dots> = approve_branch sample_server (JInt 1) sample_args sample_analysis (Decide DefaultGatewayPolicy sample_analysis) ?g"
    by (simp add: execute_query_args_def a)
      (simp add: sample_gateway_def BlocksRisk_def agentQuarantined_def decide_branch_def sample_decision Let_def)
  also have "\<dots> = (Waiting sample_waiting, ?g\<lparr>gw_approval := sample_engine None, gw_world := drawn (drawn w)\<rparr>)"
    using w by (simp add: approve_branch_def sample_decision generateID_def same_outside_def ask_operator_def
        RecordApprovalRequested_def emitAlert_def sample_gateway_def RequestApproval_begin_def NewApprovalEngine_def
        Now_def sample_engine_def sample_waiting_def approval_details_def Let_def)
  finally show ?thesis by (auto simp: sample_gateway_def)
qed

text \<open>From a request that waits, an approval leads to its execution.\<close>

lemma approval_signalled:
  assumes "gateway_init t0" "Handle s None (Some body) (gs_gateway t0) = (Waiting q, g)"
  shows "\<exists>t e. (gateway_step s)\<^sup>*\<^sup>* t0 t \<and> gs_gateway t = g\<lparr>gw_approval := e\<rparr> \<and> q \<in> set (gs_inflight t) \<and>
     chan_value (wq_chan q) e = Some r"
proof -
  from gateway_step.waits [OF assms(2)] obtain t1 where 1: "gateway_step s t0 t1"
    and t1: "gs_gateway t1 = g" "q \<in> set (gs_inflight t1)"
    by fastforce
  obtain timeout where e0: "gw_approval (gs_gateway t0) = NewApprovalEngine timeout"
    using assms(1) by (auto simp: gateway_init_def)
  obtain now where e1: "RequestApproval_begin (wq_details q) now (NewApprovalEngine timeout) = (Inr (wq_chan q), gw_approval g)"
    using Handle_effect [OF assms(2)] by (auto simp: begin_effect_def e0)
  let ?i = "ad_ID (wq_details q)"
  have ga: "gw_approval g = \<lparr>en_timeout = timeout, en_pending = [(?i, \<lparr>pa_details = wq_details q, pa_createdAt = now, pa_decision = 0\<rparr>)],
      en_chans = [None]\<rparr>" "wq_chan q = 0"
    using e1 by (auto simp: RequestApproval_begin_def NewApprovalEngine_def Let_def split: if_splits)
  obtain e where sig: "signal ?i r (gw_approval (gs_gateway t1)) = (None, e)" and e: "chan_value (wq_chan q) e = Some r"
    by (simp add: t1 ga signal_def chan_value_def)
  from gateway_step.operator [OF sig, of s] obtain t2 where "gateway_step s t1 t2"
    "gs_gateway t2 = g\<lparr>gw_approval := e\<rparr>" "q \<in> set (gs_inflight t2)"
    using t1 by fastforce
  with 1 e show ?thesis by (meson converse_rtranclp_into_rtranclp rtranclp.rtrancl_refl)
qed

lemma approval_run:
  assumes "gateway_init t0" "Handle s None (Some body) (gs_gateway t0) = (Waiting q, g)" "mc_db s"
    and "\<not> BlocksRisk (gw_pause g) (RiskLevel (wq_analysis q))" "rs_Approved r"
  shows "\<exists>t. (gateway_step s)\<^sup>*\<^sup>* t0 t \<and>
     (text_of (wq_analysis q) (eq_Query (wq_args q)), gw_pause g, Some (q, r)) \<in> set (gs_sent t)"
proof -
  obtain t e where t: "(gateway_step s)\<^sup>*\<^sup>* t0 t" "gs_gateway t = g\<lparr>gw_approval := e\<rparr>" "q \<in> set (gs_inflight t)"
    "chan_value (wq_chan q) e = Some r"
    using approval_signalled [OF assms(1,2)] by blast
  have "waiting_ok s q" using Handle_effect [OF assms(2)] by (simp add: begin_effect_def)
  from approved_step [OF assms(3) this t(3)] obtain u where "gateway_step s t u"
    "(text_of (wq_analysis q) (eq_Query (wq_args q)), gw_pause g, Some (q, r)) \<in> set (gs_sent u)"
    using t assms(4,5) by auto
  with t(1) show ?thesis by (meson rtranclp.rtrancl_into_rtrancl)
qed

lemma sample_signalled:
  "\<exists>t. (gateway_step sample_server)\<^sup>*\<^sup>* sample_start t \<and> sample_waiting \<in> set (gs_inflight t) \<and>
     chan_value (wq_chan sample_waiting) (gw_approval (gs_gateway t)) = Some \<lparr>rs_Approved = True, rs_Actor = ''op''\<rparr> \<and>
     gw_pause (gs_gateway t) = None"
proof -
  have "gateway_init sample_start" by (auto simp: gateway_init_def sample_start_def sample_gateway_def)
  moreover obtain g where g: "Handle sample_server None (Some sample_body) (gs_gateway sample_start) = (Waiting sample_waiting, g)"
    "gw_pause g = None" using sample_handled [of None] by (auto simp: sample_start_def contextHasScope_def)
  ultimately obtain t e where "(gateway_step sample_server)\<^sup>*\<^sup>* sample_start t" "gs_gateway t = g\<lparr>gw_approval := e\<rparr>"
    "sample_waiting \<in> set (gs_inflight t)" "chan_value (wq_chan sample_waiting) e = Some \<lparr>rs_Approved = True, rs_Actor = ''op''\<rparr>"
    using approval_signalled by blast
  with g show ?thesis by (intro exI [of _ t]) simp
qed

lemma sample_run_reaches:
  "\<exists>t. (gateway_step sample_server)\<^sup>*\<^sup>* sample_start t \<and>
     (Executed ''DELETE FROM users WHERE id = 1'', None, Some (sample_waiting, \<lparr>rs_Approved = True, rs_Actor = ''op''\<rparr>))
       \<in> set (gs_sent t)"
proof -
  have "gateway_init sample_start" by (auto simp: gateway_init_def sample_start_def sample_gateway_def)
  moreover obtain g where g: "Handle sample_server None (Some sample_body) (gs_gateway sample_start) = (Waiting sample_waiting, g)"
    "gw_pause g = None" using sample_handled [of None] by (auto simp: sample_start_def contextHasScope_def)
  moreover have "wq_args sample_waiting = sample_args" "wq_analysis sample_waiting = sample_analysis" "mc_db sample_server"
    by (simp_all add: sample_waiting_def sample_server_def)
  moreover have "text_of sample_analysis (eq_Query sample_args) = Executed ''DELETE FROM users WHERE id = 1''"
    by (simp add: text_of_def returnsRows_def HasPrefix_def sample_args_def)
  ultimately show ?thesis
    using approval_run [of sample_start sample_server sample_body sample_waiting g "\<lparr>rs_Approved = True, rs_Actor = ''op''\<rparr>"]
    by (simp add: BlocksRisk_def)
qed

text \<open>A second run: a TRUNCATE of a table whose latest snapshot the agent names.\<close>

definition truncate_parse :: "string \<Rightarrow> string + node option list" where
  "truncate_parse q = Inr [Some (TruncateStmt [Some (RangeVarNode \<lparr>schemaname = '''', relname = ''users''\<rparr>)])]"

definition s3_backed :: "S3SnapshotVerifier \<Rightarrow> verifier" where
  \<comment> \<open>the verifier of \<^verbatim>\<open>main.go\<close>\<close>
  "s3_backed v = \<lparr>vf_verify = VerifyLatestSidecarSnapshot v, vf_latest = Some (LatestSidecarSnapshot v)\<rparr>"

definition critical_server :: MCPServer where
  "critical_server = sample_server\<lparr>mc_parse := truncate_parse, mc_snapshotVerifier := Some (s3_backed sample_verifier),
     mc_policy := DefaultGatewayPolicy\<lparr>RequireSidecarHeartbeat := False\<rparr>\<rparr>"

definition critical_args :: executeQueryParams where
  "critical_args = \<lparr>eq_Query = ''TRUNCATE users'', eq_AgentID = ''a'', eq_DBURL = '''', eq_SnapshotID = ''snap_1''\<rparr>"

definition critical_call :: json where
  "critical_call = JObj [(''query'', JStr ''TRUNCATE users''), (''agent_id'', JStr ''a''), (''snapshot_id'', JStr ''snap_1'')]"

definition critical_body :: json where
  "critical_body = JObj [(''id'', JInt 1), (''method'', JStr ''tools/call''),
     (''params'', JObj [(''name'', JStr ''execute_query''), (''arguments'', critical_call)])]"

definition critical_analysis :: sqlAnalysis where
  "critical_analysis = (criticalAnalysis ''TRUNCATE'' '''' ''users'' True ''TRUNCATE removes all rows from a table'')\<lparr>StatementCount := 1\<rparr>"

lemma critical_sql: "analyzeSQL truncate_parse ''TRUNCATE users'' = critical_analysis"
  by code_simp

lemma critical_decodes:
  "decode_struct request_fields critical_body \<lparr>mr_JSONRPC = '''', mr_ID = JNull, mr_Method = '''', mr_Params = None\<rparr> =
     Some \<lparr>mr_JSONRPC = '''', mr_ID = JInt 1, mr_Method = ''tools/call'', mr_Params = Some (JObj
       [(''name'', JStr ''execute_query''), (''arguments'', critical_call)])\<rparr>"
  "decode_struct call_fields (JObj [(''name'', JStr ''execute_query''), (''arguments'', critical_call)])
     \<lparr>tc_Name = '''', tc_Arguments = None\<rparr> =
     Some \<lparr>tc_Name = ''execute_query'', tc_Arguments = Some critical_call\<rparr>"
  "decode_struct execute_fields critical_call zero_args = Some critical_args"
  by code_simp+

lemma critical_trim: "TrimSpace ''TRUNCATE users'' = ''TRUNCATE users''"
  by (simp add: TrimSpace_plain space_first_def space_last_def)

lemma critical_decision:
  "Action (Decide (mc_policy critical_server) critical_analysis) = PolicyActionApprove"
  "RequiresRecovery (Decide (mc_policy critical_server) critical_analysis)"
  by (simp_all add: critical_server_def critical_analysis_def criticalAnalysis_def
      TrimSpace_plain space_first_def space_last_def default_decision)

lemma critical_recovery:
  "checkRecoveryReadiness critical_server False good_manifest w = (None, drawn w)" if "same_outside quiet_world w"
proof -
  have "clock w (draws w) = 0" using that by (simp add: same_outside_def)
  then show ?thesis
    by (simp add: checkRecoveryReadiness_def age_check_def metadata_check_def heartbeat_check_def critical_server_def
        DefaultGatewayPolicy_def sample_time Now_def Sub_def seconds_def wrap64_def Second_def)
qed

lemma critical_verified:
  assumes "same_outside quiet_world (gw_world g)" "\<not> rg_metadata (gw_registry g)"
  shows "\<exists>g'. verifyCriticalRecoveryPointWithAnalysis critical_server critical_args critical_analysis g = (Inr good_manifest, ''users'', g') \<and>
     keeps g g' \<and> gw_alerts g' = gw_alerts g \<and> gw_registry g' = gw_registry g"
proof -
  have tab: "criticalRecoveryTableFromAnalysis critical_analysis = Inr ''users''" by code_simp
  have v: "mc_snapshotVerifier critical_server = Some (s3_backed sample_verifier)" by (simp add: critical_server_def)
  have grp: "verifyRecoveryGroup critical_server False x ''users'' w = (None, w)" for x w
    by (simp add: verifyRecoveryGroup_def recoveryGroupForTable_def critical_server_def DefaultGatewayPolicy_def)
  show ?thesis
    using assms critical_recovery [OF assms(1)]
    by (simp add: verifyCriticalRecoveryPointWithAnalysis_def tab v critical_args_def s3_backed_def sample_verifies grp
        keeps_def on_metrics_def)
qed

lemma critical_handled:
  "\<exists>g q. Handle critical_server None (Some critical_body) sample_gateway = (Waiting q, g) \<and> gw_pause g = None \<and>
     wq_args q = critical_args \<and> wq_analysis q = critical_analysis \<and> wq_recovery q = good_manifest"
proof -
  let ?d = "Decide (mc_policy critical_server) critical_analysis"
  have a: "analyze_for critical_server critical_args sample_gateway = (critical_analysis, ?d, sample_gateway)"
    by (simp add: analyze_for_def critical_server_def critical_args_def critical_sql analyzeImpact_def critical_analysis_def
        criticalAnalysis_def applyImpactAnalysis_def Let_def)
  have "Handle critical_server None (Some critical_body) sample_gateway = execute_query_args critical_server (JInt 1) critical_args sample_gateway"
    by (simp add: Handle_def critical_decodes handleToolsCall_def contextHasScope_def toolExecuteQuery_begin_def)
      (simp add: critical_args_def critical_trim)
  also have "\<dots> = approve_branch critical_server (JInt 1) critical_args critical_analysis ?d sample_gateway"
    by (simp add: execute_query_args_def a)
      (simp add: sample_gateway_def BlocksRisk_def agentQuarantined_def decide_branch_def critical_decision Let_def)
  finally have h: "Handle critical_server None (Some critical_body) sample_gateway =
      approve_branch critical_server (JInt 1) critical_args critical_analysis ?d sample_gateway" .
  let ?g = "sample_gateway\<lparr>gw_world := drawn quiet_world\<rparr>"
  obtain g1 where g1: "verifyCriticalRecoveryPointWithAnalysis critical_server critical_args critical_analysis ?g = (Inr good_manifest, ''users'', g1)"
    "keeps ?g g1" "gw_alerts g1 = None" "gw_registry g1 = gw_registry sample_gateway"
    using critical_verified [of ?g] by (auto simp: sample_gateway_def)
  have "mc_snapshotBeforeCritical critical_server" by (simp add: critical_server_def sample_server_def)
  with g1 h have "Handle critical_server None (Some critical_body) sample_gateway =
      ask_operator critical_server (JInt 1) critical_args critical_analysis ?d ''appr_00'' good_manifest (on_metrics (IncRecovery ''verified'') g1)"
    by (simp add: approve_branch_def critical_decision generateID_def Let_def sample_gateway_def)
  with g1 show ?thesis
    by (simp add: ask_operator_def RecordApprovalRequested_def emitAlert_def RequestApproval_begin_def Let_def
        approval_details_def on_metrics_def keeps_def sample_gateway_def)
qed

section \<open>Properties\<close>



text \<open>
  C7. The gateway's approvals are those of the approval engine alone: seen through its approval
  engine, its waiting requests and the log, every run of the gateway is a run of the engine's own
  step relation, started where the engine starts. What is proved of the engine holds of the gateway.
\<close>

theorem gateway_refines_approval_engine:
  assumes "gateway_init t0" "(gateway_step s)\<^sup>*\<^sup>* t0 t"
  shows "approval_init (approval_view t0) \<and> approval_step\<^sup>*\<^sup>* (approval_view t0) (approval_view t)"
proof
  show "approval_init (approval_view t0)" using assms(1) by (rule approval_view_init)
  from assms(2) show "approval_step\<^sup>*\<^sup>* (approval_view t0) (approval_view t)"
  proof (induction rule: rtranclp_induct)
    case (step u v)
    from gateway_simulates_approval [OF step(2)] step(3) show ?case by (auto intro: rtranclp.rtrancl_into_rtrancl)
  qed simp
qed

theorem gateway_refines_approval_engine_witness:
  "\<exists>t. as_log (approval_view t) \<noteq> [] \<and> approval_step\<^sup>*\<^sup>* (approval_view sample_start) (approval_view t)"
proof -
  obtain g where g: "Handle sample_server None (Some sample_body) (gs_gateway sample_start) = (Waiting sample_waiting, g)"
    using sample_handled [of None] by (auto simp: sample_start_def contextHasScope_def)
  from gateway_step.waits [OF g] obtain t where t: "gateway_step sample_server sample_start t" "gs_log t \<noteq> []" by fastforce
  have "gateway_init sample_start" by (auto simp: gateway_init_def sample_start_def sample_gateway_def)
  from gateway_refines_approval_engine [OF this r_into_rtranclp [of "gateway_step sample_server", OF t(1)]] t(2) show ?thesis
    by (intro exI [of _ t]) (simp add: approval_view_def)
qed

text \<open>
  C9. An approved query runs: whenever a request waits, an operator's approval has reached it and no
  pause blocks its risk, the gateway can take a step that sends exactly that request's text to the
  database, with the operator's resolution as its cause.
\<close>

theorem approved_query_runs:
  assumes "gateway_init t0" "(gateway_step s)\<^sup>*\<^sup>* t0 t" "mc_db s" "q \<in> set (gs_inflight t)"
    and "chan_value (wq_chan q) (gw_approval (gs_gateway t)) = Some r" "rs_Approved r"
    and "\<not> BlocksRisk (gw_pause (gs_gateway t)) (RiskLevel (wq_analysis q))"
  shows "\<exists>u c. gateway_step s t u \<and> call_text c = eq_Query (wq_args q) \<and>
     (c, gw_pause (gs_gateway t), Some (q, r)) \<in> set (gs_sent u)"
proof -
  have "waiting_ok s q"
    using gw.reachable_inv [OF assms(1,2)] assms(4) by (auto simp: gateway_inv_def)
  from approved_step [OF assms(3) this assms(4-7)] show ?thesis by (metis text_of_simps(1))
qed

theorem approved_query_runs_witness:
  "\<exists>t u c. (gateway_step sample_server)\<^sup>*\<^sup>* sample_start t \<and> gateway_step sample_server t u \<and>
     call_text c = ''DELETE FROM users WHERE id = 1'' \<and>
     (c, None, Some (sample_waiting, \<lparr>rs_Approved = True, rs_Actor = ''op''\<rparr>)) \<in> set (gs_sent u)"
proof -
  have init: "gateway_init sample_start" by (auto simp: gateway_init_def sample_start_def sample_gateway_def)
  obtain t where t: "(gateway_step sample_server)\<^sup>*\<^sup>* sample_start t" "sample_waiting \<in> set (gs_inflight t)"
    "chan_value (wq_chan sample_waiting) (gw_approval (gs_gateway t)) = Some \<lparr>rs_Approved = True, rs_Actor = ''op''\<rparr>"
    "gw_pause (gs_gateway t) = None"
    using sample_signalled by blast
  have db: "mc_db sample_server" by (simp add: sample_server_def)
  have query: "eq_Query (wq_args sample_waiting) = ''DELETE FROM users WHERE id = 1''"
    by (simp add: sample_waiting_def sample_args_def)
  show ?thesis
    using approved_query_runs [OF init t(1) db t(2,3)] t(1,4) query by (auto simp: BlocksRisk_def)
qed



end
