(* ===== verification/Http_Properties.thy ===== *)
theory Http_Properties
  imports Gateway_Http Mcp_Tools Gateway_Properties
begin

text \<open>
  What holds of the gateway as it is served over HTTP: it refines the gateway of \<^verbatim>\<open>Gateway_Safety\<close>, an
  operator is a caller with the scope for it, what runs was asked for by a caller with the scope for
  it, only an administrator changes the pause, and the requests that wait are bounded.
\<close>

section \<open>What serving a request does\<close>

lemma guarded_passes: "caller c ep r = Some ctx \<Longrightarrow> guarded c ep r g = handler_of c ep r ctx g"
  by (auto simp: caller_def guarded_def requireScopedAuth_def split: option.splits if_splits)

definition quiet_change :: "gateway \<Rightarrow> gateway \<Rightarrow> bool" where
  \<comment> \<open>nothing but counters, alerts and the world\<close>
  "quiet_change g g' \<longleftrightarrow>
     gw_approval g' = gw_approval g \<and> gw_registry g' = gw_registry g \<and> gw_pause g' = gw_pause g \<and> gw_calls g' = gw_calls g"

lemma quiet_change_simps [simp]:
  "quiet_change g g" "quiet_change g (g\<lparr>gw_world := w\<rparr>)" "quiet_change g (on_counters f g)" "quiet_change g (on_metrics f' g)"
  "quiet_change g (emit_on p g)"
  by (simp_all add: quiet_change_def on_counters_def on_metrics_def emit_on_def split: option.splits prod.splits)

lemma quiet_change_trans: "quiet_change g h \<Longrightarrow> quiet_change h k \<Longrightarrow> quiet_change g k"
  by (simp add: quiet_change_def)

lemma quiet_change_step:
  assumes "quiet_change (gs_gateway t) g'"
  shows "gateway_step s t (t\<lparr>gs_gateway := g'\<rparr>)"
proof -
  have "g' = (gs_gateway t)\<lparr>gw_metrics := gw_metrics g', gw_alerts := gw_alerts g', gw_world := gw_world g'\<rparr>"
    using assms by (simp add: quiet_change_def)
  with gateway_step.outside [of s t "gw_world g'" "gw_alerts g'" "gw_metrics g'"] show ?thesis by simp
qed

lemma guarded_denies:
  assumes "caller c ep r = None"
  shows "\<exists>status v g'. guarded c ep r g = (Answered status v, g') \<and> quiet_change g g'"
  using assms by (auto simp: caller_def guarded_def requireScopedAuth_def writeJSON_def split: option.splits if_splits)

definition read_only_endpoint :: "endpoint \<Rightarrow> bool" where
  "read_only_endpoint ep \<longleftrightarrow> ep \<noteq> EpMCP \<and> (\<forall>b i. ep \<noteq> EpDecision b i) \<and> (\<forall>b. ep \<noteq> EpPause b)"

lemma reading_handlers:
  assumes "read_only_endpoint ep" "handler_of c ep r ctx g = (out, g')"
  shows "(\<exists>status v. out = Answered status v) \<and> quiet_change g g'"
  using assms
  by (cases ep)
    (auto simp: read_only_endpoint_def handler_of_def handleHealth_def makePendingHandler_def makeAuditHandler_def
      makeMetadataSnapshotsHandler_def makeMetadataAuditHandler_def makeMetadataAlertsHandler_def
      makeMetadataHealthHandler_def makeAdminStatusHandler_def makeGatewayMetricsHandler_def
      writeMetadataResponse_def writeJSON_def Let_def split: prod.splits sum.splits)

lemma pause_handler:
  assumes "makePauseHandler s paused r ctx g = (out, g')"
  obtains err g1 where "set_paused paused (pause_reason paused (hr_first r)) g = (err, g1)" "quiet_change g1 g'"
    "\<exists>status v. out = Answered status v"
proof -
  obtain err g1 where g1: "set_paused paused (pause_reason paused (hr_first r)) g = (err, g1)" by fastforce
  have "quiet_change g1 (emit_on p (on_metrics f g1))" for p f
    by (rule quiet_change_trans [of _ "on_metrics f g1"]) simp_all
  with assms g1 have "quiet_change g1 g'" "\<exists>status v. out = Answered status v"
    by (auto simp: makePauseHandler_def writeJSON_def Let_def split: option.splits)
  with g1 show ?thesis by (rule that)
qed

lemma decision_handler:
  assumes "makeApproveHandler approve i r ctx g = (out, g')" "i \<noteq> ''''"
  obtains err en where "signal i \<lparr>rs_Approved = approve, rs_Actor = actor_of ctx\<rparr> (gw_approval g) = (err, en)"
    "g' = g\<lparr>gw_approval := en\<rparr>" "\<exists>status v. out = Answered status v"
proof -
  obtain err en where s: "signal i \<lparr>rs_Approved = approve, rs_Actor = actor_of ctx\<rparr> (gw_approval g) = (err, en)"
    by fastforce
  with assms have "g' = g\<lparr>gw_approval := en\<rparr>" "\<exists>status v. out = Answered status v"
    by (auto simp: makeApproveHandler_def Approve_def Deny_def writeJSON_def split: option.splits if_splits)
  with s show ?thesis by (rule that)
qed

lemma mcp_handler:
  assumes "makeMCPHandler s r ctx g = (out, g')"
  obtains (refused) "g' = g" "\<exists>status v. out = Answered status v"
  | (replied) body resp where "hr_body r = Inr body" "Handle s ctx body g = (Replied resp, g')" "\<exists>status v. out = Answered status v"
  | (waits) body q where "hr_body r = Inr body" "Handle s ctx body g = (Waiting q, g')" "out = Blocked q"
  using assms by (auto simp: makeMCPHandler_def writeJSON_def split: if_splits sum.splits prod.splits outcome.splits)

lemma serve_other:
  "route r = Some ep \<Longrightarrow> ep \<noteq> EpMCP \<Longrightarrow> serve c r sem g = (out, sem', g') \<Longrightarrow> guarded c ep r g = (out, g') \<and> sem' = sem"
  by (simp add: serve_def split: prod.splits)

lemma serve_mcp:
  assumes "route r = Some EpMCP" "serve c r sem g = (out, sem', g')"
  obtains (full) "g' = g" "sem' = sem" "\<exists>status v. out = Answered status v" "0 < hc_maxConcurrent c" "hc_maxConcurrent c \<le> int sem"
  | (answered) status v where "guarded c EpMCP r g = (Answered status v, g')" "out = Answered status v" "sem' = sem"
  | (blocked) q where "guarded c EpMCP r g = (Blocked q, g')" "out = Blocked q"
      "sem' = (if hc_maxConcurrent c \<le> 0 then sem else Suc sem)" "0 < hc_maxConcurrent c \<longrightarrow> int sem < hc_maxConcurrent c"
  using assms
  by (cases "guarded c EpMCP r g"; cases "fst (guarded c EpMCP r g)")
    (auto simp: serve_def limitConcurrent_def writeJSON_def split: if_splits)

lemma signals_other:
  "(\<And>b i. route r = Some (EpDecision b i) \<Longrightarrow> caller c (EpDecision b i) r = None) \<Longrightarrow> signals c r e = []"
  by (auto simp: signals_def split: option.splits endpoint.splits)

lemma guarded_mcp:
  assumes "guarded c EpMCP r g = (out, g')"
  obtains (quiet) "quiet_change g g'" "\<exists>status v. out = Answered status v"
  | (replied) ctx body resp where "caller c EpMCP r = Some ctx" "hr_body r = Inr body"
      "Handle (hc_server c) ctx body g = (Replied resp, g')" "\<exists>status v. out = Answered status v"
  | (waits) ctx body q where "caller c EpMCP r = Some ctx" "hr_body r = Inr body"
      "Handle (hc_server c) ctx body g = (Waiting q, g')" "out = Blocked q"
proof (cases "caller c EpMCP r")
  case None
  from guarded_denies [OF this, of g] assms show ?thesis by (intro quiet) auto
next
  case (Some ctx)
  with guarded_passes [OF Some, of g] assms have "makeMCPHandler (hc_server c) r ctx g = (out, g')"
    by (simp add: handler_of_def)
  then show ?thesis
  proof (cases rule: mcp_handler)
    case refused
    then show ?thesis by (intro quiet) simp_all
  next
    case (replied body resp)
    with Some show ?thesis by (rule that(2))
  next
    case (waits body q)
    with Some show ?thesis by (rule that(3))
  qed
qed

lemma guarded_other:
  assumes r: "route r = Some ep" "ep \<noteq> EpMCP" and g: "guarded c ep r g = (out, g')"
  obtains (quiet) "quiet_change g g'" "\<And>e. signals c r e = []" "\<exists>status v. out = Answered status v"
  | (decision) approve i ctx err en where "ep = EpDecision approve i" "caller c ep r = Some ctx"
      "i \<noteq> ''''" "signal i \<lparr>rs_Approved = approve, rs_Actor = actor_of ctx\<rparr> (gw_approval g) = (err, en)"
      "g' = g\<lparr>gw_approval := en\<rparr>" "\<exists>status v. out = Answered status v"
  | (pause) paused ctx reason err g1 where "ep = EpPause paused" "caller c ep r = Some ctx"
      "set_paused paused reason g = (err, g1)" "quiet_change g1 g'" "\<exists>status v. out = Answered status v"
proof (cases "caller c ep r")
  case None
  from guarded_denies [OF this, of g] g None r show ?thesis by (intro quiet signals_other) auto
next
  case (Some ctx)
  note h = g [unfolded guarded_passes [OF Some]]
  consider (empty) b where "ep = EpDecision b ''''" | (d) b i where "ep = EpDecision b i" "i \<noteq> ''''"
    | (p) b where "ep = EpPause b" | (ro) "read_only_endpoint ep"
    using r(2) by (auto simp: read_only_endpoint_def)
  then show ?thesis
  proof cases
    case empty
    with h r show ?thesis
      by (intro quiet) (auto simp: handler_of_def makeApproveHandler_def signals_def writeJSON_def split: option.splits)
  next
    case d
    from h d(1) have "makeApproveHandler b i r ctx g = (out, g')" by (simp add: handler_of_def)
    from decision_handler [OF this d(2)] d Some decision show ?thesis by metis
  next
    case p
    from h p have "makePauseHandler (hc_server c) b r ctx g = (out, g')" by (simp add: handler_of_def)
    from pause_handler [OF this] p Some pause show ?thesis by metis
  next
    case ro
    from reading_handlers [OF ro h] ro r show ?thesis
      by (intro quiet signals_other) (auto simp: read_only_endpoint_def)
  qed
qed

lemma serve_answered:
  assumes s: "serve c r sem g = (Answered status v, sem', g')"
  obtains (quiet) "quiet_change g g'" "\<And>e. signals c r e = []" "sem' = sem"
  | (mcp) ctx body resp where "route r = Some EpMCP" "caller c EpMCP r = Some ctx" "hr_body r = Inr body"
      "Handle (hc_server c) ctx body g = (Replied resp, g')" "\<And>e. signals c r e = []" "sem' = sem"
  | (decision) approve i ctx err en where "route r = Some (EpDecision approve i)" "caller c (EpDecision approve i) r = Some ctx"
      "i \<noteq> ''''" "signal i \<lparr>rs_Approved = approve, rs_Actor = actor_of ctx\<rparr> (gw_approval g) = (err, en)"
      "g' = g\<lparr>gw_approval := en\<rparr>" "sem' = sem"
  | (pause) paused ctx reason err g1 where "route r = Some (EpPause paused)" "caller c (EpPause paused) r = Some ctx"
      "set_paused paused reason g = (err, g1)" "quiet_change g1 g'" "\<And>e. signals c r e = []" "sem' = sem"
proof -
  consider (none) "route r = None" | (m) "route r = Some EpMCP" | (other) ep where "route r = Some ep" "ep \<noteq> EpMCP" by blast
  then show ?thesis
  proof cases
    case none
    with s show ?thesis by (intro quiet) (auto simp: serve_def signals_def)
  next
    case m
    then have sig: "signals c r e = []" for e by (simp add: signals_def)
    from m s show ?thesis
    proof (cases rule: serve_mcp)
      case full
      with sig show ?thesis by (intro quiet) simp_all
    next
      case (answered status' v')
      from answered(1) show ?thesis by (cases rule: guarded_mcp) (use sig m answered(3) quiet mcp in auto)
    qed simp
  next
    case other
    note g = serve_other [OF other s]
    from other g [THEN conjunct1] show ?thesis
    proof (cases rule: guarded_other)
      case (pause paused ctx reason err g1)
      with other have "signals c r e = []" for e by (simp add: signals_def)
      with pause g other show ?thesis by (intro that(4)) auto
    qed (use g other in \<open>auto intro: quiet decision\<close>)
  qed
qed

lemma serve_blocked:
  assumes s: "serve c r sem g = (Blocked q, sem', g')"
  obtains ctx body where "route r = Some EpMCP" "caller c EpMCP r = Some ctx" "hr_body r = Inr body"
    "Handle (hc_server c) ctx body g = (Waiting q, g')" "sem' = (if hc_maxConcurrent c \<le> 0 then sem else Suc sem)"
    "0 < hc_maxConcurrent c \<longrightarrow> int sem < hc_maxConcurrent c"
proof -
  consider (none) "route r = None" | (m) "route r = Some EpMCP" | (other) ep where "route r = Some ep" "ep \<noteq> EpMCP" by blast
  then show ?thesis
  proof cases
    case none
    with s show ?thesis by (simp add: serve_def)
  next
    case m
    then show ?thesis using s
    proof (cases rule: serve_mcp)
      case (blocked q')
      from blocked(1) show ?thesis by (cases rule: guarded_mcp) (use m blocked that in auto)
    qed auto
  next
    case other
    from other serve_other [OF other s, THEN conjunct1] show ?thesis by (cases rule: guarded_other) auto
  qed
qed

section \<open>Every run of the served gateway is a run of the gateway\<close>

lemma no_new_execs: "gw_calls g' = gw_calls g \<Longrightarrow> new_execs g g' = []"
  by (simp add: new_execs_def)

lemma set_paused_steps:
  assumes "set_paused paused reason (gs_gateway t) = (err, g1)" "quiet_change g1 g'"
  shows "(gateway_step s)\<^sup>*\<^sup>* t (t\<lparr>gs_gateway := g'\<rparr>)" "gw_calls g' = gw_calls (gs_gateway t)"
proof -
  have 1: "(gateway_step s)\<^sup>*\<^sup>* t (t\<lparr>gs_gateway := g1\<rparr>)"
  proof (cases "gw_pause (gs_gateway t)")
    case None
    with assms(1) have "g1 = gs_gateway t" by (simp add: set_paused_def)
    then show ?thesis by simp
  next
    case (Some p)
    obtain e p' w where p: "SetPaused paused reason p (gw_world (gs_gateway t)) = (e, p', w)" by (metis prod_cases3)
    from gateway_step.pause [OF this Some, of s] assms(1) Some p show ?thesis by (auto simp: set_paused_def)
  qed
  have "gateway_step s (t\<lparr>gs_gateway := g1\<rparr>) (t\<lparr>gs_gateway := g'\<rparr>)"
    using quiet_change_step [of "t\<lparr>gs_gateway := g1\<rparr>" g' s] assms(2) by simp
  with 1 show "(gateway_step s)\<^sup>*\<^sup>* t (t\<lparr>gs_gateway := g'\<rparr>)" by (rule rtranclp.rtrancl_into_rtrancl)
  show "gw_calls g' = gw_calls (gs_gateway t)"
    using assms by (auto simp: set_paused_def quiet_change_def split: option.splits prod.splits)
qed

lemma http_simulates:
  assumes "http_step c h h'"
  shows "(gateway_step (hc_server c))\<^sup>*\<^sup>* (hs_gw h) (hs_gw h')"
  using assms
proof cases
  case (answers r status v sem g' t)
  let ?t' = "t\<lparr>gs_gateway := g', gs_log := signals c r (gw_approval (gs_gateway t)) @ gs_log t, gs_sent := sends t g' None @ gs_sent t\<rparr>"
  have serve: "serve c r (hs_sem h) (gs_gateway t) = (Answered status v, sem, g')" using answers by simp
  from serve have "(gateway_step (hc_server c))\<^sup>*\<^sup>* t ?t'"
  proof (cases rule: serve_answered)
    case quiet
    then have "sends t g' None = []" by (simp add: sends_def no_new_execs quiet_change_def)
    with quiet quiet_change_step [OF quiet(1), of "hc_server c"] show ?thesis by auto
  next
    case (mcp ctx body resp)
    with gateway_step.answered [OF mcp(4)] show ?thesis by (auto simp: sends_def)
  next
    case (decision approve i ctx err en)
    have "sends t g' None = []" using decision by (simp add: sends_def no_new_execs)
    with decision gateway_step.operator [OF decision(4), of "hc_server c"] show ?thesis by (auto simp: signals_def)
  next
    case (pause paused ctx reason err g1)
    note p = set_paused_steps(1) [OF pause(3,4), where s = "hc_server c"] set_paused_steps(2) [OF pause(3,4)]
    have "sends t g' None = []" using p(2) by (simp add: sends_def no_new_execs)
    with pause p(1) show ?thesis by simp
  qed
  with answers show ?thesis by simp
next
  case (blocks r q sem g' t)
  then have serve: "serve c r (hs_sem h) (gs_gateway t) = (Blocked q, sem, g')" by simp
  from serve_blocked [OF serve] obtain ctx body where "Handle (hc_server c) ctx body (gs_gateway t) = (Waiting q, g')" by metis
  from gateway_step.waits [OF this] blocks show ?thesis by (auto simp: sends_def)
next
  case (wakes t q k res err e resp g')
  from gateway_step.resumes [OF wakes(3,4,5)] wakes show ?thesis by (auto simp: sends_def)
next
  case (elsewhere t w)
  have "gateway_step (hc_server c) t (t\<lparr>gs_gateway := (gs_gateway t)\<lparr>gw_world := w\<rparr>\<rparr>)"
    by (rule quiet_change_step) simp
  with elsewhere show ?thesis by auto
qed

lemma http_simulates_runs: "(http_step c)\<^sup>*\<^sup>* h h' \<Longrightarrow> (gateway_step (hc_server c))\<^sup>*\<^sup>* (hs_gw h) (hs_gw h')"
  by (induction rule: rtranclp_induct) (auto dest: http_simulates intro: rtranclp_trans)

lemma http_reachable_gateway_inv:
  "http_init h0 \<Longrightarrow> (http_step c)\<^sup>*\<^sup>* h0 h \<Longrightarrow> gateway_inv (hc_server c) (hs_gw h)"
  using gw.reachable_inv [OF _ http_simulates_runs] unfolding http_init_def by blast

section \<open>Who asked and who decided\<close>

definition decided_by :: "http_config \<Rightarrow> http_request list \<Rightarrow> string \<Rightarrow> ApprovalResolution \<Rightarrow> bool" where
  \<comment> \<open>a request on the decision's route whose caller may decide and is named in the resolution\<close>
  "decided_by c seen i res \<longleftrightarrow>
     (\<exists>r who. r \<in> set seen \<and> route r = Some (EpDecision (rs_Approved res) i) \<and>
        Authenticate (hc_auth c) (hr_header r) = Some who \<and> hasScope who ''approval:write'' \<and> rs_Actor res = pr_Name who)"

definition asked_by :: "http_config \<Rightarrow> http_request list \<Rightarrow> (outcome \<Rightarrow> gateway \<Rightarrow> gateway \<Rightarrow> bool) \<Rightarrow> bool" where
  \<comment> \<open>a tool call whose caller may execute queries, and what handling it came to\<close>
  "asked_by c seen came_to \<longleftrightarrow>
     (\<exists>r who body g out g'. r \<in> set seen \<and> route r = Some EpMCP \<and> hr_body r = Inr body \<and>
        Authenticate (hc_auth c) (hr_header r) = Some who \<and> hasScope who ''query:execute'' \<and>
        Handle (hc_server c) (Some who) body g = (out, g') \<and> came_to out g g')"

definition waited :: "waiting_query \<Rightarrow> outcome \<Rightarrow> gateway \<Rightarrow> gateway \<Rightarrow> bool" where
  "waited q out g g' \<longleftrightarrow> out = Waiting q"

definition ran :: "db_call \<Rightarrow> outcome \<Rightarrow> gateway \<Rightarrow> gateway \<Rightarrow> bool" where
  "ran call out g g' \<longleftrightarrow> call \<in> set (new_execs g g')"

fun caused :: "http_config \<Rightarrow> http_request list \<Rightarrow> db_call \<times> PauseController option \<times> (waiting_query \<times> ApprovalResolution) option \<Rightarrow> bool" where
  "caused c seen (call, pause, None) = asked_by c seen (ran call)"
| "caused c seen (call, pause, Some (q, res)) = asked_by c seen (waited q)"

definition http_inv :: "http_config \<Rightarrow> http_sys \<Rightarrow> bool" where
  "http_inv c h \<longleftrightarrow>
     (\<forall>i res x. Signalled i res x \<in> set (gs_log (hs_gw h)) \<longrightarrow> decided_by c (hs_seen h) i res) \<and>
     (\<forall>q \<in> set (gs_inflight (hs_gw h)). asked_by c (hs_seen h) (waited q)) \<and>
     (\<forall>x \<in> set (gs_sent (hs_gw h)). caused c (hs_seen h) x)"

lemma decided_by_mono: "decided_by c seen i res \<Longrightarrow> set seen \<subseteq> set seen' \<Longrightarrow> decided_by c seen' i res"
  unfolding decided_by_def by blast

lemma asked_by_mono: "asked_by c seen P \<Longrightarrow> set seen \<subseteq> set seen' \<Longrightarrow> asked_by c seen' P"
  unfolding asked_by_def by blast

lemma caused_mono: "caused c seen x \<Longrightarrow> set seen \<subseteq> set seen' \<Longrightarrow> caused c seen' x"
  by (cases "(c, seen, x)" rule: caused.cases) (auto intro: asked_by_mono)

lemma caller_principal:
  assumes "Enabled (hc_auth c)" "caller c ep r = Some ctx" "required_scope c ep = Some scope"
  obtains who where "ctx = Some who" "Authenticate (hc_auth c) (hr_header r) = Some who" "hasScope who scope"
proof (cases "Authenticate (hc_auth c) (hr_header r)")
  case None
  with assms show ?thesis by (simp add: caller_def)
next
  case (Some who)
  with assms have "hasScope who scope" "ctx = Some who" by (simp_all add: caller_def split: if_splits)
  with Some show ?thesis by (intro that)
qed

lemma mcp_asked_by:
  assumes "Enabled (hc_auth c)" "caller c EpMCP r = Some ctx" "route r = Some EpMCP" "hr_body r = Inr body"
    and h: "Handle (hc_server c) ctx body g = (out, g')" and p: "came_to out g g'"
    and needs: "\<And>resp. out = Replied resp \<Longrightarrow> only_probes g g' \<Longrightarrow> False"
  shows "asked_by c (r # seen) came_to"
proof -
  obtain who where who: "ctx = Some who" "Authenticate (hc_auth c) (hr_header r) = Some who"
    using caller_principal [OF assms(1,2), of "''''"] by (auto simp: required_scope_def)
  have "hasScope who ''query:execute''"
  proof (rule ccontr)
    assume "\<not> hasScope who ''query:execute''"
    then have "\<not> contextHasScope ctx ''query:execute''" by (simp add: contextHasScope_def who)
    from Handle_without_scope [OF this h] needs show False by auto
  qed
  with who assms show ?thesis unfolding asked_by_def by (intro exI conjI) (auto simp: who)
qed

lemma only_probes_no_execs: "only_probes g g' \<Longrightarrow> new_execs g g' = []"
  by (auto simp: only_probes_def new_execs_def filter_empty_conv)

lemma http_inv_grows:
  assumes "http_inv c h" "set (hs_seen h) \<subseteq> set (hs_seen h')"
    and log: "\<And>i res x. Signalled i res x \<in> set (gs_log (hs_gw h')) \<Longrightarrow>
      Signalled i res x \<in> set (gs_log (hs_gw h)) \<or> decided_by c (hs_seen h') i res"
    and inflight: "\<And>q. q \<in> set (gs_inflight (hs_gw h')) \<Longrightarrow>
      q \<in> set (gs_inflight (hs_gw h)) \<or> asked_by c (hs_seen h') (waited q)"
    and sent: "\<And>x. x \<in> set (gs_sent (hs_gw h')) \<Longrightarrow> x \<in> set (gs_sent (hs_gw h)) \<or> caused c (hs_seen h') x"
  shows "http_inv c h'"
proof -
  have "decided_by c (hs_seen h') i res" if "Signalled i res x \<in> set (gs_log (hs_gw h'))" for i res x
    using log [OF that] assms(1,2) decided_by_mono unfolding http_inv_def by blast
  moreover have "asked_by c (hs_seen h') (waited q)" if "q \<in> set (gs_inflight (hs_gw h'))" for q
    using inflight [OF that] assms(1,2) asked_by_mono unfolding http_inv_def by blast
  moreover have "caused c (hs_seen h') x" if "x \<in> set (gs_sent (hs_gw h'))" for x
    using sent [OF that] assms(1,2) caused_mono unfolding http_inv_def by blast
  ultimately show ?thesis unfolding http_inv_def by blast
qed

lemma signals_decided:
  assumes en: "Enabled (hc_auth c)" and s: "Signalled i res x \<in> set (signals c r e)"
  shows "decided_by c (r # seen) i res"
proof -
  have "\<exists>b j ctx. route r = Some (EpDecision b j) \<and> caller c (EpDecision b j) r = Some ctx"
  proof (rule ccontr)
    assume "\<not> ?thesis"
    then have "signals c r e = []" by (intro signals_other) auto
    with s show False by simp
  qed
  then obtain approve j ctx where "route r = Some (EpDecision approve j)" "caller c (EpDecision approve j) r = Some ctx"
    by blast
  with s have d: "route r = Some (EpDecision approve i)" "caller c (EpDecision approve i) r = Some ctx"
    "res = \<lparr>rs_Approved = approve, rs_Actor = actor_of ctx\<rparr>"
    by (simp_all add: signals_def split: if_splits)
  have "required_scope c (EpDecision approve i) = Some ''approval:write''" by (simp add: required_scope_def)
  from caller_principal [OF en d(2) this] obtain who where
    "ctx = Some who" "Authenticate (hc_auth c) (hr_header r) = Some who" "hasScope who ''approval:write''" .
  with d show ?thesis by (auto simp: decided_by_def actor_of_def)
qed

lemma answer_caused:
  assumes en: "Enabled (hc_auth c)" and s: "serve c r sem (gs_gateway t) = (Answered status v, sem', g')"
    and x: "x \<in> set (sends t g' None)"
  shows "caused c (r # seen) x"
proof -
  from x obtain call where call: "x = (call, gw_pause (gs_gateway t), None)" "call \<in> set (new_execs (gs_gateway t) g')"
    by (auto simp: sends_def)
  from s show ?thesis
  proof (cases rule: serve_answered)
    case (mcp ctx body resp)
    have "\<not> only_probes (gs_gateway t) g'" using call(2) by (auto dest: only_probes_no_execs)
    with mcp_asked_by [OF en mcp(2,1,3,4), of "ran call" seen] call show ?thesis by (auto simp: ran_def)
  next
    case quiet
    with call show ?thesis by (simp add: no_new_execs quiet_change_def)
  next
    case (decision approve i ctx err en)
    with call show ?thesis by (simp add: no_new_execs)
  next
    case (pause paused ctx reason err g1)
    from set_paused_steps(2) [OF pause(3,4)] call show ?thesis by (simp add: no_new_execs)
  qed
qed

lemma http_inv_step:
  assumes en: "Enabled (hc_auth c)" and inv: "http_inv c h" and step: "http_step c h h'"
  shows "http_inv c h'"
  using step
proof cases
  case (answers r status v sem g' t)
  from answer_caused [OF en answers(2)] signals_decided [OF en] answers(1,3) show ?thesis
    by (intro http_inv_grows [OF inv]) auto
next
  case (blocks r q sem g' t)
  from blocks(2) obtain ctx body where b: "caller c EpMCP r = Some ctx" "route r = Some EpMCP" "hr_body r = Inr body"
    "Handle (hc_server c) ctx body (gs_gateway (hs_gw h)) = (Waiting q, g')"
    by (rule serve_blocked)
  have asked: "asked_by c (r # hs_seen h) P" if "P (Waiting q) (gs_gateway (hs_gw h)) g'" for P
    using mcp_asked_by [OF en b, of P] that by simp
  then have "asked_by c (r # hs_seen h) (waited q)" by (simp add: waited_def)
  moreover have "caused c (r # hs_seen h) x" if "x \<in> set (sends (hs_gw h) g' None)" for x
    using that asked by (auto simp: sends_def ran_def)
  ultimately show ?thesis using blocks(1,3) by (intro http_inv_grows [OF inv]) auto
next
  case (wakes t q k res err e resp g')
  then have "asked_by c (hs_seen h) (waited q)" using inv by (auto simp: http_inv_def)
  with wakes(1,2) show ?thesis by (intro http_inv_grows [OF inv]) (auto simp: sends_def)
next
  case (elsewhere t w)
  then show ?thesis using inv by (simp add: http_inv_def)
qed

interpretation served: invariant_system http_init "http_step c" "\<lambda>h. Enabled (hc_auth c) \<longrightarrow> http_inv c h" for c
proof unfold_locales
  show "Enabled (hc_auth c) \<longrightarrow> http_inv c h" if "http_init h" for h
    using that by (simp add: http_init_def http_inv_def gateway_init_def)
  show "Enabled (hc_auth c) \<longrightarrow> http_inv c h'" if "Enabled (hc_auth c) \<longrightarrow> http_inv c h" "http_step c h h'" for h h'
    using that http_inv_step by blast
qed

section \<open>Slots\<close>

lemma signal_chans: "signal i r e = (err, e') \<Longrightarrow> length (en_chans e') = length (en_chans e)"
  by (auto simp: signal_def split: option.splits if_splits)

lemma RequestApproval_begin_chans:
  "RequestApproval_begin d now e = (Inr c, e') \<Longrightarrow> c = length (en_chans e) \<and> length (en_chans e') = Suc c"
  by (cases "ad_ID d = ''''") (auto simp: RequestApproval_begin_def Let_def)

lemma RequestApproval_end_chans:
  "RequestApproval_end d c k e = Some (res, e') \<Longrightarrow> length (en_chans e') = length (en_chans e)"
  by (auto simp: RequestApproval_end_def Let_def split: wake.splits option.splits)

definition slots_inv :: "http_config \<Rightarrow> http_sys \<Rightarrow> bool" where
  \<comment> \<open>every waiting request has a channel of its own and, under a limit, a slot of its own\<close>
  "slots_inv c h \<longleftrightarrow>
     distinct (map wq_chan (gs_inflight (hs_gw h))) \<and>
     (\<forall>q \<in> set (gs_inflight (hs_gw h)). wq_chan q < length (en_chans (gw_approval (gs_gateway (hs_gw h))))) \<and>
     (0 < hc_maxConcurrent c \<longrightarrow>
        hs_sem h = length (gs_inflight (hs_gw h)) \<and> int (hs_sem h) \<le> hc_maxConcurrent c)"

lemma length_filter_other:
  "distinct (map f xs) \<Longrightarrow> x \<in> set xs \<Longrightarrow> length (filter (\<lambda>y. f y \<noteq> f x) xs) = length xs - 1"
proof (induction xs)
  case (Cons y ys)
  show ?case
  proof (cases "f y = f x")
    case True
    have "f x \<notin> f ` set ys" using Cons.prems(1) by (simp add: True)
    then have "filter (\<lambda>y. f y \<noteq> f x) ys = ys" by (intro filter_True) (metis imageI)
    with True show ?thesis by simp
  next
    case False
    with Cons show ?thesis by (cases ys) auto
  qed
qed simp

lemma answered_chans:
  assumes "serve c r sem g = (Answered status v, sem', g')"
  shows "length (en_chans (gw_approval g')) = length (en_chans (gw_approval g)) \<and> sem' = sem"
  using assms
proof (cases rule: serve_answered)
  case (mcp ctx body resp)
  with Handle_effect [OF mcp(4)] show ?thesis by (simp add: begin_effect_def)
next
  case (decision approve i ctx err en)
  with signal_chans [OF decision(4)] show ?thesis by simp
next
  case (pause paused ctx reason err g1)
  then have "gw_approval g' = gw_approval g"
    by (auto simp: set_paused_def quiet_change_def split: option.splits prod.splits)
  with pause show ?thesis by simp
qed (simp add: quiet_change_def)

lemma slots_inv_step:
  assumes inv: "slots_inv c h" and step: "http_step c h h'"
  shows "slots_inv c h'"
  using step
proof cases
  case (answers r status v sem g' t)
  with answered_chans [OF answers(2)] inv show ?thesis by (auto simp: slots_inv_def)
next
  case (blocks r q sem g' t)
  from blocks(2) obtain ctx body where b: "Handle (hc_server c) ctx body (gs_gateway (hs_gw h)) = (Waiting q, g')"
    "sem = (if hc_maxConcurrent c \<le> 0 then hs_sem h else Suc (hs_sem h))"
    "0 < hc_maxConcurrent c \<longrightarrow> int (hs_sem h) < hc_maxConcurrent c"
    by (rule serve_blocked)
  from Handle_effect [OF b(1)] have "wq_chan q = length (en_chans (gw_approval (gs_gateway (hs_gw h))))"
    "length (en_chans (gw_approval g')) = Suc (wq_chan q)"
    by (auto simp: begin_effect_def dest: RequestApproval_begin_chans)
  with blocks(1,3) b inv show ?thesis by (auto simp: slots_inv_def less_Suc_eq)
next
  case (wakes t q k res err e resp g')
  have "gw_approval g' = e" using resume_effect [OF wakes(5)] by simp
  moreover have "distinct (map wq_chan (filter P (gs_inflight t)))" for P
    using inv wakes(2) by (simp add: slots_inv_def distinct_map_filter)
  moreover have "length (filter (\<lambda>p. wq_chan p \<noteq> wq_chan q) (gs_inflight t)) = length (gs_inflight t) - 1"
    using inv wakes(2,3) by (simp add: slots_inv_def length_filter_other)
  ultimately show ?thesis
    using RequestApproval_end_chans [OF wakes(4)] wakes(1,2) inv by (auto simp: slots_inv_def release_def)
next
  case (elsewhere t w)
  then show ?thesis using inv by (auto simp: slots_inv_def)
qed

interpretation slots: invariant_system http_init "http_step c" "slots_inv c" for c
proof unfold_locales
  show "slots_inv c h" if "http_init h" for h
    using that by (simp add: http_init_def slots_inv_def gateway_init_def)
  show "slots_inv c h'" if "slots_inv c h" "http_step c h h'" for h h'
    using that slots_inv_step by blast
qed

section \<open>A run over HTTP\<close>

definition two_tokens :: TokenAuthenticator where
  "two_tokens = \<lparr>au_disabled = False, au_tokens =
     [\<lparr>te_Name = ''agent'', te_Token = ''ta'', te_Scopes = [''query:execute'']\<rparr>,
      \<lparr>te_Name = ''op'', te_Token = ''to'', te_Scopes = [''approval:write'']\<rparr>]\<rparr>"

definition sample_http :: http_config where
  "sample_http = \<lparr>hc_server = sample_server, hc_auth = Some two_tokens, hc_metadata = False, hc_metricsPublic = False,
     hc_maxConcurrent = 1\<rparr>"

definition with_token :: "string \<Rightarrow> headers" where
  "with_token tok k = (if k = ''X-Backstop-Token'' then tok else if k = ''Content-Type'' then ''application/json'' else '''')"

definition agent_request :: http_request where
  "agent_request = \<lparr>hr_method = ''POST'', hr_path = [''/''], hr_header = with_token ''ta'', hr_query = (\<lambda>_. ''''),
     hr_body = Inr (Some sample_body), hr_first = Some sample_body\<rparr>"

definition op_request :: http_request where
  "op_request = \<lparr>hr_method = ''POST'', hr_path = [''approve'', ''appr_00''], hr_header = with_token ''to'', hr_query = (\<lambda>_. ''''),
     hr_body = Inr None, hr_first = None\<rparr>"

definition http_start :: http_sys where
  "http_start = \<lparr>hs_gw = sample_start, hs_sem = 0, hs_seen = []\<rparr>"

abbreviation sample_resolution :: ApprovalResolution where
  "sample_resolution \<equiv> \<lparr>rs_Approved = True, rs_Actor = ''op''\<rparr>"

lemma http_start_init: "http_init http_start"
  by (auto simp: http_init_def http_start_def gateway_init_def sample_start_def sample_gateway_def)

lemma sample_callers:
  "route agent_request = Some EpMCP" "route op_request = Some (EpDecision True ''appr_00'')"
  "caller sample_http EpMCP agent_request = Some (Some \<lparr>pr_Name = ''agent'', pr_Token = ''agent'', pr_Scopes = [''query:execute'']\<rparr>)"
  "caller sample_http (EpDecision True ''appr_00'') op_request =
     Some (Some \<lparr>pr_Name = ''op'', pr_Token = ''op'', pr_Scopes = [''approval:write'']\<rparr>)"
proof -
  have trim: "TrimSpace ''ta'' = ''ta''" "TrimSpace ''to'' = ''to''" "TrimSpace ''approval:write'' = ''approval:write''"
    by (simp_all add: TrimSpace_plain space_first_def space_last_def)
  show "route agent_request = Some EpMCP" "route op_request = Some (EpDecision True ''appr_00'')"
    by (simp_all add: route_def agent_request_def op_request_def post_route_def)
  show "caller sample_http EpMCP agent_request = Some (Some \<lparr>pr_Name = ''agent'', pr_Token = ''agent'', pr_Scopes = [''query:execute'']\<rparr>)"
    "caller sample_http (EpDecision True ''appr_00'') op_request =
     Some (Some \<lparr>pr_Name = ''op'', pr_Token = ''op'', pr_Scopes = [''approval:write'']\<rparr>)"
    by (simp_all add: caller_def required_scope_def sample_http_def Enabled_def two_tokens_def Authenticate_def Let_def
        agent_request_def op_request_def bearerOrHeaderToken_def with_token_def trim constantTimeEqual_def hasScope_def)
qed

lemma agent_blocks:
  "\<exists>g. serve sample_http agent_request 0 sample_gateway = (Blocked sample_waiting, 1, g) \<and>
     gw_approval g = sample_engine None \<and> gw_pause g = None"
proof -
  have "contextHasScope (Some \<lparr>pr_Name = ''agent'', pr_Token = ''agent'', pr_Scopes = [''query:execute'']\<rparr>) ''query:execute''"
    by (simp add: contextHasScope_def hasScope_def TrimSpace_plain space_first_def space_last_def)
  from sample_handled [OF this] obtain g where
    g: "Handle sample_server (Some \<lparr>pr_Name = ''agent'', pr_Token = ''agent'', pr_Scopes = [''query:execute'']\<rparr>)
      (Some sample_body) sample_gateway = (Waiting sample_waiting, g)" "gw_approval g = sample_engine None" "gw_pause g = None"
    by blast
  have "guarded sample_http EpMCP agent_request sample_gateway = (Blocked sample_waiting, g)"
    unfolding guarded_passes [OF sample_callers(3)]
    using g(1) by (simp add: handler_of_def makeMCPHandler_def agent_request_def with_token_def HasPrefix_def sample_http_def)
  with g(2,3) sample_callers(1) show ?thesis by (simp add: serve_def limitConcurrent_def sample_http_def)
qed

lemma op_answers:
  assumes "gw_approval g = sample_engine None"
  shows "\<exists>v. serve sample_http op_request 1 g =
     (Answered 200 v, 1, g\<lparr>gw_approval := sample_engine (Some sample_resolution)\<rparr>)"
proof -
  have "signal ''appr_00'' sample_resolution (sample_engine None) = (None, sample_engine (Some sample_resolution))"
    by (simp add: signal_def sample_engine_def chan_value_def)
  then show ?thesis
    by (simp add: serve_def sample_callers guarded_passes [OF sample_callers(4)] handler_of_def makeApproveHandler_def
        actor_of_def Approve_def assms writeJSON_def ok_status_def)
qed

lemma http_run:
  "\<exists>h. (http_step sample_http)\<^sup>*\<^sup>* http_start h \<and> hs_seen h = [op_request, agent_request] \<and>
     (Executed ''DELETE FROM users WHERE id = 1'', None, Some (sample_waiting, sample_resolution)) \<in> set (gs_sent (hs_gw h))"
proof -
  obtain g where g: "serve sample_http agent_request 0 sample_gateway = (Blocked sample_waiting, 1, g)"
    "gw_approval g = sample_engine None" "gw_pause g = None" using agent_blocks by blast
  define h1 where "h1 = \<lparr>hs_gw = sample_start\<lparr>gs_gateway := g, gs_inflight := [sample_waiting],
      gs_log := [Requested 0 (wq_details sample_waiting)], gs_sent := sends sample_start g None\<rparr>,
    hs_sem = 1, hs_seen = [agent_request]\<rparr>"
  have 1: "http_step sample_http http_start h1"
    using http_step.blocks [of sample_http agent_request http_start sample_waiting 1 g sample_start] g
    by (simp add: h1_def http_start_def sample_start_def)
  let ?g2 = "g\<lparr>gw_approval := sample_engine (Some sample_resolution)\<rparr>"
  from op_answers [OF g(2)] obtain h2 where 2: "http_step sample_http h1 h2" and h2: "gs_gateway (hs_gw h2) = ?g2"
    "gs_inflight (hs_gw h2) = [sample_waiting]" "hs_seen h2 = [op_request, agent_request]"
    using http_step.answers [of sample_http op_request h1 _ _ 1 ?g2 "hs_gw h1"] by (fastforce simp: h1_def)
  have "waiting_ok sample_server sample_waiting"
    using g(1) sample_handled [of None] by (auto simp: contextHasScope_def begin_effect_def dest!: Handle_effect)
  note decided = resume_decided [of sample_server sample_waiting ?g2 sample_resolution, OF _ this]
  obtain e resp g' where
    w: "RequestApproval_end (wq_details sample_waiting) (wq_chan sample_waiting) Decided (gw_approval ?g2) = Some ((sample_resolution, None), e)"
    "toolExecuteQuery_resume sample_server sample_waiting sample_resolution None (?g2\<lparr>gw_approval := e\<rparr>) = (resp, g')"
    and "new_execs ?g2 g' = [text_of (wq_analysis sample_waiting) (eq_Query (wq_args sample_waiting))]"
    by (rule decided) (simp_all add: sample_server_def sample_engine_def chan_value_def BlocksRisk_def g(3))
  moreover have "text_of (wq_analysis sample_waiting) (eq_Query (wq_args sample_waiting)) = Executed ''DELETE FROM users WHERE id = 1''"
    by (simp add: sample_waiting_def text_of_def returnsRows_def HasPrefix_def sample_args_def)
  ultimately obtain h3 where "http_step sample_http h2 h3" "hs_seen h3 = [op_request, agent_request]"
    "(Executed ''DELETE FROM users WHERE id = 1'', None, Some (sample_waiting, sample_resolution)) \<in> set (gs_sent (hs_gw h3))"
    using http_step.wakes [of "hs_gw h2" h2 sample_waiting Decided sample_resolution None e sample_http resp g'] h2 g(3)
    by (fastforce simp: sample_http_def sends_def)
  with 1 2 show ?thesis by (meson converse_rtranclp_into_rtranclp rtranclp.rtrancl_refl)
qed

section \<open>Properties\<close>

text \<open>
  C2. What runs was asked for and, unless it is a read, decided on by callers with the scopes for it: in
  every state the served gateway reaches with authentication on, a query sent for execution either ran
  at once, for a tool call of a caller whose token has the scope \<^verbatim>\<open>query:execute\<close>, because the policy
  executes it; or it is the text of a query that waited, asked for by such a caller, and was released
  by an approval that came as a request on \<^verbatim>\<open>/approve\<close> for this approval identifier, whose token has the
  scope \<^verbatim>\<open>approval:write\<close> and whose name is the actor on record.
\<close>

theorem http_executions_authorised:
  assumes "Enabled (hc_auth c)" "http_init h0" "(http_step c)\<^sup>*\<^sup>* h0 h" "(call, pause, cause) \<in> set (gs_sent (hs_gw h))"
  shows "case cause of
      None \<Rightarrow> asked_by c (hs_seen h) (ran call) \<and> direct_ok (hc_server c) pause (call_text call)
    | Some (q, res) \<Rightarrow> asked_by c (hs_seen h) (waited q) \<and> call_text call = eq_Query (wq_args q) \<and>
        rs_Approved res \<and> decided_by c (hs_seen h) (ad_ID (wq_details q)) res"
proof -
  have inv: "http_inv c h" using served.reachable_inv [OF assms(2,3)] assms(1) by blast
  then have "caused c (hs_seen h) (call, pause, cause)" using assms(4) by (auto simp: http_inv_def)
  moreover have "sent_ok (hc_server c) (gs_log (hs_gw h)) (call, pause, cause)"
    using http_reachable_gateway_inv [OF assms(2,3)] assms(4) by (auto simp: gateway_inv_def)
  moreover have "decided_by c (hs_seen h) i res" if "Signalled i res x \<in> set (gs_log (hs_gw h))" for i res x
    using inv that by (auto simp: http_inv_def)
  ultimately show ?thesis by (auto simp: released_ok_def split: option.splits)
qed

theorem http_executions_authorised_witness:
  "\<exists>h. (http_step sample_http)\<^sup>*\<^sup>* http_start h \<and>
     decided_by sample_http (hs_seen h) ''appr_00'' sample_resolution \<and> asked_by sample_http (hs_seen h) (waited sample_waiting)"
proof -
  obtain h where h: "(http_step sample_http)\<^sup>*\<^sup>* http_start h"
    "(Executed ''DELETE FROM users WHERE id = 1'', None, Some (sample_waiting, sample_resolution)) \<in> set (gs_sent (hs_gw h))"
    using http_run by blast
  have "Enabled (hc_auth sample_http)" by (simp add: sample_http_def Enabled_def two_tokens_def)
  from http_executions_authorised [OF this http_start_init h] h(1) show ?thesis by auto
qed

text \<open>
  C8. Serving over HTTP adds nothing to what the gateway can do: every run of the served gateway,
  whatever requests arrive, in whatever order, and however they are guarded and limited, is a run of
  the gateway of which the safety properties are proved.
\<close>

theorem http_refines_gateway:
  assumes "http_init h0" "(http_step c)\<^sup>*\<^sup>* h0 h"
  shows "gateway_init (hs_gw h0) \<and> (gateway_step (hc_server c))\<^sup>*\<^sup>* (hs_gw h0) (hs_gw h)"
  using http_simulates_runs [OF assms(2)] assms(1) by (simp add: http_init_def)

theorem http_refines_gateway_witness:
  "\<exists>t. (gateway_step sample_server)\<^sup>*\<^sup>* sample_start t \<and> gs_sent t \<noteq> []"
proof -
  obtain h where "(http_step sample_http)\<^sup>*\<^sup>* http_start h" "gs_sent (hs_gw h) \<noteq> []"
    using http_run by force
  with http_refines_gateway [OF http_start_init, of sample_http h] show ?thesis
    by (auto simp: sample_http_def http_start_def)
qed

text \<open>
  C20. The requests that wait for an operator are bounded: with a limit on concurrent requests, the number
  of waiting queries never exceeds it, and while it is reached every further tool call is answered with
  429 and changes nothing.
\<close>

theorem waiting_requests_bounded:
  assumes "0 < hc_maxConcurrent c" "http_init h0" "(http_step c)\<^sup>*\<^sup>* h0 h"
  shows "int (length (gs_inflight (hs_gw h))) \<le> hc_maxConcurrent c \<and>
     (int (length (gs_inflight (hs_gw h))) = hc_maxConcurrent c \<longrightarrow> route r = Some EpMCP \<longrightarrow>
        serve c r (hs_sem h) g = (Answered 429 (error_value ''too many concurrent requests''), hs_sem h, g))"
  using slots.reachable_inv [OF assms(2,3)] assms(1)
  by (auto simp: slots_inv_def serve_def limitConcurrent_def writeJSON_def)

theorem waiting_requests_bounded_witness:
  "\<exists>h. (http_step sample_http)\<^sup>*\<^sup>* http_start h \<and> length (gs_inflight (hs_gw h)) = 1 \<and>
     fst (serve sample_http agent_request (hs_sem h) sample_gateway) = Answered 429 (error_value ''too many concurrent requests'')"
proof -
  obtain g1 where "serve sample_http agent_request (hs_sem http_start) (gs_gateway (hs_gw http_start)) = (Blocked sample_waiting, 1, g1)"
    using agent_blocks by (auto simp: http_start_def sample_start_def)
  from http_step.blocks [OF this refl] obtain h where h: "http_step sample_http http_start h"
    "gs_inflight (hs_gw h) = sample_waiting # gs_inflight (hs_gw http_start)" by fastforce
  then have n: "length (gs_inflight (hs_gw h)) = 1" by (simp add: http_start_def sample_start_def)
  have "0 < hc_maxConcurrent sample_http" by (simp add: sample_http_def)
  moreover have "(http_step sample_http)\<^sup>*\<^sup>* http_start h" using h(1) by simp
  ultimately show ?thesis
    using waiting_requests_bounded [OF _ http_start_init, of sample_http h agent_request sample_gateway] n
    by (intro exI [of _ h]) (simp add: sample_callers sample_http_def)
qed

lemma grants_admin: "grants s ''admin:*'' \<longleftrightarrow> s = ''admin:*''"
  by (auto simp: grants_def Cons_eq_append_conv)

text \<open>
  C18. Only an administrator pauses or resumes the gateway: with authentication on, a step of the served
  gateway that changes the pause controller serves a request on \<^verbatim>\<open>/admin/pause\<close> or \<^verbatim>\<open>/admin/resume\<close> whose
  token has the scope \<^verbatim>\<open>admin:*\<close> itself, and leaves the gateway paused or not as the route says.
\<close>

theorem pause_needs_admin:
  assumes "Enabled (hc_auth c)" "http_step c h h'"
    and "gw_pause (gs_gateway (hs_gw h')) \<noteq> gw_pause (gs_gateway (hs_gw h))"
  shows "\<exists>r b who s p. hs_seen h' = r # hs_seen h \<and> route r = Some (EpPause b) \<and>
     Authenticate (hc_auth c) (hr_header r) = Some who \<and> s \<in> set (pr_Scopes who) \<and> TrimSpace s = ''admin:*'' \<and>
     gw_pause (gs_gateway (hs_gw h')) = Some p \<and> pc_paused p = b"
  using assms(2)
proof cases
  case (answers r status v sem g' t)
  from answers(2) show ?thesis
  proof (cases rule: serve_answered)
    case (pause b ctx reason err g1)
    from caller_principal [OF assms(1) pause(2), of "''admin:*''"] obtain who where
      who: "Authenticate (hc_auth c) (hr_header r) = Some who" "hasScope who ''admin:*''"
      by (auto simp: required_scope_def)
    then obtain s where s: "s \<in> set (pr_Scopes who)" "TrimSpace s = ''admin:*''"
      by (auto simp: hasScope_def any_scope_iff grants_admin)
    from pause(3,4) assms(3) answers(1) obtain p where "gw_pause g' = Some p" "pc_paused p = b"
      by (auto simp: set_paused_def quiet_change_def dest: SetPaused_paused split: option.splits prod.splits)
    with who(1) s pause(1) answers(1) show ?thesis by auto
  next
    case (mcp ctx body resp)
    with Handle_effect [OF mcp(4)] assms(3) answers(1,3) show ?thesis by (simp add: begin_effect_def)
  qed (use assms(3) answers(1,3) in \<open>auto simp: quiet_change_def\<close>)
next
  case (blocks r q sem g' t)
  from blocks(2) obtain ctx body where "Handle (hc_server c) ctx body (gs_gateway (hs_gw h)) = (Waiting q, g')"
    by (rule serve_blocked)
  from Handle_effect [OF this] assms(3) blocks(1,3) show ?thesis by (simp add: begin_effect_def)
next
  case (wakes t q k res err e resp g')
  from resume_effect [OF wakes(5)] assms(3) wakes(1,2) show ?thesis by simp
next
  case (elsewhere t w)
  with assms(3) show ?thesis by simp
qed

definition admin_http :: http_config where
  "admin_http = sample_http\<lparr>hc_auth := Some sample_auth\<rparr>"

definition pause_request :: http_request where
  "pause_request = \<lparr>hr_method = ''POST'', hr_path = [''admin'', ''pause''], hr_header = sample_headers, hr_query = (\<lambda>_. ''''),
     hr_body = Inr None, hr_first = None\<rparr>"

definition running_gateway :: gateway where
  "running_gateway = sample_gateway\<lparr>gw_pause := Some \<lparr>pc_paused = False, pc_reason = '''', pc_updatedAt = 0, pc_file = '''',
     pc_pauseBlocksSafe = False, pc_disk = Absent\<rparr>\<rparr>"

lemma pause_served:
  "\<exists>v g'. serve admin_http pause_request 0 running_gateway = (Answered 200 v, 0, g') \<and> gw_pause g' \<noteq> gw_pause running_gateway"
proof -
  have trim: "TrimSpace ''tok'' = ''tok''" "TrimSpace ''admin:*'' = ''admin:*''"
    by (simp_all add: TrimSpace_plain space_first_def space_last_def)
  have "caller admin_http (EpPause True) pause_request =
      Some (Some \<lparr>pr_Name = ''legacy-admin'', pr_Token = ''legacy-admin'', pr_Scopes = [''admin:*'']\<rparr>)"
    by (simp add: caller_def required_scope_def admin_http_def Enabled_def sample_auth_def Authenticate_def Let_def
        pause_request_def bearerOrHeaderToken_def sample_headers_def trim constantTimeEqual_def hasScope_def)
  from guarded_passes [OF this] show ?thesis
    by (simp add: serve_def pause_request_def route_def post_route_def handler_of_def makePauseHandler_def set_paused_def
        running_gateway_def SetPaused_def save_def WriteFile_def Now_def Let_def writeJSON_def ok_status_def emit_on_def sample_gateway_def on_metrics_def)
qed

theorem pause_needs_admin_witness:
  "\<exists>h'. http_step admin_http \<lparr>hs_gw = sample_start\<lparr>gs_gateway := running_gateway\<rparr>, hs_sem = 0, hs_seen = []\<rparr> h' \<and>
     (\<exists>p. gw_pause (gs_gateway (hs_gw h')) = Some p \<and> pc_paused p)"
proof -
  let ?h = "\<lparr>hs_gw = sample_start\<lparr>gs_gateway := running_gateway\<rparr>, hs_sem = 0, hs_seen = []\<rparr>"
  obtain v g' where "serve admin_http pause_request (hs_sem ?h) (gs_gateway (hs_gw ?h)) = (Answered 200 v, 0, g')"
    and g': "gw_pause g' \<noteq> gw_pause running_gateway" using pause_served by auto
  from http_step.answers [OF this(1) refl] obtain h' where h': "http_step admin_http ?h h'" "gs_gateway (hs_gw h') = g'"
    "hs_seen h' = [pause_request]" by fastforce
  have "Enabled (hc_auth admin_http)" by (simp add: admin_http_def Enabled_def sample_auth_def)
  from pause_needs_admin [OF this h'(1)] g' h'(2,3) obtain p where "route pause_request = Some (EpPause (pc_paused p))"
    "gw_pause g' = Some p" by auto
  with h' show ?thesis by (intro exI [of _ h']) (auto simp: route_def pause_request_def post_route_def)
qed

text \<open>
  C39. A refused resume has resumed: when the pause file cannot be written, the request on \<^verbatim>\<open>/admin/pause\<close> or
  \<^verbatim>\<open>/admin/resume\<close> is answered with 500, but the controller in memory has already taken the new state,
  while the pause gauge is not updated and no alert is sent. The file keeps the old state when it could
  not be opened, so that a resume that reports failure lets the blocked queries through and the next start pauses
  again; when the write broke off, no start on the file succeeds any more.
\<close>

theorem failed_resume_resumes:
  assumes "gw_pause g = Some p" "pc_file p \<noteq> ''''" "file_fault (gw_world g) (Suc (draws (gw_world g))) = Some e"
  shows "\<exists>p' g'. makePauseHandler s paused r ctx g = (Answered 500 (error_value e), g') \<and>
     gw_pause g' = Some p' \<and> pc_paused p' = paused \<and> gw_metrics g' = gw_metrics g \<and> gw_alerts g' = gw_alerts g \<and>
     (file_left (gw_world g) (Suc (draws (gw_world g))) = Untouched \<longrightarrow> pc_disk p' = pc_disk p) \<and>
     (file_left (gw_world g) (Suc (draws (gw_world g))) = Torn k \<longrightarrow> TrimSpace f \<noteq> '''' \<longrightarrow>
        (\<exists>e'. fst (NewPauseController f sp blocksSafe (pc_disk p') w) = Inl e'))"
  using assms by (simp add: makePauseHandler_def set_paused_def SetPaused_def save_def WriteFile_def NewPauseController_def load_def
      Now_def Let_def writeJSON_def)

theorem failed_resume_resumes_witness:
  "\<exists>g'. makePauseHandler sample_server False pause_request None
     (sample_gateway\<lparr>gw_pause := Some \<lparr>pc_paused = True, pc_reason = ''incident'', pc_updatedAt = 0, pc_file = ''p'',
        pc_pauseBlocksSafe = False, pc_disk = Absent\<rparr>, gw_world := quiet_world\<lparr>file_fault := (\<lambda>_. Some ''disk full'')\<rparr>\<rparr>)
     = (Answered 500 (error_value ''disk full''), g') \<and> \<not> BlocksRisk (gw_pause g') RiskCritical \<and>
     map_option pc_disk (gw_pause g') = Some Absent"
proof -
  let ?p = "\<lparr>pc_paused = True, pc_reason = ''incident'', pc_updatedAt = 0, pc_file = ''p'', pc_pauseBlocksSafe = False, pc_disk = Absent\<rparr>"
  let ?g = "sample_gateway\<lparr>gw_pause := Some ?p, gw_world := quiet_world\<lparr>file_fault := (\<lambda>_. Some ''disk full'')\<rparr>\<rparr>"
  have "gw_pause ?g = Some ?p" "pc_file ?p \<noteq> ''''" "file_fault (gw_world ?g) (Suc (draws (gw_world ?g))) = Some ''disk full''"
    by simp_all
  from failed_resume_resumes [OF this, of sample_server False pause_request None] show ?thesis
    by (auto simp: BlocksRisk_def)
qed

end
