(* ===== verification/Metadata_Schema.thy ===== *)
theory Metadata_Schema
  imports Prelude
begin

text \<open>
  Opening the metadata database, \<^verbatim>\<open>gateway/metadata_store.go\<close> and \<^verbatim>\<open>sync/metadata_store.go\<close>: both programs
  create the tables they use and add the columns that an older version of the file lacks. The file's
  catalogue maps tables to their columns with the declared types, with names in lower case; the outcome of each statement is drawn
  from a stream of faults. A nil store is \<open>False\<close>.
\<close>

section \<open>The catalogue\<close>

type_synonym column = "string \<times> string"

record catalog =
  ct_tables :: "(string, column list) gomap"
  ct_fault :: "nat \<Rightarrow> string option"
  ct_draws :: nat

definition statement :: "(catalog \<Rightarrow> string + (string, column list) gomap) \<Rightarrow> catalog \<Rightarrow> string option \<times> catalog" where
  \<comment> \<open>\<^verbatim>\<open>db.ExecContext\<close>: a statement fails and changes nothing, or takes effect\<close>
  "statement f c =
     (let c' = c\<lparr>ct_draws := Suc (ct_draws c)\<rparr>
      in case ct_fault c (ct_draws c) of
           Some e \<Rightarrow> (Some e, c')
         | None \<Rightarrow> (case f c of Inl e \<Rightarrow> (Some e, c') | Inr t \<Rightarrow> (None, c'\<lparr>ct_tables := t\<rparr>)))"

definition pragma :: "catalog \<Rightarrow> string option \<times> catalog" where
  "pragma = statement (\<lambda>c. Inr (ct_tables c))"

definition create_table :: "string \<Rightarrow> column list \<Rightarrow> catalog \<Rightarrow> string option \<times> catalog" where
  \<comment> \<open>\<^verbatim>\<open>CREATE TABLE IF NOT EXISTS\<close>\<close>
  "create_table tab cols =
     statement (\<lambda>c. Inr (case map_get (ct_tables c) tab of
                           None \<Rightarrow> map_put tab cols (ct_tables c) | Some _ \<Rightarrow> ct_tables c))"

definition add_column :: "string \<Rightarrow> column \<Rightarrow> catalog \<Rightarrow> string option \<times> catalog" where
  \<comment> \<open>\<^verbatim>\<open>ALTER TABLE ... ADD COLUMN\<close>\<close>
  "add_column tab col =
     statement (\<lambda>c. case map_get (ct_tables c) tab of
        None \<Rightarrow> Inl (''no such table: '' @ tab)
      | Some cols \<Rightarrow>
          (if fst col \<in> fst ` set cols then Inl (''duplicate column name: '' @ fst col)
           else Inr (map_put tab (cols @ [col]) (ct_tables c))))"

definition table_info :: "string \<Rightarrow> catalog \<Rightarrow> (string + string list) \<times> catalog" where
  \<comment> \<open>\<^verbatim>\<open>PRAGMA table_info\<close>: the names of the columns; a missing table has none\<close>
  "table_info tab c =
     (let c' = c\<lparr>ct_draws := Suc (ct_draws c)\<rparr>
      in case ct_fault c (ct_draws c) of
           Some e \<Rightarrow> (Inl e, c')
         | None \<Rightarrow> (Inr (map fst (map_get_or [] (ct_tables c) tab)), c'))"

definition ensureColumn :: "string \<Rightarrow> column \<Rightarrow> catalog \<Rightarrow> string option \<times> catalog" where
  "ensureColumn tab col c =
     (case table_info tab c of
        (Inl e, c1) \<Rightarrow> (Some e, c1)
      | (Inr names, c1) \<Rightarrow> (if fst col \<in> set names then (None, c1) else add_column tab col c1))"

datatype init_step = Pragma | CreateTable string "column list" | EnsureColumn string column

fun exec_step :: "init_step \<Rightarrow> catalog \<Rightarrow> string option \<times> catalog" where
  "exec_step Pragma c = pragma c"
| "exec_step (CreateTable t cols) c = create_table t cols c"
| "exec_step (EnsureColumn t col) c = ensureColumn t col c"

fun run_steps :: "init_step list \<Rightarrow> catalog \<Rightarrow> string option \<times> catalog" where
  \<comment> \<open>in order, up to the first error\<close>
  "run_steps [] c = (None, c)"
| "run_steps (st # sts) c = (case exec_step st c of (Some e, c1) \<Rightarrow> (Some e, c1) | (None, c1) \<Rightarrow> run_steps sts c1)"

definition OpenMetadataStore :: "init_step list \<Rightarrow> string option \<Rightarrow> string \<Rightarrow> catalog \<Rightarrow> (string + bool) \<times> catalog" where
  \<comment> \<open>given the steps of \<open>init\<close> and the error of \<^verbatim>\<open>sql.Open\<close>\<close>
  "OpenMetadataStore steps openErr path c =
     (if path = '''' then (Inr False, c)
      else case openErr of
        Some e \<Rightarrow> (Inl e, c)
      | None \<Rightarrow> (case run_steps steps c of (Some e, c1) \<Rightarrow> (Inl e, c1) | (None, c1) \<Rightarrow> (Inr True, c1)))"

section \<open>The two programs\<close>

definition status_type :: string where
  "status_type = ''TEXT NOT NULL DEFAULT '' @ [CHR 0x27] @ ''valid'' @ [CHR 0x27]"

definition snapshots_columns :: "column list" where
  "snapshots_columns =
     [(''snapshot_id'', ''TEXT PRIMARY KEY''), (''table_name'', ''TEXT NOT NULL''), (''writer'', ''TEXT''),
      (''snapshot_scope'', ''TEXT''), (''row_count'', ''INTEGER''), (''manifest_key'', ''TEXT''),
      (''timestamp'', ''TEXT NOT NULL''), (''payload_json'', ''TEXT''), (''status'', status_type),
      (''validation_error'', ''TEXT'')]"

definition alerts_columns :: "column list" where
  "alerts_columns =
     [(''id'', ''INTEGER PRIMARY KEY AUTOINCREMENT''), (''timestamp'', ''TEXT NOT NULL''), (''severity'', ''TEXT NOT NULL''),
      (''event_type'', ''TEXT NOT NULL''), (''table_name'', ''TEXT''), (''status'', ''TEXT NOT NULL''), (''payload_json'', ''TEXT'')]"

definition health_columns :: "column list" where
  "health_columns =
     [(''component'', ''TEXT PRIMARY KEY''), (''status'', ''TEXT NOT NULL''), (''checked_at'', ''TEXT NOT NULL''), (''detail_json'', ''TEXT'')]"

definition gateway_init_steps :: "init_step list" where
  "gateway_init_steps =
     [Pragma, Pragma,
      CreateTable ''audit_events''
        [(''id'', ''INTEGER PRIMARY KEY AUTOINCREMENT''), (''timestamp'', ''TEXT NOT NULL''), (''agent_id'', ''TEXT NOT NULL''),
         (''query'', ''TEXT NOT NULL''), (''risk_level'', ''TEXT NOT NULL''), (''approved'', ''INTEGER NOT NULL''),
         (''query_sha256'', ''TEXT''), (''environment'', ''TEXT''), (''cluster_id'', ''TEXT'')],
      CreateTable ''approvals''
        [(''approval_id'', ''TEXT PRIMARY KEY''), (''agent_id'', ''TEXT NOT NULL''), (''query'', ''TEXT NOT NULL''),
         (''risk_level'', ''TEXT NOT NULL''), (''status'', ''TEXT NOT NULL''), (''created_at'', ''TEXT NOT NULL''),
         (''resolved_at'', ''TEXT''), (''query_sha256'', ''TEXT''), (''operation'', ''TEXT''), (''schema_name'', ''TEXT''),
         (''table_name'', ''TEXT''), (''environment'', ''TEXT''), (''cluster_id'', ''TEXT''), (''snapshot_id'', ''TEXT''),
         (''resolved_by'', ''TEXT'')],
      CreateTable ''snapshots'' snapshots_columns,
      CreateTable ''alerts'' alerts_columns,
      CreateTable ''native_backups''
        [(''backup_id'', ''TEXT PRIMARY KEY''), (''backup_type'', ''TEXT NOT NULL''), (''db_name'', ''TEXT''), (''cluster_id'', ''TEXT''),
         (''timestamp'', ''TEXT NOT NULL''), (''payload_json'', ''TEXT'')],
      CreateTable ''health_checks'' health_columns,
      CreateTable ''agent_state''
        [(''agent_id'', ''TEXT PRIMARY KEY''), (''risky_attempts'', ''INTEGER NOT NULL''), (''window_started_at'', ''TEXT NOT NULL''),
         (''quarantine_until'', ''TEXT''), (''last_reason'', ''TEXT''), (''last_table'', ''TEXT''), (''updated_at'', ''TEXT NOT NULL'')],
      EnsureColumn ''audit_events'' (''query_sha256'', ''TEXT''),
      EnsureColumn ''audit_events'' (''environment'', ''TEXT''),
      EnsureColumn ''audit_events'' (''cluster_id'', ''TEXT'')]
     @ map (\<lambda>n. EnsureColumn ''approvals'' (n, ''TEXT''))
         [''query_sha256'', ''operation'', ''schema_name'', ''table_name'', ''environment'', ''cluster_id'', ''snapshot_id'', ''resolved_by'']
     @ [EnsureColumn ''snapshots'' (''status'', status_type), EnsureColumn ''snapshots'' (''validation_error'', ''TEXT'')]"

definition sync_init_steps :: "init_step list" where
  "sync_init_steps =
     [Pragma, Pragma, CreateTable ''snapshots'' snapshots_columns, CreateTable ''alerts'' alerts_columns,
      CreateTable ''health_checks'' health_columns,
      EnsureColumn ''snapshots'' (''status'', status_type), EnsureColumn ''snapshots'' (''validation_error'', ''TEXT'')]"

section \<open>What opening the database gives\<close>

text \<open>The catalogue seen through the names of the columns of each table.\<close>

type_synonym names = "string \<Rightarrow> string set option"

definition names :: "catalog \<Rightarrow> names" where
  "names c t = map_option (\<lambda>cols. fst ` set cols) (map_get (ct_tables c) t)"

fun spec_step :: "init_step \<Rightarrow> names \<Rightarrow> names" where
  "spec_step Pragma N = N"
| "spec_step (CreateTable t cols) N = N(t := Some (case N t of None \<Rightarrow> fst ` set cols | Some ns \<Rightarrow> ns))"
| "spec_step (EnsureColumn t col) N = N(t := map_option (insert (fst col)) (N t))"

lemma statement_ok: "statement f c = (None, c') \<Longrightarrow> \<exists>t. f c = Inr t \<and> ct_tables c' = t"
  by (auto simp: statement_def Let_def split: option.splits sum.splits)

lemma statement_failed: "statement f c = (Some e, c') \<Longrightarrow> ct_tables c' = ct_tables c"
  by (auto simp: statement_def Let_def split: option.splits sum.splits)

lemma table_info_tables: "table_info t c = (r, c') \<Longrightarrow> ct_tables c' = ct_tables c"
  by (auto simp: table_info_def Let_def split: option.splits)

lemma table_info_names: "table_info t c = (Inr ns, c') \<Longrightarrow> set ns = (case names c t of None \<Rightarrow> {} | Some ns \<Rightarrow> ns)"
  by (clarsimp simp: table_info_def names_def map_get_or_def Let_def split: option.splits)

lemma names_cong: "ct_tables c = ct_tables c' \<Longrightarrow> names c = names c'"
  by (simp add: names_def fun_eq_iff)

lemma add_column_ok: "add_column t col c = (None, c') \<Longrightarrow> names c' = spec_step (EnsureColumn t col) (names c)"
proof -
  assume "add_column t col c = (None, c')"
  from statement_ok [OF this [unfolded add_column_def]] obtain cols where "map_get (ct_tables c) t = Some cols"
    "ct_tables c' = map_put t (cols @ [col]) (ct_tables c)" by (force split: option.splits if_splits)
  then show ?thesis by (simp add: names_def fun_eq_iff map_get_put)
qed

lemma ensureColumn_ok: "ensureColumn t col c = (None, c') \<Longrightarrow> names c' = spec_step (EnsureColumn t col) (names c)"
proof -
  assume e: "ensureColumn t col c = (None, c')"
  then obtain ns c1 where i: "table_info t c = (Inr ns, c1)" by (auto simp: ensureColumn_def split: prod.splits sum.splits)
  have n1: "names c1 = names c" by (rule names_cong) (rule table_info_tables [OF i])
  show ?thesis
  proof (cases "fst col \<in> set ns")
    case True
    with e i n1 have "names c' = names c" by (simp add: ensureColumn_def)
    with True table_info_names [OF i] show ?thesis by (auto simp: fun_eq_iff insert_absorb split: option.splits)
  next
    case False
    with e i have "add_column t col c1 = (None, c')" by (simp add: ensureColumn_def)
    from add_column_ok [OF this] n1 show ?thesis by simp
  qed
qed

lemma exec_step_ok:
  assumes "exec_step st c = (None, c')"
  shows "names c' = spec_step st (names c)"
proof (cases st)
  case Pragma
  with assms show ?thesis by (auto simp: pragma_def dest!: statement_ok intro: names_cong)
next
  case (CreateTable t cols)
  with assms have "statement (\<lambda>c. Inr (case map_get (ct_tables c) t of None \<Rightarrow> map_put t cols (ct_tables c) | Some _ \<Rightarrow> ct_tables c)) c
      = (None, c')" by (simp add: create_table_def)
  from statement_ok [OF this] CreateTable show ?thesis
    by (cases "map_get (ct_tables c) t") (simp_all add: names_def fun_eq_iff map_get_put)
next
  case (EnsureColumn t col)
  with assms ensureColumn_ok show ?thesis by simp
qed

lemma run_steps_ok: "run_steps sts c = (None, c') \<Longrightarrow> names c' = fold spec_step sts (names c)"
  by (induction sts arbitrary: c) (auto dest: exec_step_ok split: prod.splits option.splits)

section \<open>Properties\<close>

definition declares :: "init_step list \<Rightarrow> string \<Rightarrow> string \<Rightarrow> bool" where
  "declares sts t n \<longleftrightarrow> (\<exists>cols. CreateTable t cols \<in> set sts \<and> n \<in> fst ` set cols)"

definition ensures :: "init_step list \<Rightarrow> string \<Rightarrow> string \<Rightarrow> bool" where
  "ensures sts t n \<longleftrightarrow> (\<exists>col. EnsureColumn t col \<in> set sts \<and> fst col = n)"

lemma spec_step_keeps: "N t = Some ns \<Longrightarrow> \<exists>ns'. spec_step st N t = Some ns' \<and> ns \<subseteq> ns'"
  by (cases st) auto

lemma spec_keeps: "N t = Some ns \<Longrightarrow> \<exists>ns'. fold spec_step sts N t = Some ns' \<and> ns \<subseteq> ns'"
proof (induction sts arbitrary: N ns)
  case (Cons st sts)
  from spec_step_keeps [where N = N and t = t and st = st, OF Cons.prems] obtain ns1 where 1: "spec_step st N t = Some ns1" "ns \<subseteq> ns1" by blast
  from Cons.IH [where N = "spec_step st N", OF 1(1)] 1(2) show ?case by auto
qed simp

lemma spec_ensures:
  assumes "EnsureColumn t col \<in> set sts" "N t = Some ns"
  shows "\<exists>ns'. fold spec_step sts N t = Some ns' \<and> fst col \<in> ns'"
proof -
  from assms(1) obtain before rest where sts: "sts = before @ EnsureColumn t col # rest" by (meson split_list)
  obtain ns1 where "fold spec_step before N t = Some ns1" using spec_keeps [where N = N and t = t, OF assms(2)] by blast
  then have "spec_step (EnsureColumn t col) (fold spec_step before N) t = Some (insert (fst col) ns1)" by simp
  from spec_keeps [where N = "spec_step (EnsureColumn t col) (fold spec_step before N)" and t = t and sts = rest, OF this]
  show ?thesis by (auto simp: sts)
qed

lemma spec_creates:
  assumes "CreateTable t cols \<in> set sts" "\<And>cols'. CreateTable t cols' \<in> set sts \<Longrightarrow> cols' = cols" "N t = None"
  shows "\<exists>ns'. fold spec_step sts N t = Some ns' \<and> fst ` set cols \<subseteq> ns'"
  using assms
proof (induction sts arbitrary: N)
  case (Cons st sts)
  show ?case
  proof (cases "\<exists>cols'. st = CreateTable t cols'")
    case True
    then obtain cols' where st: "st = CreateTable t cols'" by blast
    with Cons.prems(2) [of cols'] have "cols' = cols" by simp
    with st Cons.prems(3) have "spec_step st N t = Some (fst ` set cols)" by simp
    from spec_keeps [where N = "spec_step st N" and t = t and sts = sts, OF this] show ?thesis by auto
  next
    case False
    then have n: "spec_step st N t = None" using Cons.prems(3) by (cases st) auto
    have a: "CreateTable t cols \<in> set sts" using False Cons.prems(1) by auto
    have b: "cols' = cols" if "CreateTable t cols' \<in> set sts" for cols' using Cons.prems(2) that by simp
    from Cons.IH [where N = "spec_step st N", OF a b n]
    have "\<exists>ns'. fold spec_step sts (spec_step st N) t = Some ns' \<and> fst ` set cols \<subseteq> ns'" .
    then show ?thesis by simp
  qed
qed simp

text \<open>
  Opening the metadata database makes it usable and loses nothing: when a program's initialisation of the file
  succeeds, every column the file had is still there, and every column the program declares is there,
  provided that each column an old table lacks is one of those the migration adds. The programs declare
  each table once.
\<close>

theorem open_makes_usable:
  assumes sts: "sts = gateway_init_steps \<or> sts = sync_init_steps"
    and opened: "OpenMetadataStore sts openErr path c = (Inr True, c')"
  shows "(\<forall>t ns. names c t = Some ns \<longrightarrow> (\<exists>ns'. names c' t = Some ns' \<and> ns \<subseteq> ns')) \<and>
     (\<forall>t n. declares sts t n \<longrightarrow> (\<forall>ns. names c t = Some ns \<longrightarrow> n \<in> ns \<or> ensures sts t n) \<longrightarrow>
        (\<exists>ns'. names c' t = Some ns' \<and> n \<in> ns'))"
proof (intro conjI allI impI)
  have "run_steps sts c = (None, c')"
    using opened by (auto simp: OpenMetadataStore_def split: if_splits option.splits prod.splits)
  note n' = run_steps_ok [OF this]
  show "\<exists>ns'. names c' t = Some ns' \<and> ns \<subseteq> ns'" if "names c t = Some ns" for t ns
    unfolding n' by (rule spec_keeps) (rule that)
  fix t n
  assume d: "declares sts t n" and old: "\<forall>ns. names c t = Some ns \<longrightarrow> n \<in> ns \<or> ensures sts t n"
  from d obtain cols where cols: "CreateTable t cols \<in> set sts" "n \<in> fst ` set cols" by (auto simp: declares_def)
  have once: "CreateTable t cols' \<in> set sts \<Longrightarrow> cols' = cols" for cols'
    using sts cols(1) by (auto simp: gateway_init_steps_def sync_init_steps_def)
  show "\<exists>ns'. names c' t = Some ns' \<and> n \<in> ns'"
  proof (cases "names c t")
    case None
    from spec_creates [where N = "names c" and t = t, OF cols(1) once None] cols(2) show ?thesis by (auto simp: n')
  next
    case (Some ns)
    with old consider "n \<in> ns" | "ensures sts t n" by blast
    then show ?thesis
      using spec_keeps [of "names c" t ns sts, OF Some] spec_ensures [of t _ sts "names c" ns] Some
      by cases (auto simp: n' ensures_def)
  qed
qed

definition old_catalog :: catalog where
  \<comment> \<open>a file of a version whose snapshots had no status\<close>
  "old_catalog = \<lparr>ct_tables = [(''snapshots'', take 8 snapshots_columns)], ct_fault = (\<lambda>_. None), ct_draws = 0\<rparr>"

lemma old_catalog_opens:
  "fst (run_steps gateway_init_steps old_catalog) = None" "fst (run_steps sync_init_steps old_catalog) = None"
  "fst (run_steps sync_init_steps (snd (run_steps gateway_init_steps old_catalog))) = None"
  "fst (run_steps gateway_init_steps (snd (run_steps sync_init_steps old_catalog))) = None"
  by code_simp+

theorem open_makes_usable_witness:
  "\<exists>ns'. names (snd (OpenMetadataStore gateway_init_steps None ''m.db'' old_catalog)) ''snapshots'' = Some ns' \<and> ''status'' \<in> ns'"
proof -
  have "OpenMetadataStore gateway_init_steps None ''m.db'' old_catalog = (Inr True, snd (run_steps gateway_init_steps old_catalog))"
    using old_catalog_opens(1) by (cases "run_steps gateway_init_steps old_catalog") (simp add: OpenMetadataStore_def)
  moreover have "declares gateway_init_steps ''snapshots'' ''status''"
    by (simp add: declares_def gateway_init_steps_def snapshots_columns_def)
  moreover have "ensures gateway_init_steps ''snapshots'' ''status''"
    by (simp add: ensures_def gateway_init_steps_def)
  ultimately show ?thesis
    using open_makes_usable [of gateway_init_steps None "''m.db''" old_catalog "snd (run_steps gateway_init_steps old_catalog)"] by simp
qed

fun at_table :: "string \<Rightarrow> init_step \<Rightarrow> string set option \<Rightarrow> string set option" where
  \<comment> \<open>what a step does to the columns of one table\<close>
  "at_table t Pragma x = x"
| "at_table t (CreateTable t' cols) x = (if t = t' then Some (case x of None \<Rightarrow> fst ` set cols | Some ns \<Rightarrow> ns) else x)"
| "at_table t (EnsureColumn t' col) x = (if t = t' then map_option (insert (fst col)) x else x)"

lemma spec_at_table: "fold spec_step sts N t = fold (at_table t) sts (N t)"
proof (induction sts arbitrary: N)
  case (Cons st sts)
  have "spec_step st N t = at_table t st (N t)" by (cases st) auto
  with Cons [of "spec_step st N"] show ?case by simp
qed simp

fun concerns :: "string \<Rightarrow> init_step \<Rightarrow> bool" where
  "concerns t Pragma = False"
| "concerns t (CreateTable t' cols) = (t = t')"
| "concerns t (EnsureColumn t' col) = (t = t')"

lemma fold_concerns: "fold (at_table t) (filter (concerns t) sts) x = fold (at_table t) sts x"
proof (induction sts arbitrary: x)
  case (Cons st sts)
  then show ?case by (cases st) auto
qed simp

lemma sync_elsewhere:
  "t \<notin> {''snapshots'', ''alerts'', ''health_checks''} \<Longrightarrow> fold (at_table t) sync_init_steps x = x"
  by (simp add: sync_init_steps_def)

lemma shared_steps:
  "filter (concerns ''snapshots'') gateway_init_steps = filter (concerns ''snapshots'') sync_init_steps"
  "filter (concerns ''alerts'') gateway_init_steps = filter (concerns ''alerts'') sync_init_steps"
  "filter (concerns ''health_checks'') gateway_init_steps = filter (concerns ''health_checks'') sync_init_steps"
  by (simp_all add: gateway_init_steps_def sync_init_steps_def)

lemma shared_tables:
  assumes "t \<in> {''snapshots'', ''alerts'', ''health_checks''}"
  shows "fold (at_table t) gateway_init_steps x = fold (at_table t) sync_init_steps x"
proof -
  have "filter (concerns t) gateway_init_steps = filter (concerns t) sync_init_steps" using assms shared_steps by blast
  with fold_concerns [of t gateway_init_steps x] fold_concerns [of t sync_init_steps x] show ?thesis by simp
qed

lemma sync_twice: "fold (at_table t) sync_init_steps (fold (at_table t) sync_init_steps x) = fold (at_table t) sync_init_steps x"
  by (cases x) (auto simp: sync_init_steps_def insert_absorb)

lemma init_orders:
  "fold (at_table t) sync_init_steps (fold (at_table t) gateway_init_steps x) = fold (at_table t) gateway_init_steps x"
  "fold (at_table t) gateway_init_steps (fold (at_table t) sync_init_steps x) = fold (at_table t) gateway_init_steps x"
  using sync_elsewhere [of t] shared_tables [of t] sync_twice [of t]
  by (cases "t \<in> {''snapshots'', ''alerts'', ''health_checks''}"; simp)+

text \<open>
  C28. It does not matter which program opens the file first: from any file, the gateway followed by the sidecar
  and the sidecar followed by the gateway leave the same columns in the same tables, and after
  the gateway the sidecar has nothing to add.
\<close>

theorem either_program_first:
  assumes "run_steps gateway_init_steps c = (None, g)" "run_steps sync_init_steps g = (None, gs)"
    and "run_steps sync_init_steps c = (None, s)" "run_steps gateway_init_steps s = (None, sg)"
  shows "names gs = names sg \<and> names gs = names g"
proof -
  have "names gs t = names sg t \<and> names gs t = names g t" for t
    using init_orders [of t "names c t"] run_steps_ok [OF assms(1)] run_steps_ok [OF assms(2)] run_steps_ok [OF assms(3)]
      run_steps_ok [OF assms(4)] by (simp add: spec_at_table)
  then show ?thesis by (metis ext)
qed

theorem either_program_first_witness:
  "names (snd (run_steps sync_init_steps (snd (run_steps gateway_init_steps old_catalog)))) =
   names (snd (run_steps gateway_init_steps (snd (run_steps sync_init_steps old_catalog))))"
proof -
  have "run_steps gateway_init_steps old_catalog = (None, snd (run_steps gateway_init_steps old_catalog))"
    "run_steps sync_init_steps (snd (run_steps gateway_init_steps old_catalog)) =
       (None, snd (run_steps sync_init_steps (snd (run_steps gateway_init_steps old_catalog))))"
    "run_steps sync_init_steps old_catalog = (None, snd (run_steps sync_init_steps old_catalog))"
    "run_steps gateway_init_steps (snd (run_steps sync_init_steps old_catalog)) =
       (None, snd (run_steps gateway_init_steps (snd (run_steps sync_init_steps old_catalog))))"
    using old_catalog_opens by (metis prod.collapse)+
  from either_program_first [OF this] show ?thesis by simp
qed

text \<open>
  Two starts at once on an old file can fail each other: when one program has looked for a column and not
  found it, and the other adds it before the first one does, the first one's statement fails and its
  start with it, although the column is there.
\<close>

theorem concurrent_open_fails:
  assumes "table_info t c = (Inr ns, c0)" "fst col \<notin> set ns"
    and "ensures sts t (fst col)" "run_steps sts c0 = (None, c1)" "names c t \<noteq> None"
  shows "fst (add_column t col c1) \<noteq> None"
proof -
  obtain n where n: "names c t = Some n" using assms(5) by blast
  have "names c0 = names c" by (rule names_cong) (rule table_info_tables [OF assms(1)])
  with run_steps_ok [OF assms(4)] have c1: "names c1 = fold spec_step sts (names c)" by simp
  from assms(3) obtain col' where "EnsureColumn t col' \<in> set sts" "fst col' = fst col" by (auto simp: ensures_def)
  with spec_ensures [where N = "names c" and t = t and ns = n and sts = sts and col = col'] n c1
  obtain ns' where "names c1 t = Some ns'" "fst col \<in> ns'" by auto
  then show ?thesis by (auto simp: names_def add_column_def statement_def Let_def split: option.splits)
qed

end
