(* ===== verification/Gateway_Main.thy ===== *)
theory Gateway_Main
  imports Http_Properties Metadata_Schema
begin

text \<open>
  The start of the gateway, \<^verbatim>\<open>gateway/main.go\<close>: the flags with their defaults, the checks in the order
  the program makes them, and the wiring of the components into the configuration and the state that
  are served. What the host gives is an argument: the files, the database driver, the S3 client, the
  metadata database, the listener. \<^verbatim>\<open>log.Fatalf\<close> is the error of the start, without the program's name in
  front. The application name that is added to the database URL only labels the connection; it is the subject of
  \<^verbatim>\<open>Posture\<close>.
\<close>

section \<open>Flags\<close>

record flags =
  fl_listen :: string
  fl_approvalTimeout :: duration
  fl_alertWebhook :: string
  fl_db :: string
  fl_storage :: string
  fl_snapshotBeforeCritical :: bool
  fl_auditLog :: string
  fl_authToken :: string
  fl_authTokensFile :: string
  fl_policyFile :: string
  fl_metadataDB :: string
  fl_allowInsecureNoAuth :: bool
  fl_requireAuth :: bool
  fl_metricsPublic :: bool
  fl_maxConcurrent :: int
  fl_environment :: string
  fl_clusterID :: string
  fl_pauseFile :: string
  fl_startPaused :: bool
  fl_pauseBlocksSafe :: bool
  fl_tlsCert :: string
  fl_tlsKey :: string

definition getenvDefault :: "(string \<Rightarrow> string) \<Rightarrow> string \<Rightarrow> string \<Rightarrow> string" where
  "getenvDefault getenv key fallback =
     (let v = TrimSpace (getenv key) in if v \<noteq> '''' then v else fallback)"

definition default_flags :: "(string \<Rightarrow> string) \<Rightarrow> flags" where
  \<comment> \<open>the values without command line arguments, given the environment\<close>
  "default_flags getenv =
     \<lparr>fl_listen = '':8080'', fl_approvalTimeout = 300 * Second, fl_alertWebhook = '''', fl_db = '''', fl_storage = '''',
      fl_snapshotBeforeCritical = True, fl_auditLog = getenv ''BACKSTOP_GATEWAY_AUDIT_LOG'',
      fl_authToken = getenv ''BACKSTOP_GATEWAY_AUTH_TOKEN'', fl_authTokensFile = getenv ''BACKSTOP_AUTH_TOKENS_FILE'',
      fl_policyFile = getenv ''BACKSTOP_GATEWAY_POLICY_FILE'',
      fl_metadataDB = getenvDefault getenv ''BACKSTOP_METADATA_DB'' ''backstop.db'',
      fl_allowInsecureNoAuth = False, fl_requireAuth = True, fl_metricsPublic = False, fl_maxConcurrent = 64,
      fl_environment = getenvDefault getenv ''BACKSTOP_ENVIRONMENT'' ''local'',
      fl_clusterID = getenvDefault getenv ''BACKSTOP_CLUSTER_ID'' ''local'',
      fl_pauseFile = getenv ''BACKSTOP_PAUSE_FILE'', fl_startPaused = False, fl_pauseBlocksSafe = False,
      fl_tlsCert = '''', fl_tlsKey = ''''\<rparr>"

definition validateAuthConfig :: "bool \<Rightarrow> bool \<Rightarrow> string \<Rightarrow> string \<Rightarrow> string option" where
  "validateAuthConfig require_auth allowInsecure token tokenFile =
     (if require_auth \<and> TrimSpace token = '''' \<and> TrimSpace tokenFile = '''' \<and> \<not> allowInsecure
      then Some (''auth token is required; set --auth-token/BACKSTOP_GATEWAY_AUTH_TOKEN or ''
             @ ''--auth-tokens-file/BACKSTOP_AUTH_TOKENS_FILE, or explicitly use --allow-insecure-no-auth=true for local development'')
      else None)"

section \<open>Waiting for the database\<close>

text \<open>
  The outcome of each ping, and the context's error if the \<^verbatim>\<open>select\<close> after it saw the context done, are
  given by the number of the ping. Not returning is \<open>None\<close>.
\<close>

partial_function (option) waitForDB ::
  "(nat \<Rightarrow> string option) \<Rightarrow> (nat \<Rightarrow> string option) \<Rightarrow> nat \<Rightarrow> string option option" where
  [code]: "waitForDB ping ended n =
     (case ping n of
        None \<Rightarrow> Some None
      | Some lastErr \<Rightarrow>
          (case ended n of
             Some ctxErr \<Rightarrow> Some (Some (ctxErr @ '': '' @ lastErr))
           | None \<Rightarrow> waitForDB ping ended (Suc n)))"

definition runHTTPHealthcheck :: "string + int \<times> string \<Rightarrow> string option" where
  \<comment> \<open>given the error of the request, or the response's code and status line\<close>
  "runHTTPHealthcheck res =
     (case res of
        Inl e \<Rightarrow> Some e
      | Inr (code, status) \<Rightarrow> (if code < 200 \<or> 300 \<le> code then Some (''healthcheck failed: '' @ status) else None))"

section \<open>The start\<close>

record start_host =
  ho_files :: "string \<Rightarrow> file_result"
  ho_sqlOpen :: "string option"
  ho_ping :: "nat \<Rightarrow> string option"
  ho_pingEnded :: "nat \<Rightarrow> string option"
  ho_uriError :: "string \<Rightarrow> string option"
  ho_getenv :: "string \<Rightarrow> string"
  ho_sdk :: "s3_options \<Rightarrow> string + (string \<Rightarrow> s3)" \<comment> \<open>the client sees each bucket\<close>
  ho_sqliteOpen :: "string option"
  ho_catalog :: catalog
  ho_auditOpen :: "string option"
  ho_auditRead :: "string option"
  ho_auditLine :: "AuditEntry \<Rightarrow> audit_line"
  ho_auditFile :: "audit_file option"
  ho_pauseDisk :: state_file
  ho_listen :: "string option"
  ho_parse :: "string \<Rightarrow> string + node option list"
  ho_pg :: postgres
  ho_world :: world

definition open_database :: "flags \<Rightarrow> start_host \<Rightarrow> (string + bool) option" where
  \<comment> \<open>whether there is a database; \<open>None\<close> when the wait for it does not end\<close>
  "open_database f ho =
     (if fl_db f = '''' then Some (Inr False)
      else case ho_sqlOpen ho of
        Some e \<Rightarrow> Some (Inl (''failed to open database: '' @ e))
      | None \<Rightarrow>
          map_option (\<lambda>res. case res of Some e \<Rightarrow> Inl (''failed to connect to database: '' @ e) | None \<Rightarrow> Inr True)
            (waitForDB (ho_ping ho) (ho_pingEnded ho) 0))"

definition open_verifier :: "flags \<Rightarrow> start_host \<Rightarrow> string + S3SnapshotVerifier option" where
  "open_verifier f ho =
     (if fl_storage f = '''' then Inr None
      else case ParseStorage (ho_uriError ho) (fl_storage f) '''' ''backstop'' of
        Inl e \<Rightarrow> Inl (''invalid --storage: '' @ e)
      | Inr cfg \<Rightarrow>
          (case NewS3Client (ho_sdk ho) (ho_getenv ho) cfg of
             Inl e \<Rightarrow> Inl (''failed to initialize S3 client: '' @ e)
           | Inr client \<Rightarrow> Inr (Some (NewS3SnapshotVerifier (client (sc_Bucket cfg)) cfg))))"

definition open_metadata :: "flags \<Rightarrow> start_host \<Rightarrow> string + bool \<times> world" where
  \<comment> \<open>the metadata database and the record of the start\<close>
  "open_metadata f ho =
     (case fst (OpenMetadataStore gateway_init_steps (ho_sqliteOpen ho) (fl_metadataDB f) (ho_catalog ho)) of
        Inl e \<Rightarrow> Inl (''failed to open metadata DB: '' @ e)
      | Inr md \<Rightarrow>
          (case RecordHealth md ''gateway'' ''starting'' (JObj [(''listen'', JStr (fl_listen f))]) (ho_world ho) of
             (Some e, w) \<Rightarrow> Inl (''failed to record startup health: '' @ e)
           | (None, w) \<Rightarrow> Inr (md, w)))"

definition NewMCPServer ::
  "(string \<Rightarrow> string + node option list) \<Rightarrow> postgres \<Rightarrow> bool \<Rightarrow> string \<Rightarrow> bool \<Rightarrow> verifier option \<Rightarrow> MCPServer" where
  \<comment> \<open>the configuration; the engines and the counters are the state, and \<^verbatim>\<open>webhook\<close> and \<^verbatim>\<open>defaultDBURL\<close> are not read\<close>
  "NewMCPServer parse pg db storage snapshotBeforeCritical snapshotVerifier =
     \<lparr>mc_parse = parse, mc_pg = pg, mc_db = db, mc_storage = storage, mc_snapshotBeforeCritical = snapshotBeforeCritical,
      mc_snapshotVerifier = snapshotVerifier, mc_policy = DefaultGatewayPolicy, mc_environment = ''local'', mc_clusterID = ''local''\<rparr>"

definition wire :: "flags \<Rightarrow> start_host \<Rightarrow> TokenAuthenticator \<Rightarrow> bool \<Rightarrow> S3SnapshotVerifier option \<Rightarrow> GatewayPolicy \<Rightarrow> bool \<Rightarrow>
    PauseController \<Rightarrow> world \<Rightarrow> http_config \<times> gateway" where
  "wire f ho auth db verifier policy md pause w =
     (let server = (NewMCPServer (ho_parse ho) (ho_pg ho) db (fl_storage f) (fl_snapshotBeforeCritical f)
              (map_option (\<lambda>v. s3_backed (SetMetadataStore md v)) verifier))
            \<lparr>mc_policy := policy, mc_environment := fl_environment f, mc_clusterID := fl_clusterID f\<rparr>
      in (\<lparr>hc_server = server, hc_auth = Some auth, hc_metadata = md, hc_metricsPublic = fl_metricsPublic f,
           hc_maxConcurrent = fl_maxConcurrent f\<rparr>,
          \<lparr>gw_approval = NewApprovalEngine (fl_approvalTimeout f),
           gw_registry = NewAgentRegistryWithStores (ho_auditOpen ho) (ho_auditRead ho) (ho_auditLine ho) (ho_auditFile ho) (fl_auditLog f) md,
           gw_metrics = SetPauseState (BlocksRisk (Some pause) RiskHigh) (Some NewGatewayMetrics),
           gw_pause = Some pause, gw_alerts = Some (NewGatewayAlertSink (fl_alertWebhook f) md),
           gw_calls = [], gw_world = w\<rparr>))"

definition start_gateway :: "flags \<Rightarrow> start_host \<Rightarrow> (string + http_config \<times> gateway) option" where
  "start_gateway f ho =
     (case validateAuthConfig (fl_requireAuth f) (fl_allowInsecureNoAuth f) (fl_authToken f) (fl_authTokensFile f) of
        Some e \<Rightarrow> Some (Inl e)
      | None \<Rightarrow>
     (case NewTokenAuthenticator (ho_files ho) (fl_authToken f) (fl_authTokensFile f)
             (\<not> fl_requireAuth f \<or> fl_allowInsecureNoAuth f) of
        Inl e \<Rightarrow> Some (Inl (''invalid auth config: '' @ e))
      | Inr auth \<Rightarrow>
     (case open_database f ho of
        None \<Rightarrow> None
      | Some (Inl e) \<Rightarrow> Some (Inl e)
      | Some (Inr db) \<Rightarrow>
     (case open_verifier f ho of
        Inl e \<Rightarrow> Some (Inl e)
      | Inr verifier \<Rightarrow>
     (case LoadGatewayPolicy (ho_files ho) (fl_policyFile f) of
        Inl e \<Rightarrow> Some (Inl (''invalid --policy-file: '' @ e))
      | Inr policy \<Rightarrow>
     (case open_metadata f ho of
        Inl e \<Rightarrow> Some (Inl e)
      | Inr (md, w1) \<Rightarrow>
     (case NewPauseController (fl_pauseFile f) (fl_startPaused f) (fl_pauseBlocksSafe f) (ho_pauseDisk ho) w1 of
        (Inl e, w2) \<Rightarrow> Some (Inl (''invalid pause config: '' @ e))
      | (Inr pause, w2) \<Rightarrow>
          (if (fl_tlsCert f = '''') \<noteq> (fl_tlsKey f = '''')
           then Some (Inl ''--tls-cert and --tls-key must be provided together'')
           else case ho_listen ho of
             Some e \<Rightarrow> Some (Inl (''failed to listen on '' @ fl_listen f @ '': '' @ e))
           | None \<Rightarrow> Some (Inr (wire f ho auth db verifier policy md pause w2))))))))))"

definition stop_gateway :: "flags \<Rightarrow> bool \<Rightarrow> world \<Rightarrow> world" where
  \<comment> \<open>the record of the shutdown, whose error is only logged\<close>
  "stop_gateway f md w = snd (RecordHealth md ''gateway'' ''stopping'' (JObj [(''listen'', JStr (fl_listen f))]) w)"

definition served_start :: "gateway \<Rightarrow> http_sys" where
  "served_start g = \<lparr>hs_gw = \<lparr>gs_gateway = g, gs_inflight = [], gs_log = [], gs_sent = []\<rparr>, hs_sem = 0, hs_seen = []\<rparr>"

section \<open>Properties\<close>

lemma waitForDB_skip:
  assumes "\<forall>j < k. ping (n + j) \<noteq> None \<and> ended (n + j) = None"
  shows "waitForDB ping ended n = waitForDB ping ended (n + k)"
  using assms
proof (induction k arbitrary: n)
  case (Suc k)
  from Suc.prems have "ping n \<noteq> None" "ended n = None" by auto
  then obtain e where "ping n = Some e" "ended n = None" by auto
  then have "waitForDB ping ended n = waitForDB ping ended (Suc n)" by (simp add: waitForDB.simps [of ping ended n])
  also have "\<dots> = waitForDB ping ended (Suc n + k)" using Suc.prems by (intro Suc.IH) auto
  finally show ?case by simp
qed simp

text \<open>
  C30. The wait for the database ends with the first ping that succeeds, or with the first failing ping after
  which the context is done, whichever comes first: without an error in the one case and with the
  context's error and the last ping's error in the other. So under the deadline of the start it
  always returns.
\<close>

theorem waitForDB_returns:
  assumes "ping k = None \<or> ended k \<noteq> None"
  shows "\<exists>m \<le> k. (\<forall>j < m. ping j \<noteq> None \<and> ended j = None) \<and> (ping m = None \<or> ended m \<noteq> None) \<and>
     waitForDB ping ended 0 = Some (map_option (\<lambda>e. the (ended m) @ '': '' @ e) (ping m))"
proof -
  define m where "m = (LEAST m. ping m = None \<or> ended m \<noteq> None)"
  have m: "ping m = None \<or> ended m \<noteq> None" unfolding m_def using assms by (rule LeastI)
  have le: "m \<le> k" unfolding m_def using assms by (rule Least_le)
  have before: "\<forall>j < m. ping j \<noteq> None \<and> ended j = None"
  proof (intro allI impI)
    fix j assume "j < m"
    then have "\<not> (ping j = None \<or> ended j \<noteq> None)" unfolding m_def by (rule not_less_Least)
    then show "ping j \<noteq> None \<and> ended j = None" by simp
  qed
  have "waitForDB ping ended 0 = waitForDB ping ended m" using waitForDB_skip [of m ping 0 ended] before by simp
  also have "\<dots> = Some (map_option (\<lambda>e. the (ended m) @ '': '' @ e) (ping m))"
    using m by (cases "ping m") (auto simp: waitForDB.simps [of ping ended m])
  finally show ?thesis using m le before by blast
qed

theorem waitForDB_returns_witness:
  "waitForDB (\<lambda>n. if n = 2 then None else Some ''refused'') (\<lambda>_. None) 0 \<noteq> None"
  using waitForDB_returns [of "\<lambda>n. if n = 2 then None else Some ''refused''" 2 "\<lambda>_. None"] by auto

lemma start_gateway_wires:
  assumes "start_gateway f ho = Some (Inr (c, g))"
  obtains auth db verifier policy md pause w w' where
    "validateAuthConfig (fl_requireAuth f) (fl_allowInsecureNoAuth f) (fl_authToken f) (fl_authTokensFile f) = None"
    "NewTokenAuthenticator (ho_files ho) (fl_authToken f) (fl_authTokensFile f)
       (\<not> fl_requireAuth f \<or> fl_allowInsecureNoAuth f) = Inr auth"
    "LoadGatewayPolicy (ho_files ho) (fl_policyFile f) = Inr policy"
    "open_verifier f ho = Inr verifier"
    "NewPauseController (fl_pauseFile f) (fl_startPaused f) (fl_pauseBlocksSafe f) (ho_pauseDisk ho) w = (Inr pause, w')"
    "wire f ho auth db verifier policy md pause w' = (c, g)"
proof -
  obtain auth where a: "NewTokenAuthenticator (ho_files ho) (fl_authToken f) (fl_authTokensFile f)
      (\<not> fl_requireAuth f \<or> fl_allowInsecureNoAuth f) = Inr auth"
    and v: "validateAuthConfig (fl_requireAuth f) (fl_allowInsecureNoAuth f) (fl_authToken f) (fl_authTokensFile f) = None"
    using assms unfolding start_gateway_def by (simp split: option.splits sum.splits)
  note s = assms [unfolded start_gateway_def v a option.case sum.case]
  obtain db where d: "open_database f ho = Some (Inr db)" using s by (simp split: option.splits sum.splits)
  note s = s [unfolded d option.case sum.case]
  obtain verifier where ver: "open_verifier f ho = Inr verifier" using s by (simp split: sum.splits)
  note s = s [unfolded ver sum.case]
  obtain policy where p: "LoadGatewayPolicy (ho_files ho) (fl_policyFile f) = Inr policy" using s by (simp split: sum.splits)
  note s = s [unfolded p sum.case]
  obtain md w where md: "open_metadata f ho = Inr (md, w)" using s by (simp split: sum.splits prod.splits)
  note s = s [unfolded md sum.case prod.case]
  obtain pause w' where pa: "NewPauseController (fl_pauseFile f) (fl_startPaused f) (fl_pauseBlocksSafe f) (ho_pauseDisk ho) w = (Inr pause, w')"
    using s by (simp split: sum.splits prod.splits)
  note s = s [unfolded pa sum.case prod.case]
  have "wire f ho auth db verifier policy md pause w' = (c, g)" using s by (simp split: if_splits option.splits)
  with v a p ver pa show ?thesis by (rule that)
qed

text \<open>
  C19. The gateway starts guarded: when it starts, what it serves begins with nothing waiting and nothing
  sent; unless a flag opts out of authentication, the authenticator is enabled and a token or a token file
  was given; a start in pause blocks every query that is not \<^verbatim>\<open>SAFE\<close>; the gauge shows the pause; and
  without a storage URL there is no verifier, so critical queries have no recovery point to run on.
\<close>

theorem start_is_guarded:
  assumes "start_gateway f ho = Some (Inr (c, g))"
  shows "http_init (served_start g) \<and>
     (fl_requireAuth f \<and> \<not> fl_allowInsecureNoAuth f \<longrightarrow>
        Enabled (hc_auth c) \<and> (TrimSpace (fl_authToken f) \<noteq> '''' \<or> TrimSpace (fl_authTokensFile f) \<noteq> '''')) \<and>
     (fl_startPaused f \<longrightarrow> (\<forall>risk. risk \<noteq> RiskSafe \<longrightarrow> BlocksRisk (gw_pause g) risk)) \<and>
     map_option pauseState (gw_metrics g) = Some (if BlocksRisk (gw_pause g) RiskHigh then 1 else 0) \<and>
     (mc_snapshotVerifier (hc_server c) = None \<longleftrightarrow> fl_storage f = '''')"
  using assms
proof (rule start_gateway_wires)
  fix auth db verifier policy md pause w w'
  assume v: "validateAuthConfig (fl_requireAuth f) (fl_allowInsecureNoAuth f) (fl_authToken f) (fl_authTokensFile f) = None"
    and a: "NewTokenAuthenticator (ho_files ho) (fl_authToken f) (fl_authTokensFile f)
       (\<not> fl_requireAuth f \<or> fl_allowInsecureNoAuth f) = Inr auth"
    and ver: "open_verifier f ho = Inr verifier"
    and p: "NewPauseController (fl_pauseFile f) (fl_startPaused f) (fl_pauseBlocksSafe f) (ho_pauseDisk ho) w = (Inr pause, w')"
    and wire: "wire f ho auth db verifier policy md pause w' = (c, g)"
  from wire have fields: "gw_approval g = NewApprovalEngine (fl_approvalTimeout f)" "gw_calls g = []" "gw_pause g = Some pause"
    "gw_metrics g = SetPauseState (BlocksRisk (Some pause) RiskHigh) (Some NewGatewayMetrics)" "hc_auth c = Some auth"
    "mc_snapshotVerifier (hc_server c) = map_option (\<lambda>v. s3_backed (SetMetadataStore md v)) verifier"
    by (auto simp: wire_def NewMCPServer_def Let_def)
  have "http_init (served_start g)" by (auto simp: http_init_def served_start_def gateway_init_def fields)
  moreover have "Enabled (hc_auth c) \<and> (TrimSpace (fl_authToken f) \<noteq> '''' \<or> TrimSpace (fl_authTokensFile f) \<noteq> '''')"
    if "fl_requireAuth f \<and> \<not> fl_allowInsecureNoAuth f"
    using that v a NewTokenAuthenticator_wf by (auto simp: validateAuthConfig_def fields Enabled_def split: if_splits)
  moreover have "BlocksRisk (gw_pause g) risk" if "fl_startPaused f" "risk \<noteq> RiskSafe" for risk
    using start_paused [of "fl_pauseFile f" "fl_pauseBlocksSafe f" "ho_pauseDisk ho" w pause] that p
    by (simp add: fields BlocksRisk_def)
  moreover have "mc_snapshotVerifier (hc_server c) = None \<longleftrightarrow> fl_storage f = ''''"
    using ver by (auto simp: fields open_verifier_def split: if_splits sum.splits)
  ultimately show ?thesis by (simp add: fields SetPauseState_def)
qed

definition sample_host :: start_host where
  "sample_host = \<lparr>ho_files = (\<lambda>_. ReadError ''none''), ho_sqlOpen = None, ho_ping = (\<lambda>_. None), ho_pingEnded = (\<lambda>_. None),
     ho_uriError = (\<lambda>_. None), ho_getenv = (\<lambda>_. ''''), ho_sdk = (\<lambda>_. Inl ''no credentials''), ho_sqliteOpen = None, ho_catalog = old_catalog, ho_auditOpen = None,
     ho_auditRead = None, ho_auditLine = sample_line, ho_auditFile = None, ho_pauseDisk = Absent, ho_listen = None, ho_parse = delete_parse, ho_pg = sample_pg, ho_world = quiet_world\<rparr>"

definition sample_flags :: flags where
  "sample_flags = (default_flags (\<lambda>_. ''''))\<lparr>fl_authToken := ''tok'', fl_startPaused := True\<rparr>"

lemma sample_start_gateway: "\<exists>c g. start_gateway sample_flags sample_host = Some (Inr (c, g))"
proof -
  have trim: "TrimSpace ''tok'' = ''tok''" by (simp add: TrimSpace_plain space_first_def space_last_def)
  have "fst (OpenMetadataStore gateway_init_steps None ''backstop.db'' old_catalog) = Inr True"
    using old_catalog_opens(1) by (cases "run_steps gateway_init_steps old_catalog") (simp add: OpenMetadataStore_def)
  then show ?thesis
    by (simp add: start_gateway_def sample_flags_def default_flags_def sample_host_def validateAuthConfig_def trim getenvDefault_def
        NewTokenAuthenticator_def open_database_def open_verifier_def LoadGatewayPolicy_def open_metadata_def RecordHealth_def
        Now_def withTx_ok NewPauseController_def wire_def Let_def)
qed

theorem start_is_guarded_witness:
  "\<exists>c g. start_gateway sample_flags sample_host = Some (Inr (c, g)) \<and> Enabled (hc_auth c) \<and> BlocksRisk (gw_pause g) RiskCritical"
proof -
  obtain c g where s: "start_gateway sample_flags sample_host = Some (Inr (c, g))" using sample_start_gateway by blast
  have "fl_requireAuth sample_flags" "\<not> fl_allowInsecureNoAuth sample_flags" "fl_startPaused sample_flags"
    by (simp_all add: sample_flags_def default_flags_def)
  with start_is_guarded [OF s] s show ?thesis by auto
qed

end
