(* ===== verification/Sync_Store.thy ===== *)
theory Sync_Store
  imports Metadata_Store
begin

text \<open>
  The sidecar's manifest (\<^verbatim>\<open>sync/snapshot.go\<close>) and its metadata store (\<^verbatim>\<open>sync/metadata_store.go\<close>). The sidecar
  and the gateway are two programs that share one SQLite file and one bucket, so the sidecar's store
  works on the same tables, and \<open>gateway_view\<close> is the manifest that the gateway reads out of what
  the sidecar writes. A nil slice is \<open>None\<close>.
\<close>

section \<open>The manifest\<close>

record SyncManifest =
  y_ManifestVersion :: int
  y_Writer :: string
  y_DBName :: string
  y_SchemaName :: string
  y_SnapshotID :: string
  y_Timestamp :: string
  y_TableName :: string
  y_Query :: string
  y_Operation :: string
  y_Actor :: "string option"
  y_RowCount :: int
  y_SchemaDDL :: string
  y_FKConstraints :: "string list option"
  y_Indexes :: "string list option"
  y_CheckConstraints :: "string list option"
  y_S3Bucket :: string
  y_S3DataKey :: string
  y_S3ManifestKey :: string
  y_DataSHA256 :: string
  y_SnapshotScope :: string
  y_Status :: string
  y_ValidationError :: string
  y_VerifiedAt :: string
  y_SourceSelectSQL :: "string option"

definition zero_sync_manifest :: SyncManifest where
  "zero_sync_manifest =
     \<lparr>y_ManifestVersion = 0, y_Writer = '''', y_DBName = '''', y_SchemaName = '''', y_SnapshotID = '''',
      y_Timestamp = '''', y_TableName = '''', y_Query = '''', y_Operation = '''', y_Actor = None, y_RowCount = 0,
      y_SchemaDDL = '''', y_FKConstraints = None, y_Indexes = None, y_CheckConstraints = None, y_S3Bucket = '''',
      y_S3DataKey = '''', y_S3ManifestKey = '''', y_DataSHA256 = '''', y_SnapshotScope = '''', y_Status = '''',
      y_ValidationError = '''', y_VerifiedAt = '''', y_SourceSelectSQL = None\<rparr>"

definition json_pointer :: "string option \<Rightarrow> json" where
  "json_pointer p = (case p of None \<Rightarrow> JNull | Some s \<Rightarrow> JStr s)"

definition json_strings :: "string list option \<Rightarrow> json" where
  "json_strings xs = (case xs of None \<Rightarrow> JNull | Some ss \<Rightarrow> JArr (map JStr ss))"

definition marshal_sync :: "SyncManifest \<Rightarrow> json" where
  "marshal_sync m =
     JObj ([(''manifest_version'', JInt (y_ManifestVersion m)), (''writer'', JStr (y_Writer m)),
            (''db_name'', JStr (y_DBName m)), (''schema_name'', JStr (y_SchemaName m)),
            (''snapshot_id'', JStr (y_SnapshotID m)), (''timestamp'', JStr (y_Timestamp m)),
            (''table_name'', JStr (y_TableName m)), (''query'', JStr (y_Query m)),
            (''operation'', JStr (y_Operation m)), (''actor'', json_pointer (y_Actor m)),
            (''row_count'', JInt (y_RowCount m)), (''schema_ddl'', JStr (y_SchemaDDL m)),
            (''fk_constraints'', json_strings (y_FKConstraints m)), (''indexes'', json_strings (y_Indexes m)),
            (''check_constraints'', json_strings (y_CheckConstraints m)), (''s3_bucket'', JStr (y_S3Bucket m)),
            (''s3_data_key'', JStr (y_S3DataKey m)), (''s3_manifest_key'', JStr (y_S3ManifestKey m)),
            (''data_sha256'', JStr (y_DataSHA256 m)), (''snapshot_scope'', JStr (y_SnapshotScope m)),
            (''status'', JStr (y_Status m))]
           @ omit_str ''validation_error'' (y_ValidationError m) @ omit_str ''verified_at'' (y_VerifiedAt m)
           @ [(''source_select_sql'', json_pointer (y_SourceSelectSQL m))])"

definition gateway_view :: "SyncManifest \<Rightarrow> SnapshotManifest" where
  "gateway_view m =
     \<lparr>m_ManifestVersion = y_ManifestVersion m, m_Writer = y_Writer m, m_DBName = y_DBName m,
      m_SchemaName = y_SchemaName m, m_SnapshotID = y_SnapshotID m, m_Timestamp = y_Timestamp m,
      m_TableName = y_TableName m, m_Operation = y_Operation m, m_RowCount = y_RowCount m,
      m_S3DataKey = y_S3DataKey m, m_S3ManifestKey = y_S3ManifestKey m, m_SnapshotScope = y_SnapshotScope m,
      m_DataSHA256 = y_DataSHA256 m, m_Status = y_Status m, m_ValidationError = y_ValidationError m\<rparr>"

text \<open>The keys that only the sidecar knows select no field of the gateway's struct.\<close>

lemma field_for_None:
  "field_for tbl k = None \<longleftrightarrow> list_all (\<lambda>n. n \<noteq> k \<and> \<not> EqualFold n k) (map fst tbl)"
  by (force simp: field_for_def list_all_iff find_None_all map_of_eq_None_iff split: option.splits dest: map_of_SomeD)

lemma decode_skip: "field_for tbl k = None \<Longrightarrow> decode_fields tbl ((k, v) # kvs) r = decode_fields tbl kvs r"
  by (simp add: decode_fields.simps)

lemma decode_skip_omitted:
  "field_for tbl k = None \<Longrightarrow> decode_fields tbl (omit_str k s @ kvs) r = decode_fields tbl kvs r"
  by (simp add: omit_str_def decode_skip)

lemma sidecar_only_keys:
  "list_all (\<lambda>k. field_for manifest_fields k = None)
     [''query'', ''actor'', ''schema_ddl'', ''fk_constraints'', ''indexes'', ''check_constraints'', ''s3_bucket'',
      ''verified_at'', ''source_select_sql'']"
proof -
  have names: "map fst manifest_fields =
      [''manifest_version'', ''writer'', ''db_name'', ''schema_name'', ''snapshot_id'', ''timestamp'', ''table_name'',
       ''operation'', ''row_count'', ''s3_data_key'', ''s3_manifest_key'', ''snapshot_scope'', ''data_sha256'', ''status'',
       ''validation_error'']"
    by (simp add: manifest_fields_def)
  show ?thesis unfolding field_for_None names by code_simp
qed

lemma manifest_lookup:
  "map_of manifest_fields ''manifest_version'' = Some (int_field m_ManifestVersion (\<lambda>x. m_ManifestVersion_update (\<lambda>_. x)))"
  "map_of manifest_fields ''writer'' = Some (str_field m_Writer (\<lambda>x. m_Writer_update (\<lambda>_. x)))"
  "map_of manifest_fields ''db_name'' = Some (str_field m_DBName (\<lambda>x. m_DBName_update (\<lambda>_. x)))"
  "map_of manifest_fields ''schema_name'' = Some (str_field m_SchemaName (\<lambda>x. m_SchemaName_update (\<lambda>_. x)))"
  "map_of manifest_fields ''snapshot_id'' = Some (str_field m_SnapshotID (\<lambda>x. m_SnapshotID_update (\<lambda>_. x)))"
  "map_of manifest_fields ''timestamp'' = Some (str_field m_Timestamp (\<lambda>x. m_Timestamp_update (\<lambda>_. x)))"
  "map_of manifest_fields ''table_name'' = Some (str_field m_TableName (\<lambda>x. m_TableName_update (\<lambda>_. x)))"
  "map_of manifest_fields ''operation'' = Some (str_field m_Operation (\<lambda>x. m_Operation_update (\<lambda>_. x)))"
  "map_of manifest_fields ''row_count'' = Some (int_field m_RowCount (\<lambda>x. m_RowCount_update (\<lambda>_. x)))"
  "map_of manifest_fields ''s3_data_key'' = Some (str_field m_S3DataKey (\<lambda>x. m_S3DataKey_update (\<lambda>_. x)))"
  "map_of manifest_fields ''s3_manifest_key'' = Some (str_field m_S3ManifestKey (\<lambda>x. m_S3ManifestKey_update (\<lambda>_. x)))"
  "map_of manifest_fields ''snapshot_scope'' = Some (str_field m_SnapshotScope (\<lambda>x. m_SnapshotScope_update (\<lambda>_. x)))"
  "map_of manifest_fields ''data_sha256'' = Some (str_field m_DataSHA256 (\<lambda>x. m_DataSHA256_update (\<lambda>_. x)))"
  "map_of manifest_fields ''status'' = Some (str_field m_Status (\<lambda>x. m_Status_update (\<lambda>_. x)))"
  "map_of manifest_fields ''validation_error'' = Some (str_field m_ValidationError (\<lambda>x. m_ValidationError_update (\<lambda>_. x)))"
  by (simp_all add: manifest_fields_def)

lemma gateway_reads_sidecar:
  assumes "in_int64 (y_ManifestVersion m)" "in_int64 (y_RowCount m)"
  shows "unmarshal_manifest (marshal_sync m) = Some (gateway_view m)"
proof -
  have skip: "field_for manifest_fields ''query'' = None" "field_for manifest_fields ''actor'' = None"
    "field_for manifest_fields ''schema_ddl'' = None" "field_for manifest_fields ''fk_constraints'' = None"
    "field_for manifest_fields ''indexes'' = None" "field_for manifest_fields ''check_constraints'' = None"
    "field_for manifest_fields ''s3_bucket'' = None" "field_for manifest_fields ''verified_at'' = None"
    "field_for manifest_fields ''source_select_sql'' = None"
    using sidecar_only_keys by simp_all
  show ?thesis
    by (simp add: unmarshal_manifest_def marshal_sync_def gateway_view_def decode_struct_def zero_manifest_def
        manifest_lookup skip decode_skip decode_skip_omitted assms)
      (simp add: str_field_def int_field_def assms manifest_lookup decode_skip decode_skip_omitted skip)
qed

section \<open>The store\<close>

definition SyncRecordSnapshot :: "bool \<Rightarrow> SyncManifest \<Rightarrow> world \<Rightarrow> string option \<times> world" where
  "SyncRecordSnapshot s m w =
     (if \<not> s then (None, w)
      else withTx (\<lambda>db. Inr (db\<lparr>snapshots_tbl := insert_or_replace (y_SnapshotID m)
             \<lparr>sn_table_name = y_TableName m, sn_writer = y_Writer m, sn_snapshot_scope = y_SnapshotScope m,
              sn_row_count = y_RowCount m, sn_manifest_key = Some (y_S3ManifestKey m),
              sn_timestamp = y_Timestamp m, sn_payload_json = Some (marshal_sync m),
              sn_status = or_else '''' ''valid'' (y_Status m),
              sn_validation_error = y_ValidationError m\<rparr> (snapshots_tbl db)\<rparr>)) w)"

definition SyncRecordInvalidSnapshot :: "bool \<Rightarrow> SyncManifest \<Rightarrow> string \<Rightarrow> world \<Rightarrow> string option \<times> world" where
  "SyncRecordInvalidSnapshot s m validationErr w =
     (if \<not> s then (None, w)
      else let m1 = m\<lparr>y_Status := ''invalid'', y_ValidationError := validationErr\<rparr>
           in if y_Timestamp m1 = ''''
              then let (now, w1) = Now w in SyncRecordSnapshot s (m1\<lparr>y_Timestamp := FormatRFC3339 now\<rparr>) w1
              else SyncRecordSnapshot s m1 w)"

definition SyncQuarantineManifest ::
  "bool \<Rightarrow> string \<Rightarrow> string \<Rightarrow> string \<Rightarrow> string \<Rightarrow> world \<Rightarrow> string option \<times> world" where
  "SyncQuarantineManifest s snapshotID tab manifestKey reason w =
     (if \<not> s then (None, w)
      else let (sid, w1) = (if snapshotID = ''''
                            then (let (now, w') = Now w in (''unknown_'' @ FormatCompact now, w'))
                            else (snapshotID, w));
               (now, w2) = Now w1
           in SyncRecordSnapshot s
                (zero_sync_manifest\<lparr>y_SnapshotID := sid, y_TableName := tab, y_S3ManifestKey := manifestKey,
                   y_Timestamp := FormatRFC3339 now, y_Status := ''quarantined'', y_ValidationError := reason,
                   y_Writer := sidecarWriter, y_SnapshotScope := ''table'', y_FKConstraints := Some [],
                   y_Indexes := Some [], y_CheckConstraints := Some []\<rparr>) w2)"

definition SyncRecordAlert ::
  "bool \<Rightarrow> string \<Rightarrow> string \<Rightarrow> string \<Rightarrow> string \<Rightarrow> json \<Rightarrow> world \<Rightarrow> string option \<times> world" where
  "SyncRecordAlert s severity eventType tab status payload w =
     (if \<not> s then (None, w)
      else let (now, w1) = Now w
           in withTx (\<lambda>db. Inr (db\<lparr>alerts_tbl := alerts_tbl db @
                [\<lparr>al_timestamp = FormatRFC3339Nano now, al_severity = severity, al_event_type = eventType,
                  al_table_name = tab, al_status = status, al_payload_json = payload\<rparr>]\<rparr>)) w1)"

definition SyncRecordHealth :: "bool \<Rightarrow> string \<Rightarrow> string \<Rightarrow> json \<Rightarrow> world \<Rightarrow> string option \<times> world" where
  "SyncRecordHealth s component status detail w =
     (if \<not> s then (None, w)
      else let (now, w1) = Now w
           in withTx (\<lambda>db. Inr (db\<lparr>health_checks := insert_or_replace component
                \<lparr>he_status = status, he_checked_at = FormatRFC3339Nano now, he_detail_json = detail\<rparr>
                (health_checks db)\<rparr>)) w1)"

text \<open>The sidecar's alerts and heartbeats are written exactly as the gateway writes its own.\<close>

lemma same_writers: "SyncRecordAlert = StoreAlert" "SyncRecordHealth = RecordHealth"
  by (intro ext; simp add: SyncRecordAlert_def StoreAlert_def SyncRecordHealth_def RecordHealth_def)+

lemma SyncRecordSnapshot_row:
  assumes "SyncRecordSnapshot True m w = (None, w')"
  shows "select_key (snapshots_tbl (store w')) sid =
     (if sid = y_SnapshotID m
      then Some \<lparr>sn_table_name = y_TableName m, sn_writer = y_Writer m, sn_snapshot_scope = y_SnapshotScope m,
              sn_row_count = y_RowCount m, sn_manifest_key = Some (y_S3ManifestKey m),
              sn_timestamp = y_Timestamp m, sn_payload_json = Some (marshal_sync m),
              sn_status = or_else '''' ''valid'' (y_Status m), sn_validation_error = y_ValidationError m\<rparr>
      else select_key (snapshots_tbl (store w)) sid)"
  using assms by (auto simp: SyncRecordSnapshot_def tab.get_put elim!: withTx_cases)

section \<open>Properties\<close>

text \<open>
  What the sidecar records, the gateway accepts: once the sidecar has recorded a snapshot it marked
  valid, the gateway's validation of the manifest, as the gateway reads it from the bucket, succeeds.
  The two programs' structs differ; the fields the gateway compares survive the trip through the
  shared database.
\<close>

theorem gateway_validates_sidecar_record:
  assumes "SyncRecordSnapshot True m w = (None, w')" "y_Status m = ''valid''"
    and "in_int64 (y_ManifestVersion m)" "in_int64 (y_RowCount m)" "read_fault w' (draws w') = None"
  shows "fst (ValidateSnapshotRecord True (gateway_view m) w') = None"
proof -
  have "m_SnapshotID (gateway_view m) = y_SnapshotID m" by (simp add: gateway_view_def)
  then show ?thesis
    using SyncRecordSnapshot_row [OF assms(1), of "y_SnapshotID m"] gateway_reads_sidecar [OF assms(3,4)] assms(2,5)
    by (simp add: ValidateSnapshotRecord_def payload_matches_def or_else_def) (simp add: gateway_view_def)
qed

definition sample_sync :: SyncManifest where
  "sample_sync = zero_sync_manifest\<lparr>y_SnapshotID := ''snap_1'', y_TableName := ''users'', y_Status := ''valid'',
     y_Indexes := Some [''CREATE INDEX i ON users (id)'']\<rparr>"

theorem gateway_validates_sidecar_record_witness:
  "fst (ValidateSnapshotRecord True (gateway_view sample_sync) (snd (SyncRecordSnapshot True sample_sync quiet_world))) = None"
  by (rule gateway_validates_sidecar_record [of _ quiet_world])
    (simp_all add: SyncRecordSnapshot_def withTx_def sample_sync_def zero_sync_manifest_def in_int64_def)

end
