(* ===== verification/Go_Sql.thy ===== *)
theory Go_Sql
  imports Prelude
begin

text \<open>
  Result sets of \<^verbatim>\<open>database/sql\<close> as the sidecar reads them. A query fails, or it gives rows: for each row
  that \<^verbatim>\<open>rows.Next\<close> announces, the values scanned or the error of \<^verbatim>\<open>Scan\<close>, and at the end the error
  that \<^verbatim>\<open>rows.Err\<close> reports, if any.
\<close>

datatype 'a rows = QueryError string | Rows (row_list: "(string + 'a) list") (rows_Err: "string option")

fun scan_loop :: "('b \<Rightarrow> 'a \<Rightarrow> 'b) \<Rightarrow> 'b \<Rightarrow> (string + 'a) list \<Rightarrow> string + 'b" where
  \<comment> \<open>\<^verbatim>\<open>for rows.Next()\<close> with an early return on an error of \<^verbatim>\<open>Scan\<close>\<close>
  "scan_loop f acc [] = Inr acc"
| "scan_loop f acc (Inl e # rs) = Inl e"
| "scan_loop f acc (Inr r # rs) = scan_loop f (f acc r) rs"

definition read_rows :: "('b \<Rightarrow> 'a \<Rightarrow> 'b) \<Rightarrow> 'b \<Rightarrow> 'a rows \<Rightarrow> string + 'b" where
  \<comment> \<open>the query, the loop and \<^verbatim>\<open>rows.Err\<close>\<close>
  "read_rows f acc q =
     (case q of
        QueryError e \<Rightarrow> Inl e
      | Rows rs err \<Rightarrow>
          (case scan_loop f acc rs of
             Inl e \<Rightarrow> Inl e
           | Inr acc' \<Rightarrow> (case err of Some e \<Rightarrow> Inl e | None \<Rightarrow> Inr acc')))"

definition read_list :: "'a rows \<Rightarrow> string + 'a list" where
  \<comment> \<open>the loop that appends every row\<close>
  "read_list = read_rows (\<lambda>xs x. xs @ [x]) []"

lemma scan_loop_Inr: "scan_loop f acc rs = Inr b \<longleftrightarrow> (\<exists>xs. rs = map Inr xs \<and> b = foldl f acc xs)"
proof (induction f acc rs rule: scan_loop.induct)
  case (3 f acc r rs)
  then show ?case by (auto simp: Cons_eq_map_conv)
qed auto

lemma scan_loop_map [simp]: "scan_loop f acc (map Inr xs) = Inr (foldl f acc xs)"
  by (simp add: scan_loop_Inr)

lemma read_rows_Inr: "read_rows f acc q = Inr b \<longleftrightarrow> (\<exists>xs. q = Rows (map Inr xs) None \<and> b = foldl f acc xs)"
  by (cases q) (auto simp: read_rows_def scan_loop_Inr split: sum.splits option.splits)

lemma foldl_snoc: "foldl (\<lambda>xs x. xs @ [x]) acc xs = acc @ xs"
  by (induction xs arbitrary: acc) simp_all

lemma foldl_snoc_map: "foldl (\<lambda>xs x. xs @ [f x]) acc xs = acc @ map f xs"
  by (induction xs arbitrary: acc) simp_all

lemma read_list_Inr: "read_list q = Inr xs \<longleftrightarrow> q = Rows (map Inr xs) None"
  by (auto simp: read_list_def read_rows_Inr foldl_snoc)

text \<open>A result set that arrives whole.\<close>

abbreviation whole :: "'a list \<Rightarrow> 'a rows" where
  "whole xs \<equiv> Rows (map Inr xs) None"

end
