(* ===== verification/Sync_Snapshot.thy ===== *)
theory Sync_Snapshot
  imports Sync_Store Snapshot_Verifier Impact Metrics Go_Sql
begin

text \<open>
  The snapshot engine of the sidecar, \<^verbatim>\<open>sync/snapshot.go\<close>. PostgreSQL's answers to the queries of one capture are an
  argument, and so is the Parquet library: whether it accepts a schema and a row, and the bytes of the file it
  leaves. The bucket is state: the objects stored, with streams of outcomes for the calls, among
  them uploads that fail after storing something and uploads that succeed but store something else. A capture holds
  the lock of its table, so each operation is one step; the temporary file lives only inside it.
\<close>

section \<open>The bucket\<close>

record cloud =
  objects :: "(string, object) gomap"
  put_out :: "nat \<Rightarrow> string option \<times> (object \<Rightarrow> object option)"
  get_out :: "nat \<Rightarrow> string option"
  body_out :: "nat \<Rightarrow> string option"
  del_out :: "nat \<Rightarrow> string option \<times> bool"
  calls :: nat

definition called :: "cloud \<Rightarrow> cloud" where
  "called c = c\<lparr>calls := Suc (calls c)\<rparr>"

definition PutObject :: "string \<Rightarrow> object \<Rightarrow> cloud \<Rightarrow> string option \<times> cloud" where
  "PutObject key body c =
     (case put_out c (calls c) of
        (err, stored) \<Rightarrow>
          (err, case stored body of
                  None \<Rightarrow> called c
                | Some ob \<Rightarrow> (called c)\<lparr>objects := map_put key ob (objects c)\<rparr>))"

definition GetObject :: "string \<Rightarrow> cloud \<Rightarrow> (string + object) \<times> cloud" where
  \<comment> \<open>an object that is there may fail to come, or its body may break off\<close>
  "GetObject key c =
     (case get_out c (calls c) of
        Some e \<Rightarrow> (Inl e, called c)
      | None \<Rightarrow>
          (case map_get (objects c) key of
             None \<Rightarrow> (Inl ''NoSuchKey'', called c)
           | Some ob \<Rightarrow> (Inr (ob\<lparr>ob_read_error := body_out c (calls c)\<rparr>), called c)))"

definition DeleteObject :: "string \<Rightarrow> cloud \<Rightarrow> string option \<times> cloud" where
  "DeleteObject key c =
     (case del_out c (calls c) of
        (err, gone) \<Rightarrow>
          (err, if gone then (called c)\<lparr>objects := filter (\<lambda>ob. fst ob \<noteq> key) (objects c)\<rparr> else called c))"

section \<open>The engine\<close>

record SnapshotEngine =
  en_storage :: StorageConfig
  en_dbName :: string
  en_schema :: string
  en_maxTableRows :: int
  en_latest :: "(string, SyncManifest) gomap"

definition NewSnapshotEngine :: "StorageConfig \<Rightarrow> string \<Rightarrow> string \<Rightarrow> int \<Rightarrow> SnapshotEngine" where
  "NewSnapshotEngine storage dbName sch maxTableRows =
     \<lparr>en_storage = storage, en_dbName = dbName, en_schema = sch, en_maxTableRows = maxTableRows, en_latest = []\<rparr>"

definition cleanupOrphanedData :: "string \<Rightarrow> cloud \<Rightarrow> cloud" where
  "cleanupOrphanedData dataKey c = snd (DeleteObject dataKey c)"

definition Latest :: "string \<Rightarrow> SnapshotEngine \<Rightarrow> SyncManifest option" where
  "Latest tab e = map_get (en_latest e) tab"

definition verifyUploadedDataObject :: "string \<Rightarrow> string \<Rightarrow> cloud \<Rightarrow> string option \<times> cloud" where
  "verifyUploadedDataObject key wantSHA256 c =
     (if TrimSpace wantSHA256 = '''' then (Some (''snapshot data object '' @ key @ '' has no expected sha256''), c)
      else case GetObject key c of
        (Inl e, c1) \<Rightarrow> (Some (''verify uploaded snapshot object '' @ key @ '': '' @ e), c1)
      | (Inr ob, c1) \<Rightarrow>
          (case ob_read_error ob of
             Some e \<Rightarrow> (Some (''hash uploaded snapshot object '' @ key @ '': '' @ e), c1)
           | None \<Rightarrow>
               (let got = sha256_hex (ob_bytes ob)
                in if \<not> EqualFold got wantSHA256
                   then (Some (''uploaded snapshot object '' @ key @ '' sha256 mismatch: got '' @ got @ '' want '' @ wantSHA256), c1)
                   else (None, c1))))"

definition VerifyLatest ::
  "string \<Rightarrow> SnapshotEngine \<Rightarrow> cloud \<Rightarrow> world \<Rightarrow> (string + SyncManifest) \<times> SnapshotEngine \<times> cloud \<times> world" where
  "VerifyLatest tab e c w =
     (case map_get (en_latest e) tab of
        None \<Rightarrow> (Inl (''no latest snapshot for table '' @ tab), e, c, w)
      | Some m \<Rightarrow>
          (if y_Status m \<noteq> ''valid'' \<or> y_DataSHA256 m = ''''
           then (Inl (''latest snapshot for table '' @ tab @ '' is not verifiable: status='' @ Quote (y_Status m)
                      @ '' sha256_present='' @ (if y_DataSHA256 m \<noteq> '''' then ''true'' else ''false'')), e, c, w)
           else case verifyUploadedDataObject (y_S3DataKey m) (y_DataSHA256 m) c of
             (Some err, c1) \<Rightarrow> (Inl err, e, c1, w)
           | (None, c1) \<Rightarrow>
               (let (now, w1) = Now w; m1 = m\<lparr>y_VerifiedAt := FormatRFC3339 now\<rparr>
                in (Inr m1, e\<lparr>en_latest := map_put tab m1 (en_latest e)\<rparr>, c1, w1))))"

section \<open>The schema\<close>

record column_row =
  cr_name :: string
  cr_dataType :: string
  cr_charLen :: "int option"
  cr_precision :: "int option"
  cr_scale :: "int option"
  cr_nullable :: string
  cr_def :: "string option"

record fk_row =
  fk_name :: string
  fk_col :: string
  fk_foreignTable :: string
  fk_foreignCol :: string
  fk_updateRule :: string
  fk_deleteRule :: string

definition pgColType :: "string \<Rightarrow> int option \<Rightarrow> int option \<Rightarrow> int option \<Rightarrow> string" where
  "pgColType dataType charLen precision scale =
     (if dataType = ''character varying''
      then (case charLen of Some n \<Rightarrow> ''VARCHAR('' @ int_str n @ '')'' | None \<Rightarrow> ''VARCHAR'')
      else if dataType = ''character''
      then (case charLen of Some n \<Rightarrow> ''CHAR('' @ int_str n @ '')'' | None \<Rightarrow> ''CHAR'')
      else if dataType = ''numeric''
      then (case (precision, scale) of
              (Some p, Some s) \<Rightarrow> ''NUMERIC('' @ int_str p @ '','' @ int_str s @ '')''
            | _ \<Rightarrow> ''NUMERIC'')
      else if dataType = ''timestamp with time zone'' then ''TIMESTAMPTZ''
      else if dataType = ''timestamp without time zone'' then ''TIMESTAMP''
      else ToUpper dataType)"

definition primaryKeys :: "string rows \<Rightarrow> string + string list" where
  "primaryKeys q = read_list q"

definition column_line :: "column_row \<Rightarrow> string" where
  "column_line r =
     ''    '' @ quoteIdent (cr_name r) @ '' '' @ pgColType (cr_dataType r) (cr_charLen r) (cr_precision r) (cr_scale r)
     @ (if cr_nullable r = ''NO'' then '' NOT NULL'' else '''')
     @ (case cr_def r of Some d \<Rightarrow> '' DEFAULT '' @ d | None \<Rightarrow> '''')"

definition tableDDL :: "column_row rows \<Rightarrow> string rows \<Rightarrow> string \<Rightarrow> string + string" where
  \<comment> \<open>the loop over the columns is not followed by a look at \<^verbatim>\<open>rows.Err\<close>\<close>
  "tableDDL columns pkq tab =
     (case columns of
        QueryError e \<Rightarrow> Inl e
      | Rows rs _ \<Rightarrow>
          (case scan_loop (\<lambda>defs r. defs @ [column_line r]) [] rs of
             Inl e \<Rightarrow> Inl e
           | Inr defs \<Rightarrow>
               (case primaryKeys pkq of
                  Inl e \<Rightarrow> Inl e
                | Inr pks \<Rightarrow>
                    (let defs1 = (if pks = [] then defs
                                  else defs @ [''    PRIMARY KEY ('' @ Join (map quoteIdent pks) '', '' @ '')''])
                     in if defs1 = [] then Inr (''CREATE TABLE '' @ quoteIdent tab @ '' ()'')
                        else Inr (''CREATE TABLE '' @ quoteIdent tab @ '' ('' @ [CHR 0x0A]
                                  @ Join defs1 ('','' @ [CHR 0x0A]) @ [CHR 0x0A] @ '')'')))))"

definition fk_statement :: "string \<Rightarrow> fk_row \<Rightarrow> string" where
  "fk_statement tab r =
     ''ALTER TABLE '' @ quoteIdent tab @ '' ADD CONSTRAINT '' @ quoteIdent (fk_name r) @ '' FOREIGN KEY (''
     @ quoteIdent (fk_col r) @ '') REFERENCES '' @ quoteIdent (fk_foreignTable r) @ '' ('' @ quoteIdent (fk_foreignCol r) @ '')''
     @ (if fk_updateRule r \<noteq> ''NO ACTION'' then '' ON UPDATE '' @ fk_updateRule r else '''')
     @ (if fk_deleteRule r \<noteq> ''NO ACTION'' then '' ON DELETE '' @ fk_deleteRule r else '''')
     @ '';''"

definition fkConstraints :: "string \<Rightarrow> fk_row rows \<Rightarrow> string + string list" where
  "fkConstraints tab q = read_rows (\<lambda>out r. out @ [fk_statement tab r]) [] q"

definition checkConstraints :: "string \<Rightarrow> (string \<times> string) rows \<Rightarrow> string + string list" where
  "checkConstraints tab q =
     read_rows (\<lambda>out (name, def). out @ [''ALTER TABLE '' @ quoteIdent tab @ '' ADD CONSTRAINT '' @ quoteIdent name
                                         @ '' '' @ def @ '';'']) [] q"

definition indexes :: "string rows \<Rightarrow> string + string list" where
  "indexes q =
     read_rows (\<lambda>out indexdef. if Contains (ToUpper indexdef) '' PRIMARY KEY '' then out else out @ [indexdef]) [] q"

definition nonNilStrings :: "string list option \<Rightarrow> string list option" where
  "nonNilStrings values = (case values of None \<Rightarrow> Some [] | Some vs \<Rightarrow> Some vs)"

definition slice :: "'a list \<Rightarrow> 'a list option" where
  \<comment> \<open>\<^verbatim>\<open>var out []T\<close> is nil until something is appended\<close>
  "slice xs = (if xs = [] then None else Some xs)"

section \<open>The rows\<close>

text \<open>
  A value as the driver hands it over. A time carries its zone as an offset in seconds; a float
  is kept as the text \<^verbatim>\<open>fmt.Sprint\<close> gives it.
\<close>

datatype dbvalue = DNull | DBytes string | DTime instant int | DInt int | DBool bool | DString string | DFloat string

definition zone_text :: "int \<Rightarrow> string" where
  \<comment> \<open>the layout element \<^verbatim>\<open>Z07:00\<close>\<close>
  "zone_text off =
     (if off = 0 then ''Z''
      else let m = nat (\<bar>off\<bar> div 60)
           in (if off < 0 then ''-'' else ''+'') @ pad 2 (m div 60) @ '':'' @ pad 2 (m mod 60))"

definition normalizeDBValue :: "dbvalue \<Rightarrow> json" where
  "normalizeDBValue value =
     (case value of
        DNull \<Rightarrow> JNull
      | DBytes v \<Rightarrow> JStr v
      | DTime t off \<Rightarrow> JStr (butlast (FormatRFC3339Nano (t + off * Second)) @ zone_text off)
      | DInt n \<Rightarrow> JStr (int_str n)
      | DBool b \<Rightarrow> JStr (if b then ''true'' else ''false'')
      | DString s \<Rightarrow> JStr s
      | DFloat s \<Rightarrow> JStr s)"

record libs =
  pq_create :: "string option"
  pq_new :: "json \<Rightarrow> string option"
  pq_write :: "json \<Rightarrow> json list \<Rightarrow> json \<Rightarrow> string option"
  pq_file :: "json \<Rightarrow> json list \<Rightarrow> string"
  json_text :: "json \<Rightarrow> string"

definition parquetSchema :: "string list \<Rightarrow> json" where
  "parquetSchema columns =
     JObj [(''Fields'', JArr (map (\<lambda>col. JObj [(''Tag'', JStr (''name='' @ col
                              @ '', type=BYTE_ARRAY, convertedtype=UTF8, repetitiontype=OPTIONAL''))]) columns)),
           (''Tag'', JStr ''name=parquet_go_root'')]"

definition row_json :: "string list \<Rightarrow> dbvalue list \<Rightarrow> json" where
  \<comment> \<open>a map from columns to values, written with sorted keys\<close>
  "row_json cols values =
     (let obj = foldl (\<lambda>m (col, v). map_put col (normalizeDBValue v) m) [] (zip cols values)
      in JObj (map (\<lambda>k. (k, map_get_or JNull obj k)) (sort (map fst obj))))"

fun write_rows ::
  "libs \<Rightarrow> json \<Rightarrow> string list \<Rightarrow> int \<Rightarrow> string \<Rightarrow> (string + dbvalue list) list \<Rightarrow> json list \<Rightarrow> string option \<times> json list" where
  \<comment> \<open>the row count is the number of rows written\<close>
  "write_rows L sch cols maxRows tab [] out = (None, out)"
| "write_rows L sch cols maxRows tab (Inl e # rs) out = (Some e, out)"
| "write_rows L sch cols maxRows tab (Inr values # rs) out =
     (let raw = row_json cols values
      in case pq_write L sch out raw of
           Some e \<Rightarrow> (Some e, out)
         | None \<Rightarrow>
             (let out1 = out @ [raw]
              in if 0 < maxRows \<and> maxRows < int (length out1)
                 then (Some (''table '' @ tab @ '' exceeds max table rows ('' @ int_str maxRows @ '')''), out1)
                 else write_rows L sch cols maxRows tab rs out1))"

definition writeTableParquet ::
  "libs \<Rightarrow> (string + string list) \<Rightarrow> dbvalue list rows \<Rightarrow> string \<Rightarrow> int \<Rightarrow> string + (int \<times> string)" where
  \<comment> \<open>the count and the bytes of the file; an error of \<^verbatim>\<open>WriteStop\<close> is dropped\<close>
  "writeTableParquet L columns answer tab maxRows =
     (case answer of
        QueryError e \<Rightarrow> Inl e
      | Rows rs err \<Rightarrow>
          (case columns of
             Inl e \<Rightarrow> Inl e
           | Inr cols \<Rightarrow>
               (case pq_create L of
                  Some e \<Rightarrow> Inl e
                | None \<Rightarrow>
                    (case pq_new L (parquetSchema cols) of
                       Some e \<Rightarrow> Inl e
                     | None \<Rightarrow>
                         (case write_rows L (parquetSchema cols) cols maxRows tab rs [] of
                            (Some e, out) \<Rightarrow> Inl e
                          | (None, out) \<Rightarrow>
                              (case err of
                                 Some e \<Rightarrow> Inl e
                               | None \<Rightarrow> Inr (int (length out), pq_file L (parquetSchema cols) out)))))))"

section \<open>Capturing a table\<close>

record table_answers =
  ta_columns :: "column_row rows"
  ta_primaryKeys :: "string rows"
  ta_fks :: "fk_row rows"
  ta_checks :: "(string \<times> string) rows"
  ta_indexes :: "string rows"
  ta_dataColumns :: "string + string list"
  ta_data :: "dbvalue list rows"

definition generateSnapshotID :: "world \<Rightarrow> string \<times> world" where
  \<comment> \<open>the stream gives the hexadecimal text of the random bytes, or of the clock when they fail\<close>
  "generateSnapshotID w = (''snap_'' @ rand_hex w (draws w), drawn w)"

definition fileSHA256 :: "string \<Rightarrow> world \<Rightarrow> (string + string) \<times> world" where
  \<comment> \<open>of a file with the given bytes; opening or reading it may fail\<close>
  "fileSHA256 bytes w =
     (case file_fault w (draws w) of Some e \<Rightarrow> Inl e | None \<Rightarrow> Inr (sha256_hex bytes), drawn w)"

definition capture_schema ::
  "table_answers \<Rightarrow> string \<Rightarrow> string + (string \<times> string list option \<times> string list option \<times> string list option)" where
  \<comment> \<open>phase 1: the definition, the foreign keys, the checks and the indexes\<close>
  "capture_schema ans tab =
     (case tableDDL (ta_columns ans) (ta_primaryKeys ans) tab of
        Inl e \<Rightarrow> Inl (''capture schema DDL for '' @ tab @ '': '' @ e)
      | Inr ddl \<Rightarrow>
          (case fkConstraints tab (ta_fks ans) of
             Inl e \<Rightarrow> Inl (''capture FK constraints for '' @ tab @ '': '' @ e)
           | Inr fks \<Rightarrow>
               (case checkConstraints tab (ta_checks ans) of
                  Inl e \<Rightarrow> Inl (''capture CHECK constraints for '' @ tab @ '': '' @ e)
                | Inr checks \<Rightarrow>
                    (case indexes (ta_indexes ans) of
                       Inl e \<Rightarrow> Inl (''capture indexes for '' @ tab @ '': '' @ e)
                     | Inr idx \<Rightarrow> Inr (ddl, slice fks, slice checks, slice idx)))))"

definition base_key :: "SnapshotEngine \<Rightarrow> string \<Rightarrow> string \<Rightarrow> string" where
  "base_key e tab sid = sc_Prefix (en_storage e) @ ''/snapshots/'' @ safeTableKey tab @ ''/'' @ sid"

definition file_object :: "string \<Rightarrow> object" where
  "file_object bytes = \<lparr>ob_bytes = bytes, ob_read_error = None, ob_json = None\<rparr>"

definition manifest_object :: "libs \<Rightarrow> SyncManifest \<Rightarrow> object" where
  "manifest_object L m =
     \<lparr>ob_bytes = json_text L (marshal_sync m), ob_read_error = None, ob_json = Some (marshal_sync m)\<rparr>"

definition capture_manifest ::
  "SnapshotEngine \<Rightarrow> string \<Rightarrow> string \<Rightarrow> instant \<Rightarrow> instant \<Rightarrow> int \<Rightarrow>
   string \<times> string list option \<times> string list option \<times> string list option \<Rightarrow> string \<Rightarrow> SyncManifest" where
  "capture_manifest e tab sid now verified rowCount sch dataHash =
     (case sch of
        (ddl, fks, checks, idx) \<Rightarrow>
          \<lparr>y_ManifestVersion = 1, y_Writer = sidecarWriter, y_DBName = en_dbName e, y_SchemaName = en_schema e,
           y_SnapshotID = sid, y_Timestamp = FormatRFC3339 now, y_TableName = tab,
           y_Query = ''SYNC SNAPSHOT '' @ en_schema e @ ''.'' @ tab, y_Operation = ''SYNC_SNAPSHOT'', y_Actor = None,
           y_RowCount = rowCount, y_SchemaDDL = ddl, y_FKConstraints = nonNilStrings fks,
           y_Indexes = nonNilStrings idx, y_CheckConstraints = nonNilStrings checks,
           y_S3Bucket = sc_Bucket (en_storage e), y_S3DataKey = base_key e tab sid @ ''/data.parquet'',
           y_S3ManifestKey = base_key e tab sid @ ''/manifest.json'', y_DataSHA256 = dataHash,
           y_SnapshotScope = ''table'', y_Status = ''valid'', y_ValidationError = '''',
           y_VerifiedAt = FormatRFC3339 verified, y_SourceSelectSQL = None\<rparr>)"

definition upload_snapshot ::
  "libs \<Rightarrow> string \<Rightarrow> string \<Rightarrow> int \<times> string \<Rightarrow> string \<times> string list option \<times> string list option \<times> string list option \<Rightarrow>
   string \<Rightarrow> SnapshotEngine \<Rightarrow> cloud \<Rightarrow> world \<Rightarrow> (string + SyncManifest) \<times> SnapshotEngine \<times> cloud \<times> world" where
  \<comment> \<open>phases 3 to 6: upload, read back, seal with the manifest, publish in memory\<close>
  "upload_snapshot L tab sid counted sch dataHash e c w =
     (let dataKey = base_key e tab sid @ ''/data.parquet''; manifestKey = base_key e tab sid @ ''/manifest.json''
      in case PutObject dataKey (file_object (snd counted)) c of
           (Some err, c1) \<Rightarrow> (Inl (''upload parquet to S3 for '' @ tab @ '': '' @ err), e, c1, w)
         | (None, c1) \<Rightarrow>
             (case verifyUploadedDataObject dataKey dataHash c1 of
                (Some err, c2) \<Rightarrow>
                  (Inl (''verify uploaded data for '' @ tab @ '': '' @ err), e, cleanupOrphanedData dataKey c2, w)
              | (None, c2) \<Rightarrow>
                  (let (now, w1) = Now w; (verified, w2) = Now w1;
                       m = capture_manifest e tab sid now verified (fst counted) sch dataHash
                   in case PutObject manifestKey (manifest_object L m) c2 of
                        (Some err, c3) \<Rightarrow>
                          (Inl (''upload manifest to S3 for '' @ tab @ '': '' @ err), e, cleanupOrphanedData dataKey c3, w2)
                      | (None, c3) \<Rightarrow> (Inr m, e\<lparr>en_latest := map_put tab m (en_latest e)\<rparr>, c3, w2))))"

definition CaptureTable ::
  "libs \<Rightarrow> table_answers \<Rightarrow> string \<Rightarrow> SnapshotEngine \<Rightarrow> cloud \<Rightarrow> world \<Rightarrow>
   (string + SyncManifest) \<times> SnapshotEngine \<times> cloud \<times> world" where
  "CaptureTable L ans tab e c w =
     (let (sid, w0) = generateSnapshotID w
      in case capture_schema ans tab of
           Inl err \<Rightarrow> (Inl err, e, c, w0)
         | Inr sch \<Rightarrow>
             (case writeTableParquet L (ta_dataColumns ans) (ta_data ans) tab (en_maxTableRows e) of
                Inl err \<Rightarrow> (Inl (''write parquet for '' @ tab @ '': '' @ err), e, c, w0)
              | Inr counted \<Rightarrow>
                  (case fileSHA256 (snd counted) w0 of
                     (Inl err, w1) \<Rightarrow> (Inl (''hash parquet for '' @ tab @ '': '' @ err), e, c, w1)
                   | (Inr dataHash, w1) \<Rightarrow>
                       (if TrimSpace dataHash = ''''
                        then (Inl (''computed empty SHA256 for snapshot data of '' @ tab), e, c, w1)
                        else case file_fault w1 (draws w1) of
                          Some err \<Rightarrow> (Inl (''open parquet for upload: '' @ err), e, c, drawn w1)
                        | None \<Rightarrow> upload_snapshot L tab sid counted sch dataHash e c (drawn w1)))))"

section \<open>The contract of the bucket\<close>

text \<open>
  What a capture relies on of the object store: a call touches only its key, and what is read is what is stored. Nothing is
  promised about an upload that reports success; the engine reads it back.
\<close>

locale object_store =
  fixes put :: "string \<Rightarrow> 'b \<Rightarrow> 's \<Rightarrow> string option \<times> 's"
    and get :: "string \<Rightarrow> 's \<Rightarrow> (string + 'b) \<times> 's"
    and del :: "string \<Rightarrow> 's \<Rightarrow> string option \<times> 's"
    and contents :: "'s \<Rightarrow> string \<Rightarrow> 'b option"
    and bytes :: "'b \<Rightarrow> string"
  assumes put_other: "k' \<noteq> k \<Longrightarrow> contents (snd (put k b s)) k' = contents s k'"
    and get_frame: "contents (snd (get k s)) = contents s"
    and get_stored: "fst (get k s) = Inr ob \<Longrightarrow> \<exists>ob'. contents s k = Some ob' \<and> bytes ob = bytes ob'"
    and del_other: "k' \<noteq> k \<Longrightarrow> contents (snd (del k s)) k' = contents s k'"
begin

lemma read_survives_put:
  "get k s = (Inr ob, s1) \<Longrightarrow> k' \<noteq> k \<Longrightarrow> put k' b s1 = (r, s2) \<Longrightarrow>
   \<exists>ob'. contents s2 k = Some ob' \<and> bytes ob' = bytes ob"
  using get_stored [of k s ob] get_frame [of k s] put_other [of k k' b s1] by force

lemma abandoned_upload:
  "put k b s = (r, s1) \<Longrightarrow> get k s1 = (q, s2) \<Longrightarrow> k' \<noteq> k \<Longrightarrow>
   contents s2 k' = contents s k' \<and> contents (snd (del k s2)) k' = contents s k'"
  using put_other [of k' k b s] get_frame [of k s1] del_other [of k' k s2] by simp

end

lemma called_simps [simp]:
  "objects (called c) = objects c" "put_out (called c) = put_out c" "get_out (called c) = get_out c"
  "body_out (called c) = body_out c" "del_out (called c) = del_out c" "calls (called c) = Suc (calls c)"
  by (simp_all add: called_def)

interpretation bucket: object_store PutObject GetObject DeleteObject "\<lambda>c. map_get (objects c)" ob_bytes
proof unfold_locales
  show "map_get (objects (snd (PutObject k b c))) k' = map_get (objects c) k'" if "k' \<noteq> k" for k k' b c
    using that by (simp add: PutObject_def split: prod.splits option.splits)
  show "map_get (objects (snd (GetObject k c))) = map_get (objects c)" for k c
    by (simp add: GetObject_def split: option.splits)
  show "\<exists>ob'. map_get (objects c) k = Some ob' \<and> ob_bytes ob = ob_bytes ob'" if "fst (GetObject k c) = Inr ob" for k c ob
    using that by (auto simp: GetObject_def split: option.splits)
  show "map_get (objects (snd (DeleteObject k c))) k' = map_get (objects c) k'" if "k' \<noteq> k" for k k' c
    using that by (simp add: DeleteObject_def map_of_filter_other split: prod.splits)
qed

lemma verifyUploadedDataObject_ok:
  "verifyUploadedDataObject key want c = (None, c') \<longleftrightarrow>
     TrimSpace want \<noteq> '''' \<and>
     (\<exists>ob. GetObject key c = (Inr ob, c') \<and> ob_read_error ob = None \<and> EqualFold (sha256_hex (ob_bytes ob)) want)"
  by (auto simp: verifyUploadedDataObject_def Let_def split: prod.splits sum.splits option.splits if_splits)

lemma verifyUploadedDataObject_frame:
  "verifyUploadedDataObject key want c = (r, c') \<Longrightarrow> map_get (objects c') = map_get (objects c)"
  using bucket.get_frame [of key c]
  by (auto simp: verifyUploadedDataObject_def Let_def split: prod.splits sum.splits option.splits if_splits)

section \<open>What a capture leaves\<close>

lemma write_rows_ok:
  "write_rows L sch cols maxRows tab rs out = (None, out') \<Longrightarrow>
   \<exists>vs. rs = map Inr vs \<and> out' = out @ map (row_json cols) vs \<and> (0 < maxRows \<and> vs \<noteq> [] \<longrightarrow> int (length out') \<le> maxRows)"
proof (induction L sch cols maxRows tab rs out rule: write_rows.induct)
  case (3 L sch cols maxRows tab vals rs out)
  let ?out = "out @ [row_json cols vals]"
  from 3(2) have step: "pq_write L sch out (row_json cols vals) = None"
    "\<not> (0 < maxRows \<and> maxRows < int (length ?out))" "write_rows L sch cols maxRows tab rs ?out = (None, out')"
    by (auto simp: Let_def split: option.splits if_splits)
  from 3(1) [OF refl step(1) refl step(2,3)] obtain vs where
    vs: "rs = map Inr vs" "out' = ?out @ map (row_json cols) vs" "0 < maxRows \<and> vs \<noteq> [] \<longrightarrow> int (length out') \<le> maxRows"
    by blast
  with step(2) show ?case by (intro exI [of _ "vals # vs"]) auto
qed simp_all

lemma writeTableParquet_ok:
  assumes "writeTableParquet L columns answer tab maxRows = Inr (n, file)"
  shows "\<exists>cols vs. columns = Inr cols \<and> answer = whole vs \<and> n = int (length vs) \<and> (0 < maxRows \<longrightarrow> n \<le> maxRows) \<and>
     file = pq_file L (parquetSchema cols) (map (row_json cols) vs)"
proof -
  from assms obtain rs cols out where r: "answer = Rows rs None" "columns = Inr cols"
    "write_rows L (parquetSchema cols) cols maxRows tab rs [] = (None, out)" "n = int (length out)"
    "file = pq_file L (parquetSchema cols) out"
    by (auto simp: writeTableParquet_def split: rows.splits sum.splits option.splits prod.splits)
  from write_rows_ok [OF r(3)] r show ?thesis by (cases "rs = []") auto
qed

lemma CaptureTable_ok:
  assumes "CaptureTable L ans tab e c w = (Inr m, e', c', w')"
  obtains sid sch n pqbytes dataHash w1 where
    "generateSnapshotID w = (sid, drawn w)" "writeTableParquet L (ta_dataColumns ans) (ta_data ans) tab (en_maxTableRows e) = Inr (n, pqbytes)"
    "dataHash = sha256_hex pqbytes" "TrimSpace dataHash \<noteq> ''''" "same_outside w w1"
    "upload_snapshot L tab sid (n, pqbytes) sch dataHash e c w1 = (Inr m, e', c', w')"
proof -
  have "same_outside w (drawn (drawn (drawn w)))"
    by (meson same_outside_drawn same_outside_trans)
  with assms that show ?thesis
    by (auto simp: CaptureTable_def generateSnapshotID_def fileSHA256_def Let_def
        split: sum.splits prod.splits option.splits if_splits)
qed

lemma upload_snapshot_ok:
  assumes "upload_snapshot L tab sid counted sch dataHash e c w = (Inr m, e', c', w')"
  obtains c1 c2 ob where
    "PutObject (base_key e tab sid @ ''/data.parquet'') (file_object (snd counted)) c = (None, c1)"
    "GetObject (base_key e tab sid @ ''/data.parquet'') c1 = (Inr ob, c2)" "ob_read_error ob = None"
    "EqualFold (sha256_hex (ob_bytes ob)) dataHash"
    "m = capture_manifest e tab sid (clock w (draws w)) (clock w (Suc (draws w))) (fst counted) sch dataHash"
    "PutObject (base_key e tab sid @ ''/manifest.json'') (manifest_object L m) c2 = (None, c')"
    "e' = e\<lparr>en_latest := map_put tab m (en_latest e)\<rparr>" "w' = drawn (drawn w)"
  using assms that
  by (auto simp: upload_snapshot_def Let_def Now_def verifyUploadedDataObject_ok split: prod.splits option.splits)

lemma key_suffixes: "base @ ''/data.parquet'' \<noteq> base' @ ''/manifest.json''"
proof
  assume "base @ ''/data.parquet'' = base' @ ''/manifest.json''"
  then have "last (base @ ''/data.parquet'') = last (base' @ ''/manifest.json'')" by (simp only:)
  then show False by simp
qed

lemma capture_manifest_simps [simp]:
  "y_TableName (capture_manifest e tab sid t1 t2 n sch h) = tab"
  "y_SnapshotID (capture_manifest e tab sid t1 t2 n sch h) = sid"
  "y_Status (capture_manifest e tab sid t1 t2 n sch h) = ''valid''"
  "y_DataSHA256 (capture_manifest e tab sid t1 t2 n sch h) = h"
  "y_RowCount (capture_manifest e tab sid t1 t2 n sch h) = n"
  "y_ManifestVersion (capture_manifest e tab sid t1 t2 n sch h) = 1"
  "y_Timestamp (capture_manifest e tab sid t1 t2 n sch h) = FormatRFC3339 t1"
  "y_VerifiedAt (capture_manifest e tab sid t1 t2 n sch h) = FormatRFC3339 t2"
  "y_S3DataKey (capture_manifest e tab sid t1 t2 n sch h) = base_key e tab sid @ ''/data.parquet''"
  "y_S3ManifestKey (capture_manifest e tab sid t1 t2 n sch h) = base_key e tab sid @ ''/manifest.json''"
  by (simp_all add: capture_manifest_def split: prod.splits)

lemma capture_manifest_valid:
  "sid \<noteq> '''' \<Longrightarrow> TrimSpace h \<noteq> '''' \<Longrightarrow> valid_manifest (gateway_view (capture_manifest e tab sid t1 t2 n sch h)) tab"
  by (simp add: valid_manifest_def gateway_view_def capture_manifest_def split: prod.splits)

lemma captured:
  assumes "CaptureTable L ans tab e c w = (Inr m, e', c', w')"
  obtains t1 t2 n sch cols vs where
    "m = capture_manifest e tab (''snap_'' @ rand_hex w (draws w)) t1 t2 n sch
           (sha256_hex (pq_file L (parquetSchema cols) (map (row_json cols) vs)))"
    "ta_dataColumns ans = Inr cols" "ta_data ans = whole vs" "n = int (length vs)" "0 < en_maxTableRows e \<longrightarrow> n \<le> en_maxTableRows e"
    "TrimSpace (y_DataSHA256 m) \<noteq> ''''" "e' = e\<lparr>en_latest := map_put tab m (en_latest e)\<rparr>"
    "\<exists>ob. map_get (objects c') (y_S3DataKey m) = Some ob \<and> EqualFold (sha256_hex (ob_bytes ob)) (y_DataSHA256 m)"
    "\<exists>c1 c2 w1. PutObject (y_S3ManifestKey m) (manifest_object L m) c2 = (None, c') \<and> same_outside w w1 \<and>
        PutObject (y_S3DataKey m) (file_object (pq_file L (parquetSchema cols) (map (row_json cols) vs))) c = (None, c1) \<and>
        (\<exists>r. GetObject (y_S3DataKey m) c1 = (r, c2)) \<and> t1 = clock w (draws w1)"
proof -
  obtain sid sch n pqbytes h w1 where 1: "generateSnapshotID w = (sid, drawn w)"
    "writeTableParquet L (ta_dataColumns ans) (ta_data ans) tab (en_maxTableRows e) = Inr (n, pqbytes)"
    "h = sha256_hex pqbytes" "same_outside w w1"
    "upload_snapshot L tab sid (n, pqbytes) sch h e c w1 = (Inr m, e', c', w')"
    using CaptureTable_ok [OF assms] by metis
  obtain cols vs where 2: "ta_dataColumns ans = Inr cols" "ta_data ans = whole vs" "n = int (length vs)"
    "0 < en_maxTableRows e \<longrightarrow> n \<le> en_maxTableRows e" "pqbytes = pq_file L (parquetSchema cols) (map (row_json cols) vs)"
    using writeTableParquet_ok [OF 1(2)] by blast
  obtain c1 c2 ob where 3: "PutObject (base_key e tab sid @ ''/data.parquet'') (file_object pqbytes) c = (None, c1)"
    "GetObject (base_key e tab sid @ ''/data.parquet'') c1 = (Inr ob, c2)"
    "EqualFold (sha256_hex (ob_bytes ob)) h"
    "m = capture_manifest e tab sid (clock w1 (draws w1)) (clock w1 (Suc (draws w1))) n sch h"
    "PutObject (base_key e tab sid @ ''/manifest.json'') (manifest_object L m) c2 = (None, c')"
    "e' = e\<lparr>en_latest := map_put tab m (en_latest e)\<rparr>"
    by (rule upload_snapshot_ok [OF 1(5)]) simp
  have sid: "sid = ''snap_'' @ rand_hex w (draws w)" using 1(1) by (simp add: generateSnapshotID_def)
  have "clock w1 = clock w" using 1(4) by (simp add: same_outside_def)
  have data: "\<exists>ob. map_get (objects c') (y_S3DataKey m) = Some ob \<and> EqualFold (sha256_hex (ob_bytes ob)) (y_DataSHA256 m)"
    using bucket.read_survives_put [OF 3(2) key_suffixes [symmetric] 3(5)] 3(3,4) by auto
  show ?thesis
    by (rule that [of "clock w1 (draws w1)" "clock w1 (Suc (draws w1))" n sch cols vs])
      (use 1 2 3 sid data \<open>clock w1 = clock w\<close> in auto)
qed

section \<open>Failed captures\<close>

definition failed_puts_store_nothing :: "cloud \<Rightarrow> bool" where
  "failed_puts_store_nothing c \<longleftrightarrow> (\<forall>n. fst (put_out c n) \<noteq> None \<longrightarrow> (\<forall>ob. snd (put_out c n) ob = None))"

definition same_bucket :: "cloud \<Rightarrow> cloud \<Rightarrow> bool" where
  \<comment> \<open>the streams of outcomes are the same\<close>
  "same_bucket c c' \<longleftrightarrow> put_out c' = put_out c \<and> get_out c' = get_out c \<and> body_out c' = body_out c \<and> del_out c' = del_out c"

lemma same_bucket_trans: "same_bucket a b \<Longrightarrow> same_bucket b c \<Longrightarrow> same_bucket a c"
  by (simp add: same_bucket_def)

lemma same_bucket_calls [simp]:
  "same_bucket c (snd (PutObject k b c))" "same_bucket c (snd (GetObject k c))" "same_bucket c (snd (DeleteObject k c))"
  "same_bucket c (snd (verifyUploadedDataObject k h c))" "same_bucket c (cleanupOrphanedData k c)"
  by (auto simp: same_bucket_def PutObject_def GetObject_def DeleteObject_def verifyUploadedDataObject_def cleanupOrphanedData_def
      Let_def split: prod.splits option.splits)

lemma failed_put:
  "failed_puts_store_nothing c \<Longrightarrow> PutObject k b c = (Some err, c') \<Longrightarrow> objects c' = objects c"
  by (auto simp: PutObject_def failed_puts_store_nothing_def split: prod.splits option.splits) (metis fst_conv option.distinct(1) snd_conv)+

lemma cleanup_gone: "\<forall>n. snd (del_out c n) \<Longrightarrow> map_get (objects (cleanupOrphanedData k c)) k = None"
  by (auto simp: cleanupOrphanedData_def DeleteObject_def map_of_filter_other split: prod.splits) (metis snd_conv)

lemma upload_snapshot_failed:
  assumes "upload_snapshot L tab sid counted sch h e c w = (Inl err, e', c', w')" "failed_puts_store_nothing c"
  shows "e' = e \<and>
     (\<forall>key. key \<noteq> base_key e tab sid @ ''/data.parquet'' \<longrightarrow> map_get (objects c') key = map_get (objects c) key) \<and>
     ((\<forall>n. snd (del_out c n)) \<and> map_get (objects c) (base_key e tab sid @ ''/data.parquet'') = None \<longrightarrow>
        map_get (objects c') (base_key e tab sid @ ''/data.parquet'') = None)"
proof -
  let ?k = "base_key e tab sid @ ''/data.parquet''"
  obtain r1 c1 where 1: "PutObject ?k (file_object (snd counted)) c = (r1, c1)" by fastforce
  obtain r2 c2 where 2: "verifyUploadedDataObject ?k h c1 = (r2, c2)" by fastforce
  have s: "same_bucket c c1" "same_bucket c c2"
    using same_bucket_calls(1) [of c ?k "file_object (snd counted)"] same_bucket_calls(4) [of c1 ?k h] 1 2
    by (auto intro: same_bucket_trans)
  have o: "map_get (objects c2) key = map_get (objects c) key" if "key \<noteq> ?k" for key
    using bucket.put_other [OF that, of "file_object (snd counted)" c] verifyUploadedDataObject_frame [OF 2] 1 by simp
  show ?thesis
  proof (cases r1)
    case (Some x)
    with assms 1 failed_put [OF assms(2), of ?k] show ?thesis by (auto simp: upload_snapshot_def Let_def)
  next
    case put: None
    show ?thesis
    proof (cases r2)
      case (Some x)
      then have "e' = e" "c' = cleanupOrphanedData ?k c2" using assms(1) 1 2 put by (auto simp: upload_snapshot_def Let_def)
      with o bucket.del_other [of _ ?k c2] cleanup_gone [of c2 ?k] s(2) show ?thesis
        by (auto simp: cleanupOrphanedData_def same_bucket_def)
    next
      case None
      let ?m = "capture_manifest e tab sid (clock w (draws w)) (clock w (Suc (draws w))) (fst counted) sch h"
      obtain r3 c3 where p: "PutObject (base_key e tab sid @ ''/manifest.json'') (manifest_object L ?m) c2 = (r3, c3)" by fastforce
      have "r3 \<noteq> None \<and> e' = e \<and> c' = cleanupOrphanedData ?k c3"
        using assms(1) 1 2 put None p by (cases r3; clarsimp simp: upload_snapshot_def Let_def Now_def)
      with p obtain m x where 3: "PutObject (base_key e tab sid @ ''/manifest.json'') (manifest_object L m) c2 = (Some x, c3)"
        "e' = e" "c' = cleanupOrphanedData ?k c3" by blast
      have "failed_puts_store_nothing c2" using assms(2) s(2) by (simp add: failed_puts_store_nothing_def same_bucket_def)
      from failed_put [OF this 3(1)] have "objects c3 = objects c2" .
      moreover have "del_out c3 = del_out c"
        using s(2) same_bucket_calls(1) [of c2 "base_key e tab sid @ ''/manifest.json''" "manifest_object L m"] 3(1)
        by (simp add: same_bucket_def)
      ultimately show ?thesis using 3(2,3) o bucket.del_other [of _ ?k c3] cleanup_gone [of c3 ?k]
        by (auto simp: cleanupOrphanedData_def)
    qed
  qed
qed

section \<open>The gateway's view of the bucket\<close>

definition bucket_view :: "cloud \<Rightarrow> s3" where
  \<comment> \<open>a gateway that lists and reads the bucket without errors\<close>
  "bucket_view c =
     \<lparr>s3_pages = (\<lambda>p. [Inr (filter (\<lambda>k. HasPrefix k p) (map fst (objects c)))]),
      s3_get = (\<lambda>k. case map_get (objects c) k of None \<Rightarrow> Inl ''NoSuchKey'' | Some ob \<Rightarrow> Inr ob)\<rparr>"

definition successful_puts_store :: "cloud \<Rightarrow> bool" where
  "successful_puts_store c \<longleftrightarrow> (\<forall>n. fst (put_out c n) = None \<longrightarrow> (\<forall>ob. snd (put_out c n) ob = Some ob))"

definition older_manifests :: "cloud \<Rightarrow> string \<Rightarrow> string \<Rightarrow> instant \<Rightarrow> bool" where
  \<comment> \<open>every manifest under the prefix is readable, and those of the table are valid and older\<close>
  "older_manifests c p tab t \<longleftrightarrow>
     (\<forall>key ob. map_get (objects c) key = Some ob \<longrightarrow> HasPrefix key p \<longrightarrow> HasSuffix key ''/manifest.json'' \<longrightarrow>
        (\<exists>j old. ob_json ob = Some j \<and> unmarshal_manifest j = Some old \<and>
           (m_Writer old = sidecarWriter \<and> m_TableName old = tab \<longrightarrow>
              valid_manifest old tab \<and> (\<exists>u. parseManifestTime (m_Timestamp old) = Some u \<and> u < t))))"

lemma older_manifestsD:
  "older_manifests c p tab t \<Longrightarrow> map_get (objects c) key = Some ob \<Longrightarrow> HasPrefix key p \<Longrightarrow> HasSuffix key ''/manifest.json'' \<Longrightarrow>
   \<exists>j old. ob_json ob = Some j \<and> unmarshal_manifest j = Some old \<and>
     (m_Writer old = sidecarWriter \<and> m_TableName old = tab \<longrightarrow>
        valid_manifest old tab \<and> (\<exists>u. parseManifestTime (m_Timestamp old) = Some u \<and> u < t))"
  by (simp add: older_manifests_def)

lemma successful_put:
  "successful_puts_store c \<Longrightarrow> PutObject k b c = (None, c') \<Longrightarrow>
   map_get (objects c') = (map_get (objects c))(k \<mapsto> b) \<and> successful_puts_store c'"
proof -
  assume a: "successful_puts_store c" "PutObject k b c = (None, c')"
  have "fst (put_out c (calls c)) = None" using a(2) by (auto simp: PutObject_def split: prod.splits)
  with a(1) have "snd (put_out c (calls c)) b = Some b" by (simp add: successful_puts_store_def)
  moreover have "put_out c' = put_out c" using same_bucket_calls(1) [of c k b] a(2) by (simp add: same_bucket_def)
  ultimately show ?thesis using a
    by (auto simp: PutObject_def successful_puts_store_def update_conv' split: prod.splits)
qed

lemma captured_objects:
  assumes "CaptureTable L ans tab e c w = (Inr m, e', c', w')" "successful_puts_store c"
  shows "\<exists>f. map_get (objects c') = (map_get (objects c))(y_S3DataKey m \<mapsto> file_object f, y_S3ManifestKey m \<mapsto> manifest_object L m) \<and>
     y_DataSHA256 m = sha256_hex f"
proof -
  obtain t1 t2 n sch cols vs where m: "m = capture_manifest e tab (''snap_'' @ rand_hex w (draws w)) t1 t2 n sch
           (sha256_hex (pq_file L (parquetSchema cols) (map (row_json cols) vs)))"
    and ex: "\<exists>c1 c2 w1. PutObject (y_S3ManifestKey m) (manifest_object L m) c2 = (None, c') \<and> same_outside w w1 \<and>
        PutObject (y_S3DataKey m) (file_object (pq_file L (parquetSchema cols) (map (row_json cols) vs))) c = (None, c1) \<and>
        (\<exists>r. GetObject (y_S3DataKey m) c1 = (r, c2)) \<and> t1 = clock w (draws w1)"
    by (rule captured [OF assms(1)])
  then obtain c1 c2 r where put: "PutObject (y_S3ManifestKey m) (manifest_object L m) c2 = (None, c')"
    "PutObject (y_S3DataKey m) (file_object (pq_file L (parquetSchema cols) (map (row_json cols) vs))) c = (None, c1)"
    "GetObject (y_S3DataKey m) c1 = (r, c2)" by blast
  have "map_get (objects c2) = map_get (objects c1)" "put_out c2 = put_out c1"
    using bucket.get_frame [of "y_S3DataKey m" c1] same_bucket_calls(2) [of c1 "y_S3DataKey m"] put(3)
    by (simp_all add: same_bucket_def)
  with successful_put [OF assms(2) put(2)] have "successful_puts_store c2"
    "map_get (objects c2) = (map_get (objects c))(y_S3DataKey m \<mapsto> file_object (pq_file L (parquetSchema cols) (map (row_json cols) vs)))"
    by (simp_all add: successful_puts_store_def)
  with successful_put [OF this(1) put(1)] m show ?thesis by auto
qed

section \<open>Properties\<close>

text \<open>
  C14. A committed snapshot is complete and its data is in the bucket: when \<^verbatim>\<open>CaptureTable\<close> succeeds,
  PostgreSQL's answer arrived whole, the manifest counts every row of it and seals exactly the file written from those
  rows, an object with that hash is stored under the manifest's data key in the bucket the capture
  leaves, the manifest is the table's latest, and the gateway's validation accepts it. This holds whatever the uploads
  stored, because the engine reads the data back.
\<close>

theorem capture_commits:
  assumes "CaptureTable L ans tab e c w = (Inr m, e', c', w')"
  shows "Latest tab e' = Some m \<and> valid_manifest (gateway_view m) tab \<and>
     (\<exists>cols rs. ta_dataColumns ans = Inr cols \<and> ta_data ans = whole rs \<and> y_RowCount m = int (length rs) \<and>
        y_DataSHA256 m = sha256_hex (pq_file L (parquetSchema cols) (map (row_json cols) rs))) \<and>
     (\<exists>ob. map_get (objects c') (y_S3DataKey m) = Some ob \<and> EqualFold (sha256_hex (ob_bytes ob)) (y_DataSHA256 m))"
  by (rule captured [OF assms]) (auto simp: Latest_def capture_manifest_valid)

definition sample_libs :: libs where
  "sample_libs = \<lparr>pq_create = None, pq_new = (\<lambda>_. None), pq_write = (\<lambda>_ _ _. None), pq_file = (\<lambda>_ rs. replicate (length rs) CHR ''r''),
     json_text = (\<lambda>_. ''{}'')\<rparr>"

definition sample_answers :: table_answers where
  "sample_answers =
     \<lparr>ta_columns = whole [\<lparr>cr_name = ''id'', cr_dataType = ''integer'', cr_charLen = None, cr_precision = Some 32,
                          cr_scale = Some 0, cr_nullable = ''NO'', cr_def = None\<rparr>],
      ta_primaryKeys = whole [''id''], ta_fks = whole [], ta_checks = whole [],
      ta_indexes = whole [''CREATE UNIQUE INDEX users_pkey ON public.users USING btree (id)''],
      ta_dataColumns = Inr [''id''], ta_data = whole [[DInt 1], [DInt 2]]\<rparr>"

definition sample_snapshot_engine :: SnapshotEngine where
  "sample_snapshot_engine = NewSnapshotEngine \<lparr>sc_Bucket = ''b'', sc_Endpoint = '''', sc_Prefix = ''p''\<rparr> ''db'' ''public'' 100"

definition sample_cloud :: cloud where
  "sample_cloud = \<lparr>objects = [], put_out = (\<lambda>_. (None, Some)), get_out = (\<lambda>_. None), body_out = (\<lambda>_. None),
     del_out = (\<lambda>_. (None, True)), calls = 0\<rparr>"

lemma sample_capture_schema:
  "\<exists>ddl. capture_schema sample_answers ''users'' =
     Inr (ddl, None, None, Some [''CREATE UNIQUE INDEX users_pkey ON public.users USING btree (id)''])"
proof -
  have "\<not> Contains (ToUpper ''CREATE UNIQUE INDEX users_pkey ON public.users USING btree (id)'') '' PRIMARY KEY ''" by code_simp
  then show ?thesis
    by (simp add: capture_schema_def sample_answers_def tableDDL_def fkConstraints_def checkConstraints_def indexes_def
        read_rows_def primaryKeys_def read_list_def slice_def Let_def)
qed

lemma sample_capture_ok:
  "\<exists>m e' c' w'. CaptureTable sample_libs sample_answers ''users'' sample_snapshot_engine sample_cloud quiet_world = (Inr m, e', c', w') \<and>
     y_Timestamp m = FormatRFC3339 0 \<and> y_RowCount m = 2"
proof -
  obtain sch where sch: "capture_schema sample_answers ''users'' = Inr sch" using sample_capture_schema by blast
  have data: "ta_dataColumns sample_answers = Inr [''id'']" "ta_data sample_answers = Rows [Inr [DInt 1], Inr [DInt 2]] None"
    by (simp_all add: sample_answers_def)
  show ?thesis
    by (simp add: CaptureTable_def sch writeTableParquet_def data generateSnapshotID_def fileSHA256_def Let_def sample_libs_def
        sample_snapshot_engine_def NewSnapshotEngine_def upload_snapshot_def PutObject_def verifyUploadedDataObject_def GetObject_def
        sample_cloud_def called_def file_object_def Now_def)
qed

theorem capture_commits_witness:
  "\<exists>m e' c' w'. CaptureTable sample_libs sample_answers ''users'' sample_snapshot_engine sample_cloud quiet_world = (Inr m, e', c', w') \<and>
     Latest ''users'' e' = Some m \<and> valid_manifest (gateway_view m) ''users'' \<and>
     (\<exists>ob. map_get (objects c') (y_S3DataKey m) = Some ob \<and> EqualFold (sha256_hex (ob_bytes ob)) (y_DataSHA256 m))"
  using sample_capture_ok capture_commits by meson


definition unreadable_cloud :: cloud where
  \<comment> \<open>uploads are stored but cannot be read back\<close>
  "unreadable_cloud = sample_cloud\<lparr>get_out := (\<lambda>_. Some ''timeout'')\<rparr>"

lemma sample_capture_fails:
  "\<exists>err e' c' w'. CaptureTable sample_libs sample_answers ''users'' sample_snapshot_engine unreadable_cloud quiet_world = (Inl err, e', c', w')"
proof -
  obtain sch where sch: "capture_schema sample_answers ''users'' = Inr sch" using sample_capture_schema by blast
  have data: "ta_dataColumns sample_answers = Inr [''id'']" "ta_data sample_answers = Rows [Inr [DInt 1], Inr [DInt 2]] None"
    by (simp_all add: sample_answers_def)
  show ?thesis
    by (simp add: CaptureTable_def sch writeTableParquet_def data generateSnapshotID_def fileSHA256_def Let_def sample_libs_def
        sample_snapshot_engine_def NewSnapshotEngine_def upload_snapshot_def PutObject_def verifyUploadedDataObject_def GetObject_def
        unreadable_cloud_def sample_cloud_def called_def file_object_def Now_def)
qed


lemma captured_is_latest:
  assumes capture: "CaptureTable L ans tab e c w = (Inr m, e', c', w')" and store: "successful_puts_store c"
    and time: "ParseRFC3339 (y_Timestamp m) = Some t"
    and older: "older_manifests c (sc_Prefix (en_storage e) @ ''/snapshots/'' @ safeTableKey tab @ ''/'') tab t"
    and v: "sv_client v = bucket_view c'" "sc_Prefix (sv_storage v) = sc_Prefix (en_storage e)"
    and key: "hd (y_S3DataKey m) \<notin> space_first" and rows: "in_int64 (y_RowCount m)"
  shows "latestSidecarManifest v tab u = (Inr (gateway_view m), u)" "verifyDataObject v (gateway_view m) = None"
proof -
  let ?p = "sc_Prefix (en_storage e) @ ''/snapshots/'' @ safeTableKey tab @ ''/''" and ?g = "gateway_view m"
  obtain t1 t2 n sch h where m: "m = capture_manifest e tab (''snap_'' @ rand_hex w (draws w)) t1 t2 n sch h"
    "TrimSpace h \<noteq> ''''"
    by (rule captured [OF capture]) auto
  obtain f where f: "map_get (objects c') = (map_get (objects c))(y_S3DataKey m \<mapsto> file_object f, y_S3ManifestKey m \<mapsto> manifest_object L m)"
    "y_DataSHA256 m = sha256_hex f" using captured_objects [OF capture store] by blast
  have fields: "m_Timestamp ?g = y_Timestamp m" "m_TableName ?g = tab" "m_Writer ?g = sidecarWriter" "m_S3DataKey ?g = y_S3DataKey m"
    "m_DataSHA256 ?g = y_DataSHA256 m"
    by (simp_all add: gateway_view_def m(1) capture_manifest_def split: prod.splits)
  have valid: "valid_manifest ?g tab" using m capture_manifest_valid by simp
  have mine: "getManifest v (y_S3ManifestKey m) = Inr ?g"
    using gateway_reads_sidecar [of m] rows f(1) by (simp add: getManifest_def v(1) bucket_view_def manifest_object_def m(1) in_int64_def)
  have pt: "parseManifestTime (m_Timestamp ?g) = Some t" using time by (simp add: fields parseManifestTime_def)
  have tp: "table_prefix v tab = ?p" by (simp add: table_prefix_def v(2))
  have listed: "key \<in> set (listed_keys v tab) \<longleftrightarrow> HasPrefix key ?p \<and> map_get (objects c') key \<noteq> None" for key
    by (auto simp: listed_keys_def v(1) bucket_view_def tp map_of_eq_None_iff)
  have other: "\<exists>old. getManifest v key = Inr old \<and> (m_Writer old = sidecarWriter \<and> m_TableName old = tab \<longrightarrow>
      valid_manifest old tab \<and> (\<exists>u. parseManifestTime (m_Timestamp old) = Some u \<and> u < t))"
    if "key \<in> set (listed_keys v tab)" "HasSuffix key ''/manifest.json''" "key \<noteq> y_S3ManifestKey m" for key
  proof -
    have "key \<noteq> y_S3DataKey m" using that(2) key_suffixes by (auto simp: m(1) HasSuffix_iff)
    with that obtain ob where "map_get (objects c) key = Some ob" "HasPrefix key ?p"
      "s3_get (sv_client v) key = Inr ob" by (auto simp: listed f(1) v(1) bucket_view_def split: option.splits)
    with older_manifestsD [OF older this(1,2) that(2)] show ?thesis by (auto simp: getManifest_def)
  qed
  have key_in: "y_S3ManifestKey m \<in> set (listed_keys v tab)" "HasSuffix (y_S3ManifestKey m) ''/manifest.json''"
    by (simp_all add: listed f(1) m(1)) (simp add: base_key_def HasPrefix_iff)
  have clean: "clean_listing v tab"
    using other mine valid pt by (fastforce simp: clean_listing_def v(1) bucket_view_def)
  have offered: "offers v tab (listed_keys v tab) ?g" using key_in mine fields by (auto simp: offers_def)
  have "t' < t" if "offers v tab (listed_keys v tab) m'" "m' \<noteq> ?g" "parseManifestTime (m_Timestamp m') = Some t'" for m' t'
    using that other mine by (fastforce simp: offers_def)
  then have latest: "latestSidecarManifest v tab u = (Inr ?g, u)"
    using newest_is_latest [OF clean offered pt] by blast
  have dk: "data_key ?g = y_S3DataKey m"
    using key TrimSpace_plain [of "y_S3DataKey m"] by (simp add: data_key_def fields) (simp add: m(1) space_last_def)
  have "data_intact v ?g"
    using f key_suffixes [of "base_key e tab (''snap_'' @ rand_hex w (draws w))"]
    by (simp add: data_intact_def dk v(1) bucket_view_def fields) (simp add: m(1) file_object_def)
  then have "verifyDataObject v ?g = None" using valid dk by (simp add: verifyDataObject_ok fields) (simp add: m(1))
  with latest show "latestSidecarManifest v tab u = (Inr ?g, u)" "verifyDataObject v ?g = None" by simp_all
qed

text \<open>
  From the sidecar to the gateway: a snapshot that the sidecar has captured is the recovery point
  that the gateway finds. If uploads that report success store what they were given and the other manifests
  of the table are readable, valid and older, then a gateway on the same bucket and prefix answers the
  request for the table's recovery point with the captured manifest, data verified.
\<close>

theorem gateway_accepts_capture:
  assumes capture: "CaptureTable L ans tab e c w = (Inr m, e', c', w')" and store: "successful_puts_store c"
    and time: "ParseRFC3339 (y_Timestamp m) = Some t"
    and older: "older_manifests c (sc_Prefix (en_storage e) @ ''/snapshots/'' @ safeTableKey tab @ ''/'') tab t"
    and v: "sv_client v = bucket_view c'" "sc_Prefix (sv_storage v) = sc_Prefix (en_storage e)"
    and key: "hd (y_S3DataKey m) \<notin> space_first" and rows: "in_int64 (y_RowCount m)"
  shows "LatestSidecarSnapshot v tab u = (Inr (gateway_view m), u)"
  by (simp add: LatestSidecarSnapshot_def captured_is_latest [OF assms])

theorem gateway_accepts_capture_witness:
  "\<exists>m e' c' w'. CaptureTable sample_libs sample_answers ''users'' sample_snapshot_engine sample_cloud quiet_world = (Inr m, e', c', w') \<and>
     LatestSidecarSnapshot \<lparr>sv_client = bucket_view c', sv_storage = en_storage sample_snapshot_engine, sv_metadata = True\<rparr> ''users'' quiet_world
       = (Inr (gateway_view m), quiet_world)"
proof -
  obtain m e' c' w' where c: "CaptureTable sample_libs sample_answers ''users'' sample_snapshot_engine sample_cloud quiet_world = (Inr m, e', c', w')"
    and m: "y_Timestamp m = FormatRFC3339 0" "y_RowCount m = 2" using sample_capture_ok by blast
  have "hd (y_S3DataKey m) = CHR ''p''"
    by (rule captured [OF c]) (simp add: base_key_def sample_snapshot_engine_def NewSnapshotEngine_def)
  then have key: "hd (y_S3DataKey m) \<notin> space_first" by (simp add: space_first_def)
  have time: "ParseRFC3339 (y_Timestamp m) = Some 0"
    using parse_FormatRFC3339 [OF printable_range [of 0]] by (simp add: m Second_def)
  have "LatestSidecarSnapshot \<lparr>sv_client = bucket_view c', sv_storage = en_storage sample_snapshot_engine, sv_metadata = True\<rparr> ''users'' quiet_world
       = (Inr (gateway_view m), quiet_world)"
    by (rule gateway_accepts_capture [OF c _ time _ _ _ key])
      (simp_all add: successful_puts_store_def sample_cloud_def older_manifests_def m in_int64_def)
  with c show ?thesis by blast
qed

end
