(* ===== verification/Go_Duration.thy ===== *)
theory Go_Duration
  imports Go_Time Go_Numbers
begin

text \<open>
  What the sidecar uses of \<^verbatim>\<open>time.Duration\<close>: truncated division, \<^verbatim>\<open>Seconds\<close>, \<^verbatim>\<open>Round\<close> and \<^verbatim>\<open>String\<close>, and the verb
  \<^verbatim>\<open>%.0f\<close> of a float.
\<close>

definition tquot :: "int \<Rightarrow> int \<Rightarrow> int" where
  \<comment> \<open>Go's division truncates towards zero; \<open>b\<close> is positive here\<close>
  "tquot a b = (if a < 0 then - ((- a) div b) else a div b)"

definition trem :: "int \<Rightarrow> int \<Rightarrow> int" where
  "trem a b = a - b * tquot a b"

definition Seconds :: "duration \<Rightarrow> rat" where
  "Seconds d = fl64 (float_of_int (tquot d Second) + fdiv (float_of_int (trem d Second)) (of_int Second))"

definition fmt_0f :: "rat \<Rightarrow> string" where
  \<comment> \<open>\<^verbatim>\<open>%.0f\<close> of a float that is not negative zero\<close>
  "fmt_0f x = int_str (round_half_even x)"

definition Round :: "duration \<Rightarrow> duration \<Rightarrow> duration" where
  "Round d m =
     (if m \<le> 0 then d
      else let r = trem d m in
        if d < 0
        then (if 2 * (- r) < m then d - r
              else if in_int64 (d - m - r) then d - m - r else - (2 ^ 63))
        else (if 2 * r < m then d - r
              else if in_int64 (d + m - r) then d + m - r else 2 ^ 63 - 1))"

definition frac_text :: "nat \<Rightarrow> nat \<Rightarrow> string" where
  \<comment> \<open>the last \<open>p\<close> digits as a fraction without trailing zeros, with its point, or nothing\<close>
  "frac_text p v = (let f = rtrim0 (pad p v) in if f = '''' then '''' else CHR ''.'' # f)"

definition Duration_String :: "duration \<Rightarrow> string" where
  "Duration_String d =
     (let u = nat \<bar>d\<bar>; sign = (if d < 0 then ''-'' else '''')
      in if u = 0 then ''0s''
         else if u < 1000 then sign @ nat_str u @ ''ns''
         else if u < 1000000 then sign @ nat_str (u div 1000) @ frac_text 3 (u mod 1000) @ [CHR 0xC2, CHR 0xB5] @ ''s''
         else if u < 1000000000
         then sign @ nat_str (u div 1000000) @ frac_text 6 (u mod 1000000) @ ''ms''
         else let s = u div 1000000000; f = frac_text 9 (u mod 1000000000);
                  m = s div 60; h = m div 60
              in sign @ (if h > 0 then nat_str h @ ''h'' else '''')
                 @ (if m > 0 then nat_str (m mod 60) @ ''m'' else '''')
                 @ nat_str (s mod 60) @ f @ ''s'')"

lemma Round_near: "0 < m \<Longrightarrow> in_int64 d \<Longrightarrow> in_int64 (d + m) \<Longrightarrow> in_int64 (d - m) \<Longrightarrow> 2 * \<bar>Round d m - d\<bar> \<le> m"
proof -
  assume m: "0 < m" "in_int64 d" "in_int64 (d + m)" "in_int64 (d - m)"
  define q where "q = (if d < 0 then (- d) mod m else d mod m)"
  have r: "trem d m = (if d < 0 then - q else q)"
    by (simp add: trem_def tquot_def q_def minus_mult_div_eq_mod [symmetric] algebra_simps)
  have "0 \<le> q" "q < m" using m(1) by (simp_all add: q_def)
  with m r show ?thesis by (auto simp: Round_def Let_def in_int64_def)
qed

end
