(* ===== verification/Sync_Alert.thy ===== *)
theory Sync_Alert
  imports Sync_Store Go_Duration
begin

text \<open>
  The sidecar's alerts, \<^verbatim>\<open>sync/alert.go\<close>. As for the gateway, the outcome of a webhook call is drawn from the
  world and the bodies posted are kept in the state; whether building the request or sending it
  failed is one outcome, \<open>None\<close>.
\<close>

record webhookPayload =
  wp_Text :: string
  wp_Severity :: string
  wp_EventType :: string
  wp_Table :: string
  wp_RecoveryPointAvailable :: bool
  wp_SnapshotAgeSeconds :: int
  wp_RecommendedAction :: string
  wp_SnapshotID :: string
  wp_ManifestKey :: string
  wp_Rows :: int

definition omit_int :: "string \<Rightarrow> int \<Rightarrow> (string \<times> json) list" where
  "omit_int k n = (if n = 0 then [] else [(k, JInt n)])"

definition marshal_payload :: "webhookPayload \<Rightarrow> json" where
  "marshal_payload p =
     JObj ([(''text'', JStr (wp_Text p)), (''severity'', JStr (wp_Severity p)),
            (''event_type'', JStr (wp_EventType p)), (''table'', JStr (wp_Table p)),
            (''recovery_point_available'', JBool (wp_RecoveryPointAvailable p))]
           @ omit_int ''snapshot_age_seconds'' (wp_SnapshotAgeSeconds p)
           @ [(''recommended_action'', JStr (wp_RecommendedAction p))]
           @ omit_str ''snapshot_id'' (wp_SnapshotID p) @ omit_str ''manifest_key'' (wp_ManifestKey p)
           @ omit_int ''rows'' (wp_Rows p))"

record AlertEngine =
  al_webhookURL :: string
  al_metadata :: bool
  al_posted :: "json list"

definition NewAlertEngineWithMetadata :: "string \<Rightarrow> bool \<Rightarrow> AlertEngine" where
  "NewAlertEngineWithMetadata webhookURL metadata =
     \<lparr>al_webhookURL = webhookURL, al_metadata = metadata, al_posted = []\<rparr>"

definition NewAlertEngine :: "string \<Rightarrow> AlertEngine" where
  "NewAlertEngine webhookURL = NewAlertEngineWithMetadata webhookURL False"

definition recordAlert :: "webhookPayload \<Rightarrow> string \<Rightarrow> AlertEngine \<Rightarrow> world \<Rightarrow> world" where
  "recordAlert p status a w =
     (if \<not> al_metadata a then w
      else snd (SyncRecordAlert True (wp_Severity p) (wp_EventType p) (wp_Table p) status (marshal_payload p) w))"

definition sendPayload :: "webhookPayload \<Rightarrow> AlertEngine \<Rightarrow> world \<Rightarrow> string option \<times> AlertEngine \<times> world" where
  \<comment> \<open>the deferred recording runs after the status is settled\<close>
  "sendPayload p a w =
     (if al_webhookURL a = '''' then (None, a, recordAlert p ''logged'' a w)
      else let a1 = a\<lparr>al_posted := al_posted a @ [marshal_payload p]\<rparr>; w1 = drawn w
           in case webhook_out w (draws w) of
                None \<Rightarrow> (Some ''alert: HTTP request failed'', a1, recordAlert p ''failed'' a w1)
              | Some code \<Rightarrow>
                  (if code < 200 \<or> 300 \<le> code
                   then (Some (''alert: webhook returned non-2xx status '' @ int_str code), a1,
                         recordAlert p ''failed'' a w1)
                   else (None, a1, recordAlert p ''sent'' a w1)))"

definition with_manifest :: "SyncManifest option \<Rightarrow> webhookPayload \<Rightarrow> webhookPayload" where
  "with_manifest m p =
     (case m of
        None \<Rightarrow> p
      | Some m \<Rightarrow> p\<lparr>wp_SnapshotID := y_SnapshotID m, wp_ManifestKey := y_S3ManifestKey m, wp_Rows := y_RowCount m\<rparr>)"

definition drop_payload :: "string \<Rightarrow> SyncManifest option \<Rightarrow> instant \<Rightarrow> webhookPayload" where
  "drop_payload tab manifest now =
     (let message = ''[backstop] DROP TABLE detected: '' @ tab @ '' at '' @ FormatRFC3339 now;
          (text, action) =
            (case manifest of
               Some m \<Rightarrow> (message @ ''. Latest recovery point: '' @ y_SnapshotID m @ '' ('' @ int_str (y_RowCount m) @ '' rows)'',
                          ''Restore from a validated sidecar snapshot before allowing further writes to the affected table.'')
             | None \<Rightarrow> (message @ ''. No recovery point is available yet.'',
                        ''Stop writes, take a database-level backup if possible, and use PITR/native restore paths.''))
      in with_manifest manifest
           \<lparr>wp_Text = text, wp_Severity = ''critical'', wp_EventType = ''table_drop_detected'', wp_Table = tab,
            wp_RecoveryPointAvailable = (manifest \<noteq> None), wp_SnapshotAgeSeconds = 0,
            wp_RecommendedAction = action, wp_SnapshotID = '''', wp_ManifestKey = '''', wp_Rows = 0\<rparr>)"

definition SendDropAlert ::
  "string \<Rightarrow> SyncManifest option \<Rightarrow> AlertEngine \<Rightarrow> world \<Rightarrow> string option \<times> AlertEngine \<times> world" where
  "SendDropAlert tab manifest a w =
     (let (now, w1) = Now w; p = drop_payload tab manifest now
      in case Option.bind manifest (\<lambda>m. ParseRFC3339 (y_Timestamp m)) of
           None \<Rightarrow> sendPayload p a w1
         | Some ts \<Rightarrow>
             (case Now w1 of
                (t, w2) \<Rightarrow> sendPayload (p\<lparr>wp_SnapshotAgeSeconds := int64_of_float (Seconds (Sub t ts))\<rparr>) a w2))"

definition SendStaleSnapshotAlert ::
  "string \<Rightarrow> duration \<Rightarrow> duration \<Rightarrow> SyncManifest option \<Rightarrow> AlertEngine \<Rightarrow> world \<Rightarrow> string option \<times> AlertEngine \<times> world" where
  "SendStaleSnapshotAlert tab age maxAge manifest =
     sendPayload (with_manifest manifest
       \<lparr>wp_Text = ''[backstop] Snapshot for '' @ tab @ '' is stale: age='' @ Duration_String (Round age Second)
                  @ '' max='' @ Duration_String (Round maxAge Second),
        wp_Severity = ''warning'', wp_EventType = ''snapshot_stale'', wp_Table = tab,
        wp_RecoveryPointAvailable = (manifest \<noteq> None), wp_SnapshotAgeSeconds = int64_of_float (Seconds age),
        wp_RecommendedAction = ''Check sidecar health, S3 reachability, and database permissions; refresh the table snapshot before destructive operations.'',
        wp_SnapshotID = '''', wp_ManifestKey = '''', wp_Rows = 0\<rparr>)"

definition SendSnapshotFailureAlert ::
  "string \<Rightarrow> int \<Rightarrow> string \<Rightarrow> AlertEngine \<Rightarrow> world \<Rightarrow> string option \<times> AlertEngine \<times> world" where
  "SendSnapshotFailureAlert tab failures err =
     sendPayload
       \<lparr>wp_Text = ''[backstop] Snapshot capture failed '' @ int_str failures @ '' consecutive times for '' @ tab @ '': '' @ err,
        wp_Severity = ''critical'', wp_EventType = ''snapshot_capture_failed'', wp_Table = tab,
        wp_RecoveryPointAvailable = False, wp_SnapshotAgeSeconds = 0,
        wp_RecommendedAction = ''Investigate database access, table size limits, and S3 write permissions before allowing destructive SQL.'',
        wp_SnapshotID = '''', wp_ManifestKey = '''', wp_Rows = 0\<rparr>"

definition SendStorageFailureAlert ::
  "string \<Rightarrow> string \<Rightarrow> AlertEngine \<Rightarrow> world \<Rightarrow> string option \<times> AlertEngine \<times> world" where
  "SendStorageFailureAlert tab err =
     sendPayload
       \<lparr>wp_Text = ''[backstop] Snapshot storage is unreachable for '' @ tab @ '': '' @ err,
        wp_Severity = ''critical'', wp_EventType = ''storage_unreachable'', wp_Table = tab,
        wp_RecoveryPointAvailable = False, wp_SnapshotAgeSeconds = 0,
        wp_RecommendedAction = ''Restore storage connectivity and verify snapshot capture before approving destructive SQL.'',
        wp_SnapshotID = '''', wp_ManifestKey = '''', wp_Rows = 0\<rparr>"

section \<open>What an alert changes\<close>

text \<open>Whatever becomes of an alert, it changes at most the alerts table and the posts.\<close>

definition alert_frame :: "world \<Rightarrow> world \<Rightarrow> bool" where
  "alert_frame w w' \<longleftrightarrow> same_outside w w' \<and> snapshots_tbl (store w') = snapshots_tbl (store w) \<and>
     health_checks (store w') = health_checks (store w)"

lemma alert_frame_refl [simp]: "alert_frame w w" "alert_frame w (drawn w)"
  by (simp_all add: alert_frame_def)

lemma alert_frame_trans: "alert_frame u v \<Longrightarrow> alert_frame v w \<Longrightarrow> alert_frame u w"
  using same_outside_trans by (auto simp: alert_frame_def)

lemma alert_frame_recordAlert: "alert_frame w (recordAlert p st a w)"
proof -
  have "same_outside w (snd (StoreAlert s x1 x2 x3 x4 x5 w))" for s x1 x2 x3 x4 x5
    using atomic_writers(5) by (auto simp: atomic_write_def)
  moreover have "snapshots_tbl (store (snd (StoreAlert s x1 x2 x3 x4 x5 w))) = snapshots_tbl (store w) \<and>
      health_checks (store (snd (StoreAlert s x1 x2 x3 x4 x5 w))) = health_checks (store w)" for s x1 x2 x3 x4 x5
    by (simp add: StoreAlert_def Now_def withTx_def split: option.split)
  ultimately show ?thesis by (simp add: recordAlert_def alert_frame_def same_writers)
qed

lemma sendPayload_effect:
  assumes "sendPayload p a w = (r, a', w')"
  shows "alert_frame w w' \<and> al_metadata a' = al_metadata a \<and> al_webhookURL a' = al_webhookURL a"
proof -
  have "alert_frame w (recordAlert p st a (drawn w))" for st
    using alert_frame_trans [OF alert_frame_refl(2) alert_frame_recordAlert] .
  with assms alert_frame_recordAlert [of w p _ a] show ?thesis
    by (auto simp: sendPayload_def Let_def split: if_splits option.splits)
qed

lemma SendDropAlert_effect:
  assumes "SendDropAlert tab m a w = (r, a', w')"
  shows "alert_frame w w' \<and> al_metadata a' = al_metadata a \<and> al_webhookURL a' = al_webhookURL a"
proof -
  have 1: "alert_frame w (drawn (drawn w))"
    using alert_frame_trans [OF alert_frame_refl(2) alert_frame_refl(2)] .
  from assms obtain p w1 where "sendPayload p a w1 = (r, a', w')" "w1 = drawn w \<or> w1 = drawn (drawn w)"
    by (auto simp: SendDropAlert_def Let_def Now_def split: option.splits)
  with sendPayload_effect 1 alert_frame_refl(2) alert_frame_trans show ?thesis by metis
qed

lemma drop_payload_simps [simp]:
  "wp_EventType (drop_payload tab m now) = ''table_drop_detected''" "wp_Table (drop_payload tab m now) = tab"
  "wp_RecoveryPointAvailable (drop_payload tab m now) = (m \<noteq> None)"
  by (simp_all add: drop_payload_def with_manifest_def Let_def split: option.split)

lemma sendPayload_posts:
  "sendPayload p a w = (r, a', w') \<Longrightarrow> al_webhookURL a' = al_webhookURL a \<and> set (al_posted a) \<subseteq> set (al_posted a') \<and>
     (al_webhookURL a \<noteq> '''' \<longrightarrow> marshal_payload p \<in> set (al_posted a'))"
  by (auto simp: sendPayload_def Let_def split: if_splits option.splits)

lemma SendDropAlert_payload:
  obtains p w1 where "SendDropAlert tab m a w = sendPayload p a w1" "wp_EventType p = ''table_drop_detected''" "wp_Table p = tab"
    "wp_RecoveryPointAvailable p = (m \<noteq> None)"
proof (cases "Option.bind m (\<lambda>m. ParseRFC3339 (y_Timestamp m))")
  case None
  then show ?thesis by (intro that [of "drop_payload tab m (clock w (draws w))" "drawn w"]) (simp_all add: SendDropAlert_def Now_def)
next
  case (Some ts)
  then show ?thesis
    by (intro that [of "(drop_payload tab m (clock w (draws w)))\<lparr>wp_SnapshotAgeSeconds :=
           int64_of_float (Seconds (Sub (clock w (Suc (draws w))) ts))\<rparr>" "drawn (drawn w)"])
      (simp_all add: SendDropAlert_def Now_def Let_def)
qed

end
