(* ===== verification/Go_Net.thy ===== *)
theory Go_Net
  imports Go_Strings Go_Time "HOL-Library.Word"
begin

unbundle bit_operations_syntax

text \<open>
  What \<^verbatim>\<open>sync/bypass.go\<close> uses of the package \<^verbatim>\<open>net\<close>: \<^verbatim>\<open>ParseIP\<close>, \<^verbatim>\<open>ParseCIDR\<close> and \<^verbatim>\<open>IPNet.Contains\<close>, which
  rest on \<^verbatim>\<open>netip.ParseAddr\<close>. An address is its list of bytes, 4 or 16 of them; an address with a
  zone is no address for either of the callers.
\<close>

type_synonym ip = "8 word list"

section \<open>Parsing addresses\<close>

definition hex_val :: "char \<Rightarrow> nat option" where
  "hex_val c =
     (let n = of_char c :: nat in
      if 48 \<le> n \<and> n \<le> 57 then Some (n - 48)
      else if 97 \<le> n \<and> n \<le> 102 then Some (n - 87)
      else if 65 \<le> n \<and> n \<le> 70 then Some (n - 55)
      else None)"

definition parse_octet :: "string \<Rightarrow> 8 word option" where
  \<comment> \<open>a decimal field of an IPv4 address: no leading zero, at most 255\<close>
  "parse_octet s =
     (if s \<noteq> '''' \<and> list_all is_digit s \<and> \<not> (2 \<le> length s \<and> hd s = CHR ''0'') \<and> num_of s \<le> 255
      then Some (of_nat (num_of s)) else None)"

definition parseIPv4 :: "string \<Rightarrow> ip option" where
  "parseIPv4 s =
     (let parts = Split s CHR ''.''
      in if length parts = 4 \<and> list_all (\<lambda>p. parse_octet p \<noteq> None) parts
         then Some (map (\<lambda>p. the (parse_octet p)) parts) else None)"

fun hex_group :: "nat \<Rightarrow> nat \<Rightarrow> string \<Rightarrow> (nat \<times> nat \<times> string) option" where
  \<comment> \<open>the hex digits a string begins with: how many, their value and the rest; None when there are more than four\<close>
  "hex_group off acc [] = Some (off, acc, [])"
| "hex_group off acc (c # s) =
     (case hex_val c of
        None \<Rightarrow> Some (off, acc, c # s)
      | Some d \<Rightarrow> if off > 3 then None else hex_group (Suc off) (16 * acc + d) s)"

lemma hex_group_length: "hex_group off acc s = Some (n, v, t) \<Longrightarrow> length t + n = length s + off"
  by (induction off acc s rule: hex_group.induct) (auto split: option.splits if_splits)

definition split_word :: "nat \<Rightarrow> ip" where
  "split_word v = [of_nat (v div 256), of_nat (v mod 256)]"

function groups :: "ip \<Rightarrow> nat option \<Rightarrow> string \<Rightarrow> (ip \<times> nat option \<times> string) option" where
  \<comment> \<open>the loop over the groups, with the bytes so far, the place of the ellipsis and the rest of the text\<close>
  "groups bs ellipsis s =
     (if 16 \<le> length bs then Some (bs, ellipsis, s)
      else case hex_group 0 0 s of
        None \<Rightarrow> None
      | Some (off, acc, rest) \<Rightarrow>
          (if off = 0 then None
           else if rest \<noteq> [] \<and> hd rest = CHR ''.''
           then (if ellipsis = None \<and> length bs \<noteq> 12 then None
                 else if length bs + 4 > 16 then None
                 else case parseIPv4 s of None \<Rightarrow> None | Some v4 \<Rightarrow> Some (bs @ v4, ellipsis, []))
           else let bs1 = bs @ split_word acc in
             case rest of
               [] \<Rightarrow> Some (bs1, ellipsis, [])
             | c # s1 \<Rightarrow>
                 (if c \<noteq> CHR '':'' then None
                  else case s1 of
                    [] \<Rightarrow> None
                  | c1 # s2 \<Rightarrow>
                      (if c1 = CHR '':''
                       then (if ellipsis \<noteq> None then None
                             else if s2 = [] then Some (bs1, Some (length bs1), [])
                             else groups bs1 (Some (length bs1)) s2)
                       else groups bs1 ellipsis s1))))"
  by pat_completeness auto
termination
  by (relation "measure (\<lambda>(bs, e, s). 16 - length bs)") (auto simp: split_word_def)

definition parseIPv6 :: "string \<Rightarrow> ip option" where
  "parseIPv6 s =
     (if CHR ''%'' \<in> set s then None
      else let (ellipsis, rest) = (if HasPrefix s ''::'' then (Some 0, drop 2 s) else (None, s))
           in if ellipsis \<noteq> None \<and> rest = [] then Some (replicate 16 0)
              else case groups [] ellipsis rest of
                None \<Rightarrow> None
              | Some (bs, ell, left) \<Rightarrow>
                  (if left \<noteq> [] then None
                   else if length bs < 16
                   then (case ell of
                           None \<Rightarrow> None
                         | Some k \<Rightarrow> Some (take k bs @ replicate (16 - length bs) 0 @ drop k bs))
                   else if ell \<noteq> None then None
                   else Some bs))"

definition ParseAddr :: "string \<Rightarrow> ip option" where
  \<comment> \<open>which of the three characters comes first decides\<close>
  "ParseAddr s =
     (case find (\<lambda>c. c \<in> set ''.:%'') s of
        None \<Rightarrow> None
      | Some c \<Rightarrow> if c = CHR ''.'' then parseIPv4 s else if c = CHR '':'' then parseIPv6 s else None)"

section \<open>Addresses and networks\<close>

definition v4InV6Prefix :: ip where
  "v4InV6Prefix = replicate 10 0 @ [255, 255]"

definition As16 :: "ip \<Rightarrow> ip" where
  "As16 a = (if length a = 4 then v4InV6Prefix @ a else a)"

definition To4 :: "ip \<Rightarrow> ip option" where
  "To4 a =
     (if length a = 4 then Some a
      else if length a = 16 \<and> take 12 a = v4InV6Prefix then Some (drop 12 a)
      else None)"

definition ParseIP :: "string \<Rightarrow> ip option" where
  "ParseIP s = map_option As16 (ParseAddr s)"

fun mask_bytes :: "nat \<Rightarrow> nat \<Rightarrow> ip" where
  "mask_bytes n 0 = []"
| "mask_bytes n (Suc l) = (if 8 \<le> n then - 1 # mask_bytes (n - 8) l else NOT (drop_bit n (- 1)) # mask_bytes 0 l)"

definition CIDRMask :: "nat \<Rightarrow> nat \<Rightarrow> ip" where
  "CIDRMask ones bits = mask_bytes ones (bits div 8)"

definition Mask :: "ip \<Rightarrow> ip \<Rightarrow> ip option" where
  \<comment> \<open>the masks here never have 16 bytes for an address of 4\<close>
  "Mask a m =
     (let a1 = (if length m = 4 \<and> length a = 16 \<and> take 12 a = v4InV6Prefix then drop 12 a else a)
      in if length a1 \<noteq> length m then None else Some (map2 (AND) a1 m))"

definition ParseCIDR :: "string \<Rightarrow> (ip option \<times> ip) option" where
  \<comment> \<open>the network, as its address and its mask\<close>
  "ParseCIDR s =
     (case SplitN2 s CHR ''/'' of
        (_, None) \<Rightarrow> None
      | (addr, Some msk) \<Rightarrow>
          (case ParseAddr addr of
             None \<Rightarrow> None
           | Some a \<Rightarrow>
               (let n = num_of msk; m = CIDRMask n (8 * length a)
                in if msk = '''' \<or> \<not> list_all is_digit msk \<or> 8 * length a < n then None
                   else Some (Mask (As16 a) m, m))))"

definition networkNumberAndMask :: "ip option \<times> ip \<Rightarrow> (ip \<times> ip) option" where
  "networkNumberAndMask net =
     (case fst net of
        None \<Rightarrow> None
      | Some nip \<Rightarrow>
          let a = (case To4 nip of Some x \<Rightarrow> x | None \<Rightarrow> nip); m = snd net
          in if length a \<noteq> 4 \<and> length a \<noteq> 16 then None
             else if length m = 4 then (if length a \<noteq> 4 then None else Some (a, m))
             else if length m = 16 then (if length a = 4 then Some (a, drop 12 m) else Some (a, m))
             else None)"

definition NetContains :: "ip option \<times> ip \<Rightarrow> ip \<Rightarrow> bool" where
  "NetContains net a =
     (let a1 = (case To4 a of Some x \<Rightarrow> x | None \<Rightarrow> a)
      in case networkNumberAndMask net of
           None \<Rightarrow> a1 = []
         | Some (nn, m) \<Rightarrow>
             length a1 = length nn \<and> map2 (AND) nn m = map2 (AND) a1 m)"

section \<open>Dotted addresses\<close>

text \<open>What the printed form of an IPv4 address is read back as, and which bits a mask leaves.\<close>

definition dotted :: "ip \<Rightarrow> string" where
  "dotted a = Join (map (\<lambda>b. nat_str (unat b)) a) ''.''"

definition addr_bit :: "ip \<Rightarrow> nat \<Rightarrow> bool" where
  \<comment> \<open>the bits of an address from the left\<close>
  "addr_bit a i = bit (a ! (i div 8)) (7 - i mod 8)"

lemma nat_str_not_Nil [simp]: "nat_str n \<noteq> []"
  by (subst nat_str.simps) simp

lemma digit_0: "digit 0 = CHR ''0''"
  by code_simp

lemma nat_str_head: "0 < n \<Longrightarrow> hd (nat_str n) \<noteq> CHR ''0''"
proof (induction n rule: nat_str.induct)
  case (1 n)
  show ?case
  proof (cases "n < 10")
    case True
    with 1(2) digit_inj [of n 0] show ?thesis by (simp add: nat_str.simps [of n] digit_0)
  next
    case False
    with 1 show ?thesis by (simp add: nat_str.simps [of n])
  qed
qed

lemma nat_str_0: "nat_str 0 = ''0''"
  by (simp add: nat_str.simps digit_0)

lemma parse_octet_nat_str: "parse_octet (nat_str (unat b)) = Some b" for b :: "8 word"
proof -
  have "unat b < 256" using unsigned_less [of b] by simp
  moreover have "list_all is_digit (nat_str (unat b))" using nat_str_digits by (auto simp: list_all_iff)
  ultimately show ?thesis
    using nat_str_head [of "unat b"] num_of_nat_str [of "unat b"]
    by (cases "unat b = 0") (auto simp: parse_octet_def nat_str_0 unat_eq_0)
qed

lemma nat_str_no_char: "\<not> is_digit c \<Longrightarrow> c \<notin> set (nat_str n)"
  using nat_str_digits by blast

lemma dotted_digits: "c \<in> set (dotted a) \<Longrightarrow> is_digit c \<or> c = CHR ''.''"
  using set_Join [of c "map (\<lambda>b. nat_str (unat b)) a" "''.''"] nat_str_digits by (auto simp: dotted_def)

lemma parseIPv4_dotted: "length a = 4 \<Longrightarrow> parseIPv4 (dotted a) = Some a"
proof -
  assume a: "length a = 4"
  have "Split (dotted a) CHR ''.'' = map (\<lambda>b. nat_str (unat b)) a"
    unfolding dotted_def by (rule Split_Join) (use a nat_str_no_char in \<open>auto simp: list_all_iff is_digit_def\<close>)
  then show ?thesis using a by (simp add: parseIPv4_def list_all_iff parse_octet_nat_str map_idI)
qed

lemma ParseAddr_dotted: "length a = 4 \<Longrightarrow> ParseAddr (dotted a) = Some a"
proof -
  assume a: "length a = 4"
  then obtain b c a' where bc: "a = b # c # a'" by (cases a; cases "tl a") auto
  have "CHR ''.'' \<in> set (dotted a)" by (simp add: dotted_def bc)
  then obtain d where d: "find (\<lambda>c. c \<in> set ''.:%'') (dotted a) = Some d"
    using find_None_all [of "\<lambda>c. c \<in> set ''.:%''" "dotted a"]
    by (cases "find (\<lambda>c. c \<in> set ''.:%'') (dotted a)") auto
  then have "d = CHR ''.''" using find_Some_mem [OF d] dotted_digits [of d a] by (auto simp: is_digit_def)
  with d show ?thesis using parseIPv4_dotted [OF a] by (simp add: ParseAddr_def)
qed

section \<open>Masks\<close>

lemma length_mask_bytes [simp]: "length (mask_bytes n l) = l"
  by (induction n l rule: mask_bytes.induct) simp_all

lemma mask_byte_bit: "j < 8 \<Longrightarrow> bit (NOT (drop_bit n (- 1)) :: 8 word) j \<longleftrightarrow> 8 - n \<le> j"
  by (auto simp: bit_simps)

lemma mask_bytes_bit: "i < 8 * l \<Longrightarrow> addr_bit (mask_bytes n l) i \<longleftrightarrow> i < n"
proof (induction n l arbitrary: i rule: mask_bytes.induct)
  case (2 n l)
  show ?case
  proof (cases "i < 8")
    case True
    then show ?thesis by (auto simp: addr_bit_def mask_byte_bit bit_simps)
  next
    case False
    then obtain k where k: "i = k + 8" by (metis add.commute le_Suc_ex not_less)
    then show ?thesis using 2 by (auto simp: addr_bit_def)
  qed
qed simp

lemma addr_eq_iff: "length a = l \<Longrightarrow> length b = l \<Longrightarrow> a = b \<longleftrightarrow> (\<forall>i < 8 * l. addr_bit a i = addr_bit b i)"
proof -
  assume len: "length a = l" "length b = l"
  have "a = b" if eq: "\<forall>i < 8 * l. addr_bit a i = addr_bit b i"
  proof (rule nth_equalityI)
    show "length a = length b" using len by simp
    fix k assume k: "k < length a"
    show "a ! k = b ! k"
    proof (rule bit_word_eqI)
      fix j assume "j < LENGTH(8)"
      then have j: "j < 8" by simp
      have "8 * k + (7 - j) < 8 * l" using k len j by simp
      with eq have "addr_bit a (8 * k + (7 - j)) = addr_bit b (8 * k + (7 - j))" by (simp only:)
      moreover obtain m where m: "7 - j = m" "m < 8" "7 - m = j" using j by simp
      ultimately show "bit (a ! k) j = bit (b ! k) j" by (simp add: addr_bit_def)
    qed
  qed
  then show ?thesis by blast
qed

lemma addr_bit_and: "length a = l \<Longrightarrow> length b = l \<Longrightarrow> i < 8 * l \<Longrightarrow> addr_bit (map2 (AND) a b) i \<longleftrightarrow> addr_bit a i \<and> addr_bit b i"
  by (simp add: addr_bit_def bit_simps less_mult_imp_div_less mult.commute)

lemma mask_agree:
  assumes "length a = l" "length b = l" "n \<le> 8 * l"
  shows "map2 (AND) a (mask_bytes n l) = map2 (AND) b (mask_bytes n l) \<longleftrightarrow> (\<forall>i < n. addr_bit a i = addr_bit b i)"
proof -
  have "map2 (AND) a (mask_bytes n l) = map2 (AND) b (mask_bytes n l) \<longleftrightarrow>
      (\<forall>i < 8 * l. addr_bit (map2 (AND) a (mask_bytes n l)) i = addr_bit (map2 (AND) b (mask_bytes n l)) i)"
    by (rule addr_eq_iff) (simp_all add: assms)
  also have "\<dots> \<longleftrightarrow> (\<forall>i < 8 * l. i < n \<longrightarrow> addr_bit a i = addr_bit b i)"
    using assms by (auto simp: addr_bit_and mask_bytes_bit)
  finally show ?thesis using assms(3) by (meson order_less_le_trans)
qed

lemma mask_idem: "map2 (AND) (map2 (AND) a m) m = map2 (AND) a m" for a m :: ip
  by (rule nth_equalityI) simp_all

lemma v4_embedding: "length a = 4 \<Longrightarrow> To4 (As16 a) = Some a" "length a = 4 \<Longrightarrow> length (As16 a) = 16"
  "length a = 4 \<Longrightarrow> take 12 (As16 a) = v4InV6Prefix" "length a = 4 \<Longrightarrow> drop 12 (As16 a) = a"
  by (simp_all add: To4_def As16_def v4InV6Prefix_def)

lemma ParseIP_dotted: "length a = 4 \<Longrightarrow> ParseIP (dotted a) = Some (As16 a)"
  by (simp add: ParseIP_def ParseAddr_dotted)

lemma ParseCIDR_dotted:
  assumes "length a = 4" "n \<le> 32"
  shows "ParseCIDR (dotted a @ ''/'' @ nat_str n) = Some (Some (map2 (AND) a (mask_bytes n 4)), mask_bytes n 4)"
proof -
  have "CHR ''/'' \<notin> set (dotted a)" using dotted_digits [of "CHR ''/''" a] by (auto simp: is_digit_def)
  then have "SplitN2 (dotted a @ ''/'' @ nat_str n) CHR ''/'' = (dotted a, Some (nat_str n))"
    by (simp add: SplitN2_Some)
  moreover have "list_all is_digit (nat_str n)" using nat_str_digits by (auto simp: list_all_iff)
  ultimately show ?thesis
    using assms by (simp add: ParseCIDR_def ParseAddr_dotted num_of_nat_str CIDRMask_def Mask_def v4_embedding Let_def)
qed

lemma Contains_dotted:
  assumes "length a = 4" "length b = 4" "n \<le> 32"
  shows "NetContains (Some (map2 (AND) a (mask_bytes n 4)), mask_bytes n 4) (As16 b) \<longleftrightarrow>
     (\<forall>i < n. addr_bit a i = addr_bit b i)"
  using mask_agree [of a 4 b n] assms
  by (simp add: NetContains_def networkNumberAndMask_def v4_embedding To4_def mask_idem Let_def)

end
