(* ===== verification/Sync_Metrics.thy ===== *)
theory Sync_Metrics
  imports Metrics Host Go_Duration
begin

text \<open>
  The sidecar's metrics and its health, \<^verbatim>\<open>sync/metrics.go\<close>. As in the gateway, a \<^verbatim>\<open>*SyncMetrics\<close> that may
  be nil is an \<open>option\<close>. A detail is a \<^verbatim>\<open>map[string]any\<close> whose values are JSON values; nil is \<open>None\<close>. The copy
  that \<^verbatim>\<open>cloneDetail\<close> makes of it is the value itself.
\<close>

type_synonym detail = "(string, json) gomap option"

definition PreventionHealthy :: string where
  "PreventionHealthy = ''healthy''"

definition PreventionDegraded :: string where
  "PreventionDegraded = ''degraded''"

definition PreventionRecoveryOnly :: string where
  "PreventionRecoveryOnly = ''recovery_only''"

record HealthSnapshot =
  hs_Status :: string
  hs_Checked :: instant
  hs_Detail :: detail

record SyncMetrics =
  mt_snapshots :: counters
  mt_snapshotRows :: int
  mt_dropped :: int
  mt_latest :: "(string, instant) gomap"
  mt_bypass :: counters
  mt_posture :: string
  mt_health :: HealthSnapshot

definition NewSyncMetrics :: "world \<Rightarrow> SyncMetrics \<times> world" where
  "NewSyncMetrics w =
     (let (now, w1) = Now w
      in (\<lparr>mt_snapshots = [], mt_snapshotRows = 0, mt_dropped = 0, mt_latest = [], mt_bypass = [],
           mt_posture = PreventionHealthy,
           mt_health = \<lparr>hs_Status = ''starting'', hs_Checked = now,
                        hs_Detail = Some [(''reason'', JStr ''process_starting'')]\<rparr>\<rparr>, w1))"

definition cloneDetail :: "detail \<Rightarrow> detail" where
  "cloneDetail d = (case d of None \<Rightarrow> None | Some kvs \<Rightarrow> Some (foldl (\<lambda>m (k, v). map_put k v m) [] kvs))"

definition SetHealth :: "string \<Rightarrow> detail \<Rightarrow> SyncMetrics option \<Rightarrow> world \<Rightarrow> SyncMetrics option \<times> world" where
  "SetHealth status d m w =
     (case m of
        None \<Rightarrow> (None, w)
      | Some m \<Rightarrow>
          let (now, w1) = Now w
          in (Some (m\<lparr>mt_health := \<lparr>hs_Status = status, hs_Checked = now, hs_Detail = cloneDetail d\<rparr>\<rparr>), w1))"

definition Health :: "SyncMetrics option \<Rightarrow> world \<Rightarrow> HealthSnapshot \<times> world" where
  "Health m w =
     (case m of
        None \<Rightarrow>
          let (now, w1) = Now w
          in (\<lparr>hs_Status = ''unhealthy'', hs_Checked = now,
               hs_Detail = Some [(''reason'', JStr ''metrics_unavailable'')]\<rparr>, w1)
      | Some m \<Rightarrow>
          (\<lparr>hs_Status = hs_Status (mt_health m), hs_Checked = hs_Checked (mt_health m),
            hs_Detail = cloneDetail (hs_Detail (mt_health m))\<rparr>, w))"

definition IncSnapshot :: "string \<Rightarrow> SyncMetrics option \<Rightarrow> SyncMetrics option" where
  "IncSnapshot status = map_option (mt_snapshots_update (bump status))"

definition AddRows :: "int \<Rightarrow> SyncMetrics option \<Rightarrow> SyncMetrics option" where
  "AddRows rows = map_option (mt_snapshotRows_update (\<lambda>n. wrap64 (n + rows)))"

definition MarkLatest :: "string \<Rightarrow> instant \<Rightarrow> SyncMetrics option \<Rightarrow> SyncMetrics option" where
  "MarkLatest tab ts = map_option (mt_latest_update (map_put tab ts))"

definition IncDropped :: "SyncMetrics option \<Rightarrow> SyncMetrics option" where
  "IncDropped = map_option (mt_dropped_update (\<lambda>n. wrap64 (n + 1)))"

definition IncBypass :: "string \<Rightarrow> string \<Rightarrow> SyncMetrics option \<Rightarrow> SyncMetrics option" where
  "IncBypass role application = map_option (mt_bypass_update (bump (role @ ''|'' @ application)))"

definition SetPosture :: "string \<Rightarrow> SyncMetrics option \<Rightarrow> SyncMetrics option" where
  "SetPosture posture = map_option (mt_posture_update (\<lambda>_. posture))"

section \<open>The exposition\<close>

definition sortedCounterKeys :: "counters \<Rightarrow> string list" where
  "sortedCounterKeys values = sort (map fst values)"

definition sortedTimeKeys :: "(string, instant) gomap \<Rightarrow> string list" where
  "sortedTimeKeys values = sort (map fst values)"

definition age_seconds :: "instant \<Rightarrow> instant \<Rightarrow> rat" where
  "age_seconds now ts = (let age = Seconds (Sub now ts) in if age < 0 then 0 else age)"

definition state_samples :: "string \<Rightarrow> string list \<Rightarrow> string \<Rightarrow> string list" where
  \<comment> \<open>one gauge per possible state, 1 for the current one\<close>
  "state_samples name states current =
     map (\<lambda>st. sample1 name ''status'' st (if current = st then 1 else 0)) states"

definition sync_exposition :: "instant \<Rightarrow> SyncMetrics \<Rightarrow> string list" where
  "sync_exposition now m =
     [type_line ''backstop_sync_snapshots_total'' ''counter''] @
     map (\<lambda>status. sample1 ''backstop_sync_snapshots_total'' ''status'' status (map_get_or 0 (mt_snapshots m) status))
       (sortedCounterKeys (mt_snapshots m)) @
     [type_line ''backstop_sync_snapshot_rows_total'' ''counter'',
      plain_sample ''backstop_sync_snapshot_rows_total'' (mt_snapshotRows m),
      type_line ''backstop_sync_latest_snapshot_age_seconds'' ''gauge''] @
     map (\<lambda>tab. ''backstop_sync_latest_snapshot_age_seconds{table='' @ Quote tab @ ''} ''
                 @ fmt_0f (age_seconds now (map_get_or zero_time (mt_latest m) tab)) @ [CHR 0x0A])
       (sortedTimeKeys (mt_latest m)) @
     [type_line ''backstop_sync_dropped_tables_total'' ''counter'',
      plain_sample ''backstop_sync_dropped_tables_total'' (mt_dropped m),
      type_line ''backstop_bypass_connections_total'' ''counter''] @
     map (\<lambda>key. sample2 ''backstop_bypass_connections_total'' ''role'' ''application'' key (map_get_or 0 (mt_bypass m) key))
       (sortedCounterKeys (mt_bypass m)) @
     [type_line ''backstop_prevention_posture'' ''gauge''] @
     state_samples ''backstop_prevention_posture'' [PreventionHealthy, PreventionDegraded, PreventionRecoveryOnly]
       (mt_posture m) @
     [type_line ''backstop_sync_health'' ''gauge''] @
     state_samples ''backstop_sync_health'' [''starting'', ''healthy'', ''degraded'', ''paused'', ''unhealthy'']
       (hs_Status (mt_health m))"

definition SyncPrometheus :: "instant \<Rightarrow> SyncMetrics option \<Rightarrow> string" where
  "SyncPrometheus now m = (case m of None \<Rightarrow> '''' | Some m \<Rightarrow> concat (sync_exposition now m))"

definition healthJSON :: "HealthSnapshot \<Rightarrow> json" where
  \<comment> \<open>the details are JSON values, so encoding cannot fail\<close>
  "healthJSON h =
     JObj [(''checked_at'', JStr (FormatRFC3339Nano (hs_Checked h))),
           (''detail'', case hs_Detail h of None \<Rightarrow> JNull | Some kvs \<Rightarrow> JObj kvs),
           (''service'', JStr ''backstop-sync''), (''status'', JStr (hs_Status h))]"

section \<open>Reading back what was set\<close>

lemma cloneDetail_get: "distinct (map fst kvs) \<Longrightarrow> map_option map_get (cloneDetail (Some kvs)) = Some (map_get kvs)"
proof -
  assume "distinct (map fst kvs)"
  have "distinct (map fst kvs) \<Longrightarrow> map_get (foldl (\<lambda>m (k, v). map_put k v m) acc kvs) = map_get acc ++ map_get kvs" for acc
    by (induction kvs arbitrary: acc)
      (auto simp: update_conv' map_add_upd_left dom_map_of_conv_image_fst)
  then show ?thesis using \<open>distinct (map fst kvs)\<close> by (simp add: cloneDetail_def)
qed

lemma Health_after_SetHealth:
  "SetHealth status d (Some m) w = (m', w') \<Longrightarrow>
   hs_Status (fst (Health m' v)) = status \<and> hs_Checked (fst (Health m' v)) = clock w (draws w)"
  by (auto simp: SetHealth_def Health_def Now_def)

end
