(* ===== verification/Sync_Bypass.thy ===== *)
theory Sync_Bypass
  imports Go_Net Go_Sql Go_Json Sync_Metrics
begin

text \<open>
  The detection of database sessions that bypass the gateway, \<^verbatim>\<open>sync/bypass.go\<close>. PostgreSQL's answer to the query on
  \<^verbatim>\<open>pg_stat_activity\<close> is an argument. The start of a query is only ever written to JSON, so it is
  kept as the text written.
\<close>

record BypassConfig =
  bc_AllowedApplicationNames :: "string list"
  bc_AllowedRoles :: "string list"
  bc_AllowedClientAddresses :: "string list"
  bc_AgentRoles :: "string list"
  bc_GatewayApplicationName :: string

record DBActivity =
  da_PID :: int
  da_Role :: string
  da_ApplicationName :: string
  da_ClientAddress :: string
  da_QueryStart :: string
  da_Query :: string

record BypassFinding =
  bf_Posture :: string
  bf_Reason :: string
  bf_Activity :: DBActivity

definition marshal_finding :: "BypassFinding \<Rightarrow> json" where
  \<comment> \<open>the structs have no tags: the names of the fields are the keys\<close>
  "marshal_finding f =
     JObj [(''Posture'', JStr (bf_Posture f)), (''Reason'', JStr (bf_Reason f)),
           (''Activity'', let a = bf_Activity f in
              JObj [(''PID'', JInt (da_PID a)), (''Role'', JStr (da_Role a)),
                    (''ApplicationName'', JStr (da_ApplicationName a)), (''ClientAddress'', JStr (da_ClientAddress a)),
                    (''QueryStart'', JStr (da_QueryStart a)), (''Query'', JStr (da_Query a))])]"

definition containsFold :: "string list \<Rightarrow> string \<Rightarrow> bool" where
  "containsFold values target = list_ex (\<lambda>value. EqualFold value target) values"

definition addressAllowed :: "string list \<Rightarrow> string \<Rightarrow> bool" where
  "addressAllowed allowed candidate =
     list_ex (\<lambda>value. value = candidate \<or>
                 (case ParseCIDR value of
                    None \<Rightarrow> False
                  | Some network \<Rightarrow>
                      (case ParseIP candidate of None \<Rightarrow> False | Some ip \<Rightarrow> NetContains network ip))) allowed"

definition parseCSV :: "string \<Rightarrow> string list" where
  "parseCSV value = filter (\<lambda>t. t \<noteq> '''') (map TrimSpace (Split value CHR '',''))"

definition allowed :: "BypassConfig \<Rightarrow> DBActivity \<Rightarrow> bool" where
  "allowed c a =
     (if bc_GatewayApplicationName c \<noteq> '''' \<and> EqualFold (da_ApplicationName a) (bc_GatewayApplicationName c) then True
      else if bc_AllowedApplicationNames c \<noteq> [] \<and> \<not> containsFold (bc_AllowedApplicationNames c) (da_ApplicationName a)
      then False
      else if bc_AllowedRoles c \<noteq> [] \<and> \<not> containsFold (bc_AllowedRoles c) (da_Role a) then False
      else if bc_AllowedClientAddresses c \<noteq> [] \<and> \<not> addressAllowed (bc_AllowedClientAddresses c) (da_ClientAddress a)
      then False
      else True)"

fun Evaluate :: "BypassConfig \<Rightarrow> DBActivity list \<Rightarrow> BypassFinding list" where
  "Evaluate c [] = []"
| "Evaluate c (activity # rest) =
     (let agentRole = (if bc_AgentRoles c = [] then True else containsFold (bc_AgentRoles c) (da_Role activity))
      in if \<not> agentRole then Evaluate c rest
         else if allowed c activity then Evaluate c rest
         else \<lparr>bf_Posture = PreventionDegraded,
               bf_Reason = ''agent-like role '' @ da_Role activity @ '' connected outside allowed gateway posture'',
               bf_Activity = activity\<rparr> # Evaluate c rest)"

record BypassDetector =

  bd_config :: BypassConfig

definition NewBypassDetector :: "BypassConfig \<Rightarrow> BypassDetector" where
  "NewBypassDetector config = \<lparr>bd_config = config\<rparr>"

definition BypassPoll :: "DBActivity rows \<Rightarrow> BypassDetector \<Rightarrow> string + BypassFinding list" where
  \<comment> \<open>the first argument is PostgreSQL's answer to this poll\<close>
  "BypassPoll answer d =
     (case read_list answer of
        Inl e \<Rightarrow> Inl e
      | Inr activities \<Rightarrow> Inr (Evaluate (bd_config d) activities))"

section \<open>Which sessions are reported\<close>

definition suspicious :: "BypassConfig \<Rightarrow> DBActivity \<Rightarrow> bool" where
  \<comment> \<open>an agent's role, and neither the gateway nor within every list that is configured\<close>
  "suspicious c a \<longleftrightarrow>
     (bc_AgentRoles c = [] \<or> (\<exists>r \<in> set (bc_AgentRoles c). EqualFold r (da_Role a))) \<and>
     \<not> (bc_GatewayApplicationName c \<noteq> '''' \<and> EqualFold (da_ApplicationName a) (bc_GatewayApplicationName c)) \<and>
     \<not> ((bc_AllowedApplicationNames c = [] \<or> (\<exists>n \<in> set (bc_AllowedApplicationNames c). EqualFold n (da_ApplicationName a))) \<and>
        (bc_AllowedRoles c = [] \<or> (\<exists>r \<in> set (bc_AllowedRoles c). EqualFold r (da_Role a))) \<and>
        (bc_AllowedClientAddresses c = [] \<or> addressAllowed (bc_AllowedClientAddresses c) (da_ClientAddress a)))"

lemma containsFold_iff: "containsFold xs t \<longleftrightarrow> (\<exists>x \<in> set xs. EqualFold x t)"
  by (simp add: containsFold_def list_ex_iff)

lemma Evaluate_suspicious: "map bf_Activity (Evaluate c as) = filter (suspicious c) as"
  by (induction as) (auto simp: suspicious_def allowed_def containsFold_iff Let_def)

lemma suspicious_no_gateway:
  "bc_GatewayApplicationName c = '''' \<Longrightarrow> bc_AllowedApplicationNames c = [] \<Longrightarrow> bc_AllowedRoles c = [] \<Longrightarrow>
   bc_AllowedClientAddresses c = [] \<Longrightarrow> \<not> suspicious c a"
  by (simp add: suspicious_def)

section \<open>Properties\<close>

text \<open>
  Network filtering is exact on IPv4: an allowed address written as a network \<open>a/n\<close> admits a
  client exactly when the first \<open>n\<close> bits of the client's address are those of \<open>a\<close>, the parsing of both
  texts included.
\<close>

theorem cidr_admits_exactly:
  assumes "length a = 4" "length b = 4" "n \<le> 32"
  shows "addressAllowed [dotted a @ ''/'' @ nat_str n] (dotted b) \<longleftrightarrow> (\<forall>i < n. addr_bit a i = addr_bit b i)"
proof -
  have "dotted a @ ''/'' @ nat_str n \<noteq> dotted b"
  proof
    assume "dotted a @ ''/'' @ nat_str n = dotted b"
    then have "CHR ''/'' \<in> set (dotted b)" by (metis in_set_conv_decomp append_Cons append_Nil)
    then show False using dotted_digits [of "CHR ''/''" b] by (simp add: is_digit_def)
  qed
  then show ?thesis
    using assms by (simp add: addressAllowed_def ParseCIDR_dotted [simplified] ParseIP_dotted Contains_dotted)
qed

theorem cidr_admits_exactly_witness:
  "addressAllowed [dotted [10, 1, 0, 0] @ ''/'' @ nat_str 15] (dotted [10, 0, 7, 9]) \<and>
   \<not> addressAllowed [dotted [10, 1, 0, 0] @ ''/'' @ nat_str 16] (dotted [10, 0, 7, 9])"
proof -
  have "list_all (\<lambda>i. addr_bit [10, 1, 0, 0] i = addr_bit [10, 0, 7, 9] i) [0..<15]" by code_simp
  moreover have "\<not> addr_bit [10, 0, 7, 9] 15 \<and> addr_bit [10, 1, 0, 0] 15" by code_simp
  ultimately show ?thesis
    using cidr_admits_exactly [of "[10, 1, 0, 0]" "[10, 0, 7, 9]" 15]
      cidr_admits_exactly [of "[10, 1, 0, 0]" "[10, 0, 7, 9]" 16]
    by (auto simp: list_all_iff)
qed

end
