(* ===== verification/Sync_Delta.thy ===== *)
theory Sync_Delta
  imports Prelude
begin

text \<open>
  The table tracker of the sidecar, \<^verbatim>\<open>sync/delta.go\<close>. The set of known tables, a map to empty structs, is
  a list without repetitions; the order in which Go ranges over the map is left open by Go, and the
  statements below are about sets.
\<close>

record DeltaTracker =
  dt_known :: "string list"
  dt_seeded :: bool

definition NewDeltaTracker :: DeltaTracker where
  "NewDeltaTracker = \<lparr>dt_known = [], dt_seeded = False\<rparr>"

definition Update :: "string list \<Rightarrow> DeltaTracker \<Rightarrow> (string list \<times> string list) \<times> DeltaTracker" where
  "Update tables d =
     (let current = remdups tables
      in if \<not> dt_seeded d then (([], []), \<lparr>dt_known = current, dt_seeded = True\<rparr>)
         else let dropped = filter (\<lambda>t. t \<notin> set current) (dt_known d);
                  added = filter (\<lambda>t. t \<notin> set (dt_known d)) current
              in ((dropped, added), d\<lparr>dt_known := current\<rparr>))"

definition KnownTables :: "DeltaTracker \<Rightarrow> string list" where
  "KnownTables d = dt_known d"

definition tracked :: "string list list \<Rightarrow> DeltaTracker" where
  \<comment> \<open>the tracker after a history of polls\<close>
  "tracked polls = foldl (\<lambda>d tables. snd (Update tables d)) NewDeltaTracker polls"

lemma tracked_snoc: "tracked (polls @ [p]) = snd (Update p (tracked polls))"
  by (simp add: tracked_def)

lemma tracked_state:
  "dt_seeded (tracked polls) = (polls \<noteq> []) \<and> distinct (dt_known (tracked polls)) \<and>
   set (dt_known (tracked polls)) = (if polls = [] then {} else set (last polls))"
proof (induction polls rule: rev_induct)
  case Nil
  show ?case by (simp add: tracked_def NewDeltaTracker_def)
next
  case (snoc p polls)
  then show ?case by (simp add: tracked_snoc Update_def Let_def)
qed

text \<open>
  The tracker reports exactly what changed since the last poll: whatever the history of polls, a
  table is reported as dropped exactly if it was in the previous poll and is not in this one, and as
  added exactly if it is in this one and was not in the previous; the first poll reports nothing; and
  no table is reported twice.
\<close>

theorem delta_exact:
  "case fst (Update tables (tracked polls)) of (dropped, added) \<Rightarrow>
     set dropped = (if polls = [] then {} else set (last polls) - set tables) \<and>
     set added = (if polls = [] then {} else set tables - set (last polls)) \<and>
     distinct dropped \<and> distinct added"
  using tracked_state [of polls] by (auto simp: Update_def Let_def)

end
