(* ===== verification/Sync_Poller.thy ===== *)
theory Sync_Poller
  imports Sync_Snapshot Sync_Alert Sync_Bypass Sync_Delta
begin

text \<open>
  The loop of the sidecar, \<^verbatim>\<open>sync/poller.go\<close>: one poll reads the catalogue, looks for sessions that
  bypass the gateway, captures or re-verifies snapshots, reports dropped tables and publishes the health. The answers of
  PostgreSQL to one poll, and whether the pause file exists, are an argument of the poll. The alerter is never nil, as
  in \<^verbatim>\<open>sync/main.go\<close>; the other collaborators may be.
\<close>

section \<open>State\<close>

record Poller =
  po_schema :: string
  po_interval :: duration
  po_tracker :: DeltaTracker
  po_alerter :: AlertEngine
  po_snapshotEngine :: "SnapshotEngine option"
  po_snapshotOnStart :: bool
  po_metrics :: "SyncMetrics option"
  po_metadata :: bool
  po_bypassDetector :: "BypassDetector option"
  po_maxSnapshotAge :: duration
  po_maxFailures :: int
  po_failures :: counters
  po_staleAlerted :: "(string, bool) gomap"
  po_fingerprints :: "(string, string) gomap"
  po_stablePolls :: counters
  po_snapshotEveryPoll :: bool
  po_tableAllowlist :: "string list"
  po_startupGrace :: duration
  po_minStablePolls :: int
  po_pauseFile :: string

text \<open>The poller together with what it acts on: the bucket, and the clock and the shared database.\<close>

record sidecar =
  sd_poller :: Poller
  sd_cloud :: cloud
  sd_world :: world

record fingerprint_row =
  fp_table :: string
  fp_inserted :: int
  fp_updated :: int
  fp_deleted :: int
  fp_live :: int
  fp_dead :: int

record poll_answers =
  pl_tables :: "string rows"
  pl_activity :: "DBActivity rows"
  pl_pauseFile :: bool
  pl_fingerprints :: "fingerprint_row rows"
  pl_capture :: "string \<Rightarrow> table_answers"

definition NewPoller ::
  "string \<Rightarrow> duration \<Rightarrow> DeltaTracker \<Rightarrow> AlertEngine \<Rightarrow> SnapshotEngine option \<Rightarrow> bool \<Rightarrow> world \<Rightarrow> Poller \<times> world" where
  "NewPoller sch interval tracker alerter snapshotEngine snapshotOnStart w =
     (let (metrics, w1) = NewSyncMetrics w
      in (\<lparr>po_schema = sch, po_interval = interval, po_tracker = tracker, po_alerter = alerter,
           po_snapshotEngine = snapshotEngine, po_snapshotOnStart = snapshotOnStart, po_metrics = Some metrics,
           po_metadata = False, po_bypassDetector = None, po_maxSnapshotAge = 0, po_maxFailures = 3, po_failures = [],
           po_staleAlerted = [], po_fingerprints = [], po_stablePolls = [], po_snapshotEveryPoll = False,
           po_tableAllowlist = [], po_startupGrace = 0, po_minStablePolls = 2, po_pauseFile = ''''\<rparr>, w1))"

definition ConfigureLaunchReadiness :: "SyncMetrics option \<Rightarrow> bool \<Rightarrow> duration \<Rightarrow> int \<Rightarrow> Poller \<Rightarrow> Poller" where
  "ConfigureLaunchReadiness metrics metadata maxSnapshotAge maxFailures p =
     p\<lparr>po_metrics := (if metrics \<noteq> None then metrics else po_metrics p), po_metadata := metadata,
       po_maxSnapshotAge := maxSnapshotAge, po_maxFailures := (if 0 < maxFailures then maxFailures else po_maxFailures p)\<rparr>"

definition ConfigureBypassDetector :: "BypassDetector option \<Rightarrow> Poller \<Rightarrow> Poller" where
  "ConfigureBypassDetector detector p = p\<lparr>po_bypassDetector := detector\<rparr>"

definition ConfigureSnapshotStrategy :: "bool \<Rightarrow> Poller \<Rightarrow> Poller" where
  "ConfigureSnapshotStrategy everyPoll p = p\<lparr>po_snapshotEveryPoll := everyPoll\<rparr>"

definition ConfigureTableAllowlist :: "string list \<Rightarrow> Poller \<Rightarrow> Poller" where
  \<comment> \<open>nil and an empty map act alike: only the size and membership are looked at\<close>
  "ConfigureTableAllowlist tables p =
     p\<lparr>po_tableAllowlist := remdups (filter (\<lambda>t. t \<noteq> '''') (map TrimSpace tables))\<rparr>"

definition ConfigureStability :: "duration \<Rightarrow> int \<Rightarrow> string \<Rightarrow> Poller \<Rightarrow> Poller" where
  "ConfigureStability startupGrace minStablePolls pauseFile p =
     p\<lparr>po_startupGrace := startupGrace,
       po_minStablePolls := (if 0 < minStablePolls then minStablePolls else po_minStablePolls p),
       po_pauseFile := TrimSpace pauseFile\<rparr>"

section \<open>What a poll reads\<close>

definition fetchTables :: "string rows \<Rightarrow> string + string list" where
  "fetchTables q = read_list q"

definition int64String :: "int \<Rightarrow> string" where
  "int64String value = int_str value"

definition fingerprint :: "fingerprint_row \<Rightarrow> string" where
  "fingerprint r =
     Join [fp_table r, int64String (fp_inserted r), int64String (fp_updated r), int64String (fp_deleted r),
           int64String (fp_live r), int64String (fp_dead r)] '':''"

definition fetchTableFingerprints :: "fingerprint_row rows \<Rightarrow> string + (string, string) gomap" where
  "fetchTableFingerprints q = read_rows (\<lambda>m r. map_put (fp_table r) (fingerprint r) m) [] q"

definition filterTables :: "Poller \<Rightarrow> string list \<Rightarrow> string list" where
  "filterTables p tables =
     (if po_tableAllowlist p = [] then tables else filter (\<lambda>t. t \<in> set (po_tableAllowlist p)) tables)"

definition snapshotPaused :: "bool \<Rightarrow> Poller \<Rightarrow> bool" where
  "snapshotPaused exists p = (if po_pauseFile p = '''' then False else exists)"

definition tableStableForSnapshot ::
  "string \<Rightarrow> (string, string) gomap \<Rightarrow> string option \<Rightarrow> Poller \<Rightarrow> bool \<times> Poller" where
  "tableStableForSnapshot tab fps fpErr p =
     (if po_snapshotEveryPoll p \<or> fpErr \<noteq> None then (True, p)
      else let current = map_get_or '''' fps tab; known = map_get_or '''' (po_fingerprints p) tab
           in if current = '''' then (False, p\<lparr>po_stablePolls := map_put tab 0 (po_stablePolls p)\<rparr>)
              else let p1 = p\<lparr>po_stablePolls := (if known \<noteq> '''' \<and> known = current
                                                  then bump tab (po_stablePolls p)
                                                  else map_put tab 0 (po_stablePolls p))\<rparr>
                   in if map_get_or 0 (po_stablePolls p1) tab < po_minStablePolls p1 then (False, p1) else (True, p1))"

definition looksLikeStorageFailure :: "string \<Rightarrow> bool" where
  "looksLikeStorageFailure err =
     list_ex (Contains (ToLower err))
       [''s3'', ''putobject'', ''bucket'', ''storage'', ''upload'', ''access denied'', ''connection refused'']"

section \<open>Acting on the collaborators\<close>

definition upd_metrics :: "(SyncMetrics option \<Rightarrow> SyncMetrics option) \<Rightarrow> sidecar \<Rightarrow> sidecar" where
  "upd_metrics f s = s\<lparr>sd_poller := (sd_poller s)\<lparr>po_metrics := f (po_metrics (sd_poller s))\<rparr>\<rparr>"

definition set_health :: "string \<Rightarrow> detail \<Rightarrow> sidecar \<Rightarrow> sidecar" where
  "set_health status d s =
     (case SetHealth status d (po_metrics (sd_poller s)) (sd_world s) of
        (m, w) \<Rightarrow> s\<lparr>sd_poller := (sd_poller s)\<lparr>po_metrics := m\<rparr>, sd_world := w\<rparr>)"

definition record_health :: "string \<Rightarrow> string \<Rightarrow> (string, json) gomap \<Rightarrow> sidecar \<Rightarrow> string option \<times> sidecar" where
  \<comment> \<open>guarded by \<^verbatim>\<open>p.metadata != nil\<close>\<close>
  "record_health component status d s =
     (case SyncRecordHealth (po_metadata (sd_poller s)) component status (JObj d) (sd_world s) of
        (err, w) \<Rightarrow> (err, s\<lparr>sd_world := w\<rparr>))"

definition send :: "(AlertEngine \<Rightarrow> world \<Rightarrow> string option \<times> AlertEngine \<times> world) \<Rightarrow> sidecar \<Rightarrow> sidecar" where
  \<comment> \<open>an error of the alerter is only logged\<close>
  "send f s =
     (case f (po_alerter (sd_poller s)) (sd_world s) of
        (_, a, w) \<Rightarrow> s\<lparr>sd_poller := (sd_poller s)\<lparr>po_alerter := a\<rparr>, sd_world := w\<rparr>)"

definition upd_poller :: "(Poller \<Rightarrow> Poller) \<Rightarrow> sidecar \<Rightarrow> sidecar" where
  "upd_poller f s = s\<lparr>sd_poller := f (sd_poller s)\<rparr>"

definition latest_of_table :: "sidecar \<Rightarrow> string \<Rightarrow> SyncManifest option" where
  "latest_of_table s tab = Option.bind (po_snapshotEngine (sd_poller s)) (Latest tab)"

section \<open>The steps of a poll\<close>

definition report_finding :: "BypassFinding \<Rightarrow> sidecar \<Rightarrow> sidecar" where
  "report_finding f s =
     (let s1 = upd_metrics (IncBypass (da_Role (bf_Activity f)) (da_ApplicationName (bf_Activity f))) s;
          (err, w) = SyncRecordAlert (po_metadata (sd_poller s1)) ''critical'' ''gateway_bypass_detected'' '''' ''logged''
                       (marshal_finding f) (sd_world s1)
      in s1\<lparr>sd_world := w\<rparr>)"

definition pollBypass :: "DBActivity rows \<Rightarrow> sidecar \<Rightarrow> sidecar" where
  "pollBypass answer s =
     (case po_bypassDetector (sd_poller s) of
        None \<Rightarrow> upd_metrics (SetPosture PreventionRecoveryOnly) s
      | Some d \<Rightarrow>
          (case BypassPoll answer d of
             Inl err \<Rightarrow>
               upd_metrics (SetPosture PreventionRecoveryOnly)
                 (snd (record_health ''prevention'' PreventionRecoveryOnly [(''error'', JStr err)] s))
           | Inr findings \<Rightarrow>
               (let posture = (if findings \<noteq> [] then PreventionDegraded else PreventionHealthy);
                    s1 = foldl (\<lambda>s f. report_finding f s) s findings;
                    s2 = upd_metrics (SetPosture posture) s1
                in snd (record_health ''prevention'' posture [(''findings'', JInt (int (length findings)))] s2))))"

definition count_failure :: "string \<Rightarrow> sidecar \<Rightarrow> sidecar" where
  "count_failure tab = upd_poller (\<lambda>p. p\<lparr>po_failures := bump tab (po_failures p)\<rparr>)"

definition clear_failure :: "string \<Rightarrow> sidecar \<Rightarrow> sidecar" where
  "clear_failure tab =
     upd_poller (\<lambda>p. p\<lparr>po_failures := map_put tab 0 (po_failures p), po_staleAlerted := map_put tab False (po_staleAlerted p)\<rparr>)"

definition metadata_failed :: "string \<Rightarrow> string \<Rightarrow> SyncManifest \<Rightarrow> string \<Rightarrow> sidecar \<Rightarrow> sidecar" where
  "metadata_failed reason tab m err s =
     set_health ''unhealthy'' (Some [(''reason'', JStr reason), (''table'', JStr tab), (''snapshot_id'', JStr (y_SnapshotID m)),
                                      (''error'', JStr err)])
       (upd_metrics (IncSnapshot ''metadata_failed'') (count_failure tab s))"

definition with_engine :: "SnapshotEngine \<times> cloud \<times> world \<Rightarrow> sidecar \<Rightarrow> sidecar" where
  \<comment> \<open>the state after a call of the snapshot engine\<close>
  "with_engine r s =
     (case r of
        (e, c, w) \<Rightarrow> s\<lparr>sd_poller := (sd_poller s)\<lparr>po_snapshotEngine := Some e\<rparr>, sd_cloud := c, sd_world := w\<rparr>)"

definition capture_failed :: "string \<Rightarrow> string \<Rightarrow> sidecar \<Rightarrow> sidecar" where
  "capture_failed tab err s =
     (let s1 = count_failure tab (upd_metrics (IncSnapshot ''failed'') s);
          s2 = (if looksLikeStorageFailure err then send (SendStorageFailureAlert tab err) s1 else s1);
          failures = map_get_or 0 (po_failures (sd_poller s2)) tab
      in if po_maxFailures (sd_poller s2) \<le> failures then send (SendSnapshotFailureAlert tab failures err) s2 else s2)"

definition mark_captured :: "string \<Rightarrow> SyncManifest \<Rightarrow> sidecar \<Rightarrow> sidecar" where
  "mark_captured tab m s =
     (let s1 = upd_metrics (AddRows (y_RowCount m)) (upd_metrics (IncSnapshot ''success'') s)
      in if po_metrics (sd_poller s1) = None then s1
         else case ParseRFC3339 (y_Timestamp m) of
                Some ts \<Rightarrow> upd_metrics (MarkLatest tab ts) s1
              | None \<Rightarrow>
                  (let (now, w) = Now (sd_world s1) in upd_metrics (MarkLatest tab now) (s1\<lparr>sd_world := w\<rparr>)))"

definition mark_verified :: "string \<Rightarrow> SyncManifest \<Rightarrow> sidecar \<Rightarrow> sidecar" where
  "mark_verified tab m s =
     (case ParseRFC3339 (y_VerifiedAt m) of Some ts \<Rightarrow> upd_metrics (MarkLatest tab ts) s | None \<Rightarrow> s)"

definition record_point :: "string \<Rightarrow> (sidecar \<Rightarrow> sidecar) \<Rightarrow> string \<Rightarrow> SyncManifest \<Rightarrow> sidecar \<Rightarrow> sidecar" where
  \<comment> \<open>after a capture or a verification that succeeded: the failures are cleared and the manifest recorded\<close>
  "record_point reason mark tab m s =
     (let s1 = clear_failure tab s
      in case SyncRecordSnapshot (po_metadata (sd_poller s1)) m (sd_world s1) of
           (Some metaErr, w) \<Rightarrow> metadata_failed reason tab m metaErr (s1\<lparr>sd_world := w\<rparr>)
         | (None, w) \<Rightarrow> mark (s1\<lparr>sd_world := w\<rparr>))"

definition snapshotTable :: "libs \<Rightarrow> table_answers \<Rightarrow> string \<Rightarrow> sidecar \<Rightarrow> sidecar" where
  "snapshotTable L ans tab s =
     (case po_snapshotEngine (sd_poller s) of
        None \<Rightarrow> s
      | Some e \<Rightarrow>
          (case CaptureTable L ans tab e (sd_cloud s) (sd_world s) of
             (Inl err, r) \<Rightarrow> capture_failed tab err (with_engine r s)
           | (Inr m, r) \<Rightarrow>
               record_point ''snapshot_metadata_write_failed'' (mark_captured tab m) tab m (with_engine r s)))"

definition refreshSnapshotVerification :: "string \<Rightarrow> sidecar \<Rightarrow> sidecar" where
  "refreshSnapshotVerification tab s =
     (case po_snapshotEngine (sd_poller s) of
        None \<Rightarrow> s
      | Some e \<Rightarrow>
          (case VerifyLatest tab e (sd_cloud s) (sd_world s) of
             (Inl err, r) \<Rightarrow> upd_metrics (IncSnapshot ''verification_failed'') (count_failure tab (with_engine r s))
           | (Inr m, r) \<Rightarrow>
               record_point ''snapshot_verification_metadata_write_failed'' (mark_verified tab m) tab m (with_engine r s)))"

definition has_valid_point :: "sidecar \<Rightarrow> string \<Rightarrow> bool" where
  "has_valid_point s tab =
     (case latest_of_table s tab of
        None \<Rightarrow> False
      | Some m \<Rightarrow> \<not> (y_Status m \<noteq> ''valid'' \<or> y_DataSHA256 m = ''''))"

definition point_stale :: "sidecar \<Rightarrow> instant \<Rightarrow> string \<Rightarrow> bool" where
  "point_stale s now tab =
     (if 0 < po_maxSnapshotAge (sd_poller s)
      then (case latest_of_table s tab of
              None \<Rightarrow> False
            | Some m \<Rightarrow>
                (case ParseRFC3339 (or_else '''' (y_Timestamp m) (y_VerifiedAt m)) of
                   None \<Rightarrow> True
                 | Some ts \<Rightarrow> Sub now ts > po_maxSnapshotAge (sd_poller s)))
      else False)"

definition publish_readiness :: "string \<Rightarrow> (string, json) gomap \<Rightarrow> sidecar \<Rightarrow> sidecar" where
  "publish_readiness status d s =
     (case record_health ''sync'' status d (set_health status (Some d) s) of
        (None, s1) \<Rightarrow> s1
      | (Some metaErr, s1) \<Rightarrow>
          set_health ''unhealthy'' (Some [(''reason'', JStr ''metadata_write_failed''), (''error'', JStr metaErr)]) s1)"

definition updateRecoveryReadiness :: "string list \<Rightarrow> sidecar \<Rightarrow> sidecar" where
  "updateRecoveryReadiness tables s0 =
     (let (now, w) = Now (sd_world s0); s = s0\<lparr>sd_world := w\<rparr>;
          failing = filter (\<lambda>t. 0 < map_get_or 0 (po_failures (sd_poller s)) t) tables;
          missing = filter (\<lambda>t. \<not> has_valid_point s t) tables;
          stale = filter (\<lambda>t. has_valid_point s t \<and> point_stale s now t) tables;
          status = (if missing \<noteq> [] \<or> failing \<noteq> [] \<or> stale \<noteq> [] then ''degraded'' else ''healthy'');
          d = [(''schema'', JStr (po_schema (sd_poller s))), (''table_count'', JInt (int (length tables))),
               (''missing'', JArr (map JStr missing)), (''failing'', JArr (map JStr failing)), (''stale'', JArr (map JStr stale)),
               (''max_age'', JStr (Duration_String (po_maxSnapshotAge (sd_poller s)))),
               (''validity_rule'', JStr ''all discovered tables require a valid checksummed sidecar snapshot'')]
      in publish_readiness status d s)"

definition check_stale :: "instant \<Rightarrow> string \<Rightarrow> sidecar \<Rightarrow> sidecar" where
  "check_stale now tab s =
     (case latest_of_table s tab of
        None \<Rightarrow> s
      | Some m \<Rightarrow>
          (if y_Timestamp m = '''' then s
           else case ParseRFC3339 (y_Timestamp m) of
             None \<Rightarrow> s
           | Some ts \<Rightarrow>
               (let age = Sub now ts; maxAge = po_maxSnapshotAge (sd_poller s);
                    mark = (\<lambda>b. upd_poller (\<lambda>p. p\<lparr>po_staleAlerted := map_put tab b (po_staleAlerted p)\<rparr>))
                in if age \<le> maxAge then mark False s
                   else if map_get_or False (po_staleAlerted (sd_poller s)) tab then s
                   else mark True (send (SendStaleSnapshotAlert tab age maxAge (Some m)) s))))"

definition checkSnapshotStaleness :: "string list \<Rightarrow> sidecar \<Rightarrow> sidecar" where
  "checkSnapshotStaleness tables s =
     (if po_maxSnapshotAge (sd_poller s) \<le> 0 \<or> po_snapshotEngine (sd_poller s) = None then s
      else let (now, w) = Now (sd_world s)
           in foldl (\<lambda>s tab. check_stale now tab s) (s\<lparr>sd_world := w\<rparr>) tables)"

section \<open>A poll\<close>

definition snapshot_if_stable :: "libs \<Rightarrow> poll_answers \<Rightarrow> (string, string) gomap \<Rightarrow> string option \<Rightarrow> string \<Rightarrow> sidecar \<Rightarrow> sidecar" where
  "snapshot_if_stable L ans fps fpErr tab s =
     (case tableStableForSnapshot tab fps fpErr (sd_poller s) of
        (settled, p1) \<Rightarrow>
          (let s1 = s\<lparr>sd_poller := p1\<rparr> in if settled then snapshotTable L (pl_capture ans tab) tab s1 else s1))"

definition revisit_table ::
  "libs \<Rightarrow> poll_answers \<Rightarrow> (string, string) gomap \<Rightarrow> string option \<Rightarrow> string list \<Rightarrow> string \<Rightarrow> sidecar \<Rightarrow> sidecar" where
  \<comment> \<open>a table that was there before\<close>
  "revisit_table L ans fps fpErr added tab s =
     (if tab \<in> set added then s
      else let current = map_get_or '''' fps tab; previous = map_get_or '''' (po_fingerprints (sd_poller s)) tab;
               hasRecoveryPoint = (latest_of_table s tab \<noteq> None);
               (settled, p1) = tableStableForSnapshot tab fps fpErr (sd_poller s);
               s1 = s\<lparr>sd_poller := p1\<rparr>;
               changed = (fpErr \<noteq> None \<or> previous = '''' \<or> current \<noteq> previous);
               needsRetry = (0 < map_get_or 0 (po_failures p1) tab)
           in if po_snapshotEveryPoll p1 \<or> (settled \<and> (\<not> hasRecoveryPoint \<or> changed \<or> needsRetry))
              then snapshotTable L (pl_capture ans tab) tab s1
              else if settled \<and> hasRecoveryPoint \<and> \<not> changed \<and> \<not> needsRetry then refreshSnapshotVerification tab s1
              else s1)"

definition report_drop :: "string \<Rightarrow> sidecar \<Rightarrow> sidecar" where
  "report_drop tab s = upd_metrics IncDropped (send (SendDropAlert tab (latest_of_table s tab)) s)"

definition poll_tables :: "libs \<Rightarrow> poll_answers \<Rightarrow> bool \<Rightarrow> string list \<Rightarrow> sidecar \<Rightarrow> sidecar" where
  \<comment> \<open>from the tracker's update to the end of the poll\<close>
  "poll_tables L ans startup tables s =
     (let ((dropped, added), tracker) = Update tables (po_tracker (sd_poller s));
          s1 = upd_poller (\<lambda>p. p\<lparr>po_tracker := tracker\<rparr>) s;
          (fps, fpErr) = (case fetchTableFingerprints (pl_fingerprints ans) of Inl e \<Rightarrow> ([], Some e) | Inr m \<Rightarrow> (m, None));
          s2 = (if startup
                then (if po_snapshotOnStart (sd_poller s1)
                      then foldl (\<lambda>s t. snapshot_if_stable L ans fps fpErr t s) s1 tables else s1)
                else foldl (\<lambda>s t. revisit_table L ans fps fpErr added t s)
                       (foldl (\<lambda>s t. snapshot_if_stable L ans fps fpErr t s) s1 added) tables);
          s3 = (if fpErr = None then upd_poller (\<lambda>p. p\<lparr>po_fingerprints := fps\<rparr>) s2 else s2);
          s4 = foldl (\<lambda>s t. report_drop t s) s3 dropped
      in updateRecoveryReadiness tables (checkSnapshotStaleness tables s4))"

definition poll :: "libs \<Rightarrow> poll_answers \<Rightarrow> bool \<Rightarrow> sidecar \<Rightarrow> sidecar" where
  "poll L ans startup s =
     (case fetchTables (pl_tables ans) of
        Inl err \<Rightarrow> snd (record_health ''sync'' ''unhealthy'' [(''error'', JStr err)] s)
      | Inr fetched \<Rightarrow>
          (let tables = filterTables (sd_poller s) fetched
           in case record_health ''sync'' ''starting''
                     [(''phase'', JStr ''catalog_scanned''), (''table_count'', JInt (int (length tables)))] s of
                (Some metaErr, s1) \<Rightarrow>
                  set_health ''unhealthy'' (Some [(''reason'', JStr ''metadata_write_failed''), (''error'', JStr metaErr)]) s1
              | (None, s1) \<Rightarrow>
                  (let s2 = pollBypass (pl_activity ans) s1
                   in if snapshotPaused (pl_pauseFile ans) (sd_poller s2)
                      then (let d = [(''reason'', JStr ''snapshot_pause_file''), (''pause_file'', JStr (po_pauseFile (sd_poller s2))),
                                     (''table_count'', JInt (int (length tables)))]
                            in snd (record_health ''sync'' ''paused'' d (set_health ''paused'' (Some d) s2)))
                      else poll_tables L ans startup tables s2)))"

fun Run :: "libs \<Rightarrow> poll_answers list \<Rightarrow> sidecar \<Rightarrow> sidecar" where
  \<comment> \<open>the loop until it is cancelled, given the answers to the polls it gets to make\<close>
  "Run L [] s = set_health ''starting'' (Some [(''reason'', JStr ''startup_grace''), (''schema'', JStr (po_schema (sd_poller s)))]) s"
| "Run L (first # later) s =
     foldl (\<lambda>s ans. poll L ans False s) (poll L first True (Run L [] s)) later"

end
