(* ===== verification/Sync_Properties.thy ===== *)
theory Sync_Properties
  imports Sync_Poller
begin

text \<open>
  What holds of the sidecar as a whole. The locale \<open>collaborator_frame\<close> is the contract of a relation between the
  states before and after that the calls of the collaborators respect; its lemmas carry the relation
  through the steps of a poll. It is interpreted by three relations: a table's recovery point is kept, the snapshot engine is kept, the
  posted alerts only grow.
\<close>

section \<open>Frames\<close>

definition alert_call :: "(AlertEngine \<Rightarrow> world \<Rightarrow> string option \<times> AlertEngine \<times> world) \<Rightarrow> bool" where
  "alert_call g \<longleftrightarrow> (\<exists>p. g = sendPayload p) \<or> (\<exists>tab m. g = SendDropAlert tab m)"

lemma alert_calls [simp]:
  "alert_call (SendDropAlert tab m)" "alert_call (SendStaleSnapshotAlert tab age maxAge m)"
  "alert_call (SendSnapshotFailureAlert tab n err)" "alert_call (SendStorageFailureAlert tab err)"
  by (auto simp: alert_call_def SendStaleSnapshotAlert_def SendSnapshotFailureAlert_def SendStorageFailureAlert_def)

locale collaborator_frame =
  fixes R :: "sidecar \<Rightarrow> sidecar \<Rightarrow> bool"
  assumes same: "R s s"
    and step: "R s t \<Longrightarrow> R t u \<Longrightarrow> R s u"
    and metrics: "R s (upd_metrics f s)"
    and health: "R s (set_health st d s)"
    and recorded: "R s (snd (record_health c st dd s))"
    and sent: "alert_call g \<Longrightarrow> R s (send g s)"
    and time: "R s (s\<lparr>sd_world := w\<rparr>)"
    and stale_mark: "R s (upd_poller (\<lambda>p. p\<lparr>po_staleAlerted := h p\<rparr>) s)"
begin

lemma after:
  assumes "R s t"
  shows "R s (upd_metrics f t)" "R s (set_health st d t)" "R s (snd (record_health c st dd t))"
    "alert_call g \<Longrightarrow> R s (send g t)" "R s (t\<lparr>sd_world := w\<rparr>)" "R s (upd_poller (\<lambda>p. p\<lparr>po_staleAlerted := h p\<rparr>) t)"
  using step [OF assms metrics] step [OF assms health] step [OF assms recorded] step [OF assms sent] step [OF assms time]
    step [OF assms stale_mark] by simp_all

lemma fold: "(\<And>s x. x \<in> set xs \<Longrightarrow> R s (f s x)) \<Longrightarrow> R s (foldl f s xs)"
  by (induction xs arbitrary: s) (auto intro: step same)

lemma bypass: "R s (pollBypass answer s)"
proof -
  have "R s (foldl (\<lambda>s f. report_finding f s) s fs)" for fs
    by (rule fold) (simp add: report_finding_def Let_def after metrics split: prod.splits)
  then show ?thesis by (simp add: pollBypass_def Let_def after metrics recorded split: option.splits sum.splits)
qed

lemma staleness: "R s (checkSnapshotStaleness tables s)"
proof -
  have one: "R u (check_stale now t u)" for now t u
    by (simp add: check_stale_def Let_def after same sent stale_mark split: option.split)
  have "R (s\<lparr>sd_world := w\<rparr>) (foldl (\<lambda>s t. check_stale now t s) (s\<lparr>sd_world := w\<rparr>) tables)" for w now
    by (rule fold) (rule one)
  then have "R s (foldl (\<lambda>s t. check_stale now t s) (s\<lparr>sd_world := w\<rparr>) tables)" for w now
    using step [OF time] by blast
  then show ?thesis by (simp add: checkSnapshotStaleness_def same split: prod.split)
qed

lemma readiness: "R s (updateRecoveryReadiness tables s)"
proof -
  have "R s (publish_readiness status d (s\<lparr>sd_world := w\<rparr>))" for status d w
  proof -
    obtain err t where r: "record_health ''sync'' status d (set_health status (Some d) (s\<lparr>sd_world := w\<rparr>)) = (err, t)"
      by (rule prod.exhaust)
    have "R s (snd (record_health ''sync'' status d (set_health status (Some d) (s\<lparr>sd_world := w\<rparr>))))"
      by (intro after time)
    then have "R s t" by (simp add: r)
    then show ?thesis by (simp add: publish_readiness_def r after split: option.split)
  qed
  then show ?thesis by (simp add: updateRecoveryReadiness_def Let_def Now_def)
qed

lemma dropped: "R s (report_drop t s)"
  by (simp add: report_drop_def after sent)

lemma marked: "R s (mark_captured tab m s)" "R s (mark_verified tab m s)"
  by (simp_all add: mark_captured_def mark_verified_def Let_def after metrics same split: option.split prod.split)

end

section \<open>The recovery point of a table\<close>

definition keeps_point :: "string \<Rightarrow> sidecar \<Rightarrow> sidecar \<Rightarrow> bool" where
  \<comment> \<open>the strategy, the fingerprints, the failures of a table and its recovery point\<close>
  "keeps_point tab s s' \<longleftrightarrow>
     po_snapshotEveryPoll (sd_poller s') = po_snapshotEveryPoll (sd_poller s) \<and>
     po_minStablePolls (sd_poller s') = po_minStablePolls (sd_poller s) \<and>
     po_fingerprints (sd_poller s') = po_fingerprints (sd_poller s) \<and>
     po_tracker (sd_poller s') = po_tracker (sd_poller s) \<and>
     map_get_or 0 (po_failures (sd_poller s')) tab = map_get_or 0 (po_failures (sd_poller s)) tab \<and>
     latest_of_table s' tab = latest_of_table s tab"

lemma keeps_point_refl [simp]: "keeps_point tab s s"
  by (simp add: keeps_point_def)

lemma keeps_point_trans: "keeps_point tab s t \<Longrightarrow> keeps_point tab t u \<Longrightarrow> keeps_point tab s u"
  by (simp add: keeps_point_def)

lemma keeps_point_collaborators:
  "keeps_point tab s (upd_metrics f s)" "keeps_point tab s (set_health st d s)" "keeps_point tab s (snd (record_health c st dd s))"
  "keeps_point tab s (send g s)" "keeps_point tab s (s\<lparr>sd_world := w\<rparr>)"
  by (simp_all add: keeps_point_def latest_of_table_def upd_metrics_def set_health_def record_health_def send_def split: prod.splits)

interpretation point: collaborator_frame "keeps_point tab" for tab
proof unfold_locales
  show "keeps_point tab s (upd_poller (\<lambda>p. p\<lparr>po_staleAlerted := h p\<rparr>) s)" for tab s h
    by (simp add: keeps_point_def upd_poller_def latest_of_table_def)
qed (auto intro: keeps_point_trans keeps_point_collaborators)

lemma upload_snapshot_engine:
  "fst (snd (upload_snapshot L tab sid counted sch h e c w)) =
     (case fst (upload_snapshot L tab sid counted sch h e c w) of
        Inl _ \<Rightarrow> e | Inr m \<Rightarrow> e\<lparr>en_latest := map_put tab m (en_latest e)\<rparr>)"
  by (simp add: upload_snapshot_def Let_def Now_def split: prod.split option.split)

lemma CaptureTable_engine:
  "fst (snd (CaptureTable L ans tab e c w)) =
     (case fst (CaptureTable L ans tab e c w) of
        Inl _ \<Rightarrow> e | Inr m \<Rightarrow> e\<lparr>en_latest := map_put tab m (en_latest e)\<rparr>)"
  by (simp add: CaptureTable_def generateSnapshotID_def fileSHA256_def Let_def upload_snapshot_engine
      split: sum.split option.split)

lemma VerifyLatest_engine:
  "VerifyLatest tab e c w = (r, e', c', w') \<Longrightarrow>
   (case r of
      Inl _ \<Rightarrow> e' = e
    | Inr m \<Rightarrow> \<exists>m0 t. map_get (en_latest e) tab = Some m0 \<and> m = m0\<lparr>y_VerifiedAt := t\<rparr> \<and>
        e' = e\<lparr>en_latest := map_put tab m (en_latest e)\<rparr>)"
  by (auto simp: VerifyLatest_def Let_def Now_def split: option.splits if_splits prod.splits)

lemma keeps_point_bookkeeping:
  "tab' \<noteq> tab \<Longrightarrow> keeps_point tab s (count_failure tab' s)" "tab' \<noteq> tab \<Longrightarrow> keeps_point tab s (clear_failure tab' s)"
  by (simp_all add: keeps_point_def count_failure_def clear_failure_def upd_poller_def latest_of_table_def bump_count map_get_or_put)

lemma keeps_point_then_failure:
  assumes "keeps_point tab s t" "tab' \<noteq> tab"
  shows "keeps_point tab s (count_failure tab' t)" "keeps_point tab s (clear_failure tab' t)"
    "keeps_point tab s (metadata_failed reason tab' m err t)"
proof -
  show "keeps_point tab s (count_failure tab' t)" and 1: "keeps_point tab s (clear_failure tab' t)"
    using assms keeps_point_trans keeps_point_bookkeeping by blast+
  show "keeps_point tab s (metadata_failed reason tab' m err t)"
    unfolding metadata_failed_def
    by (intro point.after keeps_point_trans [OF assms(1) keeps_point_bookkeeping(1)] assms(2))
qed

lemma keeps_point_engine:
  "po_snapshotEngine (sd_poller s) = Some e \<Longrightarrow> Latest tab (fst r) = Latest tab e \<Longrightarrow> keeps_point tab s (with_engine r s)"
  by (cases r) (simp add: keeps_point_def latest_of_table_def with_engine_def)

lemma keeps_point_capture_failed: "keeps_point tab s t \<Longrightarrow> tab' \<noteq> tab \<Longrightarrow> keeps_point tab s (capture_failed tab' err t)"
  by (simp add: capture_failed_def Let_def point.after keeps_point_then_failure)

lemma keeps_point_record_point:
  assumes "keeps_point tab s t" "tab' \<noteq> tab" "\<And>s. keeps_point tab s (mark s)"
  shows "keeps_point tab s (record_point reason mark tab' m t)"
proof -
  have "keeps_point tab s ((clear_failure tab' t)\<lparr>sd_world := w\<rparr>)" for w
    by (intro point.after keeps_point_then_failure assms(1,2))
  then show ?thesis using assms keeps_point_trans [OF _ assms(3)]
    by (auto simp: record_point_def Let_def intro: keeps_point_then_failure split: prod.split option.split)
qed

lemma snapshotTable_other:
  assumes "tab' \<noteq> tab"
  shows "keeps_point tab s (snapshotTable L ans tab' s)"
proof (cases "po_snapshotEngine (sd_poller s)")
  case (Some e)
  obtain r q where c: "CaptureTable L ans tab' e (sd_cloud s) (sd_world s) = (r, q)" by (rule prod.exhaust)
  have "Latest tab (fst q) = Latest tab e"
    using CaptureTable_engine [of L ans tab' e "sd_cloud s" "sd_world s"] assms by (auto simp: c Latest_def split: sum.splits)
  then have "keeps_point tab s (with_engine q s)" by (rule keeps_point_engine [OF Some])
  then show ?thesis using assms
    by (simp add: snapshotTable_def Some c keeps_point_capture_failed keeps_point_record_point point.marked split: sum.split)
qed (simp add: snapshotTable_def)

lemma refresh_other:
  assumes "tab' \<noteq> tab"
  shows "keeps_point tab s (refreshSnapshotVerification tab' s)"
proof (cases "po_snapshotEngine (sd_poller s)")
  case (Some e)
  obtain r q where c: "VerifyLatest tab' e (sd_cloud s) (sd_world s) = (r, q)" by (rule prod.exhaust)
  have "Latest tab (fst q) = Latest tab e"
    using VerifyLatest_engine [of tab' e "sd_cloud s" "sd_world s"] c assms
    by (cases q) (force simp: Latest_def split: sum.splits)
  then have "keeps_point tab s (with_engine q s)" by (rule keeps_point_engine [OF Some])
  then show ?thesis using assms
    by (simp add: refreshSnapshotVerification_def Some c point.after keeps_point_then_failure keeps_point_record_point point.marked
        split: sum.split)
qed (simp add: refreshSnapshotVerification_def)

lemma tableStable_keeps: "keeps_point t s (s\<lparr>sd_poller := snd (tableStableForSnapshot tab fps fpErr (sd_poller s))\<rparr>)"
  by (simp add: tableStableForSnapshot_def Let_def keeps_point_def latest_of_table_def)

lemma tableStable_unchanged:
  assumes "fst (tableStableForSnapshot tab fps None p)" "\<not> po_snapshotEveryPoll p" "1 \<le> po_minStablePolls p"
  shows "map_get_or '''' (po_fingerprints p) tab \<noteq> '''' \<and> map_get_or '''' fps tab = map_get_or '''' (po_fingerprints p) tab"
  using assms by (auto simp: tableStableForSnapshot_def Let_def map_get_or_put split: if_splits)

lemma keeps_point_snapshot_if_stable: "t \<noteq> tab \<Longrightarrow> keeps_point tab s (snapshot_if_stable L ans fps fpErr t s)"
  using tableStable_keeps [of tab s t fps fpErr] snapshotTable_other [of t tab] keeps_point_trans
  by (auto simp: snapshot_if_stable_def Let_def split: prod.splits)

lemma keeps_point_revisit_other: "t \<noteq> tab \<Longrightarrow> keeps_point tab s (revisit_table L ans fps fpErr added t s)"
proof -
  assume t: "t \<noteq> tab"
  let ?s1 = "s\<lparr>sd_poller := snd (tableStableForSnapshot t fps fpErr (sd_poller s))\<rparr>"
  have "keeps_point tab s ?s1" by (rule tableStable_keeps)
  moreover from this have "keeps_point tab s (snapshotTable L a t ?s1)" "keeps_point tab s (refreshSnapshotVerification t ?s1)" for a
    using snapshotTable_other [OF t] refresh_other [OF t] keeps_point_trans by blast+
  ultimately show ?thesis by (auto simp: revisit_table_def Let_def split: prod.split)
qed

definition same_snapshot :: "SyncManifest \<Rightarrow> string \<Rightarrow> sidecar \<Rightarrow> bool" where
  "same_snapshot m tab s \<longleftrightarrow>
     (\<exists>m'. latest_of_table s tab = Some m' \<and> y_SnapshotID m' = y_SnapshotID m \<and> y_DataSHA256 m' = y_DataSHA256 m)"

lemma same_snapshot_keeps: "keeps_point tab s s' \<Longrightarrow> same_snapshot m tab s' \<longleftrightarrow> same_snapshot m tab s"
  by (simp add: same_snapshot_def keeps_point_def)

lemma latest_bookkeeping [simp]:
  "latest_of_table (count_failure tab s) = latest_of_table s" "latest_of_table (clear_failure tab s) = latest_of_table s"
  "latest_of_table (upd_metrics f s) = latest_of_table s" "latest_of_table (set_health st d s) = latest_of_table s"
  "latest_of_table (metadata_failed reason tab m err s) = latest_of_table s"
  "latest_of_table (s\<lparr>sd_world := w\<rparr>) = latest_of_table s"
  "latest_of_table (mark_verified tab m s) = latest_of_table s"
  "latest_of_table (record_point reason (mark_verified tab m) tab m s) = latest_of_table s"
  by (simp_all add: fun_eq_iff latest_of_table_def count_failure_def clear_failure_def upd_poller_def upd_metrics_def set_health_def
      metadata_failed_def mark_verified_def record_point_def Let_def split: prod.splits option.splits)

lemma refresh_same:
  assumes "latest_of_table s tab = Some m"
  shows "same_snapshot m tab (refreshSnapshotVerification tab s)"
proof -
  obtain e where e: "po_snapshotEngine (sd_poller s) = Some e" "map_get (en_latest e) tab = Some m"
    using assms by (auto simp: latest_of_table_def Latest_def bind_eq_Some_conv)
  obtain r e1 c1 w1 where c: "VerifyLatest tab e (sd_cloud s) (sd_world s) = (r, e1, c1, w1)" by (metis prod_cases4)
  have "latest_of_table (with_engine (e1, c1, w1) s) tab = Latest tab e1"
    by (simp add: latest_of_table_def with_engine_def)
  with VerifyLatest_engine [OF c] e show ?thesis
    by (auto simp: refreshSnapshotVerification_def c same_snapshot_def Latest_def split: sum.splits)
qed

lemma revisit_same:
  assumes "latest_of_table s tab = Some m" "map_get_or 0 (po_failures (sd_poller s)) tab \<le> 0"
    "\<not> po_snapshotEveryPoll (sd_poller s)" "1 \<le> po_minStablePolls (sd_poller s)"
  shows "same_snapshot m tab (revisit_table L ans fps None added tab s)"
proof -
  obtain settled p1 where t: "tableStableForSnapshot tab fps None (sd_poller s) = (settled, p1)" by (rule prod.exhaust)
  let ?s1 = "s\<lparr>sd_poller := p1\<rparr>"
  have k: "keeps_point tab s ?s1" using tableStable_keeps [of tab s tab fps None] by (simp add: t)
  then have l: "latest_of_table ?s1 tab = Some m" "map_get_or 0 (po_failures p1) tab \<le> 0" "\<not> po_snapshotEveryPoll p1"
    using assms by (simp_all add: keeps_point_def)
  have "settled \<Longrightarrow> map_get_or '''' (po_fingerprints (sd_poller s)) tab \<noteq> '''' \<and>
      map_get_or '''' fps tab = map_get_or '''' (po_fingerprints (sd_poller s)) tab"
    using tableStable_unchanged [of tab fps "sd_poller s"] assms(3,4) by (simp add: t)
  moreover have "same_snapshot m tab s" "same_snapshot m tab ?s1" using assms(1) l(1) by (simp_all add: same_snapshot_def)
  ultimately show ?thesis
    using refresh_same [OF l(1)] l assms(1) by (simp add: revisit_table_def Let_def t)
qed

lemma revisit_fold_same:
  assumes "latest_of_table s tab = Some m" "map_get_or 0 (po_failures (sd_poller s)) tab \<le> 0"
    "\<not> po_snapshotEveryPoll (sd_poller s)" "1 \<le> po_minStablePolls (sd_poller s)" "distinct tables"
  shows "same_snapshot m tab (foldl (\<lambda>s t. revisit_table L ans fps None added t s) s tables)"
proof -
  let ?f = "\<lambda>s t. revisit_table L ans fps None added t s"
  have others: "keeps_point tab u (foldl ?f u ts)" if "tab \<notin> set ts" for u ts
    by (rule point.fold) (metis keeps_point_revisit_other that)
  show ?thesis
  proof (cases "tab \<in> set tables")
    case True
    then obtain xs ys where t: "tables = xs @ tab # ys" "tab \<notin> set xs" "tab \<notin> set ys"
      using assms(5) split_list [of tab tables] by auto
    have "keeps_point tab s (foldl ?f s xs)" by (rule others [OF t(2)])
    then have "same_snapshot m tab (?f (foldl ?f s xs) tab)"
      using assms by (intro revisit_same) (simp_all add: keeps_point_def)
    with same_snapshot_keeps [OF others [OF t(3)]] show ?thesis by (simp add: t(1))
  next
    case False
    with same_snapshot_keeps [OF others [OF False], of m s] assms(1) show ?thesis by (simp add: same_snapshot_def)
  qed
qed

lemma poll_tables_same:
  assumes "latest_of_table s tab = Some m" "map_get_or 0 (po_failures (sd_poller s)) tab \<le> 0"
    "\<not> po_snapshotEveryPoll (sd_poller s)" "1 \<le> po_minStablePolls (sd_poller s)" "distinct tables"
    "tab \<in> set (dt_known (po_tracker (sd_poller s)))" "fetchTableFingerprints (pl_fingerprints ans) = Inr fps"
  shows "same_snapshot m tab (poll_tables L ans False tables s)"
proof -
  obtain dropped added tracker where u: "Update tables (po_tracker (sd_poller s)) = ((dropped, added), tracker)"
    by (metis prod.exhaust)
  have "tab \<notin> set added" using u assms(6) by (auto simp: Update_def Let_def split: if_splits)
  define s1 where "s1 = upd_poller (\<lambda>p. p\<lparr>po_tracker := tracker\<rparr>) s"
  define s2 where "s2 = foldl (\<lambda>s t. snapshot_if_stable L ans fps None t s) s1 added"
  define s3 where "s3 = foldl (\<lambda>s t. revisit_table L ans fps None added t s) s2 tables"
  define s4 where "s4 = upd_poller (\<lambda>p. p\<lparr>po_fingerprints := fps\<rparr>) s3"
  define s5 where "s5 = foldl (\<lambda>s t. report_drop t s) s4 dropped"
  have fin: "poll_tables L ans False tables s = updateRecoveryReadiness tables (checkSnapshotStaleness tables s5)"
    by (simp add: poll_tables_def u assms(7) Let_def s1_def s2_def s3_def s4_def s5_def)
  have "keeps_point tab s1 s2"
    unfolding s2_def
    by (rule point.fold, rule keeps_point_snapshot_if_stable) (use \<open>tab \<notin> set added\<close> in auto)
  then have "latest_of_table s2 tab = Some m" "map_get_or 0 (po_failures (sd_poller s2)) tab \<le> 0"
    "\<not> po_snapshotEveryPoll (sd_poller s2)" "1 \<le> po_minStablePolls (sd_poller s2)"
    using assms(1-4) by (simp_all add: keeps_point_def s1_def upd_poller_def latest_of_table_def)
  then have "same_snapshot m tab s3" unfolding s3_def by (rule revisit_fold_same) (rule assms(5))
  then have "same_snapshot m tab s4" by (simp add: s4_def same_snapshot_def upd_poller_def latest_of_table_def)
  moreover have "keeps_point tab s4 s5"
    unfolding s5_def by (rule point.fold) (rule point.dropped)
  then have "same_snapshot m tab s5 \<longleftrightarrow> same_snapshot m tab s4" by (rule same_snapshot_keeps)
  ultimately show ?thesis
    unfolding fin same_snapshot_keeps [OF point.readiness] same_snapshot_keeps [OF point.staleness] by simp
qed

section \<open>Polls that capture nothing\<close>

definition same_engine :: "sidecar \<Rightarrow> sidecar \<Rightarrow> bool" where
  "same_engine s s' \<longleftrightarrow>
     po_snapshotEngine (sd_poller s') = po_snapshotEngine (sd_poller s) \<and> sd_cloud s' = sd_cloud s \<and>
     po_fingerprints (sd_poller s') = po_fingerprints (sd_poller s) \<and>
     po_snapshotEveryPoll (sd_poller s') = po_snapshotEveryPoll (sd_poller s) \<and>
     po_minStablePolls (sd_poller s') = po_minStablePolls (sd_poller s)"

lemma same_engine_refl [simp]: "same_engine s s"
  by (simp add: same_engine_def)

lemma same_engine_trans: "same_engine s t \<Longrightarrow> same_engine t u \<Longrightarrow> same_engine s u"
  by (simp add: same_engine_def)

interpretation engine: collaborator_frame same_engine
  by unfold_locales
    (auto simp: same_engine_def upd_metrics_def set_health_def record_health_def send_def upd_poller_def split: prod.splits)

lemma same_engine_stable: "same_engine s (s\<lparr>sd_poller := snd (tableStableForSnapshot tab fps fpErr (sd_poller s))\<rparr>)"
  by (simp add: same_engine_def tableStableForSnapshot_def Let_def)

lemma startup_round:
  assumes "po_fingerprints (sd_poller s) = []" "\<not> po_snapshotEveryPoll (sd_poller s)" "1 \<le> po_minStablePolls (sd_poller s)"
  shows "same_engine s (foldl (\<lambda>s t. snapshot_if_stable L ans fps None t s) s ts)"
  using assms
proof (induction ts arbitrary: s)
  case (Cons t ts)
  have "\<not> fst (tableStableForSnapshot t fps None (sd_poller s))"
    using tableStable_unchanged [of t fps "sd_poller s"] Cons.prems by auto
  then have step: "snapshot_if_stable L ans fps None t s = s\<lparr>sd_poller := snd (tableStableForSnapshot t fps None (sd_poller s))\<rparr>"
    by (cases "tableStableForSnapshot t fps None (sd_poller s)") (simp add: snapshot_if_stable_def Let_def)
  have k: "same_engine s (snapshot_if_stable L ans fps None t s)"
    unfolding step by (rule same_engine_stable)
  with Cons.prems have "same_engine (snapshot_if_stable L ans fps None t s)
      (foldl (\<lambda>s t. snapshot_if_stable L ans fps None t s) (snapshot_if_stable L ans fps None t s) ts)"
    by (intro Cons.IH) (simp_all add: same_engine_def)
  with k show ?case using same_engine_trans by simp
qed simp

section \<open>Readiness\<close>

definition table_ready :: "sidecar \<Rightarrow> instant \<Rightarrow> string \<Rightarrow> bool" where
  \<comment> \<open>no failure since the last success, and a valid, checksummed snapshot that is fresh enough\<close>
  "table_ready s now tab \<longleftrightarrow>
     map_get_or 0 (po_failures (sd_poller s)) tab \<le> 0 \<and>
     (\<exists>m. latest_of_table s tab = Some m \<and> y_Status m = ''valid'' \<and> y_DataSHA256 m \<noteq> '''' \<and>
        (0 < po_maxSnapshotAge (sd_poller s) \<longrightarrow>
           (\<exists>ts. ParseRFC3339 (if y_VerifiedAt m = '''' then y_Timestamp m else y_VerifiedAt m) = Some ts \<and>
                Sub now ts \<le> po_maxSnapshotAge (sd_poller s))))"

lemma table_ready_iff:
  "table_ready s now tab \<longleftrightarrow>
     \<not> 0 < map_get_or 0 (po_failures (sd_poller s)) tab \<and> has_valid_point s tab \<and> \<not> point_stale s now tab"
  by (auto simp: table_ready_def has_valid_point_def point_stale_def or_else_def not_less split: option.splits)

lemma publish_readiness_metrics:
  assumes "po_metrics (sd_poller s) = Some mt"
  shows "\<exists>mt'. po_metrics (sd_poller (publish_readiness status d s)) = Some mt' \<and>
     hs_Status (mt_health mt') =
       (if po_metadata (sd_poller s) \<and> tx_fault (sd_world s) (draws (sd_world s) + 2) \<noteq> None then ''unhealthy'' else status)"
  using assms
  by (auto simp: publish_readiness_def set_health_def record_health_def SetHealth_def SyncRecordHealth_def withTx_def Now_def Let_def
      split: option.splits)

lemma publish_readiness_row:
  assumes "po_metadata (sd_poller s)" "po_metrics (sd_poller s) = Some mt"
    "tx_fault (sd_world s) (draws (sd_world s) + 2) = None"
  shows "map_option he_status (select_key (health_checks (store (sd_world (publish_readiness status d s)))) ''sync'') = Some status"
  using assms
  by (simp add: publish_readiness_def set_health_def record_health_def SetHealth_def SyncRecordHealth_def withTx_def Now_def Let_def
      tab.get_put)

lemma updateRecoveryReadiness_publishes:
  "\<exists>d. updateRecoveryReadiness tables s =
     publish_readiness (if \<forall>t \<in> set tables. table_ready s (clock (sd_world s) (draws (sd_world s))) t then ''healthy'' else ''degraded'') d
       (s\<lparr>sd_world := drawn (sd_world s)\<rparr>)"
proof -
  let ?s = "s\<lparr>sd_world := drawn (sd_world s)\<rparr>" and ?now = "clock (sd_world s) (draws (sd_world s))"
  have "table_ready s now t \<longleftrightarrow> \<not> 0 < map_get_or 0 (po_failures (sd_poller ?s)) t \<and> has_valid_point ?s t \<and> \<not> point_stale ?s now t" for now t
    by (simp add: table_ready_iff has_valid_point_def point_stale_def cong: option.case_cong)
  then have status: "(if \<forall>t \<in> set tables. table_ready s ?now t then ''healthy'' else ''degraded'') =
      (if filter (\<lambda>t. \<not> has_valid_point ?s t) tables \<noteq> [] \<or> filter (\<lambda>t. 0 < map_get_or 0 (po_failures (sd_poller ?s)) t) tables \<noteq> [] \<or>
          filter (\<lambda>t. has_valid_point ?s t \<and> point_stale ?s ?now t) tables \<noteq> [] then ''degraded'' else ''healthy'')"
    by (auto simp: filter_empty_conv)
  show ?thesis
    unfolding status updateRecoveryReadiness_def Now_def Let_def prod.case by (rule exI, rule refl)
qed

section \<open>Properties\<close>

text \<open>
  C15. The sidecar publishes healthy exactly when every table can be recovered: after the readiness
  update, the health served over HTTP is healthy exactly if each table has had no failure since its
  last success and has a valid, checksummed snapshot no older than the bound, and the metadata
  write, if there is a store, succeeded; and then the row the gateway reads says healthy too.
\<close>

theorem healthy_means_recoverable:
  assumes "po_metrics (sd_poller s) = Some mt" and "s' = updateRecoveryReadiness tables s"
  shows "\<exists>mt'. po_metrics (sd_poller s') = Some mt' \<and>
     (hs_Status (mt_health mt') = ''healthy'' \<longleftrightarrow>
        (\<forall>t \<in> set tables. table_ready s (clock (sd_world s) (draws (sd_world s))) t) \<and>
        (po_metadata (sd_poller s) \<longrightarrow> tx_fault (sd_world s) (draws (sd_world s) + 3) = None)) \<and>
     (po_metadata (sd_poller s) \<and> hs_Status (mt_health mt') = ''healthy'' \<longrightarrow>
        map_option he_status (select_key (health_checks (store (sd_world s'))) ''sync'') = Some ''healthy'')"
proof -
  let ?u = "s\<lparr>sd_world := drawn (sd_world s)\<rparr>"
  let ?ready = "\<forall>t \<in> set tables. table_ready s (clock (sd_world s) (draws (sd_world s))) t"
  obtain d where s': "s' = publish_readiness (if ?ready then ''healthy'' else ''degraded'') d ?u"
    using updateRecoveryReadiness_publishes assms(2) by blast
  have mt: "po_metrics (sd_poller ?u) = Some mt" using assms(1) by simp
  obtain mt' where mt': "po_metrics (sd_poller s') = Some mt'"
    "hs_Status (mt_health mt') = (if po_metadata (sd_poller s) \<and> tx_fault (sd_world s) (draws (sd_world s) + 3) \<noteq> None
       then ''unhealthy'' else if ?ready then ''healthy'' else ''degraded'')"
    using publish_readiness_metrics [OF mt, of "if ?ready then ''healthy'' else ''degraded''" d] s' by (auto simp: numeral_3_eq_3)
  moreover have "map_option he_status (select_key (health_checks (store (sd_world s'))) ''sync'') = Some ''healthy''"
    if "po_metadata (sd_poller s)" "hs_Status (mt_health mt') = ''healthy''"
    using publish_readiness_row [OF _ mt, of "if ?ready then ''healthy'' else ''degraded''" d] that mt'(2) s'
    by (auto simp: numeral_3_eq_3 split: if_splits)
  ultimately show ?thesis by (auto split: if_splits)
qed

definition sample_sidecar :: sidecar where
  \<comment> \<open>a sidecar that knows one table and holds a snapshot of it\<close>
  "sample_sidecar =
     \<lparr>sd_poller = (fst (NewPoller ''public'' 0 \<lparr>dt_known = [''users''], dt_seeded = True\<rparr> (NewAlertEngine ''http://hook'')
          (Some (sample_snapshot_engine\<lparr>en_latest := [(''users'', sample_sync\<lparr>y_DataSHA256 := ''ab''\<rparr>)]\<rparr>)) True quiet_world))
        \<lparr>po_fingerprints := [(''users'', ''users:1:0:0:1:0'')]\<rparr>,
      sd_cloud = sample_cloud, sd_world = quiet_world\<rparr>"

lemma sample_sidecar_simps [simp]:
  "latest_of_table sample_sidecar ''users'' = Some (sample_sync\<lparr>y_DataSHA256 := ''ab''\<rparr>)"
  "po_failures (sd_poller sample_sidecar) = []" "\<not> po_snapshotEveryPoll (sd_poller sample_sidecar)"
  "po_minStablePolls (sd_poller sample_sidecar) = 2" "dt_known (po_tracker (sd_poller sample_sidecar)) = [''users'']"
  "po_fingerprints (sd_poller sample_sidecar) = [(''users'', ''users:1:0:0:1:0'')]" "po_maxSnapshotAge (sd_poller sample_sidecar) = 0"
  "po_metadata (sd_poller sample_sidecar) = False" "sd_world sample_sidecar = quiet_world" "sd_cloud sample_sidecar = sample_cloud"
  "\<exists>mt. po_metrics (sd_poller sample_sidecar) = Some mt"
  "po_tracker (sd_poller sample_sidecar) = \<lparr>dt_known = [''users''], dt_seeded = True\<rparr>"
  "al_webhookURL (po_alerter (sd_poller sample_sidecar)) = ''http://hook''"
  by (simp_all add: sample_sidecar_def NewPoller_def latest_of_table_def Latest_def NewSyncMetrics_def Now_def NewAlertEngine_def
      NewAlertEngineWithMetadata_def)

theorem healthy_means_recoverable_witness:
  "\<exists>mt'. po_metrics (sd_poller (updateRecoveryReadiness [''users''] sample_sidecar)) = Some mt' \<and>
     hs_Status (mt_health mt') = ''healthy''"
proof -
  obtain mt where "po_metrics (sd_poller sample_sidecar) = Some mt" using sample_sidecar_simps(11) by blast
  moreover have "table_ready sample_sidecar 0 ''users''" by (simp add: table_ready_def sample_sync_def)
  ultimately show ?thesis
    using healthy_means_recoverable [of sample_sidecar mt "updateRecoveryReadiness [''users''] sample_sidecar" "[''users'']"] by auto
qed

text \<open>
  C36. A table that changes is not captured again: unless every poll captures, once a table has a
  recovery point and no failure is pending, no poll replaces that recovery point, whatever the table's fingerprint does. A changed
  fingerprint resets the count of stable polls and so defers the capture, and by the next poll it is no longer a change; what follows is a re-verification
  of the old data.
\<close>

theorem changed_table_keeps_old_snapshot:
  assumes "latest_of_table s tab = Some m" "map_get_or 0 (po_failures (sd_poller s)) tab \<le> 0"
    and "\<not> po_snapshotEveryPoll (sd_poller s)" "1 \<le> po_minStablePolls (sd_poller s)"
    and "tab \<in> set (dt_known (po_tracker (sd_poller s)))"
    and "fetchTables (pl_tables ans) = Inr fetched" "distinct fetched"
    and "fetchTableFingerprints (pl_fingerprints ans) = Inr fps"
  shows "\<exists>m'. latest_of_table (poll L ans False s) tab = Some m' \<and>
     y_SnapshotID m' = y_SnapshotID m \<and> y_DataSHA256 m' = y_DataSHA256 m"
proof -
  define tables where "tables = filterTables (sd_poller s) fetched"
  obtain err s1 where r: "record_health ''sync'' ''starting''
      [(''phase'', JStr ''catalog_scanned''), (''table_count'', JInt (int (length tables)))] s = (err, s1)" by (rule prod.exhaust)
  have k1: "keeps_point tab s s1" using point.recorded [of tab s] r by (metis snd_conv)
  let ?s2 = "pollBypass (pl_activity ans) s1"
  have k2: "keeps_point tab s ?s2" by (rule keeps_point_trans [OF k1 point.bypass])
  have "distinct tables" using assms(7) by (simp add: tables_def filterTables_def)
  with assms k2 have "same_snapshot m tab (poll_tables L ans False tables ?s2)"
    by (intro poll_tables_same) (simp_all add: keeps_point_def)
  moreover have "same_snapshot m tab s" using assms(1) by (simp add: same_snapshot_def)
  then have "same_snapshot m tab (set_health st d s1)" "same_snapshot m tab (snd (record_health c st' dd (set_health st d ?s2)))" for st d c st' dd
    using same_snapshot_keeps [OF point.after(2) [OF k1]] same_snapshot_keeps [OF point.after(3) [OF point.after(2) [OF k2]]] by simp_all
  ultimately have "same_snapshot m tab (poll L ans False s)"
    by (simp add: poll_def assms(6) tables_def [symmetric] r Let_def split: option.split)
  then show ?thesis by (simp add: same_snapshot_def)
qed

definition sample_poll :: poll_answers where
  \<comment> \<open>the table has got a second row\<close>
  "sample_poll = \<lparr>pl_tables = whole [''users''], pl_activity = whole [], pl_pauseFile = False,
     pl_fingerprints = whole [\<lparr>fp_table = ''users'', fp_inserted = 2, fp_updated = 0, fp_deleted = 0, fp_live = 2, fp_dead = 0\<rparr>],
     pl_capture = (\<lambda>_. sample_answers)\<rparr>"

theorem changed_table_keeps_old_snapshot_witness:
  "\<exists>m' fps. fetchTableFingerprints (pl_fingerprints sample_poll) = Inr fps \<and>
     map_get fps ''users'' \<noteq> map_get (po_fingerprints (sd_poller sample_sidecar)) ''users'' \<and>
     latest_of_table (poll sample_libs sample_poll False sample_sidecar) ''users'' = Some m' \<and> y_DataSHA256 m' = ''ab''"
proof -
  have f: "fetchTableFingerprints (pl_fingerprints sample_poll) = Inr [(''users'', ''users:2:0:0:2:0'')]"
    by code_simp
  have t: "fetchTables (pl_tables sample_poll) = Inr [''users'']"
    by (simp add: sample_poll_def fetchTables_def read_list_def read_rows_def)
  obtain m' where "latest_of_table (poll sample_libs sample_poll False sample_sidecar) ''users'' = Some m'" "y_DataSHA256 m' = ''ab''"
    using changed_table_keeps_old_snapshot
      [of sample_sidecar "''users''" _ sample_poll _ _ sample_libs, OF sample_sidecar_simps(1) _ _ _ _ t _ f] by auto
  then show ?thesis using f by auto
qed

text \<open>
  C37. The first poll captures nothing, also when snapshots on start are asked for: with no fingerprints
  from an earlier poll, no table counts as stable, so the engine and the bucket are what they were.
\<close>

theorem startup_captures_nothing:
  assumes "po_fingerprints (sd_poller s) = []" "\<not> po_snapshotEveryPoll (sd_poller s)" "1 \<le> po_minStablePolls (sd_poller s)"
    and "fetchTableFingerprints (pl_fingerprints ans) = Inr fps"
  shows "po_snapshotEngine (sd_poller (poll L ans True s)) = po_snapshotEngine (sd_poller s) \<and>
     sd_cloud (poll L ans True s) = sd_cloud s"
proof -
  have tables: "po_snapshotEngine (sd_poller (poll_tables L ans True ts u)) = po_snapshotEngine (sd_poller s) \<and>
      sd_cloud (poll_tables L ans True ts u) = sd_cloud s" if u: "same_engine s u" for ts u
  proof -
    obtain dropped added tracker where up: "Update ts (po_tracker (sd_poller u)) = ((dropped, added), tracker)"
      by (metis prod.exhaust)
    let ?u1 = "upd_poller (\<lambda>p. p\<lparr>po_tracker := tracker\<rparr>) u"
    have u1: "same_engine s ?u1" using u by (simp add: same_engine_def upd_poller_def)
    define u2 where "u2 = (if po_snapshotOnStart (sd_poller ?u1)
      then foldl (\<lambda>s t. snapshot_if_stable L ans fps None t s) ?u1 ts else ?u1)"
    have "same_engine ?u1 u2" unfolding u2_def using startup_round [of ?u1] u1 assms(1-3) by (simp add: same_engine_def)
    then have "same_engine s u2" using u1 same_engine_trans by blast
    let ?u3 = "upd_poller (\<lambda>p. p\<lparr>po_fingerprints := fps\<rparr>) u2"
    have "same_engine ?u3 (foldl (\<lambda>s t. report_drop t s) ?u3 dropped)"
      by (rule engine.fold) (rule engine.dropped)
    then have "same_engine ?u3 (updateRecoveryReadiness ts (checkSnapshotStaleness ts (foldl (\<lambda>s t. report_drop t s) ?u3 dropped)))"
      using engine.staleness engine.readiness same_engine_trans by blast
    moreover have "poll_tables L ans True ts u =
        updateRecoveryReadiness ts (checkSnapshotStaleness ts (foldl (\<lambda>s t. report_drop t s) ?u3 dropped))"
      by (simp add: poll_tables_def up assms(4) u2_def Let_def)
    moreover have "po_snapshotEngine (sd_poller ?u3) = po_snapshotEngine (sd_poller s)" "sd_cloud ?u3 = sd_cloud s"
      using \<open>same_engine s u2\<close> by (simp_all add: same_engine_def upd_poller_def)
    ultimately show ?thesis by (simp add: same_engine_def)
  qed
  have "same_engine s (poll L ans True s) \<or> (\<exists>ts u. same_engine s u \<and> poll L ans True s = poll_tables L ans True ts u)"
  proof (cases "fetchTables (pl_tables ans)")
    case (Inl e)
    then show ?thesis by (simp add: poll_def engine.recorded)
  next
    case (Inr fetched)
    define ts where "ts = filterTables (sd_poller s) fetched"
    obtain err s1 where r: "record_health ''sync'' ''starting''
        [(''phase'', JStr ''catalog_scanned''), (''table_count'', JInt (int (length ts)))] s = (err, s1)" by (rule prod.exhaust)
    have k1: "same_engine s s1" using engine.recorded [of s] r by (metis snd_conv)
    then have k2: "same_engine s (pollBypass (pl_activity ans) s1)" using engine.bypass same_engine_trans by blast
    with k1 show ?thesis
      by (auto simp: poll_def Inr ts_def [symmetric] r Let_def intro: engine.after split: option.split)
  qed
  with tables show ?thesis by (auto simp: same_engine_def)
qed

theorem startup_captures_nothing_witness:
  "sd_cloud (poll sample_libs sample_poll True (sample_sidecar\<lparr>sd_poller := (sd_poller sample_sidecar)\<lparr>po_fingerprints := []\<rparr>\<rparr>)) = sample_cloud"
proof -
  have f: "fetchTableFingerprints (pl_fingerprints sample_poll) = Inr [(''users'', ''users:2:0:0:2:0'')]"
    by code_simp
  show ?thesis
    using startup_captures_nothing [of "sample_sidecar\<lparr>sd_poller := (sd_poller sample_sidecar)\<lparr>po_fingerprints := []\<rparr>\<rparr>",
        OF _ _ _ f, of sample_libs] by simp
qed

section \<open>Alerts\<close>

definition posts :: "sidecar \<Rightarrow> sidecar \<Rightarrow> bool" where
  \<comment> \<open>what has been posted stays posted, to the same webhook\<close>
  "posts s s' \<longleftrightarrow>
     al_webhookURL (po_alerter (sd_poller s')) = al_webhookURL (po_alerter (sd_poller s)) \<and>
     set (al_posted (po_alerter (sd_poller s))) \<subseteq> set (al_posted (po_alerter (sd_poller s')))"

lemma posts_trans: "posts s t \<Longrightarrow> posts t u \<Longrightarrow> posts s u"
  by (auto simp: posts_def)

lemma send_posts:
  assumes "alert_call g"
  shows "posts s (send g s)"
proof -
  have "\<exists>p w. g (po_alerter (sd_poller s)) (sd_world s) = sendPayload p (po_alerter (sd_poller s)) w"
  proof (cases "\<exists>p. g = sendPayload p")
    case False
    with assms obtain tab m where g: "g = SendDropAlert tab m" by (auto simp: alert_call_def)
    show ?thesis unfolding g by (rule SendDropAlert_payload [of tab m "po_alerter (sd_poller s)" "sd_world s"]) (rule exI, rule exI)
  qed blast
  then obtain p w where "g (po_alerter (sd_poller s)) (sd_world s) = sendPayload p (po_alerter (sd_poller s)) w" by blast
  moreover obtain r a v where "sendPayload p (po_alerter (sd_poller s)) w = (r, a, v)" by (metis prod_cases3)
  ultimately show ?thesis using sendPayload_posts [of p "po_alerter (sd_poller s)" w r a v] by (simp add: send_def posts_def)
qed

interpretation posting: collaborator_frame posts
proof unfold_locales
  show "posts s (send g s)" if "alert_call g" for s g using that by (rule send_posts)
qed (auto simp: posts_def upd_metrics_def set_health_def record_health_def upd_poller_def split: prod.splits)

lemma report_drop_posts:
  assumes "al_webhookURL (po_alerter (sd_poller s)) \<noteq> ''''"
  shows "\<exists>p. marshal_payload p \<in> set (al_posted (po_alerter (sd_poller (report_drop tab s)))) \<and>
     wp_EventType p = ''table_drop_detected'' \<and> wp_Table p = tab \<and> wp_RecoveryPointAvailable p = (latest_of_table s tab \<noteq> None)"
proof -
  obtain p w1 where p: "SendDropAlert tab (latest_of_table s tab) (po_alerter (sd_poller s)) (sd_world s) = sendPayload p (po_alerter (sd_poller s)) w1"
    "wp_EventType p = ''table_drop_detected''" "wp_Table p = tab" "wp_RecoveryPointAvailable p = (latest_of_table s tab \<noteq> None)"
    by (rule SendDropAlert_payload)
  then show ?thesis
    using sendPayload_posts [of p "po_alerter (sd_poller s)" w1] assms
    by (intro exI [of _ p]) (auto simp: report_drop_def send_def upd_metrics_def split: prod.splits)
qed

lemma posts_same_alerter: "po_alerter (sd_poller t) = po_alerter (sd_poller s) \<Longrightarrow> posts s t"
  by (simp add: posts_def)

lemma posts_bookkeeping:
  "posts s (count_failure tab s)" "posts s (clear_failure tab s)" "posts s (with_engine r s)"
  "posts s (s\<lparr>sd_poller := snd (tableStableForSnapshot tab fps fpErr (sd_poller s))\<rparr>)"
  "posts s (upd_poller (\<lambda>p. p\<lparr>po_fingerprints := fps\<rparr>) s)" "posts s (upd_poller (\<lambda>p. p\<lparr>po_tracker := tr\<rparr>) s)"
  by (rule posts_same_alerter, simp add: count_failure_def clear_failure_def upd_poller_def with_engine_def
      tableStableForSnapshot_def Let_def split: prod.split)+

lemma posts_record_point:
  assumes "\<And>s. posts s (mark s)"
  shows "posts s (record_point reason mark tab m s)"
proof -
  have "posts u (metadata_failed r t m' err u)" for r t m' err u
    unfolding metadata_failed_def by (intro posting.after posts_bookkeeping)
  moreover have "posts s ((clear_failure tab s)\<lparr>sd_world := w\<rparr>)" for w by (intro posting.after posts_bookkeeping)
  ultimately have "posts s (metadata_failed r t m' err ((clear_failure tab s)\<lparr>sd_world := w\<rparr>))"
    "posts s (mark ((clear_failure tab s)\<lparr>sd_world := w\<rparr>))" for r t m' err w
    using assms by (blast intro: posts_trans)+
  then show ?thesis by (simp add: record_point_def Let_def split: prod.split option.split)
qed

lemma posts_snapshots: "posts s (snapshotTable L ans tab s)" "posts s (refreshSnapshotVerification tab s)"
proof -
  have "posts s (count_failure tab (upd_metrics f (with_engine r s)))" for f r
    by (rule posts_trans [OF posting.after(1) [OF posts_bookkeeping(3)] posts_bookkeeping(1)])
  then have "posts s (capture_failed tab err (with_engine r s))" for err r
    by (simp add: capture_failed_def Let_def posting.after)
  moreover have "posts s (record_point reason (mark_captured tab m) tab m (with_engine r s))"
    "posts s (record_point reason (mark_verified tab m) tab m (with_engine r s))" for reason m r
    by (rule posts_trans [OF posts_bookkeeping(3) posts_record_point], rule posting.marked)+
  moreover have "posts s (upd_metrics f (count_failure tab (with_engine r s)))" for f r
    by (rule posting.after(1), rule posts_trans [OF posts_bookkeeping(3,1)])
  ultimately show "posts s (snapshotTable L ans tab s)" "posts s (refreshSnapshotVerification tab s)"
    by (simp_all add: snapshotTable_def refreshSnapshotVerification_def posting.same split: option.split prod.split sum.split)
qed

lemma posts_rounds: "posts s (snapshot_if_stable L ans fps fpErr t s)" "posts s (revisit_table L ans fps fpErr added t s)"
proof -
  obtain settled p1 where t: "tableStableForSnapshot t fps fpErr (sd_poller s) = (settled, p1)" by (rule prod.exhaust)
  have 1: "posts s (s\<lparr>sd_poller := p1\<rparr>)" using posts_bookkeeping(4) [of s t fps fpErr] by (simp add: t)
  have 2: "posts s (snapshotTable L a t (s\<lparr>sd_poller := p1\<rparr>))" "posts s (refreshSnapshotVerification t (s\<lparr>sd_poller := p1\<rparr>))" for a
    by (rule posts_trans [OF 1 posts_snapshots(1)], rule posts_trans [OF 1 posts_snapshots(2)])
  show "posts s (snapshot_if_stable L ans fps fpErr t s)" using 1 2 by (simp add: snapshot_if_stable_def t Let_def)
  show "posts s (revisit_table L ans fps fpErr added t s)" using 1 2 by (simp add: revisit_table_def t Let_def posting.same)
qed



section \<open>Bypassing sessions\<close>

definition fault_free :: "sidecar \<Rightarrow> bool" where
  "fault_free s \<longleftrightarrow> (\<forall>n. tx_fault (sd_world s) n = None)"

lemma report_finding_effect:
  "po_metrics (sd_poller (report_finding f s)) =
     IncBypass (da_Role (bf_Activity f)) (da_ApplicationName (bf_Activity f)) (po_metrics (sd_poller s)) \<and>
   po_metadata (sd_poller (report_finding f s)) = po_metadata (sd_poller s) \<and>
   (po_metadata (sd_poller s) \<and> fault_free s \<longrightarrow>
      fault_free (report_finding f s) \<and>
      map al_payload_json (alerts_tbl (store (sd_world (report_finding f s)))) =
        map al_payload_json (alerts_tbl (store (sd_world s))) @ [marshal_finding f])"
  by (simp add: report_finding_def upd_metrics_def SyncRecordAlert_def withTx_def Now_def fault_free_def Let_def split: prod.splits)

lemma report_findings_effect:
  "(po_metrics (sd_poller s) \<noteq> None \<longrightarrow> po_metrics (sd_poller (foldl (\<lambda>s f. report_finding f s) s fs)) \<noteq> None) \<and>
   po_metadata (sd_poller (foldl (\<lambda>s f. report_finding f s) s fs)) = po_metadata (sd_poller s) \<and>
   (po_metadata (sd_poller s) \<and> fault_free s \<longrightarrow>
      map al_payload_json (alerts_tbl (store (sd_world (foldl (\<lambda>s f. report_finding f s) s fs)))) =
        map al_payload_json (alerts_tbl (store (sd_world s))) @ map marshal_finding fs)"
proof (induction fs arbitrary: s)
  case (Cons f fs)
  show ?case using report_finding_effect [of f s] Cons.IH [of "report_finding f s"] by (simp add: IncBypass_def)
qed simp

lemma record_health_alerts:
  "alerts_tbl (store (sd_world (snd (record_health c st d s)))) = alerts_tbl (store (sd_world s))"
  "sd_poller (snd (record_health c st d s)) = sd_poller s"
  by (simp_all add: record_health_def SyncRecordHealth_def withTx_def Now_def Let_def split: option.split)


definition sample_detector :: BypassDetector where
  "sample_detector = NewBypassDetector
     \<lparr>bc_AllowedApplicationNames = [''psql''], bc_AllowedRoles = [], bc_AllowedClientAddresses = [], bc_AgentRoles = [''agent''],
      bc_GatewayApplicationName = ''backstop-gateway''\<rparr>"

definition sample_sessions :: "DBActivity list" where
  "sample_sessions =
     [\<lparr>da_PID = 1, da_Role = ''agent'', da_ApplicationName = ''backstop-gateway'', da_ClientAddress = '''', da_QueryStart = '''', da_Query = ''''\<rparr>,
      \<lparr>da_PID = 2, da_Role = ''Agent'', da_ApplicationName = ''python'', da_ClientAddress = '''', da_QueryStart = '''', da_Query = ''DROP TABLE t''\<rparr>,
      \<lparr>da_PID = 3, da_Role = ''owner'', da_ApplicationName = ''python'', da_ClientAddress = '''', da_QueryStart = '''', da_Query = ''''\<rparr>]"


end
