(* ===== verification/Sync_Main.thy ===== *)
theory Sync_Main
  imports Sync_Properties Metadata_Schema
begin

text \<open>
  The sidecar's program, \<^verbatim>\<open>sync/main.go\<close>: flags and their defaults, the checks of the start in their
  order, the wiring of the poller, the handlers of the metrics server and the healthcheck. What the host gives
  is an argument; the program ends with the error that is logged before \<^verbatim>\<open>os.Exit(1)\<close>.
\<close>

section \<open>Flags\<close>

record sync_flags =
  sf_db :: string
  sf_storage :: string
  sf_interval :: int
  sf_alertWebhook :: string
  sf_prefix :: string
  sf_endpointURL :: string
  sf_schema :: string
  sf_snapshotOnStart :: bool
  sf_snapshotEveryPoll :: bool
  sf_snapshotTables :: string
  sf_startupGrace :: duration
  sf_stablePolls :: int
  sf_pauseFile :: string
  sf_maxTableRows :: int
  sf_metadataDB :: string
  sf_metricsListen :: string
  sf_maxSnapshotAge :: duration
  sf_maxSnapshotFailures :: int
  sf_bypassDetection :: bool
  sf_allowedApplications :: string
  sf_allowedRoles :: string
  sf_allowedClientAddresses :: string
  sf_agentRoles :: string
  sf_gatewayApplicationName :: string
  sf_mode :: string

definition default_sync_flags :: "(string \<Rightarrow> string) \<Rightarrow> sync_flags" where
  \<comment> \<open>the values without command line arguments, given the environment\<close>
  "default_sync_flags getenv =
     \<lparr>sf_db = '''', sf_storage = '''', sf_interval = 60, sf_alertWebhook = '''', sf_prefix = ''backstop'', sf_endpointURL = '''',
      sf_schema = ''public'', sf_snapshotOnStart = True, sf_snapshotEveryPoll = False, sf_snapshotTables = '''',
      sf_startupGrace = 15 * Second, sf_stablePolls = 2, sf_pauseFile = getenv ''BACKSTOP_SNAPSHOT_PAUSE_FILE'',
      sf_maxTableRows = 1000000, sf_metadataDB = getenv ''BACKSTOP_METADATA_DB'', sf_metricsListen = '''',
      sf_maxSnapshotAge = 0, sf_maxSnapshotFailures = 3, sf_bypassDetection = False, sf_allowedApplications = '''',
      sf_allowedRoles = '''', sf_allowedClientAddresses = '''', sf_agentRoles = '''',
      sf_gatewayApplicationName = ''backstop-gateway'', sf_mode = ''snapshot-and-detect''\<rparr>"

section \<open>Health\<close>

definition health_endpoint :: "SyncMetrics option \<Rightarrow> world \<Rightarrow> (int \<times> json) \<times> world" where
  \<comment> \<open>the handler of \<^verbatim>\<open>GET /health\<close>\<close>
  "health_endpoint m w =
     (case Health m w of
        (health, w') \<Rightarrow> ((if hs_Status health \<noteq> ''healthy'' then 503 else 200, healthJSON health), w'))"

definition metrics_endpoint :: "SyncMetrics option \<Rightarrow> world \<Rightarrow> (int \<times> string) \<times> world" where
  \<comment> \<open>the handler of \<^verbatim>\<open>GET /metrics\<close>\<close>
  "metrics_endpoint m w = (case Now w of (now, w') \<Rightarrow> ((200, SyncPrometheus now m), w'))"

definition sync_healthcheck :: "string + int \<times> string \<Rightarrow> string option" where
  \<comment> \<open>\<open>runHTTPHealthcheck\<close>, given the error of the request, or the response's code and status line\<close>
  "sync_healthcheck res =
     (case res of
        Inl e \<Rightarrow> Some e
      | Inr (code, status) \<Rightarrow> (if code < 200 \<or> 300 \<le> code then Some (''healthcheck failed: '' @ status) else None))"

section \<open>The start\<close>

partial_function (option) sync_waitForDB ::
  "(nat \<Rightarrow> string option) \<Rightarrow> (nat \<Rightarrow> bool) \<Rightarrow> nat \<Rightarrow> string option option" where
  \<comment> \<open>the outcome of each ping, and whether the context was seen done after it; \<open>None\<close> is not returning\<close>
  [code]: "sync_waitForDB ping ended n =
     (case ping n of
        None \<Rightarrow> Some None
      | Some lastErr \<Rightarrow> (if ended n then Some (Some lastErr) else sync_waitForDB ping ended (Suc n)))"

text \<open>The storage URL and the client of the object store, \<^verbatim>\<open>sync/storage.go\<close>.\<close>

definition SyncParseStorage ::
  "(string \<Rightarrow> string option) \<Rightarrow> string \<Rightarrow> string \<Rightarrow> string \<Rightarrow> string + StorageConfig" where
  "SyncParseStorage uri_error raw fallbackEndpoint prefix =
     (if \<not> HasPrefix raw ''s3://'' then Inl ''storage must start with s3://''
      else case SplitN2 (TrimPrefix raw ''s3://'') CHR ''@'' of
        (first, second) \<Rightarrow>
          (let bucket = TrimSpace first;
               endpoint = (case second of Some s \<Rightarrow> TrimSpace s | None \<Rightarrow> fallbackEndpoint)
           in if bucket = '''' then Inl ''storage bucket is required''
              else case (if endpoint = '''' then None else uri_error endpoint) of
                Some e \<Rightarrow> Inl (''invalid storage endpoint: '' @ e)
              | None \<Rightarrow> Inr \<lparr>sc_Bucket = bucket, sc_Endpoint = endpoint, sc_Prefix = TrimChar prefix CHR ''/''\<rparr>))"

definition SyncEnvOrDefault :: "(string \<Rightarrow> string) \<Rightarrow> string \<Rightarrow> string \<Rightarrow> string" where
  "SyncEnvOrDefault getenv key fallback = (if TrimSpace (getenv key) \<noteq> '''' then TrimSpace (getenv key) else fallback)"

definition SyncNewS3Client :: "(s3_options \<Rightarrow> string + 'client) \<Rightarrow> (string \<Rightarrow> string) \<Rightarrow> StorageConfig \<Rightarrow> string + 'client" where
  "SyncNewS3Client sdk getenv storage =
     (if sc_Endpoint storage = ''''
      then sdk \<lparr>so_Region = ''us-east-1'', so_Credentials = None, so_BaseEndpoint = None, so_UsePathStyle = False\<rparr>
      else sdk \<lparr>so_Region = ''us-east-1'',
                so_Credentials = Some (SyncEnvOrDefault getenv ''AWS_ACCESS_KEY_ID'' ''minioadmin'',
                                       SyncEnvOrDefault getenv ''AWS_SECRET_ACCESS_KEY'' ''minioadmin''),
                so_BaseEndpoint = Some (sc_Endpoint storage), so_UsePathStyle = True\<rparr>)"

text \<open>The two programs read a storage URL alike and build the same client from it.\<close>

lemma same_storage [simp]: "SyncParseStorage = ParseStorage" "SyncEnvOrDefault = envOrDefault" "SyncNewS3Client = NewS3Client"
proof -
  show env: "SyncEnvOrDefault = envOrDefault" by (intro ext) (simp add: SyncEnvOrDefault_def envOrDefault_def)
  show "SyncNewS3Client = NewS3Client" by (intro ext) (simp add: SyncNewS3Client_def NewS3Client_def env)
  show "SyncParseStorage = ParseStorage"
    by (intro ext) (simp add: SyncParseStorage_def ParseStorage_def Let_def split: prod.split option.split)
qed

record sync_host =
  sh_sqlOpen :: "string option"
  sh_ping :: "nat \<Rightarrow> string option"
  sh_pingEnded :: "nat \<Rightarrow> bool"
  sh_dbName :: "string + string"
  sh_uriError :: "string \<Rightarrow> string option"
  sh_getenv :: "string \<Rightarrow> string"
  sh_sdk :: "s3_options \<Rightarrow> string + (string \<Rightarrow> cloud)" \<comment> \<open>the client sees each bucket\<close>
  sh_sqliteOpen :: "string option"
  sh_catalog :: catalog
  sh_world :: world

definition bypass_config :: "sync_flags \<Rightarrow> BypassConfig" where
  "bypass_config f =
     \<lparr>bc_AllowedApplicationNames = parseCSV (sf_allowedApplications f), bc_AllowedRoles = parseCSV (sf_allowedRoles f),
      bc_AllowedClientAddresses = parseCSV (sf_allowedClientAddresses f), bc_AgentRoles = parseCSV (sf_agentRoles f),
      bc_GatewayApplicationName = sf_gatewayApplicationName f\<rparr>"

definition wire_sidecar :: "sync_flags \<Rightarrow> StorageConfig \<Rightarrow> string \<Rightarrow> cloud \<Rightarrow> bool \<Rightarrow> world \<Rightarrow> sidecar" where
  "wire_sidecar f storageConfig dbName cl md w =
     (let (metrics, w1) = NewSyncMetrics w;
          alerter = NewAlertEngineWithMetadata (sf_alertWebhook f) md;
          engine = NewSnapshotEngine storageConfig dbName (sf_schema f) (sf_maxTableRows f);
          (p0, w2) = NewPoller (sf_schema f) (seconds (sf_interval f)) NewDeltaTracker alerter (Some engine) (sf_snapshotOnStart f) w1;
          p1 = ConfigureLaunchReadiness (Some metrics) md (sf_maxSnapshotAge f) (sf_maxSnapshotFailures f)
                (ConfigureStability (sf_startupGrace f) (sf_stablePolls f) (sf_pauseFile f)
                (ConfigureTableAllowlist (parseCSV (sf_snapshotTables f))
                (ConfigureSnapshotStrategy (sf_snapshotEveryPoll f) p0)));
          p2 = (if sf_bypassDetection f then ConfigureBypassDetector (Some (NewBypassDetector (bypass_config f))) p1 else p1)
      in \<lparr>sd_poller = p2, sd_cloud = cl, sd_world = w2\<rparr>)"

definition open_sync_metadata :: "sync_flags \<Rightarrow> sync_host \<Rightarrow> string + bool \<times> world" where
  "open_sync_metadata f ho =
     (case fst (OpenMetadataStore sync_init_steps (sh_sqliteOpen ho) (sf_metadataDB f) (sh_catalog ho)) of
        Inl e \<Rightarrow> Inl (''Failed to open metadata DB: '' @ e)
      | Inr md \<Rightarrow>
          (case SyncRecordHealth md ''sync'' ''starting'' (JObj [(''schema'', JStr (sf_schema f))]) (sh_world ho) of
             (Some e, w) \<Rightarrow> Inl (''Failed to record sync startup metadata: '' @ e)
           | (None, w) \<Rightarrow> Inr (md, w)))"

definition connect :: "sync_host \<Rightarrow> (string + string) option" where
  \<comment> \<open>the connection and the database's name; \<open>None\<close> when the wait does not end\<close>
  "connect ho =
     (case sh_sqlOpen ho of
        Some e \<Rightarrow> Some (Inl (''Failed to open database connection: '' @ e))
      | None \<Rightarrow>
          map_option (\<lambda>res. case res of
              Some e \<Rightarrow> Inl (''Cannot reach PostgreSQL: '' @ e)
            | None \<Rightarrow> map_sum (\<lambda>e. ''Failed to resolve current database name: '' @ e) id (sh_dbName ho))
            (sync_waitForDB (sh_ping ho) (sh_pingEnded ho) 0))"

definition start_sidecar :: "sync_flags \<Rightarrow> sync_host \<Rightarrow> (string + sidecar) option" where
  "start_sidecar f ho =
     (if sf_db f = '''' then Some (Inl ''--db flag is required'')
      else if sf_storage f = '''' then Some (Inl ''--storage flag is required'')
      else if sf_mode f \<noteq> ''snapshot-and-detect'' then Some (Inl ''unsupported --mode value'')
      else case connect ho of
        None \<Rightarrow> None
      | Some (Inl e) \<Rightarrow> Some (Inl e)
      | Some (Inr dbName) \<Rightarrow>
     (case SyncParseStorage (sh_uriError ho) (sf_storage f) (sf_endpointURL f) (sf_prefix f) of
        Inl e \<Rightarrow> Some (Inl (''Invalid --storage value: '' @ e))
      | Inr cfg \<Rightarrow>
     (case SyncNewS3Client (sh_sdk ho) (sh_getenv ho) cfg of
        Inl e \<Rightarrow> Some (Inl (''Failed to initialize S3 client: '' @ e))
      | Inr client \<Rightarrow>
     (case open_sync_metadata f ho of
        Inl e \<Rightarrow> Some (Inl e)
      | Inr (md, w) \<Rightarrow> Some (Inr (wire_sidecar f cfg dbName (client (sc_Bucket cfg)) md w))))))"

definition run_sidecar :: "libs \<Rightarrow> poll_answers list \<Rightarrow> sidecar \<Rightarrow> sidecar" where
  \<comment> \<open>from the start to the cancellation, with the record of the stop, whose error is only logged\<close>
  "run_sidecar L answers s =
     (let s1 = Run L answers s
      in s1\<lparr>sd_world := snd (SyncRecordHealth (po_metadata (sd_poller s1)) ''sync'' ''stopped''
                              (JObj [(''schema'', JStr (po_schema (sd_poller s1)))]) (sd_world s1))\<rparr>)"

section \<open>Properties\<close>

definition health_code :: "sidecar \<Rightarrow> int" where
  \<comment> \<open>the status code of \<^verbatim>\<open>GET /health\<close> now\<close>
  "health_code s = fst (fst (health_endpoint (po_metrics (sd_poller s)) (sd_world s)))"

lemma health_code_Some:
  "po_metrics (sd_poller s) = Some mt \<Longrightarrow> health_code s = (if hs_Status (mt_health mt) = ''healthy'' then 200 else 503)"
  by (simp add: health_code_def health_endpoint_def Health_def)

lemma health_code_cong: "po_metrics (sd_poller s) = po_metrics (sd_poller t) \<Longrightarrow> po_metrics (sd_poller s) \<noteq> None \<Longrightarrow> health_code s = health_code t"
  by (auto simp: health_code_Some)

lemma failed_poll_metrics:
  "fetchTables (pl_tables ans) = Inl e \<Longrightarrow> po_metrics (sd_poller (poll L ans startup s)) = po_metrics (sd_poller s)"
  by (simp add: poll_def record_health_def split: prod.split)

text \<open>
  C40. A healthy sidecar stays healthy while PostgreSQL cannot be reached: polls that cannot read the table list
  leave the health that is served as it was, however many there are; so the healthcheck of the container
  goes on passing although nothing is captured or watched any more.
\<close>

theorem unreachable_database_stays_healthy:
  assumes "health_code s = 200" "po_metrics (sd_poller s) \<noteq> None"
    and "\<forall>ans \<in> set answers. \<exists>e. fetchTables (pl_tables ans) = Inl e"
  shows "health_code (foldl (\<lambda>s ans. poll L ans False s) s answers) = 200 \<and>
     sync_healthcheck (Inr (health_code (foldl (\<lambda>s ans. poll L ans False s) s answers), ''200 OK'')) = None"
proof -
  have "po_metrics (sd_poller (foldl (\<lambda>s ans. poll L ans False s) s answers)) = po_metrics (sd_poller s)"
    using assms(3)
  proof (induction answers arbitrary: s)
    case (Cons ans answers)
    then obtain e where "fetchTables (pl_tables ans) = Inl e" by auto
    with Cons show ?case by (simp add: failed_poll_metrics)
  qed simp
  then have "health_code (foldl (\<lambda>s ans. poll L ans False s) s answers) = 200"
    using health_code_cong [of "foldl (\<lambda>s ans. poll L ans False s) s answers" s] assms(1,2) by simp
  then show ?thesis by (simp add: sync_healthcheck_def)
qed

definition broken_poll :: poll_answers where
  \<comment> \<open>PostgreSQL does not answer\<close>
  "broken_poll = sample_poll\<lparr>pl_tables := QueryError ''connection refused''\<rparr>"

theorem unreachable_database_stays_healthy_witness:
  "health_code (foldl (\<lambda>s ans. poll sample_libs ans False s) (set_health ''healthy'' None sample_sidecar) [broken_poll, broken_poll]) = 200"
proof -
  obtain mt where "po_metrics (sd_poller sample_sidecar) = Some mt" using sample_sidecar_simps(11) by blast
  then have "\<exists>mt'. po_metrics (sd_poller (set_health ''healthy'' None sample_sidecar)) = Some mt' \<and> hs_Status (mt_health mt') = ''healthy''"
    by (simp add: set_health_def SetHealth_def Now_def)
  then have "health_code (set_health ''healthy'' None sample_sidecar) = 200"
    "po_metrics (sd_poller (set_health ''healthy'' None sample_sidecar)) \<noteq> None"
    by (auto simp: health_code_Some)
  moreover have "\<forall>ans \<in> set [broken_poll, broken_poll]. \<exists>e. fetchTables (pl_tables ans) = Inl e"
    by (simp add: broken_poll_def fetchTables_def read_list_def read_rows_def)
  ultimately show ?thesis using unreachable_database_stays_healthy by blast
qed

lemma sync_waitForDB_ends:
  assumes "ping n = None \<or> ended n"
  shows "sync_waitForDB ping ended n = Some (ping n)"
  using assms by (cases "ping n") (simp_all add: sync_waitForDB.simps [of ping ended n])

text \<open>
  What a started sidecar is: it starts only with a database, a storage URL that names a bucket and the
  supported mode; whatever the flags say, at least one stable poll is asked for before a capture and at least one
  failure before an alert; it has captured nothing; and it does not pass its healthcheck before a poll has found every table recoverable.
\<close>

theorem started_sidecar:
  assumes "start_sidecar f ho = Some (Inr s)"
  shows "sf_db f \<noteq> '''' \<and> HasPrefix (sf_storage f) ''s3://'' \<and> sf_mode f = ''snapshot-and-detect'' \<and>
     1 \<le> po_minStablePolls (sd_poller s) \<and> 1 \<le> po_maxFailures (sd_poller s) \<and> (\<forall>t. latest_of_table s t = None) \<and>
     (\<exists>e. po_snapshotEngine (sd_poller s) = Some e \<and> sc_Bucket (en_storage e) \<noteq> '''') \<and>
     health_code s = 503 \<and> health_code (Run L [] s) = 503"
proof -
  obtain dbName cfg cl md w where flags: "sf_db f \<noteq> ''''" "sf_storage f \<noteq> ''''" "sf_mode f = ''snapshot-and-detect''"
    and cfg: "ParseStorage (sh_uriError ho) (sf_storage f) (sf_endpointURL f) (sf_prefix f) = Inr cfg"
    and s: "s = wire_sidecar f cfg dbName cl md w"
    using assms by (auto simp: start_sidecar_def split: if_splits option.splits sum.splits)
  have "HasPrefix (sf_storage f) ''s3://''" "sc_Bucket cfg \<noteq> ''''"
    using cfg by (auto simp: ParseStorage_def Let_def split: if_splits prod.splits option.splits)
  moreover have wired: "1 \<le> po_minStablePolls (sd_poller s)" "1 \<le> po_maxFailures (sd_poller s)"
    "po_snapshotEngine (sd_poller s) = Some (NewSnapshotEngine cfg dbName (sf_schema f) (sf_maxTableRows f))"
    "po_metrics (sd_poller s) = Some (fst (NewSyncMetrics w))"
    by (simp_all add: s wire_sidecar_def Let_def ConfigureLaunchReadiness_def ConfigureStability_def ConfigureTableAllowlist_def
        ConfigureSnapshotStrategy_def ConfigureBypassDetector_def NewPoller_def split: prod.split)
  moreover have "health_code s = 503"
    by (simp add: health_code_Some [OF wired(4)] NewSyncMetrics_def Now_def)
  moreover have "\<exists>mt. po_metrics (sd_poller (Run L [] s)) = Some mt \<and> hs_Status (mt_health mt) = ''starting''"
    by (simp add: set_health_def SetHealth_def Now_def wired(4))
  then have "health_code (Run L [] s) = 503" by (auto simp: health_code_Some)
  ultimately show ?thesis
    using flags by (simp add: latest_of_table_def Latest_def NewSnapshotEngine_def)
qed

definition sample_sync_host :: sync_host where
  "sample_sync_host = \<lparr>sh_sqlOpen = None, sh_ping = (\<lambda>_. None), sh_pingEnded = (\<lambda>_. False), sh_dbName = Inr ''app'',
     sh_uriError = (\<lambda>_. None), sh_getenv = (\<lambda>_. ''''), sh_sdk = (\<lambda>_. Inr (\<lambda>_. sample_cloud)), sh_sqliteOpen = None, sh_catalog = old_catalog, sh_world = quiet_world\<rparr>"

definition sample_sync_flags :: sync_flags where
  "sample_sync_flags = (default_sync_flags (\<lambda>_. ''''))\<lparr>sf_db := ''postgres://db/app'', sf_storage := ''s3://b'', sf_stablePolls := 0\<rparr>"

theorem started_sidecar_witness:
  "\<exists>s. start_sidecar sample_sync_flags sample_sync_host = Some (Inr s) \<and> health_code s = 503 \<and> 1 \<le> po_minStablePolls (sd_poller s)"
proof -
  have "TrimPrefix ''s3://b'' ''s3://'' = ''b''" by (simp add: TrimPrefix_def HasPrefix_def)
  moreover have "TrimSpace ''b'' = ''b''" by (simp add: TrimSpace_plain space_first_def space_last_def)
  ultimately have "\<exists>s. start_sidecar sample_sync_flags sample_sync_host = Some (Inr s)"
    by (simp add: start_sidecar_def sample_sync_flags_def default_sync_flags_def sample_sync_host_def connect_def
        sync_waitForDB_ends ParseStorage_def HasPrefix_def SplitN2_def NewS3Client_def open_sync_metadata_def OpenMetadataStore_def SyncRecordHealth_def)
  then show ?thesis using started_sidecar by blast
qed

end
