(* ===== verification/End_To_End.thy ===== *)
theory End_To_End
  imports Gateway_Main Sync_Main
begin

text \<open>
  The two programs together: the sidecar captures a table into the bucket and records it in the metadata
  database, the gateway looks at both before it lets an operator decide on a critical query. What the
  one writes is what the other asks for.
\<close>

section \<open>What the sidecar leaves behind\<close>

lemma trim_left_all:
  "trim_left rs s = [] \<Longrightarrow> s \<noteq> [] \<Longrightarrow> \<exists>r \<in> set rs. r \<noteq> [] \<and> last s = last r"
proof (induction rs s rule: trim_left.induct)
  case (1 rs s)
  then obtain t where t: "strip_one rs s = Some t" "trim_left rs t = []"
    by (cases "strip_one rs s") (simp_all add: trim_left.simps [of rs s])
  from strip_one_Some [OF t(1)] obtain r where "r \<in> set rs" "r \<noteq> []" "s = r @ t" by blast
  with 1(1) [OF t] show ?case by (cases "t = []") auto
qed

lemma TrimSpace_keeps:
  assumes "s \<noteq> []" "hd s \<notin> space_first"
  shows "TrimSpace s \<noteq> []"
proof
  assume "TrimSpace s = []"
  moreover have "strip_one space_runes s = None"
    using assms space_runes_ends by (fastforce simp: strip_one_None HasPrefix_iff)
  ultimately have "trim_left (map rev space_runes) (rev s) = []"
    by (simp add: TrimSpace_def TrimLeftSpace_def TrimRightSpace_def trim_left_done)
  from trim_left_all [OF this] assms(1) obtain r where "r \<in> set space_runes" "hd s = hd r"
    by (auto simp: last_rev)
  with space_runes_ends assms(2) show False by auto
qed

lemma published_health:
  assumes "po_metadata (sd_poller s)" "po_metrics (sd_poller s) = Some mt" "\<And>n. tx_fault (sd_world s) n = None"
  shows "\<exists>r. select_key (health_checks (store (sd_world (publish_readiness status d s)))) ''sync'' = Some r \<and>
     he_status r = status \<and> he_checked_at r = FormatRFC3339Nano (clock (sd_world s) (Suc (draws (sd_world s))))"
    "snapshots_tbl (store (sd_world (publish_readiness status d s))) = snapshots_tbl (store (sd_world s))"
    "sd_cloud (publish_readiness status d s) = sd_cloud s"
  using assms
  by (simp_all add: publish_readiness_def set_health_def record_health_def SetHealth_def SyncRecordHealth_def withTx_def
      Now_def Let_def tab.get_put)

lemma mark_captured_keeps:
  "store (sd_world (mark_captured tab m s)) = store (sd_world s)" "sd_cloud (mark_captured tab m s) = sd_cloud s"
  "po_metadata (sd_poller (mark_captured tab m s)) = po_metadata (sd_poller s)"
  "tx_fault (sd_world (mark_captured tab m s)) = tx_fault (sd_world s)" "clock (sd_world (mark_captured tab m s)) = clock (sd_world s)"
  "po_metrics (sd_poller (mark_captured tab m s)) = None \<longleftrightarrow> po_metrics (sd_poller s) = None"
  "po_snapshotEngine (sd_poller (mark_captured tab m s)) = po_snapshotEngine (sd_poller s)"
  "po_failures (sd_poller (mark_captured tab m s)) = po_failures (sd_poller s)"
  "po_maxSnapshotAge (sd_poller (mark_captured tab m s)) = po_maxSnapshotAge (sd_poller s)"
  by (simp_all add: mark_captured_def upd_metrics_def IncSnapshot_def AddRows_def MarkLatest_def Now_def Let_def split: option.split)

lemma capture_outside:
  assumes "CaptureTable L ans tab e c w = (Inr m, e', c', w')"
  shows "same_outside w w'"
proof (rule CaptureTable_ok [OF assms])
  fix sid sch n pqbytes h w1
  assume w1: "same_outside w w1" and up: "upload_snapshot L tab sid (n, pqbytes) sch h e c w1 = (Inr m, e', c', w')"
  have "same_outside w1 w'"
    using up by (auto simp: upload_snapshot_def Now_def Let_def same_outside_def split: prod.splits option.splits)
  with w1 show ?thesis by (rule same_outside_trans)
qed

lemma recorded_capture:
  assumes "po_metadata (sd_poller s)" "po_snapshotEngine (sd_poller s) = Some e"
    and "CaptureTable L ans tab e (sd_cloud s) (sd_world s) = (Inr m, e', c', w')" "tx_fault w' (draws w') = None"
  obtains w where "SyncRecordSnapshot True m w' = (None, w)" "clock (sd_world (snapshotTable L ans tab s)) = clock w'"
    "store (sd_world (snapshotTable L ans tab s)) = store w" "sd_cloud (snapshotTable L ans tab s) = c'"
    "po_metadata (sd_poller (snapshotTable L ans tab s))" "tx_fault (sd_world (snapshotTable L ans tab s)) = tx_fault w'"
    "po_metrics (sd_poller (snapshotTable L ans tab s)) = None \<longleftrightarrow> po_metrics (sd_poller s) = None"
proof -
  obtain w where w: "SyncRecordSnapshot True m w' = (None, w)" "tx_fault w = tx_fault w'" "clock w = clock w'"
    using assms(4) by (simp add: SyncRecordSnapshot_def withTx_def)
  let ?s = "(clear_failure tab (with_engine (e', c', w') s))\<lparr>sd_world := w\<rparr>"
  have "snapshotTable L ans tab s = mark_captured tab m ?s"
    using assms(1-3) w(1) by (simp add: snapshotTable_def record_point_def with_engine_def clear_failure_def upd_poller_def)
  with w assms(1) show ?thesis
    by (intro that [of w]) (simp_all add: mark_captured_keeps with_engine_def clear_failure_def upd_poller_def)
qed

section \<open>What the gateway finds\<close>

definition beside :: "MCPServer \<Rightarrow> S3SnapshotVerifier \<Rightarrow> gateway \<Rightarrow> sidecar \<Rightarrow> bool" where
  \<comment> \<open>a gateway on the bucket and the database of a sidecar, whose reads of the database do not fail\<close>
  "beside srv v g s \<longleftrightarrow>
     mc_snapshotVerifier srv = Some (s3_backed v) \<and> sv_client v = bucket_view (sd_cloud s) \<and>
     rg_metadata (gw_registry g) \<and> store (gw_world g) = store (sd_world s) \<and> (\<forall>n. read_fault (gw_world g) n = None)"

lemma recorded_validates:
  assumes "SyncRecordSnapshot True m w0 = (None, w1)" "snapshots_tbl (store w) = snapshots_tbl (store w1)"
    and "y_Status m = ''valid''" "in_int64 (y_ManifestVersion m)" "in_int64 (y_RowCount m)" "read_fault w (draws w) = None"
  shows "ValidateSnapshotRecord True (gateway_view m) w = (None, drawn w)"
proof -
  have "m_SnapshotID (gateway_view m) = y_SnapshotID m" by (simp add: gateway_view_def)
  then show ?thesis
    using SyncRecordSnapshot_row [OF assms(1), of "y_SnapshotID m"] gateway_reads_sidecar [OF assms(4,5)] assms(2,3,6)
    by (simp add: ValidateSnapshotRecord_def payload_matches_def or_else_def) (simp add: gateway_view_def)
qed

lemma readiness_passes:
  assumes "parseManifestTime (m_Timestamp gm) = Some t" "\<And>n. Sub (clock w n) t \<le> seconds (MaxSnapshotAgeSeconds (mc_policy srv))"
    and "\<And>u. same_outside w u \<Longrightarrow> store u = store w \<Longrightarrow> ValidateSnapshotRecord True gm u = (None, drawn u)"
    and "select_key (health_checks (store w)) ''sync'' = Some r" "he_status r = ''healthy''" "ParseRFC3339 (he_checked_at r) = Some hb"
    and "\<And>n. Sub (clock w n) hb \<le> seconds (MaxSidecarHeartbeatSeconds (mc_policy srv))" "\<And>n. read_fault w n = None"
  shows "\<exists>w'. checkRecoveryReadiness srv True gm w = (None, w') \<and> same_outside w w' \<and> store w' = store w"
proof -
  have fresh: "\<not> seconds (MaxSnapshotAgeSeconds (mc_policy srv)) < Sub (clock w n) t"
    "\<not> seconds (MaxSidecarHeartbeatSeconds (mc_policy srv)) < Sub (clock w n) hb" for n using assms(2,7) by (simp_all add: not_less)
  then have "\<exists>u. age_check srv gm w = (None, u) \<and> same_outside w u \<and> store u = store w"
    using assms(1) by (simp add: age_check_def Now_def)
  then obtain u where u: "age_check srv gm w = (None, u)" "same_outside w u" "store u = store w" by blast
  have "metadata_check srv True gm u = (None, drawn u)" by (simp add: metadata_check_def assms(3) [OF u(2,3)])
  moreover have "GetHealth True ''sync'' (drawn u) = (Some (''healthy'', hb), drawn (drawn u))"
    using u assms(4-6,8) by (simp add: GetHealth_def same_outside_def)
  then have "\<exists>w'. heartbeat_check srv True (drawn u) = (None, w') \<and> same_outside u w' \<and> store w' = store u"
    using u fresh(2) by (auto simp: heartbeat_check_def Now_def same_outside_def)
  ultimately show ?thesis using u by (auto simp: checkRecoveryReadiness_def intro: same_outside_trans)
qed

lemma captured_manifest_fields:
  assumes "CaptureTable L ans tab e c w = (Inr m, e', c', w')"
  shows "y_Status m = ''valid''" "y_ManifestVersion m = 1" "y_SnapshotID m = ''snap_'' @ rand_hex w (draws w)"
    "m_Timestamp (gateway_view m) = y_Timestamp m" "m_SnapshotID (gateway_view m) = y_SnapshotID m"
  by (rule captured [OF assms]; simp add: capture_manifest_def gateway_view_def split: prod.splits)+

lemma recovery_point_verified:
  assumes capture: "CaptureTable L ans tab e (sd_cloud s) (sd_world s) = (Inr m, e', c', w')" and store: "successful_puts_store (sd_cloud s)"
    and time: "ParseRFC3339 (y_Timestamp m) = Some t"
    and older: "older_manifests (sd_cloud s) (sc_Prefix (en_storage e) @ ''/snapshots/'' @ safeTableKey tab @ ''/'') tab t"
    and v: "sv_client v = bucket_view c'" "sc_Prefix (sv_storage v) = sc_Prefix (en_storage e)"
    and key: "hd (y_S3DataKey m) \<notin> space_first" and rows: "in_int64 (y_RowCount m)"
  shows "VerifyLatestSidecarSnapshot v tab (y_SnapshotID m) u = (Inr (gateway_view m), u)"
proof -
  note f = captured_manifest_fields [OF capture]
  have "TrimSpace (y_SnapshotID m) \<noteq> ''''" by (rule TrimSpace_keeps) (simp_all add: f(3) space_first_def)
  then show ?thesis
    using captured_is_latest [OF capture store time older v key rows] by (simp add: VerifyLatestSidecarSnapshot_def f(5))
qed

section \<open>Property\<close>


lemma captured_ready:
  assumes "po_metadata (sd_poller s)" "po_snapshotEngine (sd_poller s) = Some e"
    and "CaptureTable L ans tab e (sd_cloud s) (sd_world s) = (Inr m, e', c', w')" "tx_fault w' (draws w') = None"
    and "po_maxSnapshotAge (sd_poller s) \<le> 0"
  shows "table_ready (snapshotTable L ans tab s) now tab"
proof -
  obtain w where w: "SyncRecordSnapshot True m w' = (None, w)"
    using assms(4) by (simp add: SyncRecordSnapshot_def withTx_def)
  let ?s = "(clear_failure tab (with_engine (e', c', w') s))\<lparr>sd_world := w\<rparr>"
  have "snapshotTable L ans tab s = mark_captured tab m ?s"
    using assms(1-3) w by (simp add: snapshotTable_def record_point_def with_engine_def clear_failure_def upd_poller_def)
  moreover have "e' = e\<lparr>en_latest := map_put tab m (en_latest e)\<rparr>" "TrimSpace (y_DataSHA256 m) \<noteq> ''''"
    by (rule captured [OF assms(3)]; simp)+
  ultimately show ?thesis
    using captured_manifest_fields(1) [OF assms(3)] assms(5) TrimSpace_nonblank [of "y_DataSHA256 m"]
    by (simp add: table_ready_def mark_captured_keeps latest_of_table_def Latest_def map_get_or_def map_get_put
        with_engine_def clear_failure_def upd_poller_def)
qed

definition protecting :: sidecar where
  \<comment> \<open>a sidecar with a metadata database that has captured nothing yet\<close>
  "protecting = sample_sidecar\<lparr>sd_poller := (sd_poller sample_sidecar)\<lparr>po_metadata := True, po_snapshotEngine := Some sample_snapshot_engine\<rparr>\<rparr>"

definition gate_analysis :: sqlAnalysis where
  "gate_analysis = criticalAnalysis ''TRUNCATE'' ''public'' ''users'' True ''TRUNCATE removes all rows from a table''"


end
