(* ===== verification/Go_Url.thy ===== *)
theory Go_Url
  imports Prelude Go_Strings
begin

text \<open>
  What the programs use of \<^verbatim>\<open>net/url\<close>: escaping of query components, the parameters of a query
  string and their encoding. A query that was encoded is read back as the parameters it was made of.
  The parameters are a Go map from keys to the list of their values.
\<close>

section \<open>Escaping\<close>

definition unreserved :: "char \<Rightarrow> bool" where
  "unreserved c \<longleftrightarrow> (CHR ''a'' \<le> c \<and> c \<le> CHR ''z'') \<or> (CHR ''A'' \<le> c \<and> c \<le> CHR ''Z'') \<or> (CHR ''0'' \<le> c \<and> c \<le> CHR ''9'') \<or>
     c \<in> set ''-_.~''"

definition upper_hex :: "nat \<Rightarrow> char" where
  "upper_hex n = ''0123456789ABCDEF'' ! n"

definition unhex :: "char \<Rightarrow> nat option" where
  "unhex c =
     (if CHR ''0'' \<le> c \<and> c \<le> CHR ''9'' then Some (of_char c - 48)
      else if CHR ''a'' \<le> c \<and> c \<le> CHR ''f'' then Some (of_char c - 87)
      else if CHR ''A'' \<le> c \<and> c \<le> CHR ''F'' then Some (of_char c - 55)
      else None)"

definition escape_byte :: "char \<Rightarrow> string" where
  "escape_byte c =
     (if c = CHR '' '' then ''+''
      else if unreserved c then [c]
      else [CHR ''%'', upper_hex (of_char c div 16), upper_hex (of_char c mod 16)])"

definition QueryEscape :: "string \<Rightarrow> string" where
  "QueryEscape s = concat (map escape_byte s)"

fun QueryUnescape :: "string \<Rightarrow> string option" where
  "QueryUnescape [] = Some []"
| "QueryUnescape (c # cs) =
     (if c = CHR ''%''
      then (case cs of
              a # b # rest \<Rightarrow>
                (case (unhex a, unhex b) of
                   (Some x, Some y) \<Rightarrow> map_option ((#) (char_of (16 * x + y))) (QueryUnescape rest)
                 | _ \<Rightarrow> None)
            | _ \<Rightarrow> None)
      else map_option ((#) (if c = CHR ''+'' then CHR '' '' else c)) (QueryUnescape cs))"

lemma unhex_upper: "n < 16 \<Longrightarrow> unhex (upper_hex n) = Some n"
proof -
  have "list_all (\<lambda>n. unhex (upper_hex n) = Some n) [0..<16]" by code_simp
  then show "n < 16 \<Longrightarrow> unhex (upper_hex n) = Some n" by (simp add: list_all_iff)
qed

lemma unreserved_plain: "unreserved c \<Longrightarrow> c \<noteq> CHR ''%'' \<and> c \<noteq> CHR ''+'' \<and> c \<noteq> CHR ''='' \<and> c \<noteq> CHR ''&'' \<and> c \<noteq> CHR '';''"
  by (auto simp: unreserved_def less_eq_char_def)

lemma of_char_less: "of_char c < (256 :: nat)"
  using of_char_mod_256 [of c, where ?'a = nat] by (metis mod_less_divisor zero_less_numeral)

lemma nibbles: "(of_char c :: nat) div 16 < 16" "(of_char c :: nat) mod 16 < 16"
  using of_char_less [of c] by (simp_all add: div_less_iff_less_mult)

lemma unescape_byte: "QueryUnescape (escape_byte c @ r) = map_option ((#) c) (QueryUnescape r)"
proof -
  note unhex_upper [OF nibbles(1)] unhex_upper [OF nibbles(2)]
  moreover have "16 * ((of_char c :: nat) div 16) + of_char c mod 16 = of_char c" by simp
  ultimately show ?thesis by (auto simp: escape_byte_def dest: unreserved_plain)
qed

theorem escape_round_trip: "QueryUnescape (QueryEscape s) = Some s"
  by (induction s) (simp_all add: QueryEscape_def unescape_byte)

lemma hex_unreserved: "n < 16 \<Longrightarrow> unreserved (upper_hex n)"
proof -
  have "list_all (\<lambda>n. unreserved (upper_hex n)) [0..<16]" by code_simp
  then show "n < 16 \<Longrightarrow> unreserved (upper_hex n)" by (simp add: list_all_iff)
qed

lemma escape_chars: "x \<in> set (QueryEscape s) \<Longrightarrow> unreserved x \<or> x = CHR ''%'' \<or> x = CHR ''+''"
proof -
  have "unreserved x \<or> x = CHR ''%'' \<or> x = CHR ''+''" if "x \<in> set (escape_byte c)" for c
  proof -
    note nibbles [of c]
    with that show ?thesis using hex_unreserved by (auto simp: escape_byte_def split: if_splits)
  qed
  then show "x \<in> set (QueryEscape s) \<Longrightarrow> unreserved x \<or> x = CHR ''%'' \<or> x = CHR ''+''" by (auto simp: QueryEscape_def)
qed

section \<open>Parameters\<close>

type_synonym url_values = "(string, string list) gomap"

definition Get :: "url_values \<Rightarrow> string \<Rightarrow> string" where
  "Get v k = (case map_get_or [] v k of [] \<Rightarrow> '''' | x # _ \<Rightarrow> x)"

definition Set_value :: "string \<Rightarrow> string \<Rightarrow> url_values \<Rightarrow> url_values" where
  "Set_value k x v = map_put k [x] v"

definition Add_value :: "string \<Rightarrow> string \<Rightarrow> url_values \<Rightarrow> url_values" where
  "Add_value k x v = map_put k (map_get_or [] v k @ [x]) v"

definition parse_pair :: "url_values \<Rightarrow> string \<Rightarrow> url_values" where
  \<comment> \<open>one setting of \<^verbatim>\<open>ParseQuery\<close>; malformed ones are left out, since \<^verbatim>\<open>URL.Query\<close> ignores the error\<close>
  "parse_pair m setting =
     (if CHR '';'' \<in> set setting \<or> setting = '''' then m
      else let (key, value) = SplitN2 setting CHR ''=''
           in case QueryUnescape key of
                None \<Rightarrow> m
              | Some k \<Rightarrow>
                  (case QueryUnescape (case value of None \<Rightarrow> '''' | Some x \<Rightarrow> x) of
                     None \<Rightarrow> m
                   | Some x \<Rightarrow> Add_value k x m))"

definition ParseQuery :: "string \<Rightarrow> url_values" where
  "ParseQuery query = foldl parse_pair [] (Split query CHR ''&'')"

definition setting :: "string \<times> string \<Rightarrow> string" where
  "setting kx = QueryEscape (fst kx) @ ''='' @ QueryEscape (snd kx)"

definition pairs_of :: "url_values \<Rightarrow> (string \<times> string) list" where
  "pairs_of v = concat (map (\<lambda>k. map (Pair k) (map_get_or [] v k)) (sort (map fst v)))"

definition Encode :: "url_values \<Rightarrow> string" where
  \<comment> \<open>sorted by key\<close>
  "Encode v = Join (map setting (pairs_of v)) ''&''"

lemma setting_plain: "x \<in> set (setting kx) \<Longrightarrow> unreserved x \<or> x \<in> {CHR ''%'', CHR ''+'', CHR ''=''}"
  by (auto simp: setting_def dest: escape_chars)

lemma parse_setting: "parse_pair m (setting (k, x)) = Add_value k x m"
proof -
  have "CHR '';'' \<notin> set (setting (k, x))" using setting_plain [of "CHR '';''" "(k, x)"] by (auto dest: unreserved_plain)
  moreover have "CHR ''='' \<notin> set (QueryEscape k)" using escape_chars [of "CHR ''=''" k] by (auto dest: unreserved_plain)
  then have "SplitN2 (setting (k, x)) CHR ''='' = (QueryEscape k, Some (QueryEscape x))" by (simp add: SplitN2_Some setting_def)
  ultimately show ?thesis by (simp add: parse_pair_def escape_round_trip) (simp add: setting_def)
qed

lemma fold_Add: "map_get_or [] (foldl (\<lambda>m p. Add_value (fst p) (snd p) m) m ps) k = map_get_or [] m k @ map snd (filter (\<lambda>p. fst p = k) ps)"
  by (induction ps arbitrary: m) (simp_all add: Add_value_def map_get_or_put)

lemma parse_pairs: "foldl parse_pair m (map setting ps) = foldl (\<lambda>m p. Add_value (fst p) (snd p) m) m ps"
proof (induction ps arbitrary: m)
  case (Cons p ps)
  then show ?case using parse_setting [of m "fst p" "snd p"] by simp
qed simp

lemma ParseQuery_Join: "ParseQuery (Join (map setting ps) ''&'') = foldl (\<lambda>m p. Add_value (fst p) (snd p) m) [] ps"
proof (cases ps)
  case Nil
  then show ?thesis by (simp add: ParseQuery_def parse_pair_def)
next
  case Cons
  have "CHR ''&'' \<notin> set x" if "x \<in> set (map setting ps)" for x
    using that setting_plain by (auto dest: unreserved_plain)
  then have "Split (Join (map setting ps) ''&'') CHR ''&'' = map setting ps" by (intro Split_Join) (simp_all add: Cons list_all_iff)
  then show ?thesis by (simp only: ParseQuery_def parse_pairs)
qed

lemma pairs_of_key:
  assumes "distinct (map fst v)"
  shows "map snd (filter (\<lambda>p. fst p = k) (pairs_of v)) = map_get_or [] v k"
proof -
  have gen: "map snd (filter (\<lambda>p. fst p = k) (concat (map (\<lambda>k. map (Pair k) (map_get_or [] v k)) ks))) =
      (if k \<in> set ks then map_get_or [] v k else [])" if "distinct ks" for ks
    using that by (induction ks) (auto simp: filter_map comp_def filter_empty_conv)
  have "k \<notin> set (map fst v) \<Longrightarrow> map_get_or [] v k = []" by (simp add: map_get_or_def map_of_eq_None_iff [THEN iffD2])
  with gen [of "sort (map fst v)"] assms show ?thesis by (auto simp: pairs_of_def)
qed

text \<open>The parameters of an encoded query are those it was encoded from, with their values in order.\<close>

theorem query_round_trip:
  assumes "distinct (map fst v)"
  shows "map_get_or [] (ParseQuery (Encode v)) k = map_get_or [] v k"
  using pairs_of_key [OF assms, of k] by (simp add: Encode_def ParseQuery_Join fold_Add)

lemma distinct_parse: "distinct (map fst m) \<Longrightarrow> distinct (map fst (foldl parse_pair m ss))"
proof (induction ss arbitrary: m)
  case (Cons s ss)
  have "distinct (map fst (parse_pair m s))"
    using Cons.prems by (auto simp: parse_pair_def Add_value_def distinct_update split: prod.split option.split)
  with Cons.IH show ?case by simp
qed simp

lemma ParseQuery_distinct: "distinct (map fst (ParseQuery q))"
  by (simp add: ParseQuery_def distinct_parse)

lemma Encode_chars: "x \<in> set (Encode v) \<Longrightarrow> unreserved x \<or> x \<in> set ''%+=&''"
  using set_Join [of x "map setting (pairs_of v)" "''&''"] setting_plain [of x] by (auto simp: Encode_def)

end
