(* ===== verification/Posture.thy ===== *)
theory Posture
  imports Go_Url Gateway_Main Sync_Main
begin

text \<open>
  Who counts as bypassing the gateway. The gateway labels its own connection, \<^verbatim>\<open>ensurePostgresApplicationName\<close>
  of \<^verbatim>\<open>gateway/main.go\<close>, and the sidecar tells the gateway's sessions from those of agents by that label
  and by its allow lists. Parsing and printing of URLs are \<^verbatim>\<open>url.Parse\<close> and \<^verbatim>\<open>URL.String\<close>,
  given as arguments with what the code reads of their result.
\<close>

section \<open>The label\<close>

record 'r go_url =
  ur_Scheme :: string
  ur_RawQuery :: string
  ur_rest :: 'r

definition ensurePostgresApplicationName ::
  "(string \<Rightarrow> string + 'r go_url) \<Rightarrow> ('r go_url \<Rightarrow> string) \<Rightarrow> string \<Rightarrow> string \<Rightarrow> string" where
  "ensurePostgresApplicationName url_Parse url_String dbURL applicationName =
     (if TrimSpace dbURL = '''' \<or> TrimSpace applicationName = '''' then dbURL
      else case url_Parse dbURL of
        Inl e \<Rightarrow> dbURL
      | Inr parsed \<Rightarrow>
          (if ur_Scheme parsed \<noteq> ''postgres'' \<and> ur_Scheme parsed \<noteq> ''postgresql'' then dbURL
           else let vs = ParseQuery (ur_RawQuery parsed)
                in if Get vs ''application_name'' = ''''
                   then url_String (parsed\<lparr>ur_RawQuery := Encode (Set_value ''application_name'' applicationName vs)\<rparr>)
                   else url_String parsed))"

definition reassembles :: "(string \<Rightarrow> string + 'r go_url) \<Rightarrow> ('r go_url \<Rightarrow> string) \<Rightarrow> 'r go_url \<Rightarrow> bool" where
  \<comment> \<open>a printed URL parses to the same URL, also with a query of escaped parameters\<close>
  "reassembles url_Parse url_String u \<longleftrightarrow>
     (\<forall>q. q = ur_RawQuery u \<or> (\<forall>c \<in> set q. unreserved c \<or> c \<in> set ''%+=&'') \<longrightarrow>
        url_Parse (url_String (u\<lparr>ur_RawQuery := q\<rparr>)) = Inr (u\<lparr>ur_RawQuery := q\<rparr>))"

definition session_of :: "'r go_url \<Rightarrow> DBActivity \<Rightarrow> bool" where
  \<comment> \<open>PostgreSQL names a session by the parameter of the connection URL\<close>
  "session_of u a \<longleftrightarrow> da_ApplicationName a = Get (ParseQuery (ur_RawQuery u)) ''application_name''"

lemma Get_set: "Get (ParseQuery (Encode (Set_value k x (ParseQuery q)))) k = x"
  "k' \<noteq> k \<Longrightarrow> map_get_or [] (ParseQuery (Encode (Set_value k x (ParseQuery q)))) k' = map_get_or [] (ParseQuery q) k'"
  using query_round_trip [of "Set_value k x (ParseQuery q)"] ParseQuery_distinct [of q]
  by (simp_all add: Set_value_def distinct_update Get_def map_get_or_put)

text \<open>
  C24. The gateway is known to the sidecar. The URL the gateway connects with names the application: the name
  the operator put into the URL, or else the gateway's; every other parameter and the rest of the URL
  are kept. So with the default name a session of the gateway is never reported as a bypass, whatever
  the sidecar's allow lists.
\<close>

theorem gateway_is_labelled:
  assumes "url_Parse dbURL = Inr u" "ur_Scheme u = ''postgres'' \<or> ur_Scheme u = ''postgresql''" "TrimSpace dbURL \<noteq> ''''"
    and "reassembles url_Parse url_String u"
  shows "\<exists>u'. url_Parse (ensurePostgresApplicationName url_Parse url_String dbURL ''backstop-gateway'') = Inr u' \<and>
     ur_Scheme u' = ur_Scheme u \<and> ur_rest u' = ur_rest u \<and>
     Get (ParseQuery (ur_RawQuery u')) ''application_name'' =
       or_else '''' ''backstop-gateway'' (Get (ParseQuery (ur_RawQuery u)) ''application_name'') \<and>
     (\<forall>k. k \<noteq> ''application_name'' \<longrightarrow>
        map_get_or [] (ParseQuery (ur_RawQuery u')) k = map_get_or [] (ParseQuery (ur_RawQuery u)) k) \<and>
     (Get (ParseQuery (ur_RawQuery u)) ''application_name'' = '''' \<and> sf_gatewayApplicationName f = ''backstop-gateway'' \<and>
      session_of u' a \<longrightarrow> Evaluate (bypass_config f) [a] = [])"
proof -
  let ?n = "Get (ParseQuery (ur_RawQuery u)) ''application_name''"
  let ?q = "Encode (Set_value ''application_name'' ''backstop-gateway'' (ParseQuery (ur_RawQuery u)))"
  let ?u' = "if ?n = '''' then u\<lparr>ur_RawQuery := ?q\<rparr> else u"
  have "TrimSpace ''backstop-gateway'' = ''backstop-gateway''" by (simp add: TrimSpace_plain space_first_def space_last_def)
  then have "ensurePostgresApplicationName url_Parse url_String dbURL ''backstop-gateway'' = url_String ?u'"
    using assms(1-3) by (auto simp: ensurePostgresApplicationName_def Let_def)
  moreover have "url_Parse (url_String (u\<lparr>ur_RawQuery := ?q\<rparr>)) = Inr (u\<lparr>ur_RawQuery := ?q\<rparr>)" "url_Parse (url_String u) = Inr u"
    using assms(4) Encode_chars by (auto simp: reassembles_def dest: spec [of _ ?q] spec [of _ "ur_RawQuery u"])
  ultimately have p: "url_Parse (ensurePostgresApplicationName url_Parse url_String dbURL ''backstop-gateway'') = Inr ?u'" by simp
  have n: "Get (ParseQuery (ur_RawQuery ?u')) ''application_name'' = or_else '''' ''backstop-gateway'' ?n"
    by (simp add: Get_set or_else_def)
  have keep: "map_get_or [] (ParseQuery (ur_RawQuery ?u')) k = map_get_or [] (ParseQuery (ur_RawQuery u)) k" if "k \<noteq> ''application_name''" for k
    using that by (simp add: Get_set)
  have quiet: "Evaluate (bypass_config f) [a] = []"
    if "?n = ''''" "sf_gatewayApplicationName f = ''backstop-gateway''" "session_of ?u' a"
    using that n by (simp add: session_of_def or_else_def allowed_def bypass_config_def Let_def)
  show ?thesis using p n keep quiet by (intro exI [of _ ?u']) auto
qed

definition simple_Parse :: "string \<Rightarrow> string + string go_url" where
  \<comment> \<open>enough of \<^verbatim>\<open>url.Parse\<close> for a URL without fragment\<close>
  "simple_Parse s =
     (case SplitN2 s CHR ''?'' of
        (a, q) \<Rightarrow> Inr \<lparr>ur_Scheme = fst (SplitN2 a CHR '':''), ur_RawQuery = (case q of None \<Rightarrow> '''' | Some x \<Rightarrow> x), ur_rest = a\<rparr>)"

definition simple_String :: "string go_url \<Rightarrow> string" where
  "simple_String u = ur_rest u @ (if ur_RawQuery u = '''' then '''' else ''?'' @ ur_RawQuery u)"

lemma simple_reassembles: "simple_Parse s = Inr u \<Longrightarrow> reassembles simple_Parse simple_String u"
proof -
  assume "simple_Parse s = Inr u"
  then have u: "ur_rest u = fst (SplitN2 s CHR ''?'')" "ur_Scheme u = fst (SplitN2 (ur_rest u) CHR '':'')"
    by (auto simp: simple_Parse_def split: prod.splits)
  have "CHR ''?'' \<notin> set (ur_rest u)" unfolding u(1) by (auto simp: SplitN2_def dest: set_takeWhileD)
  then have "SplitN2 (ur_rest u) CHR ''?'' = (ur_rest u, None)" "SplitN2 (ur_rest u @ CHR ''?'' # q) CHR ''?'' = (ur_rest u, Some q)" for q
    by (simp_all add: SplitN2_None SplitN2_Some)
  then show ?thesis using u(2) by (simp add: reassembles_def simple_Parse_def simple_String_def)
qed

theorem gateway_is_labelled_witness:
  "\<exists>u'. simple_Parse (ensurePostgresApplicationName simple_Parse simple_String ''postgresql://h/db?sslmode=disable'' ''backstop-gateway'') = Inr u' \<and>
     Get (ParseQuery (ur_RawQuery u')) ''application_name'' = ''backstop-gateway'' \<and>
     Get (ParseQuery (ur_RawQuery u')) ''sslmode'' = ''disable''"
proof -
  let ?u = "\<lparr>ur_Scheme = ''postgresql'', ur_RawQuery = ''sslmode=disable'', ur_rest = ''postgresql://h/db''\<rparr>"
  have p: "simple_Parse ''postgresql://h/db?sslmode=disable'' = Inr ?u" by code_simp
  have q: "Get (ParseQuery ''sslmode=disable'') ''application_name'' = ''''" "Get (ParseQuery ''sslmode=disable'') ''sslmode'' = ''disable''" by code_simp+
  have "TrimSpace ''postgresql://h/db?sslmode=disable'' \<noteq> ''''" by (simp add: TrimSpace_plain space_first_def space_last_def)
  from gateway_is_labelled [OF p _ this simple_reassembles [OF p], of "default_sync_flags (\<lambda>_. '''')" "hd sample_sessions"] obtain u' where
    u': "simple_Parse (ensurePostgresApplicationName simple_Parse simple_String ''postgresql://h/db?sslmode=disable'' ''backstop-gateway'') = Inr u'"
    "Get (ParseQuery (ur_RawQuery u')) ''application_name'' = ''backstop-gateway''"
    "map_get_or [] (ParseQuery (ur_RawQuery u')) ''sslmode'' = map_get_or [] (ParseQuery ''sslmode=disable'') ''sslmode''"
    by (auto simp: q(1) or_else_def)
  then show ?thesis using q(2) by (auto simp: Get_def)
qed

section \<open>The detector as it is documented\<close>

lemma no_lists_no_findings:
  assumes "bc_AllowedApplicationNames c = []" "bc_AllowedRoles c = []" "bc_AllowedClientAddresses c = []"
  shows "Evaluate c acts = []"
  using assms by (induction acts) (simp_all add: allowed_def Let_def)

lemma parseCSV_empty: "parseCSV '''' = []"
  by (simp add: parseCSV_def)

text \<open>
  C25. The detector as the documentation configures it is blind: with agents' roles and the gateway's name, but
  without one of the allow lists, no session is ever a bypass. Whatever sessions PostgreSQL lists, agents connected directly
  included, the posture becomes healthy and no alert is recorded.
\<close>

theorem documented_detector_blind:
  assumes "sf_allowedApplications f = ''''" "sf_allowedRoles f = ''''" "sf_allowedClientAddresses f = ''''"
    and "po_bypassDetector (sd_poller s) = Some (NewBypassDetector (bypass_config f))" "po_metrics (sd_poller s) = Some mt"
  shows "\<exists>mt'. po_metrics (sd_poller (pollBypass (whole sessions) s)) = Some mt' \<and> mt_posture mt' = PreventionHealthy \<and>
     alerts_tbl (store (sd_world (pollBypass (whole sessions) s))) = alerts_tbl (store (sd_world s))"
proof -
  have "Evaluate (bypass_config f) sessions = []"
    using assms(1-3) by (intro no_lists_no_findings) (simp_all add: bypass_config_def parseCSV_empty)
  then have "BypassPoll (whole sessions) (NewBypassDetector (bypass_config f)) = Inr []"
    by (simp add: BypassPoll_def read_list_def read_rows_def foldl_snoc NewBypassDetector_def)
  then have "pollBypass (whole sessions) s =
      snd (record_health ''prevention'' PreventionHealthy [(''findings'', JInt 0)] (upd_metrics (SetPosture PreventionHealthy) s))"
    by (simp add: pollBypass_def assms(4))
  then show ?thesis using assms(5) by (simp add: record_health_alerts upd_metrics_def SetPosture_def)
qed

definition documented_flags :: sync_flags where
  "documented_flags = (default_sync_flags (\<lambda>_. ''''))\<lparr>sf_bypassDetection := True, sf_agentRoles := ''backstop_agent''\<rparr>"

theorem documented_detector_blind_witness:
  "\<exists>mt'. po_metrics (sd_poller (pollBypass (whole [\<lparr>da_PID = 7, da_Role = ''backstop_agent'', da_ApplicationName = ''psql'',
        da_ClientAddress = ''10.0.0.9'', da_QueryStart = '''', da_Query = ''DROP TABLE users''\<rparr>])
     (sample_sidecar\<lparr>sd_poller := (sd_poller sample_sidecar)\<lparr>po_bypassDetector := Some (NewBypassDetector (bypass_config documented_flags))\<rparr>\<rparr>)))
       = Some mt' \<and> mt_posture mt' = PreventionHealthy"
proof -
  let ?s = "sample_sidecar\<lparr>sd_poller := (sd_poller sample_sidecar)\<lparr>po_bypassDetector := Some (NewBypassDetector (bypass_config documented_flags))\<rparr>\<rparr>"
  obtain mt where "po_metrics (sd_poller sample_sidecar) = Some mt" using sample_sidecar_simps(11) by blast
  then have "po_metrics (sd_poller ?s) = Some mt" by simp
  moreover have "sf_allowedApplications documented_flags = ''''" "sf_allowedRoles documented_flags = ''''"
    "sf_allowedClientAddresses documented_flags = ''''" by (simp_all add: documented_flags_def default_sync_flags_def)
  moreover have "po_bypassDetector (sd_poller ?s) = Some (NewBypassDetector (bypass_config documented_flags))" by simp
  ultimately show ?thesis using documented_detector_blind [of documented_flags ?s mt] by blast
qed

end
