(* ===== verification/Spec2Isabelle.thy ===== *)
theory Spec2Isabelle
  imports Go_Time Go_Crypto Metrics Agent_Risk Mcp_Tools Gateway_Main Sync_Main End_To_End Posture
begin

text \<open>
  \<^bold>\<open>Backstop, verified.\<close> Backstop keeps AI agents from destroying a PostgreSQL database. It is two Go
  programs that share one SQLite file and one S3 bucket. The \<^emph>\<open>gateway\<close> (\<^verbatim>\<open>src/gateway\<close>) is an MCP server through which agents send SQL: it
  classifies a query, asks a policy, waits for an operator where the policy wants one, demands a recovery point for what cannot be
  undone, and only then executes. The \<^emph>\<open>sidecar\<close> (\<^verbatim>\<open>src/sync\<close>) polls the database, snapshots its tables into the
  bucket, re-verifies them, watches for dropped tables and for sessions that bypass the gateway, and publishes whether every table can be
  recovered. The gateway trusts what it finds in the bucket and in the shared tables; the sidecar is what puts it there.

  \<^bold>\<open>The language and its library.\<close>
  \<^item> \<open>Prelude\<close>: wrap-around of \<^verbatim>\<open>int64\<close>, Go maps as association lists, counters, and the locale
    \<open>invariant_system\<close> of step relations with an invariant.
  \<^item> \<open>Go_Strings\<close>, \<open>Go_Numbers\<close>, \<open>Go_Time\<close>, \<open>Go_Duration\<close>, \<open>Go_Json\<close>, \<open>Go_Crypto\<close>, \<open>Go_Sql\<close>, \<open>Go_Net\<close>, \<open>Go_Url\<close>: what the programs use of \<^verbatim>\<open>strings\<close>,
    floats, \<^verbatim>\<open>time\<close> (parsing and printing of RFC 3339 with the round trip proved, saturating differences), \<^verbatim>\<open>encoding/json\<close> (decoding into structs, field by field),
    SHA-256 and base64, result sets of \<^verbatim>\<open>database/sql\<close>, IP addresses, and the query part of a URL (encoding and parsing, with their round trip). Strings are byte strings; case folding is that of ASCII with the two
    runes that fold into it. The JSON text itself is not modelled: a document is its value.
  \<^item> \<open>Host\<close>: the outside world of both programs. Clock readings, failures of transactions, reads and files, answers of webhooks and random identifiers
    are streams; a counter of what was consumed makes every use a fresh one. Theorems hold for all streams. The tables of the shared database are here, with the locale
    \<open>keyed_table\<close> as the contract of a table with a primary key.

  \<^bold>\<open>The gateway.\<close>
  \<^item> \<open>Sql_Analyzer\<close> (\<^verbatim>\<open>sql_analyzer.go\<close>): risk of a statement and of a batch, the table a recovery point must cover. The PostgreSQL parser is a parameter: its result, a
    list of statements, is a datatype with the node types the code distinguishes.
  \<^item> \<open>Policy\<close> (\<^verbatim>\<open>policy.go\<close>): loading with defaults, the decision. Shown: only read-only statements execute at once, unknown input is never executed.
  \<^item> \<open>Impact\<close> (\<^verbatim>\<open>impact.go\<close>): protected tables and columns, row estimates. PostgreSQL's answers are a parameter.
  \<^item> \<open>Metadata_Store\<close> (\<^verbatim>\<open>metadata_store.go\<close>): every write as a transaction that may fail; shown atomic, and that a quarantined snapshot never validates.
  \<^item> \<open>Registry\<close>, \<open>Alert\<close>, \<open>Metrics\<close>, \<open>Pause\<close>, \<open>Auth\<close> (\<^verbatim>\<open>agent_identity.go\<close>, \<^verbatim>\<open>alert.go\<close>, \<^verbatim>\<open>metrics.go\<close>, \<^verbatim>\<open>pause.go\<close>, \<^verbatim>\<open>auth.go\<close>): audit trail with its bound of ten
    thousand entries and its file line by line, which brings the same history back after a restart unless one line is longer than 64 KiB; alerts, counters and the Prometheus text, the pause switch that survives a restart, tokens and scopes.
  \<^item> \<open>Approval\<close> (\<^verbatim>\<open>approval.go\<close>): requests wait on channels while operators signal and timers fire; an \<open>inductive\<close> step relation interleaves them, and the
    invariant gives that an approval was given by an operator for that request, once and for all.
  \<^item> \<open>Snapshot_Verifier\<close> (\<^verbatim>\<open>snapshot_verifier.go\<close>, \<^verbatim>\<open>storage.go\<close>): which snapshot is a recovery point. Sound and complete; the locale \<open>snapshot_verifier\<close> is what the server relies on.
  \<^item> \<open>Mcp_Server\<close>, \<open>Gateway_Safety\<close>, \<open>Agent_Risk\<close>, \<open>Mcp_Tools\<close>, \<open>Gateway_Properties\<close> (\<^verbatim>\<open>mcp_server.go\<close>, \<^verbatim>\<open>behavior.go\<close>): the tools, with the execution of a query split where it waits for an
    operator; a step relation of the whole gateway over any number of agents and operators. Shown: the database sees only read-only statements and statements an operator approved,
    critical ones only with a verified recovery point; the gateway refines the approval engine; an approved query does run; repeated attempts lead to quarantine.
  \<^item> \<open>Gateway_Http\<close>, \<open>Http_Properties\<close> (the routes and handlers of \<^verbatim>\<open>main.go\<close>): the patterns of the mux, the guard and the scope of each, the limit on concurrent requests, and every
    handler; a step relation in which requests arrive, block and wake up. Shown: the served gateway refines the step relation above; what runs was asked for by a token with
    \<^verbatim>\<open>query:execute\<close> and, unless it is a read, approved through a token with \<^verbatim>\<open>approval:write\<close>; only \<^verbatim>\<open>admin:*\<close> changes the pause; waiting requests are bounded; a pause that cannot be saved is
    in force although it is answered with an error.
  \<^item> \<open>Metadata_Schema\<close> (\<open>OpenMetadataStore\<close>, \<open>init\<close> and \<open>ensureColumn\<close> of both \<^verbatim>\<open>metadata_store.go\<close>): the statements of the two programs over a catalogue of tables, each of which may fail.
    Shown by refinement to sets of column names: opening loses no column and adds those of the program, and the order in which the two programs open a file does not matter.
  \<^item> \<open>Gateway_Main\<close> (\<^verbatim>\<open>main.go\<close>): the flags with their defaults, the checks of the start in order, the wait for the database, the wiring. Shown: the wait returns; a gateway that starts
    is guarded, paused if asked to be, and in the initial state of the properties above.

  \<^bold>\<open>The sidecar.\<close>
  \<^item> \<open>Sync_Store\<close>, \<open>Sync_Alert\<close>, \<open>Sync_Metrics\<close>, \<open>Sync_Delta\<close>, \<open>Sync_Bypass\<close> (\<^verbatim>\<open>metadata_store.go\<close>, \<^verbatim>\<open>alert.go\<close>, \<^verbatim>\<open>metrics.go\<close>, \<^verbatim>\<open>delta.go\<close>, \<^verbatim>\<open>bypass.go\<close>). The two programs have different
    structs for a manifest; what the sidecar writes the gateway reads as \<open>gateway_view\<close>.
  \<^item> \<open>Sync_Snapshot\<close> (\<^verbatim>\<open>snapshot.go\<close>): a capture, with the bucket as state whose uploads may fail after storing something, or succeed and store something else; the Parquet library
    is a parameter. The locale \<open>object_store\<close> is what a capture relies on. Shown: a committed snapshot is complete and its data is there, a failed one is invisible, and the
    gateway's verifier finds exactly the snapshot the sidecar captured.
  \<^item> \<open>Sync_Poller\<close>, \<open>Sync_Properties\<close> (\<^verbatim>\<open>poller.go\<close>): one poll with all its branches and the loop over polls. The locale \<open>collaborator_frame\<close> carries a relation through the steps of a poll.
    Shown: healthy is published exactly when every table can be recovered, drops and bypassing sessions are reported; and, against the documentation, a changed
    table is never captured again and the first poll captures nothing.
  \<^item> \<open>Sync_Main\<close> (\<^verbatim>\<open>main.go\<close>): flags, start, wiring, the endpoints of the metrics server and the healthcheck. Shown: what a started sidecar is, and that its healthcheck goes on passing
    while PostgreSQL cannot be reached.

  \<^bold>\<open>The two programs together.\<close>
  \<^item> \<open>End_To_End\<close>: a capture and its records by the sidecar, its publication of health, and then the gateway on the same bucket and database. Shown: a critical query on the captured table passes
    the verification and the readiness check and is put before an operator.
  \<^item> \<open>Posture\<close> (\<open>ensurePostgresApplicationName\<close> of \<^verbatim>\<open>main.go\<close>, with \<^verbatim>\<open>bypass.go\<close>): the application name in the gateway's database URL, by which the detector knows the gateway's sessions. Shown: with the
    default name they are never reported; and, against the documentation, a detector without one of the allow lists never reports anything.
  \<^item> This theory: when the two programs, as they are started, look at the same place in the object store.

  \<^bold>\<open>Modelling choices.\<close> An error is an \<open>Inl\<close> or a \<open>Some\<close> of its text; Go's \<^verbatim>\<open>nil\<close> pointers are \<open>None\<close>. A method that holds a mutex throughout is one step; the goroutines that interleave, agents and
    operators in the gateway, are step relations. There is no fuel: every loop is structural or has a termination proof, but for the wait for the database, a \<open>partial_function\<close> for which not
    returning is \<open>None\<close> and which is shown to return. The two other waits, for an operator and for the next poll, are modelled by what may happen in between. Time is nanoseconds since 1970 as an integer, durations wrap at 64 bits where Go's do.

  \<^bold>\<open>Not modelled.\<close> HTTP and stdio transport, TLS and signals; the cleaning of request paths, which are given by segments; parsing of the command line, whose result are the flags; the
    parsing and printing of whole URLs, the AWS SDK, PostgreSQL, its parser and the Parquet writer, which are parameters; logging; the Python and TypeScript packages, which are
    clients of these services. Durations inside some error texts are left out.
\<close>

section \<open>The two programs on one object store\<close>

lemma ParseStorage_parts:
  assumes "ParseStorage uri_error raw fallback prefix = Inr cfg" "SplitN2 (TrimPrefix raw ''s3://'') CHR ''@'' = (a, b)"
  shows "cfg = \<lparr>sc_Bucket = TrimSpace a, sc_Endpoint = (case b of None \<Rightarrow> fallback | Some s \<Rightarrow> TrimSpace s),
     sc_Prefix = TrimChar prefix CHR ''/''\<rparr>" "HasPrefix raw ''s3://''"
  using assms by (auto simp: ParseStorage_def Let_def split: if_splits option.splits)

lemma gateway_storage:
  assumes "open_verifier f ho = Inr (Some v)"
  shows "ParseStorage (ho_uriError ho) (fl_storage f) '''' ''backstop'' = Inr (sv_storage v)"
  using assms by (auto simp: open_verifier_def NewS3SnapshotVerifier_def split: if_splits sum.splits)

lemma sidecar_storage:
  assumes "start_sidecar f ho = Some (Inr s)"
  obtains e where "po_snapshotEngine (sd_poller s) = Some e"
    "ParseStorage (sh_uriError ho) (sf_storage f) (sf_endpointURL f) (sf_prefix f) = Inr (en_storage e)"
proof -
  obtain dbName cfg cl md w where cfg: "ParseStorage (sh_uriError ho) (sf_storage f) (sf_endpointURL f) (sf_prefix f) = Inr cfg"
    and s: "s = wire_sidecar f cfg dbName cl md w"
    using assms by (auto simp: start_sidecar_def split: if_splits option.splits sum.splits)
  have "po_snapshotEngine (sd_poller s) = Some (NewSnapshotEngine cfg dbName (sf_schema f) (sf_maxTableRows f))"
    by (simp add: s wire_sidecar_def Let_def ConfigureLaunchReadiness_def ConfigureStability_def ConfigureTableAllowlist_def
        ConfigureSnapshotStrategy_def ConfigureBypassDetector_def NewPoller_def split: prod.split)
  with cfg show ?thesis by (intro that) (auto simp: NewSnapshotEngine_def)
qed

lemma has_at: "HasPrefix raw ''s3://'' \<Longrightarrow> CHR ''@'' \<in> set (TrimPrefix raw ''s3://'') \<longleftrightarrow> CHR ''@'' \<in> set raw"
proof -
  assume p: "HasPrefix raw ''s3://''"
  then have "set raw = set ''s3://'' \<union> set (TrimPrefix raw ''s3://'')"
    using append_take_drop_id [of "length ''s3://''" raw] by (metis HasPrefix_def TrimPrefix_def set_append)
  then show ?thesis by auto
qed

text \<open>
  C29. When the gateway finds what the sidecar stores: started with the same storage URL, the two programs use the
  same bucket, and they use the same place in it exactly if the sidecar's prefix is the one the gateway
  has built in, \<^verbatim>\<open>backstop\<close> up to slashes, and the sidecar's endpoint, if it was given one by \<^verbatim>\<open>--endpoint-url\<close>, is
  overridden by one in the URL.
\<close>

theorem same_place_iff:
  assumes "start_sidecar sf sho = Some (Inr s)" "open_verifier f ho = Inr (Some v)" "fl_storage f = sf_storage sf"
  shows "\<exists>e. po_snapshotEngine (sd_poller s) = Some e \<and> sc_Bucket (sv_storage v) = sc_Bucket (en_storage e) \<and>
     (sv_storage v = en_storage e \<longleftrightarrow>
        TrimChar (sf_prefix sf) CHR ''/'' = ''backstop'' \<and> (sf_endpointURL sf = '''' \<or> CHR ''@'' \<in> set (sf_storage sf)))"
proof -
  obtain e where e: "po_snapshotEngine (sd_poller s) = Some e"
    "ParseStorage (sh_uriError sho) (sf_storage sf) (sf_endpointURL sf) (sf_prefix sf) = Inr (en_storage e)"
    using sidecar_storage [OF assms(1)] by blast
  obtain a b where ab: "SplitN2 (TrimPrefix (sf_storage sf) ''s3://'') CHR ''@'' = (a, b)" by fastforce
  note sync = ParseStorage_parts [OF e(2) ab]
  note gate = ParseStorage_parts [OF gateway_storage [OF assms(2), unfolded assms(3)] ab]
  have "b = None \<longleftrightarrow> CHR ''@'' \<notin> set (sf_storage sf)"
    using ab has_at [OF sync(2)] SplitN2_None [of "TrimPrefix (sf_storage sf) ''s3://''" "CHR ''@''" a]
      SplitN2_Some [of "TrimPrefix (sf_storage sf) ''s3://''" "CHR ''@''" a] by (cases b) auto
  moreover have "TrimChar ''backstop'' CHR ''/'' = ''backstop''" by (simp add: TrimChar_def)
  ultimately show ?thesis using e(1) sync(1) gate(1) by (cases b) auto
qed

lemma sample_storage:
  "TrimPrefix ''s3://b'' ''s3://'' = ''b''" "TrimSpace ''b'' = ''b''" "SplitN2 ''b'' CHR ''@'' = (''b'', None)" "HasPrefix ''s3://b'' ''s3://''"
  by (simp_all add: TrimPrefix_def HasPrefix_def TrimSpace_plain space_first_def space_last_def SplitN2_def)

theorem same_place_iff_witness:
  "\<exists>s e v. start_sidecar (sample_sync_flags\<lparr>sf_prefix := ''other''\<rparr>) sample_sync_host = Some (Inr s) \<and>
     open_verifier (sample_flags\<lparr>fl_storage := ''s3://b''\<rparr>) (sample_host\<lparr>ho_sdk := (\<lambda>_. Inr (\<lambda>_. \<lparr>s3_pages = (\<lambda>_. []), s3_get = (\<lambda>_. Inl ''no'')\<rparr>))\<rparr>)
       = Inr (Some v) \<and>
     po_snapshotEngine (sd_poller s) = Some e \<and> sc_Bucket (sv_storage v) = sc_Bucket (en_storage e) \<and> sv_storage v \<noteq> en_storage e"
proof -
  let ?sf = "sample_sync_flags\<lparr>sf_prefix := ''other''\<rparr>"
  let ?ho = "sample_host\<lparr>ho_sdk := (\<lambda>_. Inr (\<lambda>_. \<lparr>s3_pages = (\<lambda>_. []), s3_get = (\<lambda>_. Inl ''no'')\<rparr>))\<rparr>"
  let ?f = "sample_flags\<lparr>fl_storage := ''s3://b''\<rparr>"
  obtain s where s: "start_sidecar ?sf sample_sync_host = Some (Inr s)"
    by (simp add: start_sidecar_def sample_sync_flags_def default_sync_flags_def sample_sync_host_def connect_def sample_storage
        sync_waitForDB_ends ParseStorage_def NewS3Client_def open_sync_metadata_def OpenMetadataStore_def SyncRecordHealth_def)
  obtain v where v: "open_verifier ?f ?ho = Inr (Some v)"
    by (simp add: open_verifier_def sample_host_def ParseStorage_def sample_storage NewS3Client_def)
  have "fl_storage ?f = sf_storage ?sf" by (simp add: sample_sync_flags_def)
  moreover have "TrimChar (sf_prefix ?sf) CHR ''/'' \<noteq> ''backstop''" by (simp add: TrimChar_def)
  ultimately show ?thesis using same_place_iff [OF s v] s v by blast
qed

end
